(* ===== verification/Prelude.thy ===== *)
theory Prelude
  imports Main "HOL-Library.Word" "HOL-Library.Multiset"
begin

text \<open>
  What every component of the signal bridge shares: Rust's machine integers, the outcome of a
  Rust call (a value, an error of its \<open>Result\<close>, or a panic), the sequencing of calls over an
  explicit state, \<open>u64\<close> decimal printing and parsing, UTF-8 validation, and keyed lists of rows.
  Calls are written in the order of the source: \<open>bindM m f\<close> is \<open>let x = m?; f(x)\<close>,
  \<open>mapErr\<close> is \<open>map_err\<close> (and the \<open>From\<close> conversion that \<open>?\<close> applies), and \<open>attempt\<close> hands the
  \<open>Result\<close> of a call to a \<open>match\<close>.
\<close>

section \<open>Machine integers\<close>

type_synonym u8 = "8 word"
type_synonym u16 = "16 word"
type_synonym u32 = "32 word"
type_synonym u64 = "64 word"
type_synonym bytes = "8 word list"

text \<open>
  SQL INTEGER columns and Rust's \<open>i64\<close> are \<open>int\<close>s; the casts of the source are written out.
\<close>

definition u64_as_i64 :: "u64 \<Rightarrow> int" where
  "u64_as_i64 w = sint w"

definition i64_as_u64 :: "int \<Rightarrow> u64" where
  "i64_as_u64 i = word_of_int i"

definition i64_as_u32 :: "int \<Rightarrow> u32" where
  "i64_as_u32 i = word_of_int i"

definition in_i64 :: "int \<Rightarrow> bool" where
  "in_i64 i \<longleftrightarrow> - (2 ^ 63) \<le> i \<and> i < 2 ^ 63"

lemma uint_eq_uint_iff [simp]: "uint (x :: 'a::len word) = uint y \<longleftrightarrow> x = y"
  by (simp flip: word_uint_eq_iff)

lemma i64_u64_roundtrip [simp]: "i64_as_u64 (u64_as_i64 w) = w"
  by (simp add: i64_as_u64_def u64_as_i64_def)

lemma i64_roundtrip: "in_i64 i \<Longrightarrow> u64_as_i64 (i64_as_u64 i) = i"
  by (simp add: in_i64_def i64_as_u64_def u64_as_i64_def signed_of_int signed_take_bit_int_eq_self)

lemma u64_as_i64_in_i64 [simp]: "in_i64 (u64_as_i64 w)"
  using sint_greater_eq [of w] sint_less [of w]
  by (simp add: in_i64_def u64_as_i64_def)

lemma u64_as_i64_small: "uint w < 2 ^ 63 \<Longrightarrow> u64_as_i64 w = uint w"
  by (simp add: u64_as_i64_def sint_uint signed_take_bit_int_eq_self order_trans [OF _ uint_ge_0])

lemma i64_as_u32_uint [simp]: "i64_as_u32 (uint (w :: u32)) = w"
  by (simp add: i64_as_u32_def)

lemma unat_of_nat_u32: "n < 2 ^ 32 \<Longrightarrow> unat (of_nat n :: u32) = n"
  by (simp add: unsigned_of_nat take_bit_nat_eq_self)

lemma of_nat_u32_inj: "m < 2 ^ 32 \<Longrightarrow> n < 2 ^ 32 \<Longrightarrow> (of_nat m :: u32) = of_nat n \<longleftrightarrow> m = n"
  by (metis unat_of_nat_u32)

lemma unat_add_u32: "unat a + unat b < 2 ^ 32 \<Longrightarrow> unat (a + b :: u32) = unat a + unat b"
  by (simp add: unat_word_ariths)

section \<open>Outcomes and sequencing\<close>

datatype (dead 'e, 'a) outcome = Ok 'a | Err 'e | Panic string

type_synonym ('s, 'e, 'a) M = "'s \<Rightarrow> ('e, 'a) outcome \<times> 's"

named_theorems run_simps \<open>how the sequencing combinators run on a state\<close>
named_theorems preserves_intro \<open>compositional rules for predicates that a call keeps\<close>

definition ret :: "'a \<Rightarrow> ('s, 'e, 'a) M" where
  "ret a = (\<lambda>s. (Ok a, s))"

definition throw :: "'e \<Rightarrow> ('s, 'e, 'a) M" where
  "throw e = (\<lambda>s. (Err e, s))"

definition panic :: "string \<Rightarrow> ('s, 'e, 'a) M" where
  "panic p = (\<lambda>s. (Panic p, s))"

definition bindM :: "('s, 'e, 'a) M \<Rightarrow> ('a \<Rightarrow> ('s, 'e, 'b) M) \<Rightarrow> ('s, 'e, 'b) M" where
  "bindM m f = (\<lambda>s. case m s of
     (Ok a, s') \<Rightarrow> f a s'
   | (Err e, s') \<Rightarrow> (Err e, s')
   | (Panic p, s') \<Rightarrow> (Panic p, s'))"

definition mapErr :: "('e \<Rightarrow> 'f) \<Rightarrow> ('s, 'e, 'a) M \<Rightarrow> ('s, 'f, 'a) M" where
  "mapErr g m = (\<lambda>s. case m s of
     (Ok a, s') \<Rightarrow> (Ok a, s')
   | (Err e, s') \<Rightarrow> (Err (g e), s')
   | (Panic p, s') \<Rightarrow> (Panic p, s'))"

definition attempt :: "('s, 'e, 'a) M \<Rightarrow> ('s, 'f, 'e + 'a) M" where
  "attempt m = (\<lambda>s. case m s of
     (Ok a, s') \<Rightarrow> (Ok (Inr a), s')
   | (Err e, s') \<Rightarrow> (Ok (Inl e), s')
   | (Panic p, s') \<Rightarrow> (Panic p, s'))"

definition of_sum :: "'e + 'a \<Rightarrow> ('s, 'e, 'a) M" where
  "of_sum r = (case r of Inl e \<Rightarrow> throw e | Inr a \<Rightarrow> ret a)"

definition gets :: "('s \<Rightarrow> 'a) \<Rightarrow> ('s, 'e, 'a) M" where
  "gets f = (\<lambda>s. (Ok (f s), s))"

definition modify :: "('s \<Rightarrow> 's) \<Rightarrow> ('s, 'e, unit) M" where
  "modify f = (\<lambda>s. (Ok (), f s))"

definition whenM :: "bool \<Rightarrow> ('s, 'e, unit) M \<Rightarrow> ('s, 'e, unit) M" where
  "whenM b m = (if b then m else ret ())"

primrec forM :: "('x \<Rightarrow> ('s, 'e, unit) M) \<Rightarrow> 'x list \<Rightarrow> ('s, 'e, unit) M" where
  "forM f [] = ret ()"
| "forM f (x # xs) = bindM (f x) (\<lambda>_. forM f xs)"

primrec mapM :: "('x \<Rightarrow> ('s, 'e, 'y) M) \<Rightarrow> 'x list \<Rightarrow> ('s, 'e, 'y list) M" where
  "mapM f [] = ret []"
| "mapM f (x # xs) = bindM (f x) (\<lambda>y. bindM (mapM f xs) (\<lambda>ys. ret (y # ys)))"

text \<open>A call on a component of the state: \<open>g\<close> reads the component, \<open>p\<close> writes it back.\<close>

definition zoom :: "('s \<Rightarrow> 't) \<Rightarrow> ('t \<Rightarrow> 's \<Rightarrow> 's) \<Rightarrow> ('t, 'e, 'a) M \<Rightarrow> ('s, 'e, 'a) M" where
  "zoom g p m = (\<lambda>s. case m (g s) of (r, t) \<Rightarrow> (r, p t s))"

lemma run_basic [run_simps]:
  "ret a s = (Ok a, s)"
  "throw e s = (Err e, s)"
  "panic p s = (Panic p, s)"
  "gets f s = (Ok (f s), s)"
  "modify h s = (Ok (), h s)"
  by (simp_all add: ret_def throw_def panic_def gets_def modify_def)

lemma run_bindM [run_simps]:
  "m s = (Ok a, s') \<Longrightarrow> bindM m f s = f a s'"
  "m s = (Err e, s') \<Longrightarrow> bindM m f s = (Err e, s')"
  "m s = (Panic p, s') \<Longrightarrow> bindM m f s = (Panic p, s')"
  by (simp_all add: bindM_def)

lemma run_mapErr [run_simps]:
  "m s = (Ok a, s') \<Longrightarrow> mapErr g m s = (Ok a, s')"
  "m s = (Err e, s') \<Longrightarrow> mapErr g m s = (Err (g e), s')"
  "m s = (Panic p, s') \<Longrightarrow> mapErr g m s = (Panic p, s')"
  by (simp_all add: mapErr_def)

lemma run_attempt [run_simps]:
  "m s = (Ok a, s') \<Longrightarrow> attempt m s = (Ok (Inr a), s')"
  "m s = (Err e, s') \<Longrightarrow> attempt m s = (Ok (Inl e), s')"
  "m s = (Panic p, s') \<Longrightarrow> attempt m s = (Panic p, s')"
  by (simp_all add: attempt_def)

lemma run_of_sum [run_simps]:
  "of_sum (Inr a) s = (Ok a, s)"
  "of_sum (Inl e) s = (Err e, s)"
  by (simp_all add: of_sum_def run_basic)

lemma run_whenM [run_simps]:
  "whenM True m s = m s"
  "whenM False m s = (Ok (), s)"
  by (simp_all add: whenM_def run_basic)

lemma run_forM [run_simps]: "forM f [] s = (Ok (), s)" "mapM g [] s = (Ok [], s)"
  by (simp_all add: run_basic)

lemma run_zoom [run_simps]: "m (g s) = (r, t) \<Longrightarrow> zoom g p m s = (r, p t s)"
  by (simp add: zoom_def)

text \<open>The same by unfolding, for calls that run to a result without case distinctions.\<close>

lemma bindM_at: "bindM m f s = (case m s of
     (Ok a, s') \<Rightarrow> f a s' | (Err e, s') \<Rightarrow> (Err e, s') | (Panic p, s') \<Rightarrow> (Panic p, s'))"
  by (simp add: bindM_def)

lemma mapErr_at: "mapErr g m s = (case m s of
     (Ok a, s') \<Rightarrow> (Ok a, s') | (Err e, s') \<Rightarrow> (Err (g e), s') | (Panic p, s') \<Rightarrow> (Panic p, s'))"
  by (simp add: mapErr_def)

lemma attempt_at: "attempt m s = (case m s of
     (Ok a, s') \<Rightarrow> (Ok (Inr a), s') | (Err e, s') \<Rightarrow> (Ok (Inl e), s') | (Panic p, s') \<Rightarrow> (Panic p, s'))"
  by (simp add: attempt_def)

lemma of_sum_at: "of_sum r s = (case r of Inl e \<Rightarrow> (Err e, s) | Inr a \<Rightarrow> (Ok a, s))"
  by (simp add: of_sum_def run_basic split: sum.split)

lemma whenM_at: "whenM b m s = (if b then m s else (Ok (), s))"
  by (simp add: whenM_def run_basic)

lemmas run_defs = bindM_at mapErr_at attempt_at of_sum_at whenM_at run_basic

lemma fst_zoom: "fst (zoom g p m s) = fst (m (g s))"
  by (simp add: zoom_def split: prod.split)

lemma snd_zoom: "snd (zoom g p m s) = p (snd (m (g s))) s"
  by (simp add: zoom_def split: prod.split)

lemma bindM_OkD:
  assumes "bindM m f s = (Ok b, s'')"
  obtains a s' where "m s = (Ok a, s')" and "f a s' = (Ok b, s'')"
  using assms by (auto simp: bindM_def split: prod.splits outcome.splits)

lemma mapErr_OkD: "mapErr g m s = (Ok a, s') \<Longrightarrow> m s = (Ok a, s')"
  by (auto simp: mapErr_def split: prod.splits outcome.splits)

text \<open>Loops commute with \<open>map_err\<close> and with calls on a component.\<close>

lemma mapErr_bindM: "mapErr g (bindM m f) = bindM (mapErr g m) (\<lambda>a. mapErr g (f a))"
  by (auto simp: fun_eq_iff mapErr_def bindM_def split: prod.split outcome.split)

lemma mapErr_ret [simp]: "mapErr g (ret a) = ret a"
  by (simp add: fun_eq_iff mapErr_def ret_def)

lemma forM_mapErr: "forM (\<lambda>x. mapErr g (f x)) xs = mapErr g (forM f xs)"
  by (induction xs) (simp_all add: mapErr_bindM)

lemma forM_map: "forM f (map h xs) = forM (\<lambda>x. f (h x)) xs"
  by (induction xs) simp_all

subsection \<open>What a call keeps\<close>

text \<open>\<open>preserves I m\<close>: whatever its outcome, the call \<open>m\<close> keeps the state predicate \<open>I\<close>.\<close>

definition preserves :: "('s \<Rightarrow> bool) \<Rightarrow> ('s, 'e, 'a) M \<Rightarrow> bool" where
  "preserves I m \<longleftrightarrow> (\<forall>s. I s \<longrightarrow> I (snd (m s)))"

lemma preservesI: "(\<And>s. I s \<Longrightarrow> I (snd (m s))) \<Longrightarrow> preserves I m"
  by (simp add: preserves_def)

lemma preservesD: "preserves I m \<Longrightarrow> I s \<Longrightarrow> m s = (r, s') \<Longrightarrow> I s'"
  unfolding preserves_def by (metis snd_conv)

lemma preserves_basic [preserves_intro]:
  "preserves I (ret a)" "preserves I (throw e)" "preserves I (panic p)"
  "preserves I (gets f)" "preserves I (of_sum r)"
  by (auto simp: preserves_def run_simps of_sum_def split: sum.split)

lemma preserves_modify: "(\<And>s. I s \<Longrightarrow> I (f s)) \<Longrightarrow> preserves I (modify f)"
  by (simp add: preserves_def modify_def)

lemma preserves_bindM [preserves_intro]:
  assumes "preserves I m" and "\<And>a. preserves I (f a)"
  shows "preserves I (bindM m f)"
  using assms by (fastforce simp: preserves_def bindM_def split: prod.splits outcome.splits)

lemma preserves_bind_sum:
  "(\<And>a. r = Inr a \<Longrightarrow> preserves I (f a)) \<Longrightarrow> preserves I (bindM (mapErr g (of_sum r)) f)"
  by (cases r) (auto simp: preserves_def run_simps)

lemma preserves_mapErr [preserves_intro]: "preserves I m \<Longrightarrow> preserves I (mapErr g m)"
  by (fastforce simp: preserves_def mapErr_def split: prod.splits outcome.splits)

lemma preserves_attempt [preserves_intro]: "preserves I m \<Longrightarrow> preserves I (attempt m)"
  by (fastforce simp: preserves_def attempt_def split: prod.splits outcome.splits)

lemma preserves_whenM [preserves_intro]: "preserves I m \<Longrightarrow> preserves I (whenM b m)"
  by (simp add: whenM_def preserves_basic)

lemma preserves_if [preserves_intro]:
  "preserves I m \<Longrightarrow> preserves I n \<Longrightarrow> preserves I (if b then m else n)"
  by simp

lemma preserves_forM [preserves_intro]:
  "(\<And>x. preserves I (f x)) \<Longrightarrow> preserves I (forM f xs)"
  by (induction xs) (simp_all add: preserves_basic preserves_bindM)

lemma preserves_mapM [preserves_intro]:
  "(\<And>x. preserves I (f x)) \<Longrightarrow> preserves I (mapM f xs)"
  by (induction xs) (simp_all add: preserves_basic preserves_bindM)

lemma preserves_option [preserves_intro]:
  "preserves I m \<Longrightarrow> (\<And>a. preserves I (f a)) \<Longrightarrow> preserves I (case x of None \<Rightarrow> m | Some a \<Rightarrow> f a)"
  by (cases x) simp_all

lemma preserves_sum [preserves_intro]:
  "(\<And>e. preserves I (m e)) \<Longrightarrow> (\<And>a. preserves I (f a)) \<Longrightarrow>
   preserves I (case x of Inl e \<Rightarrow> m e | Inr a \<Rightarrow> f a)"
  by (cases x) simp_all

lemma preserves_prod [preserves_intro]:
  "(\<And>a b. preserves I (f a b)) \<Longrightarrow> preserves I (case x of (a, b) \<Rightarrow> f a b)"
  by (cases x) simp

lemma preserves_zoom:
  assumes "preserves J m" and "\<And>s. I s \<Longrightarrow> J (g s)"
    and "\<And>s t. I s \<Longrightarrow> J t \<Longrightarrow> I (p t s)"
  shows "preserves I (zoom g p m)"
  using assms by (auto simp: preserves_def snd_zoom)

text \<open>A call that leaves the component \<open>f\<close> of the state alone.\<close>

definition keeps :: "('s \<Rightarrow> 'c) \<Rightarrow> ('s, 'e, 'a) M \<Rightarrow> bool" where
  "keeps f m \<longleftrightarrow> (\<forall>c. preserves (\<lambda>s. f s = c) m)"

lemma keepsD: "keeps f m \<Longrightarrow> m s = (r, s') \<Longrightarrow> f s' = f s"
  unfolding keeps_def preserves_def by (metis snd_conv)

lemma keeps_snd: "keeps f m \<Longrightarrow> f (snd (m s)) = f s"
  by (simp add: keeps_def preserves_def)

lemma keepsI: "(\<And>s. f (snd (m s)) = f s) \<Longrightarrow> keeps f m"
  by (simp add: keeps_def preserves_def)

section \<open>Rust arithmetic: checked in debug builds, wrapping in release builds\<close>

definition sub_u64 :: "bool \<Rightarrow> u64 \<Rightarrow> u64 \<Rightarrow> ('s, 'e, u64) M" where
  "sub_u64 checks a b =
     (if checks \<and> a < b then panic ''attempt to subtract with overflow'' else ret (a - b))"

definition add_u64 :: "bool \<Rightarrow> u64 \<Rightarrow> u64 \<Rightarrow> ('s, 'e, u64) M" where
  "add_u64 checks a b =
     (if checks \<and> uint a + uint b \<ge> 2 ^ 64 then panic ''attempt to add with overflow''
      else ret (a + b))"

definition add_u32 :: "bool \<Rightarrow> u32 \<Rightarrow> u32 \<Rightarrow> ('s, 'e, u32) M" where
  "add_u32 checks a b =
     (if checks \<and> uint a + uint b \<ge> 2 ^ 32 then panic ''attempt to add with overflow''
      else ret (a + b))"

lemma run_sub_u64: "b \<le> a \<Longrightarrow> sub_u64 c a b s = (Ok (a - b), s)"
  by (simp add: sub_u64_def run_simps not_less)

lemma run_add_u64: "uint a + uint b < 2 ^ 64 \<Longrightarrow> add_u64 c a b s = (Ok (a + b), s)"
  by (simp add: add_u64_def run_simps)

lemma run_add_u32: "unat a + unat b < 2 ^ 32 \<Longrightarrow> add_u32 c a b s = (Ok (a + b), s)"
proof -
  assume "unat a + unat b < 2 ^ 32"
  then have "int (unat a + unat b) < int (2 ^ 32)" by (simp only: of_nat_less_iff)
  then have "\<not> 2 ^ 32 \<le> uint a + uint b" by simp
  then show ?thesis by (simp only: add_u32_def run_simps if_False simp_thms)
qed

lemma preserves_arith [preserves_intro]:
  "preserves I (sub_u64 c a b)" "preserves I (add_u64 c a b)" "preserves I (add_u32 c x y)"
  by (auto simp: sub_u64_def add_u64_def add_u32_def intro: preserves_basic)

lemma unat_u8_less: "unat (b :: u8) < 256"
  using unsigned_less [of b] by simp

lemma unat_u64_less: "unat (w :: u64) < 2 ^ 64"
  using unsigned_less [of w] by simp

lemma uint_add_u32: "uint a + uint b < 2 ^ 32 \<Longrightarrow> uint (a + b :: u32) = uint a + uint b"
  by (simp add: uint_word_ariths)

lemma uint_sub_u64: "b \<le> a \<Longrightarrow> uint (a - b :: u64) = uint a - uint b"
  by (simp add: uint_sub_lem [THEN iffD1] word_le_def)

section \<open>Sorting by a key\<close>

lemma sort_map_key: "sort_key f (map g xs) = map g (sort_key (\<lambda>x. f (g x)) xs)"
proof -
  have "insort_key f (g x) (map g ys) = map g (insort_key (\<lambda>x. f (g x)) x ys)" for x ys
    by (induction ys) simp_all
  then show ?thesis by (induction xs) (simp_all add: sort_key_def)
qed

lemma sort_key_agree:
  assumes "\<And>x. x \<in> set xs \<Longrightarrow> f x = g x"
  shows "sort_key f xs = sort_key g xs"
proof -
  have ins: "insort_key f x ys = insort_key g x ys" if "f x = g x" "\<And>y. y \<in> set ys \<Longrightarrow> f y = g y" for x ys
    using that by (induction ys) simp_all
  show ?thesis
    using assms
  proof (induction xs)
    case (Cons a xs)
    then show ?case using ins [of a "sort_key g xs"] by simp
  qed simp
qed

section \<open>Keyed lists of rows\<close>

text \<open>
  A table is the list of its rows in the order a full scan visits them. \<open>upsert\<close> is
  \<open>INSERT OR REPLACE\<close> on a table with a hidden rowid (the conflicting row goes, the new one is
  last); \<open>upsert_sorted\<close> is the same on a table whose \<open>INTEGER PRIMARY KEY\<close> is the rowid.
\<close>

definition upsert :: "('r \<Rightarrow> 'k) \<Rightarrow> 'r \<Rightarrow> 'r list \<Rightarrow> 'r list" where
  "upsert key r rows = filter (\<lambda>x. key x \<noteq> key r) rows @ [r]"

definition upsert_sorted :: "('r \<Rightarrow> 'k::linorder) \<Rightarrow> 'r \<Rightarrow> 'r list \<Rightarrow> 'r list" where
  "upsert_sorted key r rows = insort_key key r (filter (\<lambda>x. key x \<noteq> key r) rows)"

definition lookup_row :: "('r \<Rightarrow> 'k) \<Rightarrow> 'k \<Rightarrow> 'r list \<Rightarrow> 'r option" where
  "lookup_row key k rows = find (\<lambda>x. key x = k) rows"

definition delete_key :: "('r \<Rightarrow> 'k) \<Rightarrow> 'k \<Rightarrow> 'r list \<Rightarrow> 'r list" where
  "delete_key key k rows = filter (\<lambda>x. key x \<noteq> k) rows"

lemma find_filter_other: "k' \<noteq> k \<Longrightarrow>
    find (\<lambda>x. key x = k') (filter (\<lambda>x. key x \<noteq> k) rows) = find (\<lambda>x. key x = k') rows"
  by (induction rows) auto

lemma find_filter_same: "find (\<lambda>x. key x = k) (filter (\<lambda>x. key x \<noteq> k) rows) = None"
  by (induction rows) auto

lemma find_append: "find P (xs @ ys) = (case find P xs of None \<Rightarrow> find P ys | Some x \<Rightarrow> Some x)"
  by (induction xs) auto

lemma find_insort_other: "key r \<noteq> k \<Longrightarrow>
    find (\<lambda>x. key x = k) (insort_key key r rows) = find (\<lambda>x. key x = k) rows"
  by (induction rows) auto

lemma find_insort_same: "(\<forall>x \<in> set rows. key x \<noteq> key r) \<Longrightarrow>
    find (\<lambda>x. key x = key r) (insort_key key r rows) = Some r"
  by (induction rows) auto

lemma lookup_upsert [simp]:
  "lookup_row key k (upsert key r rows) = (if k = key r then Some r else lookup_row key k rows)"
  by (auto simp: lookup_row_def upsert_def find_append find_filter_other find_filter_same
      split: option.split)

lemma lookup_upsert_sorted [simp]:
  "lookup_row key k (upsert_sorted key r rows) =
     (if k = key r then Some r else lookup_row key k rows)"
  by (auto simp: lookup_row_def upsert_sorted_def find_filter_other
      find_insort_other find_insort_same)

lemma lookup_delete [simp]:
  "lookup_row key k (delete_key key k' rows) = (if k = k' then None else lookup_row key k rows)"
  by (auto simp: lookup_row_def delete_key_def find_filter_other find_filter_same)

lemma lookup_row_Nil [simp]: "lookup_row key k [] = None"
  by (simp add: lookup_row_def)

lemma lookup_row_SomeD: "lookup_row key k rows = Some r \<Longrightarrow> r \<in> set rows \<and> key r = k"
  by (auto simp: lookup_row_def find_Some_iff)

lemma lookup_row_None_iff: "lookup_row key k rows = None \<longleftrightarrow> k \<notin> key ` set rows"
  by (auto simp: lookup_row_def find_None_iff)

lemma lookup_row_distinct:
  "distinct (map key rows) \<Longrightarrow> r \<in> set rows \<Longrightarrow> lookup_row key (key r) rows = Some r"
  by (induction rows) (auto simp: lookup_row_def)

lemma lookup_row_filter_hd:
  "lookup_row key k rows = (case filter (\<lambda>x. key x = k) rows of [] \<Rightarrow> None | r # _ \<Rightarrow> Some r)"
  by (induction rows) (auto simp: lookup_row_def)

lemma filter_key_lookup:
  "distinct (map key rows) \<Longrightarrow>
   filter (\<lambda>r. key r = k) rows = (case lookup_row key k rows of None \<Rightarrow> [] | Some r \<Rightarrow> [r])"
  by (induction rows) (auto simp: lookup_row_def filter_empty_conv find_None_iff split: option.split
      dest!: find_Some_iff [THEN iffD1])

lemma distinct_upsert [simp]:
  "distinct (map key rows) \<Longrightarrow> distinct (map key (upsert key r rows))"
  by (auto simp: upsert_def distinct_map_filter)

lemma distinct_upsert_sorted [simp]:
  "distinct (map key rows) \<Longrightarrow> distinct (map key (upsert_sorted key r rows))"
  by (auto simp: upsert_sorted_def distinct_insort_key distinct_map_filter)

lemma distinct_delete_key [simp]:
  "distinct (map key rows) \<Longrightarrow> distinct (map key (delete_key key k rows))"
  by (simp add: delete_key_def distinct_map_filter)

lemma sorted_upsert_sorted [simp]:
  "sorted (map key rows) \<Longrightarrow> sorted (map key (upsert_sorted key r rows))"
  by (simp add: upsert_sorted_def sorted_insort_key sorted_filter)

lemma sorted_delete_key [simp]:
  "sorted (map key rows) \<Longrightarrow> sorted (map key (delete_key key k rows))"
  by (simp add: delete_key_def sorted_filter)

lemma set_upsert: "set (upsert key r rows) = insert r {x \<in> set rows. key x \<noteq> key r}"
  by (auto simp: upsert_def)

lemma set_upsert_sorted: "set (upsert_sorted key r rows) = insert r {x \<in> set rows. key x \<noteq> key r}"
  by (auto simp: upsert_sorted_def set_insort_key)

lemma set_delete_key: "set (delete_key key k rows) = {x \<in> set rows. key x \<noteq> k}"
  by (auto simp: delete_key_def)

lemma length_upsert_fresh:
  "k \<notin> key ` set rows \<Longrightarrow> key r = k \<Longrightarrow> length (upsert_sorted key r rows) = Suc (length rows)"
  by (metis (mono_tags, lifting) filter_True imageI length_insort upsert_sorted_def)

lemma length_delete_key:
  "distinct (map key rows) \<Longrightarrow> k \<in> key ` set rows \<Longrightarrow> Suc (length (delete_key key k rows)) = length rows"
  unfolding delete_key_def
proof (induction rows)
  case (Cons a rows)
  then show ?case
  proof (cases "key a = k")
    case True
    then have "filter (\<lambda>x. key x \<noteq> k) rows = rows"
      using Cons.prems by (metis (mono_tags, lifting) distinct.simps(2) filter_True image_eqI
          list.set_map list.simps(9))
    with True show ?thesis by simp
  next
    case False
    with Cons show ?thesis by auto
  qed
qed simp

lemma length_delete_key_absent: "k \<notin> key ` set rows \<Longrightarrow> delete_key key k rows = rows"
  by (force simp: delete_key_def filter_id_conv)

end
