(* ===== verification/Rust_Std.thy ===== *)
theory Rust_Std
  imports Prelude
begin

text \<open>
  The parts of Rust's standard library whose results the bridge stores or compares:
  \<open>u64::to_string\<close> and \<open>str::parse::<u64>\<close> (the last-message timestamp is kept as text),
  \<open>format!("{}:{}", ..)\<close> (the in-memory stores' keys) and \<open>String::from_utf8\<close> (message bodies).
\<close>

section \<open>Decimal text\<close>

definition digit_char :: "nat \<Rightarrow> char" where
  "digit_char d = char_of (48 + d)"

fun show_nat :: "nat \<Rightarrow> string" where
  "show_nat n = (if n < 10 then [digit_char n] else show_nat (n div 10) @ [digit_char (n mod 10)])"

declare show_nat.simps [simp del]

definition char_digit :: "char \<Rightarrow> nat option" where
  "char_digit c = (let n = of_char c in if 48 \<le> n \<and> n \<le> 57 then Some (n - 48) else None)"

text \<open>
  \<open>str::parse::<u64>\<close>: an optional leading plus sign, then at least one digit and nothing else;
  a value beyond \<open>u64::MAX\<close> is an error.
\<close>

fun parse_digits :: "nat \<Rightarrow> string \<Rightarrow> nat option" where
  "parse_digits acc [] = Some acc"
| "parse_digits acc (c # cs) =
     (case char_digit c of None \<Rightarrow> None
      | Some d \<Rightarrow> let acc' = 10 * acc + d in
                  if acc' < 2 ^ 64 then parse_digits acc' cs else None)"

definition parse_u64 :: "string \<Rightarrow> u64 option" where
  "parse_u64 cs =
     (let ds = (case cs of c # rest \<Rightarrow> if c = CHR ''+'' then rest else cs | [] \<Rightarrow> [])
      in if ds = [] then None else map_option of_nat (parse_digits 0 ds))"

definition show_u64 :: "u64 \<Rightarrow> string" where
  "show_u64 w = show_nat (unat w)"

definition show_u32 :: "u32 \<Rightarrow> string" where
  "show_u32 w = show_nat (unat w)"

lemma char_digit_digit_char [simp]: "d < 10 \<Longrightarrow> char_digit (digit_char d) = Some d"
  by (simp add: char_digit_def digit_char_def Let_def)

lemma show_nat_not_Nil [simp]: "show_nat n \<noteq> []"
  by (subst show_nat.simps) simp

lemma show_nat_digits: "c \<in> set (show_nat n) \<Longrightarrow> \<exists>d < 10. c = digit_char d"
proof (induction n rule: show_nat.induct)
  case (1 n)
  show ?case
  proof (cases "n < 10")
    case True
    with 1 show ?thesis by (auto simp: show_nat.simps [of n])
  next
    case False
    with 1 show ?thesis by (auto simp: show_nat.simps [of n] intro: exI [of _ "n mod 10"])
  qed
qed

lemma parse_digits_append:
  "parse_digits acc (xs @ ys) =
     (case parse_digits acc xs of None \<Rightarrow> None | Some acc' \<Rightarrow> parse_digits acc' ys)"
  by (induction acc xs rule: parse_digits.induct)
    (auto simp: Let_def split: option.splits)

lemma parse_digits_show_nat: "n < 2 ^ 64 \<Longrightarrow> parse_digits 0 (show_nat n) = Some n"
proof (induction n rule: show_nat.induct)
  case (1 n)
  show ?case
  proof (cases "n < 10")
    case True
    then show ?thesis by (simp add: show_nat.simps [of n])
  next
    case False
    with 1 have "parse_digits 0 (show_nat (n div 10)) = Some (n div 10)" by simp
    with False 1 show ?thesis
      by (simp add: show_nat.simps [of n] parse_digits_append Let_def)
  qed
qed

lemma show_nat_hd_not_plus: "show_nat n \<noteq> CHR ''+'' # cs"
proof
  assume eq: "show_nat n = CHR ''+'' # cs"
  then have "CHR ''+'' \<in> set (show_nat n)" by simp
  then obtain d where "d < 10" and "CHR ''+'' = digit_char d"
    using show_nat_digits by blast
  then have "char_digit (CHR ''+'') = Some d" by simp
  then show False by (simp add: char_digit_def)
qed

lemma parse_show_u64 [simp]: "parse_u64 (show_u64 w) = Some w"
proof -
  have "parse_digits 0 (show_nat (unat w)) = Some (unat w)"
    by (rule parse_digits_show_nat [OF unat_u64_less])
  moreover have "(case show_nat (unat w) of c # rest \<Rightarrow>
      if c = CHR ''+'' then rest else show_nat (unat w) | [] \<Rightarrow> []) = show_nat (unat w)"
    using show_nat_hd_not_plus [of "unat w"] by (auto split: list.split)
  ultimately show ?thesis
    by (simp add: parse_u64_def show_u64_def)
qed

lemma show_nat_inj:
  assumes "show_nat m = show_nat n" and "m < 2 ^ 64" and "n < 2 ^ 64"
  shows "m = n"
  by (metis assms option.inject parse_digits_show_nat)

lemma colon_notin_show_nat [simp]: "CHR '':'' \<notin> set (show_nat n)"
proof
  assume "CHR '':'' \<in> set (show_nat n)"
  then obtain d where "d < 10" and "CHR '':'' = digit_char d"
    using show_nat_digits by blast
  then have "char_digit (CHR '':'') = Some d" by simp
  then show False by (simp add: char_digit_def)
qed

section \<open>UTF-8\<close>

text \<open>
  \<open>String::from_utf8\<close> accepts exactly the well-formed sequences of the Unicode standard: no
  overlong forms, no surrogates, nothing above U+10FFFF.
\<close>

definition utf8_tail :: "u8 \<Rightarrow> bool" where
  "utf8_tail b \<longleftrightarrow> 0x80 \<le> b \<and> b \<le> 0xBF"

fun utf8_valid :: "bytes \<Rightarrow> bool" where
  "utf8_valid [] = True"
| "utf8_valid (a # bs) =
     (if a \<le> 0x7F then utf8_valid bs
      else case bs of
        [] \<Rightarrow> False
      | b # cs \<Rightarrow>
          if 0xC2 \<le> a \<and> a \<le> 0xDF then utf8_tail b \<and> utf8_valid cs
          else (case cs of
            [] \<Rightarrow> False
          | c # ds \<Rightarrow>
              if 0xE0 \<le> a \<and> a \<le> 0xEF then
                (if a = 0xE0 then 0xA0 \<le> b \<and> b \<le> 0xBF
                 else if a = 0xED then 0x80 \<le> b \<and> b \<le> 0x9F else utf8_tail b)
                \<and> utf8_tail c \<and> utf8_valid ds
              else (case ds of
                [] \<Rightarrow> False
              | d # es \<Rightarrow>
                  0xF0 \<le> a \<and> a \<le> 0xF4 \<and>
                  (if a = 0xF0 then 0x90 \<le> b \<and> b \<le> 0xBF
                   else if a = 0xF4 then 0x80 \<le> b \<and> b \<le> 0x8F else utf8_tail b)
                  \<and> utf8_tail c \<and> utf8_tail d \<and> utf8_valid es)))"

definition chars_of_bytes :: "bytes \<Rightarrow> string" where
  "chars_of_bytes bs = map (\<lambda>b. char_of (unat b)) bs"

definition bytes_of_chars :: "string \<Rightarrow> bytes" where
  "bytes_of_chars cs = map (\<lambda>c. of_nat (of_char c)) cs"

definition from_utf8 :: "bytes \<Rightarrow> string option" where
  "from_utf8 bs = (if utf8_valid bs then Some (chars_of_bytes bs) else None)"

lemma chars_of_bytes_inverse [simp]: "chars_of_bytes (bytes_of_chars cs) = cs"
  by (induction cs) (auto simp: chars_of_bytes_def bytes_of_chars_def unat_of_nat)

lemma bytes_of_chars_inverse [simp]: "bytes_of_chars (chars_of_bytes bs) = bs"
proof (induction bs)
  case (Cons b bs)
  with unat_u8_less [of b] show ?case by (simp add: chars_of_bytes_def bytes_of_chars_def)
qed (simp add: chars_of_bytes_def bytes_of_chars_def)

lemma utf8_valid_ascii: "\<forall>b \<in> set bs. b \<le> 0x7F \<Longrightarrow> utf8_valid bs"
  by (induction bs) simp_all

end
