(* ===== verification/Bridge_Errors.thy ===== *)
theory Bridge_Errors
  imports Rust_Std
begin

text \<open>
  The error types of the crate and the conversions \<open>?\<close> applies between them (lib.rs,
  message_history.rs, db_encryption.rs). An error text built by \<open>format!\<close> is the list of its
  pieces: the literal parts and the errors whose \<open>Display\<close> is spliced in.
\<close>

datatype sql_error =
    QueryReturnedNoRows
  | SqliteFailure string
  | ToSqlConversionFailure
  | InvalidColumnType
  | IntegralValueOutOfRange

text \<open>\<open>MessageHistoryError\<close>; its \<open>Utf8Error\<close> variant is never built (see \<open>unwrap_or_default\<close>).\<close>

datatype history_error =
    Database sql_error
  | ConversationNotFound string
  | MessageNotFound int
  | Utf8Error

text \<open>
  \<open>OtherProtocolError\<close> and the \<open>Crate\<close> constructors stand for the errors third-party code makes
  itself, told apart by a number. \<open>dyn_error\<close> is \<open>Box<dyn std::error::Error>\<close>.
\<close>

datatype bridge_error =
    Storage "piece list"
  | Protocol "piece list"
  | Serialization "piece list"
  | InvalidInput "piece list"
  | SessionNotFound "piece list"
  | KeyDerivation "piece list"
  | SchemaVersionTooOld
and dyn_error =
    DynSql sql_error
  | DynProtocol protocol_error
  | DynTime
  | DynParseInt
  | DynStr string
  | DynCrate nat
  | DynIo nat
  | DynHistory history_error
  | DynBridge bridge_error
  | KeyStorage "piece list"
and piece =
    Lit string
  | ShowSql sql_error
  | ShowProtocol protocol_error
  | ShowTime
  | ShowCrate nat
  | ShowIo nat
  | ShowDyn dyn_error
and protocol_error =
    InvalidState string "piece list"
  | InvalidPreKeyId
  | InvalidSignedPreKeyId
  | InvalidKyberPreKeyId
  | OtherProtocolError nat

definition bridge_from_protocol :: "protocol_error \<Rightarrow> bridge_error" where
  "bridge_from_protocol e = Protocol [ShowProtocol e]"

definition bridge_from_bincode :: "nat \<Rightarrow> bridge_error" where
  "bridge_from_bincode e = Serialization [ShowCrate e]"

definition bridge_from_time :: "unit \<Rightarrow> bridge_error" where
  "bridge_from_time e = Protocol [ShowTime]"

definition bridge_from_sql :: "sql_error \<Rightarrow> bridge_error" where
  "bridge_from_sql e = Storage [ShowSql e]"

definition bridge_from_dyn :: "dyn_error \<Rightarrow> bridge_error" where
  "bridge_from_dyn e = Storage [ShowDyn e]"

definition bridge_from_int :: "nat \<Rightarrow> bridge_error" where
  "bridge_from_int e = InvalidInput [Lit ''Integer conversion error: '', ShowCrate e]"

definition bridge_from_io :: "nat \<Rightarrow> bridge_error" where
  "bridge_from_io e = Storage [Lit ''Filesystem error: '', ShowIo e]"

text \<open>The \<open>map_err\<close> of every store: \<open>SignalProtocolError::InvalidState("storage", ..)\<close>.\<close>

definition storage_state_sql :: "string \<Rightarrow> sql_error \<Rightarrow> protocol_error" where
  "storage_state_sql what e = InvalidState ''storage'' [Lit what, ShowSql e]"

definition storage_state_protocol :: "string \<Rightarrow> protocol_error \<Rightarrow> protocol_error" where
  "storage_state_protocol what e = InvalidState ''storage'' [Lit what, ShowProtocol e]"

end
