(* ===== verification/Libsignal.thy ===== *)
theory Libsignal
  imports Bridge_Errors
begin

text \<open>
  The third-party crates the bridge calls, as parameters of the model. Values of library types
  are opaque carriers no definition of the model looks into; the library's functions are the
  fields of the records \<open>libsignal\<close> and \<open>crates\<close>, which the definitions that call them take as an
  argument. What the bridge relies on of them is the predicate \<open>libsignal_ok\<close>, each conjunct a
  documented behaviour: a record that was serialized deserializes to itself and keeps the fields
  it was built from, and device number 1 is valid.

  libsignal works on the stores of the bridge through the callbacks of its store traits. A call
  such as \<open>message_decrypt\<close> is therefore a program that issues those callbacks: \<open>peer_prog\<close> for the
  calls that get the session and the identity store, \<open>store_prog\<close> for the one that gets all five.
\<close>

section \<open>Opaque library values\<close>

text \<open>The carrier of a library value; only the library reads it.\<close>

type_synonym opaque = bytes

datatype public_key = PublicKey opaque
datatype private_key = PrivateKey opaque
datatype identity_key = IdentityKey opaque
datatype identity_key_pair = IdentityKeyPair opaque
datatype key_pair = KeyPair opaque
datatype kem_public_key = KemPublicKey opaque
datatype kem_key_pair = KemKeyPair opaque
datatype pre_key_record = PreKeyRecord opaque
datatype signed_pre_key_record = SignedPreKeyRecord opaque
datatype kyber_pre_key_record = KyberPreKeyRecord opaque
datatype session_record = SessionRecord opaque
datatype pre_key_bundle = PreKeyBundle opaque
datatype pre_key_signal_message = PreKeySignalMessageV opaque
datatype signal_message = SignalMessageV opaque

datatype ciphertext_message =
    PreKeySignalMessage pre_key_signal_message
  | SignalMessage signal_message
  | OtherCiphertext opaque

datatype identity_change = NewOrUnchanged | ReplacedExisting
datatype direction = Sending | Receiving

text \<open>\<open>ProtocolAddress\<close>: a name and a device number (\<open>DeviceId\<close>, read as \<open>u32\<close>).\<close>

datatype address = Address (address_name: string) (address_device: u32)

section \<open>Store callbacks\<close>

text \<open>Requests on the session and the identity store, and the answers they get.\<close>

datatype peer_request =
    LoadSession address
  | StoreSession address session_record
  | GetIdentityKeyPair
  | GetLocalRegistrationId
  | SaveIdentity address identity_key
  | IsTrustedIdentity address identity_key direction
  | GetIdentity address

datatype peer_answer =
    SessionAnswer "protocol_error + session_record option"
  | DoneAnswer "protocol_error + unit"
  | KeyPairAnswer "protocol_error + identity_key_pair"
  | RegistrationAnswer "protocol_error + u32"
  | ChangeAnswer "protocol_error + identity_change"
  | TrustAnswer "protocol_error + bool"
  | IdentityAnswer "protocol_error + identity_key option"

datatype 'a peer_prog =
    PeerDone "protocol_error + 'a"
  | PeerCall peer_request "peer_answer \<Rightarrow> 'a peer_prog"

text \<open>Requests on all five stores.\<close>

datatype store_request =
    PeerRequest peer_request
  | GetPreKey u32
  | SavePreKey u32 pre_key_record
  | RemovePreKey u32
  | GetSignedPreKey u32
  | SaveSignedPreKey u32 signed_pre_key_record
  | GetKyberPreKey u32
  | SaveKyberPreKey u32 kyber_pre_key_record
  | MarkKyberPreKeyUsed u32

datatype store_answer =
    PeerAnswer peer_answer
  | StoreDoneAnswer "protocol_error + unit"
  | PreKeyAnswer "protocol_error + pre_key_record"
  | SignedPreKeyAnswer "protocol_error + signed_pre_key_record"
  | KyberPreKeyAnswer "protocol_error + kyber_pre_key_record"

datatype 'a store_prog =
    StoreDone "protocol_error + 'a"
  | StoreCall store_request "store_answer \<Rightarrow> 'a store_prog"

section \<open>The functions of libsignal\<close>

text \<open>
  A randomized function takes the entropy it draws as a number. The \<open>int\<close> argument of
  \<open>process_prekey_bundle\<close> and \<open>message_encrypt\<close> is the \<open>SystemTime\<close> they are passed, in
  milliseconds since the epoch. \<open>identity_key_decode\<close> serves \<open>IdentityKey::decode\<close> and
  \<open>IdentityKey::try_from\<close>.
\<close>

record libsignal =
  public_key_serialize :: "public_key \<Rightarrow> bytes"
  public_key_deserialize :: "bytes \<Rightarrow> protocol_error + public_key"
  identity_key_serialize :: "identity_key \<Rightarrow> bytes"
  identity_key_decode :: "bytes \<Rightarrow> protocol_error + identity_key"
  identity_key_public_key :: "identity_key \<Rightarrow> public_key"
  identity_key_pair_generate :: "nat \<Rightarrow> identity_key_pair"
  identity_key_pair_serialize :: "identity_key_pair \<Rightarrow> bytes"
  identity_key_pair_try_from :: "bytes \<Rightarrow> protocol_error + identity_key_pair"
  identity_key_pair_identity_key :: "identity_key_pair \<Rightarrow> identity_key"
  identity_key_pair_private_key :: "identity_key_pair \<Rightarrow> private_key"
  key_pair_generate :: "nat \<Rightarrow> key_pair"
  key_pair_public_key :: "key_pair \<Rightarrow> public_key"
  calculate_signature :: "private_key \<Rightarrow> bytes \<Rightarrow> nat \<Rightarrow> protocol_error + bytes"
  kem_key_pair_generate :: "nat \<Rightarrow> kem_key_pair"
  kem_key_pair_public_key :: "kem_key_pair \<Rightarrow> kem_public_key"
  kem_public_key_serialize :: "kem_public_key \<Rightarrow> bytes"
  kem_public_key_deserialize :: "bytes \<Rightarrow> protocol_error + kem_public_key"
  pre_key_record_new :: "u32 \<Rightarrow> key_pair \<Rightarrow> pre_key_record"
  pre_key_record_key_pair :: "pre_key_record \<Rightarrow> protocol_error + key_pair"
  pre_key_record_serialize :: "pre_key_record \<Rightarrow> protocol_error + bytes"
  pre_key_record_deserialize :: "bytes \<Rightarrow> protocol_error + pre_key_record"
  signed_pre_key_record_new :: "u32 \<Rightarrow> u64 \<Rightarrow> key_pair \<Rightarrow> bytes \<Rightarrow> signed_pre_key_record"
  signed_pre_key_record_id :: "signed_pre_key_record \<Rightarrow> protocol_error + u32"
  signed_pre_key_record_timestamp :: "signed_pre_key_record \<Rightarrow> protocol_error + u64"
  signed_pre_key_record_public_key :: "signed_pre_key_record \<Rightarrow> protocol_error + public_key"
  signed_pre_key_record_signature :: "signed_pre_key_record \<Rightarrow> protocol_error + bytes"
  signed_pre_key_record_serialize :: "signed_pre_key_record \<Rightarrow> protocol_error + bytes"
  signed_pre_key_record_deserialize :: "bytes \<Rightarrow> protocol_error + signed_pre_key_record"
  kyber_pre_key_record_new :: "u32 \<Rightarrow> u64 \<Rightarrow> kem_key_pair \<Rightarrow> bytes \<Rightarrow> kyber_pre_key_record"
  kyber_pre_key_record_timestamp :: "kyber_pre_key_record \<Rightarrow> protocol_error + u64"
  kyber_pre_key_record_key_pair :: "kyber_pre_key_record \<Rightarrow> protocol_error + kem_key_pair"
  kyber_pre_key_record_signature :: "kyber_pre_key_record \<Rightarrow> protocol_error + bytes"
  kyber_pre_key_record_serialize :: "kyber_pre_key_record \<Rightarrow> protocol_error + bytes"
  kyber_pre_key_record_deserialize :: "bytes \<Rightarrow> protocol_error + kyber_pre_key_record"
  session_record_serialize :: "session_record \<Rightarrow> protocol_error + bytes"
  session_record_deserialize :: "bytes \<Rightarrow> protocol_error + session_record"
  device_id_new :: "u8 \<Rightarrow> nat + u32"
  process_prekey_bundle :: "address \<Rightarrow> pre_key_bundle \<Rightarrow> int \<Rightarrow> nat \<Rightarrow> unit peer_prog"
  message_encrypt :: "bytes \<Rightarrow> address \<Rightarrow> int \<Rightarrow> nat \<Rightarrow> ciphertext_message peer_prog"
  message_decrypt :: "ciphertext_message \<Rightarrow> address \<Rightarrow> nat \<Rightarrow> bytes store_prog"

section \<open>What the bridge relies on\<close>

text \<open>
  Serialization round trips, for every record that serializes, and the fields of a freshly built
  record; \<open>DeviceId::new(1)\<close> succeeds and reads as 1.
\<close>

definition libsignal_ok :: "('x) libsignal_scheme \<Rightarrow> bool" where
  "libsignal_ok L \<longleftrightarrow>
     (\<forall>r b. session_record_serialize L r = Inr b \<longrightarrow> session_record_deserialize L b = Inr r) \<and>
     (\<forall>r b. pre_key_record_serialize L r = Inr b \<longrightarrow> pre_key_record_deserialize L b = Inr r) \<and>
     (\<forall>r b. signed_pre_key_record_serialize L r = Inr b \<longrightarrow>
        signed_pre_key_record_deserialize L b = Inr r) \<and>
     (\<forall>r b. kyber_pre_key_record_serialize L r = Inr b \<longrightarrow>
        kyber_pre_key_record_deserialize L b = Inr r) \<and>
     (\<forall>k. identity_key_decode L (identity_key_serialize L k) = Inr k) \<and>
     (\<forall>k. identity_key_pair_try_from L (identity_key_pair_serialize L k) = Inr k) \<and>
     device_id_new L 1 = Inr 1"

text \<open>Records built from a key pair serialize and give their fields back.\<close>

definition libsignal_records_ok :: "('x) libsignal_scheme \<Rightarrow> bool" where
  "libsignal_records_ok L \<longleftrightarrow>
     (\<forall>i kp. \<exists>b. pre_key_record_serialize L (pre_key_record_new L i kp) = Inr b) \<and>
     (\<forall>i t kp g. \<exists>b. signed_pre_key_record_serialize L (signed_pre_key_record_new L i t kp g) = Inr b) \<and>
     (\<forall>i t kp g. \<exists>b. kyber_pre_key_record_serialize L (kyber_pre_key_record_new L i t kp g) = Inr b) \<and>
     (\<forall>i kp. pre_key_record_key_pair L (pre_key_record_new L i kp) = Inr kp) \<and>
     (\<forall>i t kp g. signed_pre_key_record_id L (signed_pre_key_record_new L i t kp g) = Inr i) \<and>
     (\<forall>i t kp g. signed_pre_key_record_timestamp L (signed_pre_key_record_new L i t kp g) = Inr t) \<and>
     (\<forall>i t kp g. signed_pre_key_record_signature L (signed_pre_key_record_new L i t kp g) = Inr g) \<and>
     (\<forall>i t kp g. kyber_pre_key_record_timestamp L (kyber_pre_key_record_new L i t kp g) = Inr t) \<and>
     (\<forall>i t kp g. kyber_pre_key_record_signature L (kyber_pre_key_record_new L i t kp g) = Inr g) \<and>
     (\<forall>k m r. \<exists>g. calculate_signature L k m r = Inr g)"

lemma libsignal_okD:
  assumes "libsignal_ok L"
  shows "session_record_serialize L r = Inr b \<Longrightarrow> session_record_deserialize L b = Inr r"
    "identity_key_decode L (identity_key_serialize L k) = Inr k"
    "identity_key_pair_try_from L (identity_key_pair_serialize L kp) = Inr kp"
    "device_id_new L 1 = Inr 1"
  using assms by (auto simp: libsignal_ok_def)

lemma libsignal_records_okD:
  assumes "libsignal_records_ok L"
  shows "\<exists>b. pre_key_record_serialize L (pre_key_record_new L i kp) = Inr b"
    "\<exists>b. signed_pre_key_record_serialize L (signed_pre_key_record_new L i t kp g) = Inr b"
    "\<exists>b. kyber_pre_key_record_serialize L (kyber_pre_key_record_new L i t kkp g) = Inr b"
    "pre_key_record_key_pair L (pre_key_record_new L i kp) = Inr kp"
    "signed_pre_key_record_id L (signed_pre_key_record_new L i t kp g) = Inr i"
    "signed_pre_key_record_timestamp L (signed_pre_key_record_new L i t kp g) = Inr t"
    "signed_pre_key_record_signature L (signed_pre_key_record_new L i t kp g) = Inr g"
    "kyber_pre_key_record_timestamp L (kyber_pre_key_record_new L i t kkp g) = Inr t"
    "kyber_pre_key_record_signature L (kyber_pre_key_record_new L i t kkp g) = Inr g"
    "\<exists>g. calculate_signature L k m r = Inr g"
  using assms by (simp_all add: libsignal_records_ok_def)

end
