(* ===== verification/Crates.thy ===== *)
theory Crates
  imports Libsignal "HOL-Library.Char_ord" "HOL-Library.List_Lexorder"
begin

text \<open>
  The other third-party crates: sha2, hkdf, nostr, bincode, base64, hex and serde_json, and the
  parts of libsignal that only lib.rs uses. Their functions are the fields of \<open>crates\<close>, which
  extends \<open>libsignal\<close>; \<open>crates_ok\<close> states what the bridge relies on. serde_json's \<open>Value\<close> is a
  datatype because lib.rs builds and inspects it; its \<open>Map\<close> is a \<open>BTreeMap\<close>, here an association
  list ordered by key. \<open>SerializablePreKeyBundle\<close> (lib.rs) stands here because bincode is a
  function on it.
\<close>

section \<open>JSON values\<close>

datatype json_number = PosInt u64 | NegInt int | Float opaque

datatype json =
    JNull
  | JBool bool
  | JNumber json_number
  | JString string
  | JArray "json list"
  | JObject "(string \<times> json) list"

fun map_insert :: "string \<Rightarrow> 'a \<Rightarrow> (string \<times> 'a) list \<Rightarrow> (string \<times> 'a) list" where
  "map_insert k v [] = [(k, v)]"
| "map_insert k v ((k', v') # m) =
     (if k = k' then (k, v) # m else if k < k' then (k, v) # (k', v') # m else (k', v') # map_insert k v m)"

text \<open>\<open>json!({..})\<close>: the entries inserted one after the other.\<close>

definition json_object :: "(string \<times> json) list \<Rightarrow> json" where
  "json_object kvs = JObject (fold (\<lambda>(k, v). map_insert k v) kvs [])"

definition json_u64 :: "u64 \<Rightarrow> json" where
  "json_u64 n = JNumber (PosInt n)"

definition json_strings :: "string list \<Rightarrow> json" where
  "json_strings ss = JArray (map JString ss)"

text \<open>\<open>value["key"]\<close>, \<open>as_u64\<close>, \<open>as_str\<close>, \<open>as_array\<close>; indexing anything but an object gives \<open>Null\<close>.\<close>

definition json_index :: "json \<Rightarrow> string \<Rightarrow> json" where
  "json_index v k = (case v of
     JObject m \<Rightarrow> (case map_of m k of None \<Rightarrow> JNull | Some x \<Rightarrow> x)
   | _ \<Rightarrow> JNull)"

definition as_u64 :: "json \<Rightarrow> u64 option" where
  "as_u64 v = (case v of JNumber (PosInt n) \<Rightarrow> Some n | _ \<Rightarrow> None)"

definition as_str :: "json \<Rightarrow> string option" where
  "as_str v = (case v of JString s \<Rightarrow> Some s | _ \<Rightarrow> None)"

definition as_array :: "json \<Rightarrow> json list option" where
  "as_array v = (case v of JArray vs \<Rightarrow> Some vs | _ \<Rightarrow> None)"

text \<open>\<open>value["key"] = x\<close>: \<open>Null\<close> becomes an object; any other value that is no object panics.\<close>

definition json_assign :: "string \<Rightarrow> json \<Rightarrow> json \<Rightarrow> ('s, 'e, json) M" where
  "json_assign k x v = (case v of
     JObject m \<Rightarrow> ret (JObject (map_insert k x m))
   | JNull \<Rightarrow> ret (JObject [(k, x)])
   | _ \<Rightarrow> panic ''cannot access key in JSON'')"

lemma map_of_map_insert [simp]: "map_of (map_insert k v m) = (map_of m)(k \<mapsto> v)"
proof (induction k v m rule: map_insert.induct)
  case (2 k v k' v' m)
  then show ?case by (cases "k = k'") (auto simp: fun_eq_iff)
qed simp

lemma keys_map_insert: "set (map fst (map_insert k v m)) = insert k (set (map fst m))"
  by (induction k v m rule: map_insert.induct) auto

lemma sorted_map_insert:
  "sorted_wrt (<) (map fst m) \<Longrightarrow> sorted_wrt (<) (map fst (map_insert k v m))"
proof (induction k v m rule: map_insert.induct)
  case (2 k v k' v' m)
  then show ?case
    using keys_map_insert [of k v m] by (auto simp: not_less_iff_gr_or_eq)
qed simp

section \<open>Hexadecimal text\<close>

text \<open>\<open>{:x}\<close> of a digest.\<close>

definition hex_digit :: "nat \<Rightarrow> char" where
  "hex_digit n = (if n < 10 then char_of (48 + n) else char_of (87 + n))"

definition lower_hex :: "bytes \<Rightarrow> string" where
  "lower_hex bs = concat (map (\<lambda>b. [hex_digit (unat b div 16), hex_digit (unat b mod 16)]) bs)"

lemma length_lower_hex [simp]: "length (lower_hex bs) = 2 * length bs"
  by (induction bs) (simp_all add: lower_hex_def)

lemma hex_digit_inj: "m < 16 \<Longrightarrow> n < 16 \<Longrightarrow> hex_digit m = hex_digit n \<longleftrightarrow> m = n"
  by (auto simp: hex_digit_def split: if_splits)

lemma byte_of_digits:
  fixes b c :: u8
  assumes "hex_digit (unat b div 16) = hex_digit (unat c div 16)"
    and "hex_digit (unat b mod 16) = hex_digit (unat c mod 16)"
  shows "b = c"
proof -
  have b: "unat x div 16 < 16" for x :: u8 using unat_u8_less [of x] by simp
  then have "unat b div 16 = unat c div 16" "unat b mod 16 = unat c mod 16"
    using assms hex_digit_inj [OF b b] hex_digit_inj [of "unat b mod 16" "unat c mod 16"] by simp_all
  then have "unat b = unat c" by (metis div_mult_mod_eq)
  then show ?thesis by (rule unsigned_word_eqI)
qed

lemma lower_hex_inj: "lower_hex bs = lower_hex cs \<longleftrightarrow> bs = cs"
proof
  show "lower_hex bs = lower_hex cs \<Longrightarrow> bs = cs"
  proof (induction bs arbitrary: cs)
    case Nil then show ?case by (cases cs) (simp_all add: lower_hex_def)
  next
    case (Cons b bs)
    then show ?case by (cases cs) (auto simp: lower_hex_def intro: byte_of_digits)
  qed
qed simp

section \<open>The crates\<close>

datatype nostr_secret_key = NostrSecretKey opaque
datatype nostr_public_key = NostrPublicKey opaque
datatype nostr_keys = NostrKeys opaque
datatype nostr_tag = NostrTag opaque
datatype nostr_event = NostrEvent opaque

record serializable_pre_key_bundle =
  bundle_registration_id :: u32
  bundle_device_id :: u32
  bundle_pre_key_id :: "u32 option"
  bundle_pre_key_public :: "bytes option"
  bundle_signed_pre_key_id :: u32
  bundle_signed_pre_key_public :: bytes
  bundle_signed_pre_key_signature :: bytes
  bundle_identity_key :: bytes
  bundle_kyber_pre_key_id :: u32
  bundle_kyber_pre_key_public :: bytes
  bundle_kyber_pre_key_signature :: bytes

text \<open>
  \<open>hkdf_expand ikm info n\<close> is \<open>Hkdf::new(None, ikm).expand(info, okm)\<close> for an \<open>okm\<close> of \<open>n\<close> bytes;
  \<open>event_sign\<close> is \<open>EventBuilder::new(..).custom_created_at(..).to_event(keys)\<close>; \<open>value_to_string\<close>
  is the \<open>Display\<close> of a \<open>Value\<close>. \<open>scan_order\<close> is the order in which SQLite returns the rows of a
  \<open>SELECT\<close> without \<open>ORDER BY\<close>, which SQL leaves open; \<open>page_order limit offset ids\<close> is the order in which a
  query with \<open>LIMIT\<close> and \<open>OFFSET\<close> meets the rows with these ids before they are sorted. It decides the order of rows
  that the \<open>ORDER BY\<close> leaves equal, and may be another one for every page.
\<close>

record crates = libsignal +
  sha256 :: "bytes \<Rightarrow> bytes"
  hkdf_expand :: "bytes \<Rightarrow> bytes \<Rightarrow> nat \<Rightarrow> unit + bytes"
  secret_key_from_slice :: "bytes \<Rightarrow> nat + nostr_secret_key"
  keys_new :: "nostr_secret_key \<Rightarrow> nostr_keys"
  keys_public_key :: "nostr_keys \<Rightarrow> nostr_public_key"
  nostr_to_hex :: "nostr_public_key \<Rightarrow> string"
  nostr_to_bytes :: "nostr_public_key \<Rightarrow> bytes"
  tag_parse :: "string list \<Rightarrow> nat + nostr_tag"
  event_sign :: "u16 \<Rightarrow> string \<Rightarrow> nostr_tag list \<Rightarrow> u64 \<Rightarrow> nostr_keys \<Rightarrow> nat \<Rightarrow> nat + nostr_event"
  event_id_to_hex :: "nostr_event \<Rightarrow> string"
  event_sig_to_string :: "nostr_event \<Rightarrow> string"
  bincode_serialize :: "serializable_pre_key_bundle \<Rightarrow> nat + bytes"
  bincode_deserialize :: "bytes \<Rightarrow> nat + serializable_pre_key_bundle"
  base64_encode :: "bytes \<Rightarrow> string"
  base64_decode :: "string \<Rightarrow> nat + bytes"
  hex_encode :: "bytes \<Rightarrow> string"
  json_to_string :: "json \<Rightarrow> nat + string"
  json_from_str :: "string \<Rightarrow> nat + json"
  value_to_string :: "json \<Rightarrow> string"
  pre_key_bundle_new :: "u32 \<Rightarrow> u32 \<Rightarrow> (u32 \<times> public_key) option \<Rightarrow> u32 \<Rightarrow> public_key \<Rightarrow> bytes \<Rightarrow>
    u32 \<Rightarrow> kem_public_key \<Rightarrow> bytes \<Rightarrow> identity_key \<Rightarrow> protocol_error + pre_key_bundle"
  pre_key_bundle_registration_id :: "pre_key_bundle \<Rightarrow> protocol_error + u32"
  pre_key_bundle_device_id :: "pre_key_bundle \<Rightarrow> protocol_error + u32"
  pre_key_bundle_pre_key_id :: "pre_key_bundle \<Rightarrow> protocol_error + u32 option"
  pre_key_bundle_pre_key_public :: "pre_key_bundle \<Rightarrow> protocol_error + public_key option"
  pre_key_bundle_signed_pre_key_id :: "pre_key_bundle \<Rightarrow> protocol_error + u32"
  pre_key_bundle_signed_pre_key_public :: "pre_key_bundle \<Rightarrow> protocol_error + public_key"
  pre_key_bundle_signed_pre_key_signature :: "pre_key_bundle \<Rightarrow> protocol_error + bytes"
  pre_key_bundle_kyber_pre_key_id :: "pre_key_bundle \<Rightarrow> protocol_error + u32"
  pre_key_bundle_kyber_pre_key_public :: "pre_key_bundle \<Rightarrow> protocol_error + kem_public_key"
  pre_key_bundle_kyber_pre_key_signature :: "pre_key_bundle \<Rightarrow> protocol_error + bytes"
  pre_key_bundle_identity_key :: "pre_key_bundle \<Rightarrow> protocol_error + identity_key"
  pre_key_signal_message_try_from :: "bytes \<Rightarrow> protocol_error + pre_key_signal_message"
  pre_key_signal_message_identity_key :: "pre_key_signal_message \<Rightarrow> identity_key"
  pre_key_signal_message_pre_key_id :: "pre_key_signal_message \<Rightarrow> u32 option"
  signal_message_try_from :: "bytes \<Rightarrow> protocol_error + signal_message"
  ciphertext_serialize :: "ciphertext_message \<Rightarrow> bytes"
  scan_order :: "nat \<Rightarrow> nat list"
  page_order :: "u32 \<Rightarrow> u32 \<Rightarrow> int list \<Rightarrow> nat list"

definition scanned :: "'x crates_scheme \<Rightarrow> 'a list \<Rightarrow> 'a list" where
  "scanned C rows = map (\<lambda>i. rows ! i) (scan_order C (length rows))"

definition paged :: "'x crates_scheme \<Rightarrow> u32 \<Rightarrow> u32 \<Rightarrow> int list \<Rightarrow> 'a list \<Rightarrow> 'a list" where
  "paged C limit offset ids rows = map (\<lambda>i. rows ! i) (page_order C limit offset ids)"

section \<open>What the bridge relies on\<close>

text \<open>Digests have 32 bytes, a scan and a page visit every row once.\<close>

definition crates_ok :: "'x crates_scheme \<Rightarrow> bool" where
  "crates_ok C \<longleftrightarrow> libsignal_ok C \<and>
     (\<forall>b. length (sha256 C b) = 32) \<and>
     (\<forall>n. mset (scan_order C n) = mset [0..<n]) \<and>
     (\<forall>l k ids. mset (page_order C l k ids) = mset [0..<length ids])"

text \<open>
  Encodings: what was encoded decodes to itself; of JSON this is relied on for values without
  floating-point numbers only.
\<close>

primrec json_exact :: "json \<Rightarrow> bool" where
  "json_exact JNull = True"
| "json_exact (JBool b) = True"
| "json_exact (JNumber n) = (case n of Float _ \<Rightarrow> False | _ \<Rightarrow> True)"
| "json_exact (JString s) = True"
| "json_exact (JArray vs) = list_all (\<lambda>b. b) (map json_exact vs)"
| "json_exact (JObject m) = list_all snd (map (map_prod id json_exact) m)"

definition codecs_ok :: "'x crates_scheme \<Rightarrow> bool" where
  "codecs_ok C \<longleftrightarrow>
     (\<forall>v b. bincode_serialize C v = Inr b \<longrightarrow> bincode_deserialize C b = Inr v) \<and>
     (\<forall>b. base64_decode C (base64_encode C b) = Inr b) \<and>
     (\<forall>v s. json_exact v \<and> json_to_string C v = Inr s \<longrightarrow> json_from_str C s = Inr v) \<and>
     (\<forall>k. public_key_deserialize C (public_key_serialize C k) = Inr k) \<and>
     (\<forall>k. kem_public_key_deserialize C (kem_public_key_serialize C k) = Inr k)"

text \<open>A pre-key bundle can be built from any parts and gives the parts back.\<close>

definition bundles_ok :: "'x crates_scheme \<Rightarrow> bool" where
  "bundles_ok C \<longleftrightarrow> (\<forall>r d p i k g j q h y. \<exists>b. pre_key_bundle_new C r d p i k g j q h y = Inr b \<and>
     pre_key_bundle_registration_id C b = Inr r \<and> pre_key_bundle_device_id C b = Inr d \<and>
     pre_key_bundle_pre_key_id C b = Inr (map_option fst p) \<and>
     pre_key_bundle_pre_key_public C b = Inr (map_option snd p) \<and>
     pre_key_bundle_signed_pre_key_id C b = Inr i \<and>
     pre_key_bundle_signed_pre_key_public C b = Inr k \<and>
     pre_key_bundle_signed_pre_key_signature C b = Inr g \<and>
     pre_key_bundle_kyber_pre_key_id C b = Inr j \<and>
     pre_key_bundle_kyber_pre_key_public C b = Inr q \<and>
     pre_key_bundle_kyber_pre_key_signature C b = Inr h \<and>
     pre_key_bundle_identity_key C b = Inr y)"

lemma crates_okD:
  assumes "crates_ok C"
  shows "libsignal_ok C" "length (sha256 C b) = 32" "mset (scan_order C n) = mset [0..<n]"
    "mset (page_order C l k ids) = mset [0..<length ids]"
  using assms by (simp_all add: crates_ok_def)

lemma mset_visited:
  assumes "mset order = mset [0..<length rows]"
  shows "mset (map (\<lambda>i. rows ! i) order) = mset rows"
proof -
  have "mset (map (\<lambda>i. rows ! i) order) = image_mset (\<lambda>i. rows ! i) (mset [0..<length rows])"
    by (simp only: mset_map assms)
  also have "\<dots> = mset (map (\<lambda>i. rows ! i) [0..<length rows])" by simp
  finally show ?thesis by (simp only: map_nth)
qed

lemma mset_scanned: "crates_ok C \<Longrightarrow> mset (scanned C rows) = mset rows"
  unfolding scanned_def by (rule mset_visited) (rule crates_okD(3))

lemma mset_paged: "crates_ok C \<Longrightarrow> length ids = length rows \<Longrightarrow> mset (paged C l k ids rows) = mset rows"
  unfolding paged_def using crates_okD(4) [of C l k ids] by (intro mset_visited) simp

lemma paged_map:
  assumes "crates_ok C" and "length ids = length rows"
  shows "paged C l k ids (map f rows) = map f (paged C l k ids rows)"
proof -
  have "set (page_order C l k ids) = set [0..<length ids]" using crates_okD(4) [OF assms(1)] by (metis set_mset_mset)
  then show ?thesis using assms(2) by (simp add: paged_def)
qed

lemma scanned_set: "crates_ok C \<Longrightarrow> set (scanned C rows) = set rows"
  by (metis mset_scanned set_mset_mset)

lemma scanned_single: "crates_ok C \<Longrightarrow> scanned C [r] = [r]"
  using mset_scanned [of C "[r]"] by (simp add: mset_single_iff)

lemma scanned_Nil: "crates_ok C \<Longrightarrow> scanned C [] = []"
  using mset_scanned [of C "[]"] by simp

end
