(* ===== verification/Nostr_Identity.thy ===== *)
theory Nostr_Identity
  imports Crates
begin

text \<open>
  nostr_identity.rs: the Nostr key pair of a node is derived from the serialized \<^emph>\<open>public\<close> Signal
  identity key with HKDF, both for the own identity and for that of a peer.
\<close>

definition nostr_info :: bytes where
  "nostr_info = bytes_of_chars ''radix_relay_nostr_derivation''"

text \<open>The common body: HKDF, the secret key from 32 bytes, the key pair.\<close>

definition derive_keys :: "'x crates_scheme \<Rightarrow> identity_key \<Rightarrow> bridge_error + nostr_keys" where
  "derive_keys C k =
     (case hkdf_expand C (identity_key_serialize C k) nostr_info 32 of
        Inl _ \<Rightarrow> Inl (KeyDerivation [Lit ''HKDF expansion failed''])
      | Inr derived_key \<Rightarrow>
          (case secret_key_from_slice C derived_key of
             Inl e \<Rightarrow> Inl (KeyDerivation [Lit ''Invalid secret key: '', ShowCrate e])
           | Inr secret_key \<Rightarrow> Inr (keys_new C secret_key)))"

definition derive_from_signal_identity ::
    "'x crates_scheme \<Rightarrow> identity_key_pair \<Rightarrow> bridge_error + nostr_keys" where
  "derive_from_signal_identity C identity_key_pair =
     derive_keys C (identity_key_pair_identity_key C identity_key_pair)"

definition derive_public_key_from_peer_identity ::
    "'x crates_scheme \<Rightarrow> identity_key \<Rightarrow> bridge_error + nostr_public_key" where
  "derive_public_key_from_peer_identity C peer_identity =
     (case derive_keys C peer_identity of
        Inl e \<Rightarrow> Inl e
      | Inr full_keys \<Rightarrow> Inr (keys_public_key C full_keys))"

end
