(* ===== verification/Storage_Traits.thy ===== *)
theory Storage_Traits
  imports Libsignal
begin

text \<open>
  storage_trait.rs. A Rust trait is a record of its methods, an implementation is a value of that
  record, and a generic function takes the record as an argument. \<open>container\<close> is
  \<open>SignalStorageContainer\<close>: the five stores, each method going through the container's accessor.
  The state of a run (\<open>sys\<close>) is the storage together with what the process gets from outside:
  the readings of the system clock, the entropy of the random number generator and whether the
  build checks arithmetic for overflow.

  The locales \<open>numbered_key_store\<close> and \<open>aged_key_store\<close> are the contract the key rotation relies
  on; the SQLite and the in-memory stores are its instances.
\<close>

section \<open>The environment of a run\<close>

record 's sys =
  clock :: "nat \<Rightarrow> int"
  ticks :: nat
  entropy :: "nat \<Rightarrow> nat"
  draws :: nat
  overflow_checks :: bool
  store :: 's

definition in_store :: "('s, 'e, 'a) M \<Rightarrow> ('s sys, 'e, 'a) M" where
  "in_store m = zoom store (\<lambda>t w. w\<lparr>store := t\<rparr>) m"

text \<open>\<open>SystemTime::now()\<close>: the next reading of the clock, in milliseconds since the epoch.\<close>

definition system_time_now :: "('s sys, 'e, int) M" where
  "system_time_now = (\<lambda>w. (Ok (clock w (ticks w)), w\<lparr>ticks := Suc (ticks w)\<rparr>))"

text \<open>\<open>duration_since(UNIX_EPOCH)\<close>: an error for a clock set before the epoch.\<close>

definition duration_since_epoch :: "int \<Rightarrow> ('s, unit, int) M" where
  "duration_since_epoch t = (if t < 0 then throw () else ret t)"

definition as_millis_u64 :: "int \<Rightarrow> u64" where
  "as_millis_u64 d = word_of_int d"

definition as_secs :: "int \<Rightarrow> u64" where
  "as_secs d = word_of_int (d div 1000)"

definition now_millis :: "('s sys, unit, u64) M" where
  "now_millis = bindM system_time_now (\<lambda>t. bindM (duration_since_epoch t) (\<lambda>d. ret (as_millis_u64 d)))"

definition now_secs :: "('s sys, unit, u64) M" where
  "now_secs = bindM system_time_now (\<lambda>t. bindM (duration_since_epoch t) (\<lambda>d. ret (as_secs d)))"

text \<open>\<open>rand::rng()\<close>: the entropy one call of a randomized function draws.\<close>

definition draw :: "('s sys, 'e, nat) M" where
  "draw = (\<lambda>w. (Ok (entropy w (draws w)), w\<lparr>draws := Suc (draws w)\<rparr>))"

lemma run_in_store [run_simps]: "m (store w) = (r, t) \<Longrightarrow> in_store m w = (r, w\<lparr>store := t\<rparr>)"
  by (simp add: in_store_def run_simps)

lemma in_store_at: "in_store m w = (case m (store w) of (r, t) \<Rightarrow> (r, w\<lparr>store := t\<rparr>))"
  by (simp add: in_store_def zoom_def)

lemma run_system_time_now [run_simps]:
  "system_time_now w = (Ok (clock w (ticks w)), w\<lparr>ticks := Suc (ticks w)\<rparr>)"
  by (simp add: system_time_now_def)

lemma run_draw [run_simps]: "draw w = (Ok (entropy w (draws w)), w\<lparr>draws := Suc (draws w)\<rparr>)"
  by (simp add: draw_def)

lemma run_now_millis:
  "0 \<le> clock w (ticks w) \<Longrightarrow>
   now_millis w = (Ok (word_of_int (clock w (ticks w))), w\<lparr>ticks := Suc (ticks w)\<rparr>)"
  by (simp add: now_millis_def duration_since_epoch_def as_millis_u64_def run_simps)

lemma run_now_secs:
  "0 \<le> clock w (ticks w) \<Longrightarrow>
   now_secs w = (Ok (word_of_int (clock w (ticks w) div 1000)), w\<lparr>ticks := Suc (ticks w)\<rparr>)"
  by (simp add: now_secs_def duration_since_epoch_def as_secs_def run_simps)

lemma store_draw [simp]: "store (snd (draw w)) = store w"
  by (simp add: draw_def)

lemma in_store_bindM: "in_store (bindM m f) = bindM (in_store m) (\<lambda>a. in_store (f a))"
  by (auto simp: fun_eq_iff in_store_def zoom_def bindM_def split: prod.split outcome.split)

lemma in_store_ret [simp]: "in_store (ret a) = ret a"
  by (simp add: fun_eq_iff in_store_def zoom_def ret_def)

lemma in_store_whenM: "in_store (whenM b m) = whenM b (in_store m)"
  by (simp add: whenM_def)

lemma forM_in_store: "forM (\<lambda>x. in_store (f x)) xs = in_store (forM f xs)"
  by (induction xs) (simp_all add: in_store_bindM)

text \<open>A predicate of the storage, as a predicate of the run.\<close>

definition in_sys :: "('s \<Rightarrow> bool) \<Rightarrow> 's sys \<Rightarrow> bool" where
  "in_sys I w \<longleftrightarrow> I (store w)"

lemma preserves_in_store [preserves_intro]: "preserves I m \<Longrightarrow> preserves (in_sys I) (in_store m)"
  unfolding in_store_def by (rule preserves_zoom) (auto simp: in_sys_def)

lemma preserves_env [preserves_intro]:
  "preserves (in_sys I) system_time_now" "preserves (in_sys I) draw"
  "preserves (in_sys I) now_millis" "preserves (in_sys I) now_secs"
  by (auto simp: preserves_def in_sys_def system_time_now_def draw_def now_millis_def now_secs_def
      duration_since_epoch_def bindM_def ret_def throw_def)

section \<open>The store traits\<close>

record 's session_store_ops =
  load_session :: "address \<Rightarrow> ('s, protocol_error, session_record option) M"
  store_session :: "address \<Rightarrow> session_record \<Rightarrow> ('s, protocol_error, unit) M"
  session_count :: "('s, dyn_error, nat) M"
  clear_all_sessions :: "('s, dyn_error, unit) M"
  delete_session :: "address \<Rightarrow> ('s, dyn_error, unit) M"

record 's identity_store_ops =
  get_identity_key_pair :: "('s, protocol_error, identity_key_pair) M"
  get_local_registration_id :: "('s, protocol_error, u32) M"
  save_identity :: "address \<Rightarrow> identity_key \<Rightarrow> ('s, protocol_error, identity_change) M"
  is_trusted_identity :: "address \<Rightarrow> identity_key \<Rightarrow> direction \<Rightarrow> ('s, protocol_error, bool) M"
  get_identity :: "address \<Rightarrow> ('s, protocol_error, identity_key option) M"
  identity_count :: "('s, dyn_error, nat) M"
  set_local_identity_key_pair :: "identity_key_pair \<Rightarrow> ('s, dyn_error, unit) M"
  set_local_registration_id :: "u32 \<Rightarrow> ('s, dyn_error, unit) M"
  get_peer_identity :: "address \<Rightarrow> ('s, dyn_error, identity_key option) M"
  delete_identity :: "address \<Rightarrow> ('s, dyn_error, unit) M"
  clear_all_identities :: "('s, dyn_error, unit) M"
  clear_local_identity :: "('s, dyn_error, unit) M"

record 's pre_key_store_ops =
  get_pre_key :: "u32 \<Rightarrow> ('s, protocol_error, pre_key_record) M"
  save_pre_key :: "u32 \<Rightarrow> pre_key_record \<Rightarrow> ('s, protocol_error, unit) M"
  remove_pre_key :: "u32 \<Rightarrow> ('s, protocol_error, unit) M"
  pre_key_count :: "('s, dyn_error, nat) M"
  clear_all_pre_keys :: "('s, dyn_error, unit) M"
  get_max_pre_key_id :: "('s, dyn_error, u32 option) M"
  delete_pre_key :: "u32 \<Rightarrow> ('s, dyn_error, unit) M"

record 's signed_pre_key_store_ops =
  get_signed_pre_key :: "u32 \<Rightarrow> ('s, protocol_error, signed_pre_key_record) M"
  save_signed_pre_key :: "u32 \<Rightarrow> signed_pre_key_record \<Rightarrow> ('s, protocol_error, unit) M"
  signed_pre_key_count :: "('s, dyn_error, nat) M"
  clear_all_signed_pre_keys :: "('s, dyn_error, unit) M"
  get_max_signed_pre_key_id :: "('s, dyn_error, u32 option) M"
  delete_signed_pre_key :: "u32 \<Rightarrow> ('s, dyn_error, unit) M"
  get_signed_pre_keys_older_than :: "u64 \<Rightarrow> ('s, dyn_error, u32 list) M"

record 's kyber_pre_key_store_ops =
  get_kyber_pre_key :: "u32 \<Rightarrow> ('s, protocol_error, kyber_pre_key_record) M"
  save_kyber_pre_key :: "u32 \<Rightarrow> kyber_pre_key_record \<Rightarrow> ('s, protocol_error, unit) M"
  mark_kyber_pre_key_used :: "u32 \<Rightarrow> ('s, protocol_error, unit) M"
  kyber_pre_key_count :: "('s, dyn_error, nat) M"
  clear_all_kyber_pre_keys :: "('s, dyn_error, unit) M"
  get_max_kyber_pre_key_id :: "('s, dyn_error, u32 option) M"
  delete_kyber_pre_key :: "u32 \<Rightarrow> ('s, dyn_error, unit) M"
  get_kyber_pre_keys_older_than :: "u64 \<Rightarrow> ('s, dyn_error, u32 list) M"

record 's container =
  session_store :: "'s session_store_ops"
  identity_store :: "'s identity_store_ops"
  pre_key_store :: "'s pre_key_store_ops"
  signed_pre_key_store :: "'s signed_pre_key_store_ops"
  kyber_pre_key_store :: "'s kyber_pre_key_store_ops"

section \<open>Running a libsignal call over the stores\<close>

definition answer_peer :: "'s container \<Rightarrow> peer_request \<Rightarrow> ('s, protocol_error, peer_answer) M" where
  "answer_peer C q = (case q of
     LoadSession a \<Rightarrow> bindM (attempt (load_session (session_store C) a)) (\<lambda>r. ret (SessionAnswer r))
   | StoreSession a r \<Rightarrow> bindM (attempt (store_session (session_store C) a r)) (\<lambda>x. ret (DoneAnswer x))
   | GetIdentityKeyPair \<Rightarrow>
       bindM (attempt (get_identity_key_pair (identity_store C))) (\<lambda>x. ret (KeyPairAnswer x))
   | GetLocalRegistrationId \<Rightarrow>
       bindM (attempt (get_local_registration_id (identity_store C))) (\<lambda>x. ret (RegistrationAnswer x))
   | SaveIdentity a k \<Rightarrow> bindM (attempt (save_identity (identity_store C) a k)) (\<lambda>x. ret (ChangeAnswer x))
   | IsTrustedIdentity a k d \<Rightarrow>
       bindM (attempt (is_trusted_identity (identity_store C) a k d)) (\<lambda>x. ret (TrustAnswer x))
   | GetIdentity a \<Rightarrow> bindM (attempt (get_identity (identity_store C) a)) (\<lambda>x. ret (IdentityAnswer x)))"

primrec run_peer :: "'s container \<Rightarrow> 'a peer_prog \<Rightarrow> ('s, protocol_error, 'a) M" where
  "run_peer C (PeerDone r) = of_sum r"
| "run_peer C (PeerCall q k) = bindM (answer_peer C q) (\<lambda>a. run_peer C (k a))"

definition answer_store :: "'s container \<Rightarrow> store_request \<Rightarrow> ('s, protocol_error, store_answer) M" where
  "answer_store C q = (case q of
     PeerRequest p \<Rightarrow> bindM (answer_peer C p) (\<lambda>x. ret (PeerAnswer x))
   | GetPreKey i \<Rightarrow> bindM (attempt (get_pre_key (pre_key_store C) i)) (\<lambda>x. ret (PreKeyAnswer x))
   | SavePreKey i r \<Rightarrow> bindM (attempt (save_pre_key (pre_key_store C) i r)) (\<lambda>x. ret (StoreDoneAnswer x))
   | RemovePreKey i \<Rightarrow> bindM (attempt (remove_pre_key (pre_key_store C) i)) (\<lambda>x. ret (StoreDoneAnswer x))
   | GetSignedPreKey i \<Rightarrow>
       bindM (attempt (get_signed_pre_key (signed_pre_key_store C) i)) (\<lambda>x. ret (SignedPreKeyAnswer x))
   | SaveSignedPreKey i r \<Rightarrow>
       bindM (attempt (save_signed_pre_key (signed_pre_key_store C) i r)) (\<lambda>x. ret (StoreDoneAnswer x))
   | GetKyberPreKey i \<Rightarrow>
       bindM (attempt (get_kyber_pre_key (kyber_pre_key_store C) i)) (\<lambda>x. ret (KyberPreKeyAnswer x))
   | SaveKyberPreKey i r \<Rightarrow>
       bindM (attempt (save_kyber_pre_key (kyber_pre_key_store C) i r)) (\<lambda>x. ret (StoreDoneAnswer x))
   | MarkKyberPreKeyUsed i \<Rightarrow>
       bindM (attempt (mark_kyber_pre_key_used (kyber_pre_key_store C) i)) (\<lambda>x. ret (StoreDoneAnswer x)))"

primrec run_store :: "'s container \<Rightarrow> 'a store_prog \<Rightarrow> ('s, protocol_error, 'a) M" where
  "run_store C (StoreDone r) = of_sum r"
| "run_store C (StoreCall q k) = bindM (answer_store C q) (\<lambda>a. run_store C (k a))"

text \<open>
  Whatever libsignal does, it does through the callbacks: a predicate that each callback keeps is
  kept by every library call.
\<close>

definition peer_callbacks_keep :: "('s \<Rightarrow> bool) \<Rightarrow> 's container \<Rightarrow> bool" where
  "peer_callbacks_keep I C \<longleftrightarrow> (\<forall>q. preserves I (answer_peer C q))"

definition store_callbacks_keep :: "('s \<Rightarrow> bool) \<Rightarrow> 's container \<Rightarrow> bool" where
  "store_callbacks_keep I C \<longleftrightarrow> (\<forall>q. preserves I (answer_store C q))"

lemma run_peer_preserves: "peer_callbacks_keep I C \<Longrightarrow> preserves I (run_peer C p)"
  by (induction p) (auto simp: peer_callbacks_keep_def intro: preserves_intro)

lemma run_store_preserves: "store_callbacks_keep I C \<Longrightarrow> preserves I (run_store C p)"
  by (induction p) (auto simp: store_callbacks_keep_def intro: preserves_intro)

lemma peer_callbacks_keepI:
  assumes "\<And>a. preserves I (load_session (session_store C) a)"
    and "\<And>a r. preserves I (store_session (session_store C) a r)"
    and "preserves I (get_identity_key_pair (identity_store C))"
    and "preserves I (get_local_registration_id (identity_store C))"
    and "\<And>a k. preserves I (save_identity (identity_store C) a k)"
    and "\<And>a k d. preserves I (is_trusted_identity (identity_store C) a k d)"
    and "\<And>a. preserves I (get_identity (identity_store C) a)"
  shows "peer_callbacks_keep I C"
  using assms
  by (auto simp: peer_callbacks_keep_def answer_peer_def split: peer_request.split
      intro!: preserves_intro)

lemma store_callbacks_keepI:
  assumes "peer_callbacks_keep I C"
    and "\<And>i. preserves I (get_pre_key (pre_key_store C) i)"
    and "\<And>i r. preserves I (save_pre_key (pre_key_store C) i r)"
    and "\<And>i. preserves I (remove_pre_key (pre_key_store C) i)"
    and "\<And>i. preserves I (get_signed_pre_key (signed_pre_key_store C) i)"
    and "\<And>i r. preserves I (save_signed_pre_key (signed_pre_key_store C) i r)"
    and "\<And>i. preserves I (get_kyber_pre_key (kyber_pre_key_store C) i)"
    and "\<And>i r. preserves I (save_kyber_pre_key (kyber_pre_key_store C) i r)"
    and "\<And>i. preserves I (mark_kyber_pre_key_used (kyber_pre_key_store C) i)"
  shows "store_callbacks_keep I C"
  using assms
  by (auto simp: store_callbacks_keep_def peer_callbacks_keep_def answer_store_def
      split: store_request.split intro!: preserves_intro)

section \<open>The contract of a store of numbered keys\<close>

text \<open>
  One contract for the pre-key, the signed pre-key and the Kyber pre-key store. \<open>keys\<close> reads a
  state as a finite map from key numbers to records, \<open>rest\<close> is everything else the state holds,
  \<open>ready\<close> is the states in which the store serves its calls, and \<open>storable i r\<close> are the records
  that can be kept under the number \<open>i\<close>.
\<close>

definition greatest :: "(u32 \<Rightarrow> 'r option) \<Rightarrow> u32 option" where
  "greatest m = (if dom m = {} then None else Some (Max (dom m)))"

locale numbered_key_store =
  fixes count_op :: "('s, dyn_error, nat) M"
    and max_op :: "('s, dyn_error, u32 option) M"
    and get_op :: "u32 \<Rightarrow> ('s, protocol_error, 'r) M"
    and save_op :: "u32 \<Rightarrow> 'r \<Rightarrow> ('s, protocol_error, unit) M"
    and delete_op :: "u32 \<Rightarrow> ('s, dyn_error, unit) M"
    and keys :: "'s \<Rightarrow> u32 \<Rightarrow> 'r option"
    and rest :: "'s \<Rightarrow> 'o"
    and ready :: "'s \<Rightarrow> bool"
    and storable :: "u32 \<Rightarrow> 'r \<Rightarrow> bool"
  assumes count_law: "ready s \<Longrightarrow> count_op s = (Ok (card (dom (keys s))), s)"
    and max_law: "ready s \<Longrightarrow> max_op s = (Ok (greatest (keys s)), s)"
    and get_law: "ready s \<Longrightarrow> keys s i = Some r \<Longrightarrow> get_op i s = (Ok r, s)"
    and get_missing_law: "ready s \<Longrightarrow> keys s i = None \<Longrightarrow> \<exists>e. get_op i s = (Err e, s)"
    and save_law: "ready s \<Longrightarrow> storable i r \<Longrightarrow>
      \<exists>s'. save_op i r s = (Ok (), s') \<and> ready s' \<and> keys s' = (keys s)(i \<mapsto> r) \<and> rest s' = rest s"
    and delete_law: "ready s \<Longrightarrow>
      \<exists>s'. delete_op i s = (Ok (), s') \<and> ready s' \<and> keys s' = (keys s)(i := None) \<and> rest s' = rest s"
begin

text \<open>Lookup after insertion, and insertion under the next number.\<close>

lemma save_then_get:
  assumes "ready s" and "storable i r"
  obtains s' where "save_op i r s = (Ok (), s')" and "get_op i s' = (Ok r, s')"
  using save_law [OF assms] get_law by fastforce

lemma dom_le_max:
  assumes "ready s" and "max_op s = (Ok (Some m), s')" and "keys s i = Some r"
  shows "i \<le> m"
  using assms max_law [OF assms(1)] by (auto simp: greatest_def split: if_splits intro!: Max_ge domI)

lemma next_id_fresh:
  assumes "ready s" and "max_op s = (Ok (Some m), s')" and "m \<noteq> - 1" and "m < i"
  shows "keys s i = None"
proof (rule ccontr)
  assume "keys s i \<noteq> None"
  then obtain r where "keys s i = Some r" by blast
  with assms(1,2) have "i \<le> m" by (rule dom_le_max)
  with assms(4) show False by simp
qed

text \<open>A batch of saves, as a replenishment makes it, adds exactly the saved keys.\<close>

lemma save_all:
  assumes "ready s" and "\<forall>(i, r) \<in> set batch. storable i r" and "distinct (map fst batch)"
  shows "\<exists>s'. forM (\<lambda>(i, r). save_op i r) batch s = (Ok (), s') \<and> ready s' \<and>
      keys s' = keys s ++ map_of batch \<and> rest s' = rest s"
  using assms
proof (induction batch arbitrary: s)
  case Nil
  then show ?case by (simp add: run_simps)
next
  case (Cons p batch)
  obtain i r where p: "p = (i, r)" by (cases p)
  from Cons.prems p have "storable i r" by simp
  with save_law [OF Cons.prems(1)] obtain s1 where s1: "save_op i r s = (Ok (), s1)" "ready s1"
    "keys s1 = (keys s)(i \<mapsto> r)" "rest s1 = rest s" by blast
  from Cons.IH [OF s1(2)] Cons.prems obtain s' where s': "forM (\<lambda>(i, r). save_op i r) batch s1 = (Ok (), s')"
    "ready s'" "keys s' = keys s1 ++ map_of batch" "rest s' = rest s1" by auto
  have "i \<notin> dom (map_of batch)" using Cons.prems(3) p by (simp add: dom_map_of_conv_image_fst)
  then have "keys s' = keys s ++ map_of (p # batch)"
    using s'(3) s1(3) p by (auto simp: fun_eq_iff map_add_def split: option.split)
  moreover have "forM (\<lambda>(i, r). save_op i r) (p # batch) s = (Ok (), s')"
    using s1(1) s'(1) p by (simp add: run_simps)
  ultimately show ?case using s1(4) s'(2,4) by metis
qed

text \<open>Deleting while more than one key is left never empties the store.\<close>

lemma delete_guarded:
  assumes "ready s" and "dom (keys s) \<noteq> {}"
  shows "\<exists>s'. forM (\<lambda>i. bindM count_op (\<lambda>n. whenM (1 < n) (delete_op i))) ids s = (Ok (), s') \<and>
      ready s' \<and> rest s' = rest s \<and> dom (keys s') \<noteq> {} \<and> keys s' \<subseteq>\<^sub>m keys s \<and>
      dom (keys s) - dom (keys s') \<subseteq> set ids \<and>
      (card (dom (keys s')) = 1 \<or> dom (keys s') = dom (keys s) - set ids)"
  using assms
proof (induction ids arbitrary: s)
  case Nil
  then show ?case by (simp add: run_simps)
next
  case (Cons i ids)
  let ?step = "\<lambda>i. bindM count_op (\<lambda>n. whenM (1 < n) (delete_op i))"
  note count = count_law [OF Cons.prems(1)]
  show ?case
  proof (cases "1 < card (dom (keys s))")
    case False
    have one: "card (dom (keys s)) = 1"
      using False Cons.prems(2) card_gt_0_iff [of "dom (keys s)"] by simp
    from Cons.IH [OF Cons.prems] obtain s' where s': "forM ?step ids s = (Ok (), s')" "ready s'"
      "rest s' = rest s" "dom (keys s') \<noteq> {}" "keys s' \<subseteq>\<^sub>m keys s" "dom (keys s) - dom (keys s') \<subseteq> set ids"
      by blast
    have "dom (keys s') = dom (keys s)"
      using s'(4,5) one by (metis card_1_singletonE map_le_implies_dom_le subset_singletonD)
    then have "card (dom (keys s')) = 1" using one by simp
    moreover have "forM ?step (i # ids) s = (Ok (), s')"
      using False count s'(1) by (simp add: run_simps)
    ultimately show ?thesis using s'(2-6) by (intro exI [of _ s']) auto
  next
    case True
    from delete_law [OF Cons.prems(1)] obtain s1 where s1: "delete_op i s = (Ok (), s1)" "ready s1"
      "keys s1 = (keys s)(i := None)" "rest s1 = rest s" by blast
    have "dom (keys s1) \<noteq> {}"
    proof
      assume "dom (keys s1) = {}"
      then have "dom (keys s) \<subseteq> {i}" using s1(3) by (auto split: if_splits)
      then show False using True card_mono [of "{i}" "dom (keys s)"] by simp
    qed
    from Cons.IH [OF s1(2) this] obtain s' where s': "forM ?step ids s1 = (Ok (), s')" "ready s'"
      "rest s' = rest s1" "dom (keys s') \<noteq> {}" "keys s' \<subseteq>\<^sub>m keys s1"
      "dom (keys s1) - dom (keys s') \<subseteq> set ids"
      "card (dom (keys s')) = 1 \<or> dom (keys s') = dom (keys s1) - set ids" by blast
    have "forM ?step (i # ids) s = (Ok (), s')"
      using True count s1(1) s'(1) by (simp add: run_simps)
    moreover have "keys s' \<subseteq>\<^sub>m keys s"
      using s'(5) s1(3) unfolding map_le_def by (metis domIff fun_upd_apply)
    ultimately show ?thesis using s'(2-7) s1(3,4) by (intro exI [of _ s']) auto
  qed
qed

end

text \<open>
  The signed and the Kyber store also list the keys older than a moment. The two backends differ
  below one second (SQLite compares whole seconds, the in-memory store milliseconds); the contract
  is what both keep: nothing younger than the moment is listed, and everything at least a second
  older is.
\<close>

locale aged_key_store = numbered_key_store +
  fixes older_op :: "u64 \<Rightarrow> ('s, dyn_error, u32 list) M"
    and ts :: "'r \<Rightarrow> protocol_error + u64"
  assumes older_law: "ready s \<Longrightarrow> \<exists>ids. older_op c s = (Ok ids, s) \<and>
      (\<forall>i \<in> set ids. \<exists>r t. keys s i = Some r \<and> ts r = Inr t \<and> t < c) \<and>
      (\<forall>i r t. keys s i = Some r \<longrightarrow> ts r = Inr t \<longrightarrow> unat t + 1000 \<le> unat c \<longrightarrow> i \<in> set ids)"

end
