(* ===== verification/Database.thy ===== *)
theory Database
  imports Storage_Traits
begin

text \<open>
  The database behind \<open>Arc<Mutex<Connection>>\<close>: the tables of the schema as lists of rows in scan
  order, and the statements the crate runs on them. A statement (\<open>sql\<close>) fails when the next entry
  of the schedule \<open>faults\<close> says so (any error SQLite itself may report: disk, lock, corruption),
  when a table it names was not created, or when it violates a constraint; a failing statement
  changes no table. An exhausted schedule has no more faults.

  The mutex is modelled with its poisoning: a panic inside the locked region poisons it, and
  \<open>lock().unwrap()\<close> on a poisoned or held mutex does not return normally.

  Columns that are only ever filled by a \<open>DEFAULT\<close> and read by no statement (\<open>created_at\<close> of
  sessions and pre-keys, \<open>updated_at\<close>, \<open>used_at\<close>, \<open>trust_level\<close>, ..) are left out. Whether foreign
  keys are enforced is a setting of the connection (\<open>foreign_keys\<close>) that the crate never changes.
\<close>

section \<open>Rows\<close>

record session_row =
  session_address :: string
  session_device :: int
  session_data :: bytes

record identity_row =
  identity_address :: string
  identity_device :: int
  identity_public_key :: bytes

record local_identity_row =
  registration_id :: int
  private_key :: bytes
  public_key :: bytes

record pre_key_row =
  pre_key_row_id :: int
  pre_key_data :: bytes

record signed_key_row =
  signed_row_id :: int
  signed_key_data :: bytes
  signed_signature :: bytes
  signed_created_at :: int
  signed_expires_at :: int
  signed_is_current :: bool

record contact_row =
  rdx_fingerprint :: string
  nostr_pubkey :: string
  user_alias :: "string option"
  signal_identity_key :: bytes
  first_seen :: int
  last_updated :: int

record conversation_row =
  conversation_row_id :: int
  conversation_rdx :: string
  conversation_nostr_pubkey :: "string option"
  last_message_timestamp :: int
  unread_count :: int
  archived :: bool

record message_row =
  message_row_id :: int
  message_conversation_id :: int
  message_direction :: int
  message_timestamp :: int
  message_type :: int
  message_content :: bytes
  message_delivery_status :: int
  message_was_prekey :: bool
  message_session_established :: bool

datatype table =
    SchemaInfo | LocalIdentity | IdentityKeys | Sessions | PreKeys | SignedPreKeys
  | KyberPreKeys | Contacts | Settings | BundleMetadata | Conversations | Messages

datatype mutex = Unlocked | Locked | Poisoned

record db =
  created :: "table list"
  schema_info :: "int list"
  local_identity :: "local_identity_row option"
  identity_keys :: "identity_row list"
  sessions :: "session_row list"
  pre_keys :: "pre_key_row list"
  signed_pre_keys :: "signed_key_row list"
  kyber_pre_keys :: "signed_key_row list"
  contacts :: "contact_row list"
  settings :: "(string \<times> string) list"
  bundle_metadata :: "(int \<times> int \<times> int \<times> int) option"
  conversations :: "conversation_row list"
  messages :: "message_row list"
  conversation_sequence :: int
  message_sequence :: int
  last_insert_rowid :: int
  foreign_keys :: bool
  faults :: "string option list"
  mutex :: mutex

definition empty_db :: "bool \<Rightarrow> db" where
  "empty_db fk = \<lparr>created = [], schema_info = [], local_identity = None, identity_keys = [],
     sessions = [], pre_keys = [], signed_pre_keys = [], kyber_pre_keys = [], contacts = [],
     settings = [], bundle_metadata = None, conversations = [], messages = [],
     conversation_sequence = 0, message_sequence = 0, last_insert_rowid = 0,
     foreign_keys = fk, faults = [], mutex = Unlocked\<rparr>"

section \<open>Statements\<close>

definition sql :: "table list \<Rightarrow> (db \<Rightarrow> sql_error + ('a \<times> db)) \<Rightarrow> (db, sql_error, 'a) M" where
  "sql ts f = (\<lambda>d.
     let d1 = d\<lparr>faults := tl (faults d)\<rparr> in
     case (case faults d of Some e # _ \<Rightarrow> Some e | _ \<Rightarrow> None) of
       Some e \<Rightarrow> (Err (SqliteFailure e), d1)
     | None \<Rightarrow>
         if list_all (\<lambda>t. t \<in> set (created d)) ts
         then (case f d1 of Inl e \<Rightarrow> (Err e, d1) | Inr (a, d2) \<Rightarrow> (Ok a, d2))
         else (Err (SqliteFailure ''no such table''), d1))"

text \<open>\<open>Connection::prepare\<close>, \<open>query_row\<close> (the first row, or no row), a query for all rows, and an
  update that cannot violate a constraint.\<close>

definition prepare :: "table list \<Rightarrow> (db, sql_error, unit) M" where
  "prepare ts = sql ts (\<lambda>d. Inr ((), d))"

definition query_row :: "table list \<Rightarrow> (db \<Rightarrow> 'a list) \<Rightarrow> (db, sql_error, 'a) M" where
  "query_row ts q = sql ts (\<lambda>d. case q d of [] \<Rightarrow> Inl QueryReturnedNoRows | r # _ \<Rightarrow> Inr (r, d))"

definition query_all :: "table list \<Rightarrow> (db \<Rightarrow> 'a list) \<Rightarrow> (db, sql_error, 'a list) M" where
  "query_all ts q = sql ts (\<lambda>d. Inr (q d, d))"

definition execute :: "table list \<Rightarrow> (db \<Rightarrow> db) \<Rightarrow> (db, sql_error, unit) M" where
  "execute ts f = sql ts (\<lambda>d. Inr ((), f d))"

text \<open>\<open>row.get::<_, u32>\<close> and binding a \<open>u64\<close> parameter, both range-checked by rusqlite.\<close>

definition get_u32 :: "int \<Rightarrow> sql_error + u32" where
  "get_u32 v = (if 0 \<le> v \<and> v < 2 ^ 32 then Inr (word_of_int v) else Inl IntegralValueOutOfRange)"

definition u64_to_sql :: "u64 \<Rightarrow> sql_error + int" where
  "u64_to_sql w = (if uint w < 2 ^ 63 then Inr (uint w) else Inl ToSqlConversionFailure)"

definition with_lock :: "(db, 'e, 'a) M \<Rightarrow> (db, 'e, 'a) M" where
  "with_lock m = (\<lambda>d. case mutex d of
     Unlocked \<Rightarrow> (case m (d\<lparr>mutex := Locked\<rparr>) of
        (Panic p, d') \<Rightarrow> (Panic p, d'\<lparr>mutex := Poisoned\<rparr>)
      | (r, d') \<Rightarrow> (r, d'\<lparr>mutex := Unlocked\<rparr>))
   | Locked \<Rightarrow> (Panic ''deadlock'', d)
   | Poisoned \<Rightarrow> (Panic ''PoisonError'', d))"

text \<open>\<open>unwrap\<close> on a \<open>rusqlite::Result\<close>.\<close>

definition unwrapM :: "string \<Rightarrow> (db, 'e, 'a) M \<Rightarrow> (db, 'f, 'a) M" where
  "unwrapM msg m = (\<lambda>d. case m d of
     (Ok a, d') \<Rightarrow> (Ok a, d') | (Err e, d') \<Rightarrow> (Panic msg, d') | (Panic p, d') \<Rightarrow> (Panic p, d'))"

subsection \<open>Running statements\<close>

text \<open>A quiet database: no fault is scheduled.\<close>

definition quiet :: "db \<Rightarrow> bool" where
  "quiet d \<longleftrightarrow> faults d = []"

lemma faults_restore [simp]: "faults d = [] \<Longrightarrow> d\<lparr>faults := []\<rparr> = d"
  by simp

lemma run_sql_quiet [run_simps]:
  "faults d = [] \<Longrightarrow> set ts \<subseteq> set (created d) \<Longrightarrow>
   sql ts f d = (case f d of Inl e \<Rightarrow> (Err e, d) | Inr (a, d2) \<Rightarrow> (Ok a, d2))"
  by (auto simp: sql_def Let_def list_all_iff subset_iff split: sum.split)

lemma run_prepare_quiet [run_simps]:
  "faults d = [] \<Longrightarrow> set ts \<subseteq> set (created d) \<Longrightarrow> prepare ts d = (Ok (), d)"
  by (simp add: prepare_def run_sql_quiet)

lemma run_query_row_quiet [run_simps]:
  "faults d = [] \<Longrightarrow> set ts \<subseteq> set (created d) \<Longrightarrow>
   query_row ts q d = (case q d of [] \<Rightarrow> (Err QueryReturnedNoRows, d) | r # _ \<Rightarrow> (Ok r, d))"
  by (simp add: query_row_def run_sql_quiet split: list.split)

lemma run_query_all_quiet [run_simps]:
  "faults d = [] \<Longrightarrow> set ts \<subseteq> set (created d) \<Longrightarrow> query_all ts q d = (Ok (q d), d)"
  by (simp add: query_all_def run_sql_quiet)

lemma run_execute_quiet [run_simps]:
  "faults d = [] \<Longrightarrow> set ts \<subseteq> set (created d) \<Longrightarrow> execute ts f d = (Ok (), f d)"
  by (simp add: execute_def run_sql_quiet)

lemmas run_statements = run_sql_quiet run_prepare_quiet run_query_row_quiet run_query_all_quiet
  run_execute_quiet

lemma run_with_lock [run_simps]:
  "mutex d = Unlocked \<Longrightarrow> m (d\<lparr>mutex := Locked\<rparr>) = (Ok a, d') \<Longrightarrow>
     with_lock m d = (Ok a, d'\<lparr>mutex := Unlocked\<rparr>)"
  "mutex d = Unlocked \<Longrightarrow> m (d\<lparr>mutex := Locked\<rparr>) = (Err e, d') \<Longrightarrow>
     with_lock m d = (Err e, d'\<lparr>mutex := Unlocked\<rparr>)"
  "mutex d = Unlocked \<Longrightarrow> m (d\<lparr>mutex := Locked\<rparr>) = (Panic p, d') \<Longrightarrow>
     with_lock m d = (Panic p, d'\<lparr>mutex := Poisoned\<rparr>)"
  "mutex d = Locked \<Longrightarrow> with_lock m d = (Panic ''deadlock'', d)"
  "mutex d = Poisoned \<Longrightarrow> with_lock m d = (Panic ''PoisonError'', d)"
  by (simp_all add: with_lock_def)

lemma run_unwrapM [run_simps]:
  "m d = (Ok a, d') \<Longrightarrow> unwrapM msg m d = (Ok a, d')"
  "m d = (Err e, d') \<Longrightarrow> unwrapM msg m d = (Panic msg, d')"
  by (simp_all add: unwrapM_def)

lemma mutex_restore [simp]: "mutex d = Unlocked \<Longrightarrow> d\<lparr>mutex := Unlocked\<rparr> = d"
  by simp

subsection \<open>What statements keep\<close>

text \<open>
  A predicate of the tables: it does not look at the fault schedule or the mutex. Statements keep
  it when their effect on the tables does; locking and error handling never break it.
\<close>

definition table_pred :: "(db \<Rightarrow> bool) \<Rightarrow> bool" where
  "table_pred I \<longleftrightarrow> (\<forall>d fs m. I (d\<lparr>faults := fs\<rparr>) = I d \<and> I (d\<lparr>mutex := m\<rparr>) = I d)"

lemma table_predD: "table_pred I \<Longrightarrow> I (d\<lparr>faults := fs\<rparr>) = I d" "table_pred I \<Longrightarrow> I (d\<lparr>mutex := m\<rparr>) = I d"
  by (auto simp: table_pred_def)

lemma table_pred_conj: "table_pred I \<Longrightarrow> table_pred J \<Longrightarrow> table_pred (\<lambda>d. I d \<and> J d)"
  by (simp add: table_pred_def)

lemma preserves_sql:
  assumes "table_pred I" and "\<And>d a d'. I d \<Longrightarrow> f d = Inr (a, d') \<Longrightarrow> I d'"
  shows "preserves I (sql ts f)"
proof (rule preservesI)
  fix d assume "I d"
  then have "I (d\<lparr>faults := tl (faults d)\<rparr>)" using assms(1) by (simp add: table_predD)
  then show "I (snd (sql ts f d))"
    using assms(2) by (auto simp: sql_def Let_def split: list.splits option.splits sum.splits)
qed

lemma preserves_queries [preserves_intro]:
  assumes "table_pred I"
  shows "preserves I (prepare ts)" "preserves I (query_row ts q)" "preserves I (query_all ts q')"
  unfolding prepare_def query_row_def query_all_def
  by (rule preserves_sql; use assms in \<open>auto split: list.splits\<close>)+

lemma preserves_execute:
  "table_pred I \<Longrightarrow> (\<And>d. I d \<Longrightarrow> I (f d)) \<Longrightarrow> preserves I (execute ts f)"
  unfolding execute_def by (rule preserves_sql) auto

lemma preserves_with_lock [preserves_intro]:
  assumes "table_pred I" and "preserves I m"
  shows "preserves I (with_lock m)"
proof (rule preservesI)
  fix d assume "I d"
  then have "I (d\<lparr>mutex := Locked\<rparr>)" using assms(1) by (simp add: table_predD)
  then have "I (snd (m (d\<lparr>mutex := Locked\<rparr>)))" using assms(2) by (simp add: preserves_def)
  then show "I (snd (with_lock m d))"
    using \<open>I d\<close> assms(1)
    by (auto simp: with_lock_def table_predD split: mutex.split prod.split outcome.split)
qed

lemma preserves_unwrapM [preserves_intro]: "preserves I m \<Longrightarrow> preserves I (unwrapM msg m)"
  by (fastforce simp: preserves_def unwrapM_def split: prod.splits outcome.splits)

text \<open>The mutex is free again after every call that found it free and did not panic.\<close>

lemma with_lock_releases:
  "mutex d = Unlocked \<Longrightarrow> with_lock m d = (r, d') \<Longrightarrow> (\<forall>p. r \<noteq> Panic p) \<Longrightarrow> mutex d' = Unlocked"
  by (auto simp: with_lock_def split: prod.splits outcome.splits)

end
