(* ===== verification/Message_History.thy ===== *)
theory Message_History
  imports Database Crates
begin

text \<open>
  message_history.rs: the message history over the shared connection, method by method. Rows are
  kept in the order of their \<open>AUTOINCREMENT\<close> ids; an insertion takes the next number of the
  table's sequence, is refused when the sequence is exhausted or (with foreign keys enforced) when
  the parent row is missing, and sets \<open>last_insert_rowid\<close>. \<open>ORDER BY .. DESC\<close> says
  nothing of rows with equal keys: they are sorted from the order in which SQLite meets them
  (\<open>scan_order\<close>, and \<open>page_order\<close> for a query with \<open>LIMIT\<close> and \<open>OFFSET\<close>), which is a parameter.
\<close>

section \<open>Data\<close>

datatype message_direction = Incoming | Outgoing

definition direction_as_i64 :: "message_direction \<Rightarrow> int" where
  "direction_as_i64 x = (case x of Incoming \<Rightarrow> 0 | Outgoing \<Rightarrow> 1)"

definition direction_from_i64 :: "int \<Rightarrow> message_direction" where
  "direction_from_i64 v = (if v = 0 then Incoming else if v = 1 then Outgoing else Incoming)"

datatype message_kind = TextMessage | BundleAnnouncement | SystemMessage

definition kind_as_i64 :: "message_kind \<Rightarrow> int" where
  "kind_as_i64 x = (case x of TextMessage \<Rightarrow> 0 | BundleAnnouncement \<Rightarrow> 1 | SystemMessage \<Rightarrow> 2)"

definition kind_from_i64 :: "int \<Rightarrow> message_kind" where
  "kind_from_i64 v = (if v = 0 then TextMessage else if v = 1 then BundleAnnouncement
     else if v = 2 then SystemMessage else TextMessage)"

datatype delivery_status = Pending | Sent | Delivered | Failed

definition status_as_i64 :: "delivery_status \<Rightarrow> int" where
  "status_as_i64 x = (case x of Pending \<Rightarrow> 0 | Sent \<Rightarrow> 1 | Delivered \<Rightarrow> 2 | Failed \<Rightarrow> 3)"

definition status_from_i64 :: "int \<Rightarrow> delivery_status" where
  "status_from_i64 v = (if v = 0 then Pending else if v = 1 then Sent else if v = 2 then Delivered
     else if v = 3 then Failed else Pending)"

record stored_message =
  stored_id :: int
  stored_conversation_id :: int
  stored_direction :: message_direction
  stored_timestamp :: u64
  stored_kind :: message_kind
  stored_content :: string
  stored_delivery_status :: delivery_status
  stored_was_prekey_message :: bool
  stored_session_established :: bool

record conversation =
  conv_id :: int
  conv_rdx_fingerprint :: string
  conv_last_message_timestamp :: u64
  conv_unread_count :: u32
  conv_archived :: bool

text \<open>Reading a row; a body that is not UTF-8 reads as the empty string (\<open>unwrap_or_default\<close>).\<close>

definition message_of_row :: "message_row \<Rightarrow> stored_message" where
  "message_of_row r = \<lparr>
     stored_id = message_row_id r,
     stored_conversation_id = message_conversation_id r,
     stored_direction = direction_from_i64 (message_direction r),
     stored_timestamp = i64_as_u64 (message_timestamp r),
     stored_kind = kind_from_i64 (message_type r),
     stored_content = (case from_utf8 (message_content r) of None \<Rightarrow> [] | Some s \<Rightarrow> s),
     stored_delivery_status = status_from_i64 (message_delivery_status r),
     stored_was_prekey_message = message_was_prekey r,
     stored_session_established = Database.message_session_established r\<rparr>"

definition conversation_of_row :: "conversation_row \<Rightarrow> conversation" where
  "conversation_of_row r = \<lparr>
     conv_id = conversation_row_id r,
     conv_rdx_fingerprint = conversation_rdx r,
     conv_last_message_timestamp = i64_as_u64 (last_message_timestamp r),
     conv_unread_count = i64_as_u32 (unread_count r),
     conv_archived = archived r\<rparr>"

section \<open>Statements\<close>

definition max_rowid :: int where
  "max_rowid = 2 ^ 63 - 1"

definition insert_conversation :: "string \<Rightarrow> string option \<Rightarrow> (db, sql_error, unit) M" where
  "insert_conversation rdx npub = sql [Conversations] (\<lambda>d.
     if foreign_keys d \<and> rdx \<notin> set (map rdx_fingerprint (contacts d))
     then Inl (SqliteFailure ''FOREIGN KEY constraint failed'')
     else if rdx \<in> set (map conversation_rdx (conversations d))
     then Inl (SqliteFailure ''UNIQUE constraint failed: conversations.rdx_fingerprint'')
     else if max_rowid \<le> conversation_sequence d then Inl (SqliteFailure ''database or disk is full'')
     else let i = conversation_sequence d + 1 in
       Inr ((), d\<lparr>conversations := conversations d @ [\<lparr>conversation_row_id = i, conversation_rdx = rdx,
           conversation_nostr_pubkey = npub, last_message_timestamp = 0, unread_count = 0, archived = False\<rparr>],
         conversation_sequence := i, last_insert_rowid := i\<rparr>))"

definition insert_message :: "(int \<Rightarrow> message_row) \<Rightarrow> (db, sql_error, unit) M" where
  "insert_message row = sql [Messages] (\<lambda>d.
     let i = message_sequence d + 1; r = row i in
     if foreign_keys d \<and> message_conversation_id r \<notin> set (map conversation_row_id (conversations d))
     then Inl (SqliteFailure ''FOREIGN KEY constraint failed'')
     else if max_rowid \<le> message_sequence d then Inl (SqliteFailure ''database or disk is full'')
     else Inr ((), d\<lparr>messages := messages d @ [r], message_sequence := i, last_insert_rowid := i\<rparr>))"

definition conversation_ids_of :: "string \<Rightarrow> db \<Rightarrow> int list" where
  "conversation_ids_of rdx d =
     map conversation_row_id (filter (\<lambda>r. conversation_rdx r = rdx) (conversations d))"

definition update_conversations :: "(conversation_row \<Rightarrow> bool) \<Rightarrow> (conversation_row \<Rightarrow> conversation_row) \<Rightarrow> db \<Rightarrow> db" where
  "update_conversations sel upd d =
     d\<lparr>conversations := map (\<lambda>r. if sel r then upd r else r) (conversations d)\<rparr>"

section \<open>The operations\<close>

definition get_or_create_conversation :: "string \<Rightarrow> (db, history_error, int) M" where
  "get_or_create_conversation rdx = with_lock (
     bindM (attempt (query_row [Conversations] (conversation_ids_of rdx))) (\<lambda>result.
     case result of
       Inr i \<Rightarrow> ret i
     | Inl e \<Rightarrow>
         if e = QueryReturnedNoRows then
           bindM (attempt (query_row [Contacts] (\<lambda>d.
             map nostr_pubkey (filter (\<lambda>r. rdx_fingerprint r = rdx) (contacts d))))) (\<lambda>key.
           let npub = (case key of Inr k \<Rightarrow> Some k | Inl _ \<Rightarrow> None) in
           bindM (mapErr Database (insert_conversation rdx npub)) (\<lambda>_.
           gets last_insert_rowid))
         else throw (Database e)))"

definition update_conversation :: "int \<Rightarrow> u64 \<Rightarrow> bool \<Rightarrow> (db, history_error, unit) M" where
  "update_conversation conversation_id timestamp increment_unread = with_lock (
     if increment_unread then
       mapErr Database (execute [Conversations] (update_conversations
         (\<lambda>r. conversation_row_id r = conversation_id)
         (\<lambda>r. r\<lparr>last_message_timestamp := u64_as_i64 timestamp, unread_count := unread_count r + 1\<rparr>)))
     else
       mapErr Database (execute [Conversations] (update_conversations
         (\<lambda>r. conversation_row_id r = conversation_id)
         (\<lambda>r. r\<lparr>last_message_timestamp := u64_as_i64 timestamp\<rparr>))))"

definition store_incoming_message ::
    "string \<Rightarrow> u64 \<Rightarrow> bytes \<Rightarrow> bool \<Rightarrow> bool \<Rightarrow> (db, history_error, int) M" where
  "store_incoming_message rdx timestamp plaintext was_prekey established =
     bindM (get_or_create_conversation rdx) (\<lambda>conversation_id.
     bindM (with_lock (
       bindM (mapErr Database (insert_message (\<lambda>i. \<lparr>message_row_id = i,
         message_conversation_id = conversation_id, message_direction = direction_as_i64 Incoming,
         message_timestamp = u64_as_i64 timestamp, message_type = kind_as_i64 TextMessage,
         message_content = plaintext, message_delivery_status = 0, message_was_prekey = was_prekey,
         message_session_established = established\<rparr>))) (\<lambda>_.
       gets last_insert_rowid))) (\<lambda>message_id.
     bindM (update_conversation conversation_id timestamp True) (\<lambda>_.
     ret message_id)))"

definition store_outgoing_message :: "string \<Rightarrow> u64 \<Rightarrow> bytes \<Rightarrow> (db, history_error, int) M" where
  "store_outgoing_message rdx timestamp plaintext =
     bindM (get_or_create_conversation rdx) (\<lambda>conversation_id.
     bindM (with_lock (
       bindM (mapErr Database (insert_message (\<lambda>i. \<lparr>message_row_id = i,
         message_conversation_id = conversation_id, message_direction = direction_as_i64 Outgoing,
         message_timestamp = u64_as_i64 timestamp, message_type = kind_as_i64 TextMessage,
         message_content = plaintext, message_delivery_status = status_as_i64 Pending,
         message_was_prekey = False, message_session_established = False\<rparr>))) (\<lambda>_.
       gets last_insert_rowid))) (\<lambda>message_id.
     bindM (update_conversation conversation_id timestamp False) (\<lambda>_.
     ret message_id)))"

definition update_delivery_status :: "int \<Rightarrow> delivery_status \<Rightarrow> (db, history_error, unit) M" where
  "update_delivery_status message_id status = with_lock (
     mapErr Database (execute [Messages] (\<lambda>d. d\<lparr>messages := map (\<lambda>r.
       if message_row_id r = message_id then r\<lparr>message_delivery_status := status_as_i64 status\<rparr> else r)
       (messages d)\<rparr>)))"

definition get_message :: "int \<Rightarrow> (db, history_error, stored_message) M" where
  "get_message message_id = with_lock (
     bindM (attempt (query_row [Messages] (\<lambda>d.
       map message_of_row (filter (\<lambda>r. message_row_id r = message_id) (messages d))))) (\<lambda>result.
     case result of
       Inr msg \<Rightarrow> ret msg
     | Inl e \<Rightarrow> if e = QueryReturnedNoRows then throw (MessageNotFound message_id) else throw (Database e)))"

definition newest_first ::
    "'x crates_scheme \<Rightarrow> u32 \<Rightarrow> u32 \<Rightarrow> message_row list \<Rightarrow> message_row list" where
  "newest_first C limit offset rows = sort_key (\<lambda>r. - message_timestamp r)
     (paged C limit offset (map message_row_id rows) rows)"

definition get_conversation_messages ::
    "'x crates_scheme \<Rightarrow> string \<Rightarrow> u32 \<Rightarrow> u32 \<Rightarrow> (db, history_error, stored_message list) M" where
  "get_conversation_messages C rdx limit offset = with_lock (
     bindM (attempt (query_row [Conversations] (conversation_ids_of rdx))) (\<lambda>result.
     case result of
       Inl e \<Rightarrow> if e = QueryReturnedNoRows then ret [] else throw (Database e)
     | Inr conversation_id \<Rightarrow>
         bindM (mapErr Database (prepare [Messages])) (\<lambda>_.
         mapErr Database (query_all [Messages] (\<lambda>d.
           map message_of_row (take (unat limit) (drop (unat offset) (newest_first C limit offset
             (filter (\<lambda>r. message_conversation_id r = conversation_id) (messages d))))))))))"

definition get_conversations ::
    "'x crates_scheme \<Rightarrow> bool \<Rightarrow> (db, history_error, conversation list) M" where
  "get_conversations C include_archived = with_lock (
     bindM (mapErr Database (prepare [Conversations])) (\<lambda>_.
     mapErr Database (query_all [Conversations] (\<lambda>d.
       map conversation_of_row (sort_key (\<lambda>r. - last_message_timestamp r) (scanned C
         (if include_archived then conversations d
          else filter (\<lambda>r. \<not> archived r) (conversations d))))))))"

definition get_unread_count :: "string \<Rightarrow> (db, history_error, u32) M" where
  "get_unread_count rdx = with_lock (
     bindM (attempt (query_row [Conversations] (\<lambda>d.
       map unread_count (filter (\<lambda>r. conversation_rdx r = rdx) (conversations d))))) (\<lambda>result.
     case result of
       Inr n \<Rightarrow> ret (i64_as_u32 n)
     | Inl e \<Rightarrow> if e = QueryReturnedNoRows then ret 0 else throw (Database e)))"

definition mark_conversation_read :: "string \<Rightarrow> (db, history_error, unit) M" where
  "mark_conversation_read rdx = with_lock (
     mapErr Database (execute [Conversations] (update_conversations
       (\<lambda>r. conversation_rdx r = rdx) (\<lambda>r. r\<lparr>unread_count := 0\<rparr>))))"

definition later_incoming :: "int \<Rightarrow> int \<Rightarrow> db \<Rightarrow> message_row list" where
  "later_incoming conversation_id t d = filter (\<lambda>r. message_conversation_id r = conversation_id \<and>
     message_direction r = 0 \<and> t < message_timestamp r) (messages d)"

definition mark_conversation_read_up_to :: "string \<Rightarrow> u64 \<Rightarrow> (db, history_error, unit) M" where
  "mark_conversation_read_up_to rdx up_to_timestamp = with_lock (
     bindM (mapErr Database (query_row [Conversations] (conversation_ids_of rdx))) (\<lambda>conversation_id.
     bindM (mapErr Database (query_row [Messages] (\<lambda>d.
       [int (length (later_incoming conversation_id (u64_as_i64 up_to_timestamp) d))]))) (\<lambda>n.
     mapErr Database (execute [Conversations] (update_conversations
       (\<lambda>r. conversation_row_id r = conversation_id) (\<lambda>r. r\<lparr>unread_count := n\<rparr>))))))"

definition delete_message :: "int \<Rightarrow> (db, history_error, unit) M" where
  "delete_message message_id = with_lock (
     mapErr Database (execute [Messages] (\<lambda>d.
       d\<lparr>messages := delete_key message_row_id message_id (messages d)\<rparr>)))"

text \<open>Deleting a conversation row takes its messages along when foreign keys are enforced.\<close>

definition delete_conversation_rows :: "int list \<Rightarrow> db \<Rightarrow> db" where
  "delete_conversation_rows is d = d\<lparr>
     conversations := filter (\<lambda>r. conversation_row_id r \<notin> set is) (conversations d),
     messages := (if foreign_keys d then filter (\<lambda>m. message_conversation_id m \<notin> set is) (messages d)
       else messages d)\<rparr>"

definition delete_conversation :: "string \<Rightarrow> (db, history_error, unit) M" where
  "delete_conversation rdx = with_lock (
     bindM (attempt (query_row [Conversations] (conversation_ids_of rdx))) (\<lambda>result.
     case result of
       Inr i \<Rightarrow>
         bindM (mapErr Database (execute [Messages] (\<lambda>d.
           d\<lparr>messages := filter (\<lambda>m. message_conversation_id m \<noteq> i) (messages d)\<rparr>))) (\<lambda>_.
         mapErr Database (execute [Conversations] (delete_conversation_rows [i])))
     | Inl _ \<Rightarrow> ret ()))"

end
