(* ===== verification/Sqlite_Stores.thy ===== *)
theory Sqlite_Stores
  imports Database
begin

text \<open>
  The five SQLite stores of sqlite_storage.rs, method by method: \<open>SqliteSessionStore\<close>,
  \<open>SqliteIdentityStore\<close>, \<open>SqlitePreKeyStore\<close>, \<open>SqliteSignedPreKeyStore\<close> and
  \<open>SqliteKyberPreKeyStore\<close>, each over the shared connection.
\<close>

section \<open>Sessions\<close>

definition session_create_tables :: "(db, dyn_error, unit) M" where
  "session_create_tables =
     mapErr DynSql (execute [] (\<lambda>d. d\<lparr>created := List.insert Sessions (created d)\<rparr>))"

definition session_key :: "session_row \<Rightarrow> string \<times> int" where
  "session_key r = (session_address r, session_device r)"

definition address_columns :: "address \<Rightarrow> string \<times> int" where
  "address_columns a = (address_name a, uint (address_device a))"

definition sqlite_load_session ::
    "'x libsignal_scheme \<Rightarrow> address \<Rightarrow> (db, protocol_error, session_record option) M" where
  "sqlite_load_session L addr = with_lock (
     bindM (mapErr (storage_state_sql ''Failed to prepare statement: '') (prepare [Sessions])) (\<lambda>_.
     bindM (attempt (query_row [Sessions] (\<lambda>d.
       map session_data (filter (\<lambda>r. session_key r = address_columns addr) (sessions d))))) (\<lambda>result.
     case result of
       Inr data \<Rightarrow>
         bindM (mapErr (storage_state_protocol ''Failed to deserialize session: '')
           (of_sum (session_record_deserialize L data))) (\<lambda>session.
         ret (Some session))
     | Inl e \<Rightarrow>
         if e = QueryReturnedNoRows then ret None
         else throw (storage_state_sql ''Database error: '' e))))"

definition sqlite_store_session ::
    "'x libsignal_scheme \<Rightarrow> address \<Rightarrow> session_record \<Rightarrow> (db, protocol_error, unit) M" where
  "sqlite_store_session L addr record = with_lock (
     bindM (mapErr (storage_state_protocol ''Failed to serialize session: '')
       (of_sum (session_record_serialize L record))) (\<lambda>serialized.
     mapErr (storage_state_sql ''Failed to store session: '')
       (execute [Sessions] (\<lambda>d. d\<lparr>sessions := upsert session_key
          \<lparr>session_address = address_name addr, session_device = uint (address_device addr),
           session_data = serialized\<rparr> (sessions d)\<rparr>))))"

definition sqlite_session_count :: "(db, dyn_error, nat) M" where
  "sqlite_session_count = with_lock (
     bindM (unwrapM ''called `Result::unwrap()` on an `Err` value'' (prepare [Sessions])) (\<lambda>_.
     bindM (attempt (query_row [Sessions] (\<lambda>d. [length (sessions d)]))) (\<lambda>r.
     ret (case r of Inr n \<Rightarrow> n | Inl _ \<Rightarrow> 0))))"

definition sqlite_clear_all_sessions :: "(db, dyn_error, unit) M" where
  "sqlite_clear_all_sessions =
     with_lock (mapErr DynSql (execute [Sessions] (\<lambda>d. d\<lparr>sessions := []\<rparr>)))"

definition sqlite_delete_session :: "address \<Rightarrow> (db, dyn_error, unit) M" where
  "sqlite_delete_session addr = with_lock (mapErr DynSql (execute [Sessions] (\<lambda>d.
     d\<lparr>sessions := delete_key session_key (address_columns addr) (sessions d)\<rparr>)))"

section \<open>Identities\<close>

definition identity_create_tables :: "(db, dyn_error, unit) M" where
  "identity_create_tables =
     bindM (mapErr DynSql (execute [] (\<lambda>d. d\<lparr>created := List.insert LocalIdentity (created d)\<rparr>))) (\<lambda>_.
     mapErr DynSql (execute [] (\<lambda>d. d\<lparr>created := List.insert IdentityKeys (created d)\<rparr>)))"

definition identity_row_key :: "identity_row \<Rightarrow> string \<times> int" where
  "identity_row_key r = (identity_address r, identity_device r)"

definition identity_bytes_at :: "address \<Rightarrow> db \<Rightarrow> bytes list" where
  "identity_bytes_at addr d =
     map identity_public_key (filter (\<lambda>r. identity_row_key r = address_columns addr) (identity_keys d))"

definition sqlite_get_identity_key_pair ::
    "'x libsignal_scheme \<Rightarrow> (db, protocol_error, identity_key_pair) M" where
  "sqlite_get_identity_key_pair L = with_lock (
     bindM (mapErr (storage_state_sql ''Failed to prepare statement: '') (prepare [LocalIdentity])) (\<lambda>_.
     bindM (attempt (query_row [LocalIdentity] (\<lambda>d.
       case local_identity d of None \<Rightarrow> [] | Some r \<Rightarrow> [private_key r]))) (\<lambda>result.
     case result of
       Inr serialized_keypair \<Rightarrow>
         mapErr (storage_state_protocol ''Failed to deserialize identity key pair: '')
           (of_sum (identity_key_pair_try_from L serialized_keypair))
     | Inl e \<Rightarrow>
         if e = QueryReturnedNoRows
         then throw (InvalidState ''storage'' [Lit ''Local identity key pair not set''])
         else throw (storage_state_sql ''Database error: '' e))))"

definition sqlite_get_local_registration_id :: "(db, protocol_error, u32) M" where
  "sqlite_get_local_registration_id = with_lock (
     bindM (mapErr (storage_state_sql ''Failed to prepare statement: '') (prepare [LocalIdentity])) (\<lambda>_.
     bindM (attempt (bindM (query_row [LocalIdentity] (\<lambda>d.
       case local_identity d of None \<Rightarrow> [] | Some r \<Rightarrow> [registration_id r])) (\<lambda>v. of_sum (get_u32 v))))
     (\<lambda>result.
     case result of
       Inr rid \<Rightarrow> ret rid
     | Inl e \<Rightarrow>
         if e = QueryReturnedNoRows
         then throw (InvalidState ''storage'' [Lit ''Local registration ID not set''])
         else throw (storage_state_sql ''Database error: '' e))))"

definition sqlite_save_identity ::
    "'x libsignal_scheme \<Rightarrow> address \<Rightarrow> identity_key \<Rightarrow> (db, protocol_error, identity_change) M" where
  "sqlite_save_identity L addr identity_key = with_lock (
     let serialized_key = identity_key_serialize L identity_key in
     bindM (mapErr (storage_state_sql ''Failed to prepare statement: '') (prepare [IdentityKeys])) (\<lambda>_.
     bindM (attempt (query_row [IdentityKeys] (identity_bytes_at addr))) (\<lambda>existing_key.
     bindM (case existing_key of
         Inr existing_data \<Rightarrow>
           ret (if existing_data = serialized_key then NewOrUnchanged else ReplacedExisting)
       | Inl e \<Rightarrow>
           if e = QueryReturnedNoRows then ret NewOrUnchanged
           else throw (storage_state_sql ''Database error: '' e)) (\<lambda>change_type.
     bindM (mapErr (storage_state_sql ''Failed to store identity: '')
       (execute [IdentityKeys] (\<lambda>d. d\<lparr>identity_keys := upsert identity_row_key
          \<lparr>identity_address = address_name addr, identity_device = uint (address_device addr),
           identity_public_key = serialized_key\<rparr> (identity_keys d)\<rparr>))) (\<lambda>_.
     ret change_type)))))"

definition sqlite_get_identity ::
    "'x libsignal_scheme \<Rightarrow> address \<Rightarrow> (db, protocol_error, identity_key option) M" where
  "sqlite_get_identity L addr = with_lock (
     bindM (mapErr (storage_state_sql ''Failed to prepare statement: '') (prepare [IdentityKeys])) (\<lambda>_.
     bindM (attempt (query_row [IdentityKeys] (identity_bytes_at addr))) (\<lambda>result.
     case result of
       Inr key_data \<Rightarrow>
         bindM (mapErr (storage_state_protocol ''Failed to deserialize identity key: '')
           (of_sum (identity_key_decode L key_data))) (\<lambda>identity_key.
         ret (Some identity_key))
     | Inl e \<Rightarrow>
         if e = QueryReturnedNoRows then ret None
         else throw (storage_state_sql ''Database error: '' e))))"

definition sqlite_is_trusted_identity ::
    "'x libsignal_scheme \<Rightarrow> address \<Rightarrow> identity_key \<Rightarrow> direction \<Rightarrow> (db, protocol_error, bool) M" where
  "sqlite_is_trusted_identity L addr identity_key direction =
     bindM (sqlite_get_identity L addr) (\<lambda>stored_identity.
     case stored_identity of
       None \<Rightarrow> ret True
     | Some stored_key \<Rightarrow> ret (stored_key = identity_key))"

definition sqlite_identity_count :: "(db, dyn_error, nat) M" where
  "sqlite_identity_count = with_lock (
     bindM (unwrapM ''called `Result::unwrap()` on an `Err` value'' (prepare [IdentityKeys])) (\<lambda>_.
     bindM (attempt (query_row [IdentityKeys] (\<lambda>d. [length (identity_keys d)]))) (\<lambda>r.
     ret (case r of Inr n \<Rightarrow> n | Inl _ \<Rightarrow> 0))))"

definition sqlite_set_local_identity_key_pair ::
    "'x libsignal_scheme \<Rightarrow> identity_key_pair \<Rightarrow> (db, dyn_error, unit) M" where
  "sqlite_set_local_identity_key_pair L identity_key_pair = with_lock (
     let serialized_keypair = identity_key_pair_serialize L identity_key_pair;
         public_key_bytes = identity_key_serialize L (identity_key_pair_identity_key L identity_key_pair)
     in mapErr DynSql (execute [LocalIdentity] (\<lambda>d. d\<lparr>local_identity := Some
          \<lparr>registration_id = (case local_identity d of None \<Rightarrow> 0 | Some r \<Rightarrow> registration_id r),
           private_key = serialized_keypair, public_key = public_key_bytes\<rparr>\<rparr>)))"

definition sqlite_set_local_registration_id :: "u32 \<Rightarrow> (db, dyn_error, unit) M" where
  "sqlite_set_local_registration_id rid = with_lock (
     mapErr DynSql (execute [LocalIdentity] (\<lambda>d. d\<lparr>local_identity := Some
       \<lparr>registration_id = uint rid,
        private_key = (case local_identity d of None \<Rightarrow> [] | Some r \<Rightarrow> private_key r),
        public_key = (case local_identity d of None \<Rightarrow> [] | Some r \<Rightarrow> public_key r)\<rparr>\<rparr>)))"

definition sqlite_get_peer_identity ::
    "'x libsignal_scheme \<Rightarrow> address \<Rightarrow> (db, dyn_error, identity_key option) M" where
  "sqlite_get_peer_identity L addr = with_lock (
     bindM (mapErr DynSql (prepare [IdentityKeys])) (\<lambda>_.
     bindM (attempt (query_row [IdentityKeys] (identity_bytes_at addr))) (\<lambda>result.
     case result of
       Inr key_bytes \<Rightarrow>
         bindM (mapErr DynProtocol (of_sum (identity_key_decode L key_bytes))) (\<lambda>k. ret (Some k))
     | Inl e \<Rightarrow> if e = QueryReturnedNoRows then ret None else throw (DynSql e))))"

definition sqlite_delete_identity :: "address \<Rightarrow> (db, dyn_error, unit) M" where
  "sqlite_delete_identity addr = with_lock (mapErr DynSql (execute [IdentityKeys] (\<lambda>d.
     d\<lparr>identity_keys := delete_key identity_row_key (address_columns addr) (identity_keys d)\<rparr>)))"

definition sqlite_clear_all_identities :: "(db, dyn_error, unit) M" where
  "sqlite_clear_all_identities =
     with_lock (mapErr DynSql (execute [IdentityKeys] (\<lambda>d. d\<lparr>identity_keys := []\<rparr>)))"

definition sqlite_clear_local_identity :: "(db, dyn_error, unit) M" where
  "sqlite_clear_local_identity =
     with_lock (mapErr DynSql (execute [LocalIdentity] (\<lambda>d. d\<lparr>local_identity := None\<rparr>)))"

section \<open>One-time pre-keys\<close>

definition pre_key_create_tables :: "(db, dyn_error, unit) M" where
  "pre_key_create_tables =
     mapErr DynSql (execute [] (\<lambda>d. d\<lparr>created := List.insert PreKeys (created d)\<rparr>))"

definition sqlite_get_pre_key ::
    "'x libsignal_scheme \<Rightarrow> u32 \<Rightarrow> (db, protocol_error, pre_key_record) M" where
  "sqlite_get_pre_key L prekey_id = with_lock (
     bindM (mapErr (storage_state_sql ''Failed to prepare statement: '') (prepare [PreKeys])) (\<lambda>_.
     bindM (attempt (query_row [PreKeys] (\<lambda>d.
       map pre_key_data (filter (\<lambda>r. pre_key_row_id r = uint prekey_id) (pre_keys d))))) (\<lambda>result.
     case result of
       Inr key_data \<Rightarrow>
         mapErr (storage_state_protocol ''Failed to deserialize pre key: '')
           (of_sum (pre_key_record_deserialize L key_data))
     | Inl e \<Rightarrow>
         if e = QueryReturnedNoRows then throw InvalidPreKeyId
         else throw (storage_state_sql ''Database error: '' e))))"

definition sqlite_save_pre_key ::
    "'x libsignal_scheme \<Rightarrow> u32 \<Rightarrow> pre_key_record \<Rightarrow> (db, protocol_error, unit) M" where
  "sqlite_save_pre_key L prekey_id record = with_lock (
     bindM (mapErr (storage_state_protocol ''Failed to serialize pre key: '')
       (of_sum (pre_key_record_serialize L record))) (\<lambda>serialized.
     mapErr (storage_state_sql ''Failed to store pre key: '')
       (execute [PreKeys] (\<lambda>d. d\<lparr>pre_keys := upsert_sorted pre_key_row_id
          \<lparr>pre_key_row_id = uint prekey_id, pre_key_data = serialized\<rparr> (pre_keys d)\<rparr>))))"

definition sqlite_remove_pre_key :: "u32 \<Rightarrow> (db, protocol_error, unit) M" where
  "sqlite_remove_pre_key prekey_id = with_lock (
     mapErr (storage_state_sql ''Failed to remove pre key: '')
       (execute [PreKeys] (\<lambda>d. d\<lparr>pre_keys := delete_key pre_key_row_id (uint prekey_id) (pre_keys d)\<rparr>)))"

definition sqlite_pre_key_count :: "(db, dyn_error, nat) M" where
  "sqlite_pre_key_count = with_lock (
     bindM (unwrapM ''called `Result::unwrap()` on an `Err` value'' (prepare [PreKeys])) (\<lambda>_.
     bindM (attempt (query_row [PreKeys] (\<lambda>d. [length (pre_keys d)]))) (\<lambda>r.
     ret (case r of Inr n \<Rightarrow> n | Inl _ \<Rightarrow> 0))))"

definition sqlite_clear_all_pre_keys :: "(db, dyn_error, unit) M" where
  "sqlite_clear_all_pre_keys =
     with_lock (mapErr DynSql (execute [PreKeys] (\<lambda>d. d\<lparr>pre_keys := []\<rparr>)))"

text \<open>
  \<open>SELECT MAX(id)\<close> yields one row, NULL on an empty table; reading NULL or an out-of-range value
  as \<open>u32\<close> is an error, and \<open>.ok()\<close> turns every error into \<open>None\<close>.
\<close>

definition max_id_row :: "table \<Rightarrow> (db \<Rightarrow> int list) \<Rightarrow> (db, sql_error, u32) M" where
  "max_id_row t ids = sql [t] (\<lambda>d. case ids d of
     [] \<Rightarrow> Inl InvalidColumnType
   | i # is \<Rightarrow> (case get_u32 (Max (set (i # is))) of Inl e \<Rightarrow> Inl e | Inr m \<Rightarrow> Inr (m, d)))"

definition sqlite_get_max_pre_key_id :: "(db, dyn_error, u32 option) M" where
  "sqlite_get_max_pre_key_id = with_lock (
     bindM (mapErr DynSql (prepare [PreKeys])) (\<lambda>_.
     bindM (attempt (max_id_row PreKeys (\<lambda>d. map pre_key_row_id (pre_keys d)))) (\<lambda>r.
     ret (case r of Inr m \<Rightarrow> Some m | Inl _ \<Rightarrow> None))))"

definition sqlite_delete_pre_key :: "u32 \<Rightarrow> (db, dyn_error, unit) M" where
  "sqlite_delete_pre_key i = with_lock (
     mapErr DynSql (execute [PreKeys] (\<lambda>d. d\<lparr>pre_keys := delete_key pre_key_row_id (uint i) (pre_keys d)\<rparr>)))"

section \<open>Signed pre-keys\<close>

definition signed_pre_key_create_tables :: "(db, dyn_error, unit) M" where
  "signed_pre_key_create_tables =
     mapErr DynSql (execute [] (\<lambda>d. d\<lparr>created := List.insert SignedPreKeys (created d)\<rparr>))"

definition sqlite_get_signed_pre_key ::
    "'x libsignal_scheme \<Rightarrow> u32 \<Rightarrow> (db, protocol_error, signed_pre_key_record) M" where
  "sqlite_get_signed_pre_key L signed_prekey_id = with_lock (
     bindM (mapErr (storage_state_sql ''Failed to prepare statement: '') (prepare [SignedPreKeys])) (\<lambda>_.
     bindM (attempt (query_row [SignedPreKeys] (\<lambda>d.
       map signed_key_data (filter (\<lambda>r. signed_row_id r = uint signed_prekey_id) (signed_pre_keys d))))) (\<lambda>result.
     case result of
       Inr key_data \<Rightarrow>
         mapErr (storage_state_protocol ''Failed to deserialize signed pre key: '')
           (of_sum (signed_pre_key_record_deserialize L key_data))
     | Inl e \<Rightarrow>
         if e = QueryReturnedNoRows then throw InvalidSignedPreKeyId
         else throw (storage_state_sql ''Database error: '' e))))"

text \<open>30 days, in seconds.\<close>

definition key_lifetime_secs :: u64 where
  "key_lifetime_secs = 30 * 24 * 60 * 60"

definition insert_signed_row ::
    "table \<Rightarrow> (signed_key_row \<Rightarrow> db \<Rightarrow> db) \<Rightarrow> u32 \<Rightarrow> bytes \<Rightarrow> bytes \<Rightarrow> u64 \<Rightarrow> u64 \<Rightarrow> (db, sql_error, unit) M" where
  "insert_signed_row t put key_id serialized signature created_secs expires_at = sql [t] (\<lambda>d.
     case u64_to_sql expires_at of
       Inl e \<Rightarrow> Inl e
     | Inr expires \<Rightarrow> Inr ((), put
         \<lparr>signed_row_id = uint key_id, signed_key_data = serialized, signed_signature = signature,
          signed_created_at = u64_as_i64 created_secs, signed_expires_at = expires,
          signed_is_current = False\<rparr> d))"

definition put_signed_pre_key_row :: "signed_key_row \<Rightarrow> db \<Rightarrow> db" where
  "put_signed_pre_key_row r d = d\<lparr>signed_pre_keys := upsert_sorted signed_row_id r (signed_pre_keys d)\<rparr>"

definition sqlite_save_signed_pre_key ::
    "'x libsignal_scheme \<Rightarrow> u32 \<Rightarrow> signed_pre_key_record \<Rightarrow> (db, protocol_error, unit) M" where
  "sqlite_save_signed_pre_key L signed_prekey_id record = with_lock (
     bindM (mapErr (storage_state_protocol ''Failed to serialize signed pre key: '')
       (of_sum (signed_pre_key_record_serialize L record))) (\<lambda>serialized.
     bindM (mapErr (storage_state_protocol ''Failed to get record timestamp: '')
       (of_sum (signed_pre_key_record_timestamp L record))) (\<lambda>epoch_millis.
     let record_timestamp_secs = epoch_millis div 1000;
         expires_at = record_timestamp_secs + key_lifetime_secs in
     bindM (mapErr (storage_state_protocol ''Failed to get signature: '')
       (of_sum (signed_pre_key_record_signature L record))) (\<lambda>signature.
     mapErr (storage_state_sql ''Failed to store signed pre key: '')
       (insert_signed_row SignedPreKeys put_signed_pre_key_row signed_prekey_id serialized signature
          record_timestamp_secs expires_at)))))"

definition sqlite_signed_pre_key_count :: "(db, dyn_error, nat) M" where
  "sqlite_signed_pre_key_count = with_lock (
     bindM (unwrapM ''called `Result::unwrap()` on an `Err` value'' (prepare [SignedPreKeys])) (\<lambda>_.
     bindM (attempt (query_row [SignedPreKeys] (\<lambda>d. [length (signed_pre_keys d)]))) (\<lambda>r.
     ret (case r of Inr n \<Rightarrow> n | Inl _ \<Rightarrow> 0))))"

definition sqlite_clear_all_signed_pre_keys :: "(db, dyn_error, unit) M" where
  "sqlite_clear_all_signed_pre_keys =
     with_lock (mapErr DynSql (execute [SignedPreKeys] (\<lambda>d. d\<lparr>signed_pre_keys := []\<rparr>)))"

definition sqlite_get_max_signed_pre_key_id :: "(db, dyn_error, u32 option) M" where
  "sqlite_get_max_signed_pre_key_id = with_lock (
     bindM (mapErr DynSql (prepare [SignedPreKeys])) (\<lambda>_.
     bindM (attempt (max_id_row SignedPreKeys (\<lambda>d. map signed_row_id (signed_pre_keys d)))) (\<lambda>r.
     ret (case r of Inr m \<Rightarrow> Some m | Inl _ \<Rightarrow> None))))"

definition sqlite_delete_signed_pre_key :: "u32 \<Rightarrow> (db, dyn_error, unit) M" where
  "sqlite_delete_signed_pre_key i = with_lock (mapErr DynSql (execute [SignedPreKeys] (\<lambda>d.
     d\<lparr>signed_pre_keys := delete_key signed_row_id (uint i) (signed_pre_keys d)\<rparr>)))"

definition older_ids :: "int \<Rightarrow> signed_key_row list \<Rightarrow> int list" where
  "older_ids secs rows = map signed_row_id (filter (\<lambda>r. signed_created_at r < secs) rows)"

definition sqlite_get_signed_pre_keys_older_than :: "u64 \<Rightarrow> (db, dyn_error, u32 list) M" where
  "sqlite_get_signed_pre_keys_older_than timestamp_millis = with_lock (
     let timestamp_secs = u64_as_i64 (timestamp_millis div 1000) in
     bindM (mapErr DynSql (prepare [SignedPreKeys])) (\<lambda>_.
     bindM (mapErr DynSql (query_all [SignedPreKeys] (\<lambda>d. older_ids timestamp_secs (signed_pre_keys d)))) (\<lambda>rows.
     mapErr DynSql (mapM (\<lambda>v. of_sum (get_u32 v)) rows))))"

section \<open>Kyber pre-keys\<close>

definition kyber_pre_key_create_tables :: "(db, dyn_error, unit) M" where
  "kyber_pre_key_create_tables =
     mapErr DynSql (execute [] (\<lambda>d. d\<lparr>created := List.insert KyberPreKeys (created d)\<rparr>))"

definition sqlite_get_kyber_pre_key ::
    "'x libsignal_scheme \<Rightarrow> u32 \<Rightarrow> (db, protocol_error, kyber_pre_key_record) M" where
  "sqlite_get_kyber_pre_key L kyber_prekey_id = with_lock (
     bindM (mapErr (storage_state_sql ''Failed to prepare statement: '') (prepare [KyberPreKeys])) (\<lambda>_.
     bindM (attempt (query_row [KyberPreKeys] (\<lambda>d.
       map signed_key_data (filter (\<lambda>r. signed_row_id r = uint kyber_prekey_id) (kyber_pre_keys d))))) (\<lambda>result.
     case result of
       Inr key_data \<Rightarrow>
         mapErr (storage_state_protocol ''Failed to deserialize kyber pre key: '')
           (of_sum (kyber_pre_key_record_deserialize L key_data))
     | Inl e \<Rightarrow>
         if e = QueryReturnedNoRows then throw InvalidKyberPreKeyId
         else throw (storage_state_sql ''Database error: '' e))))"

definition put_kyber_pre_key_row :: "signed_key_row \<Rightarrow> db \<Rightarrow> db" where
  "put_kyber_pre_key_row r d = d\<lparr>kyber_pre_keys := upsert_sorted signed_row_id r (kyber_pre_keys d)\<rparr>"

definition sqlite_save_kyber_pre_key ::
    "'x libsignal_scheme \<Rightarrow> u32 \<Rightarrow> kyber_pre_key_record \<Rightarrow> (db, protocol_error, unit) M" where
  "sqlite_save_kyber_pre_key L kyber_prekey_id record = with_lock (
     bindM (mapErr (storage_state_protocol ''Failed to serialize kyber pre key: '')
       (of_sum (kyber_pre_key_record_serialize L record))) (\<lambda>serialized.
     bindM (mapErr (storage_state_protocol ''Failed to get timestamp: '')
       (of_sum (kyber_pre_key_record_timestamp L record))) (\<lambda>epoch_millis.
     let record_timestamp_secs = epoch_millis div 1000;
         expires_at = record_timestamp_secs + key_lifetime_secs in
     bindM (mapErr (storage_state_protocol ''Failed to get signature: '')
       (of_sum (kyber_pre_key_record_signature L record))) (\<lambda>signature.
     mapErr (storage_state_sql ''Failed to store kyber pre key: '')
       (insert_signed_row KyberPreKeys put_kyber_pre_key_row kyber_prekey_id serialized signature
          record_timestamp_secs expires_at)))))"

definition sqlite_mark_kyber_pre_key_used :: "u32 \<Rightarrow> (db, protocol_error, unit) M" where
  "sqlite_mark_kyber_pre_key_used kyber_prekey_id = with_lock (
     mapErr (storage_state_sql ''Failed to mark kyber pre key as used: '')
       (execute [KyberPreKeys] (\<lambda>d. d\<lparr>kyber_pre_keys :=
          map (\<lambda>r. if signed_row_id r = uint kyber_prekey_id then r\<lparr>signed_is_current := False\<rparr> else r)
            (kyber_pre_keys d)\<rparr>)))"

definition sqlite_kyber_pre_key_count :: "(db, dyn_error, nat) M" where
  "sqlite_kyber_pre_key_count = with_lock (
     bindM (unwrapM ''called `Result::unwrap()` on an `Err` value'' (prepare [KyberPreKeys])) (\<lambda>_.
     bindM (attempt (query_row [KyberPreKeys] (\<lambda>d. [length (kyber_pre_keys d)]))) (\<lambda>r.
     ret (case r of Inr n \<Rightarrow> n | Inl _ \<Rightarrow> 0))))"

definition sqlite_clear_all_kyber_pre_keys :: "(db, dyn_error, unit) M" where
  "sqlite_clear_all_kyber_pre_keys =
     with_lock (mapErr DynSql (execute [KyberPreKeys] (\<lambda>d. d\<lparr>kyber_pre_keys := []\<rparr>)))"

definition sqlite_get_max_kyber_pre_key_id :: "(db, dyn_error, u32 option) M" where
  "sqlite_get_max_kyber_pre_key_id = with_lock (
     bindM (mapErr DynSql (prepare [KyberPreKeys])) (\<lambda>_.
     bindM (attempt (max_id_row KyberPreKeys (\<lambda>d. map signed_row_id (kyber_pre_keys d)))) (\<lambda>r.
     ret (case r of Inr m \<Rightarrow> Some m | Inl _ \<Rightarrow> None))))"

definition sqlite_delete_kyber_pre_key :: "u32 \<Rightarrow> (db, dyn_error, unit) M" where
  "sqlite_delete_kyber_pre_key i = with_lock (mapErr DynSql (execute [KyberPreKeys] (\<lambda>d.
     d\<lparr>kyber_pre_keys := delete_key signed_row_id (uint i) (kyber_pre_keys d)\<rparr>)))"

definition sqlite_get_kyber_pre_keys_older_than :: "u64 \<Rightarrow> (db, dyn_error, u32 list) M" where
  "sqlite_get_kyber_pre_keys_older_than timestamp_millis = with_lock (
     let timestamp_secs = u64_as_i64 (timestamp_millis div 1000) in
     bindM (mapErr DynSql (prepare [KyberPreKeys])) (\<lambda>_.
     bindM (mapErr DynSql (query_all [KyberPreKeys] (\<lambda>d. older_ids timestamp_secs (kyber_pre_keys d)))) (\<lambda>rows.
     mapErr DynSql (mapM (\<lambda>v. of_sum (get_u32 v)) rows))))"

end
