(* ===== verification/Sqlite_Storage.thy ===== *)
theory Sqlite_Storage
  imports Sqlite_Stores
begin

text \<open>
  \<open>SqliteStorage\<close> of sqlite_storage.rs: the container over the shared connection (schema creation
  and migration, the accessors with their panics, closing), the settings and bundle-metadata rows,
  and the three operations that hand the stores to libsignal.
\<close>

section \<open>The container\<close>

text \<open>A store is a handle on the shared connection; \<open>Some ()\<close> is a store that was set up.\<close>

record sqlite_storage =
  connection :: db
  session_handle :: "unit option"
  identity_handle :: "unit option"
  pre_key_handle :: "unit option"
  signed_pre_key_handle :: "unit option"
  kyber_pre_key_handle :: "unit option"
  message_history_handle :: "unit option"
  is_closed :: bool

text \<open>\<open>SqliteStorage::new\<close> on an opened and keyed connection (see the theory Db_Encryption).\<close>

definition sqlite_storage_new :: "db \<Rightarrow> sqlite_storage" where
  "sqlite_storage_new d = \<lparr>connection = d, session_handle = None, identity_handle = None,
     pre_key_handle = None, signed_pre_key_handle = None, kyber_pre_key_handle = None,
     message_history_handle = None, is_closed = False\<rparr>"

definition on_conn :: "(db, 'e, 'a) M \<Rightarrow> (sqlite_storage, 'e, 'a) M" where
  "on_conn m = zoom connection (\<lambda>d s. s\<lparr>connection := d\<rparr>) m"

definition create_table :: "table \<Rightarrow> (db, dyn_error, unit) M" where
  "create_table t = mapErr DynSql (execute [] (\<lambda>d. d\<lparr>created := List.insert t (created d)\<rparr>))"

definition create_index :: "table \<Rightarrow> (db, dyn_error, unit) M" where
  "create_index t = mapErr DynSql (execute [t] (\<lambda>d. d))"

definition migrate_to_v2 :: "(db, dyn_error, unit) M" where
  "migrate_to_v2 =
     bindM (create_table Conversations) (\<lambda>_.
     bindM (create_index Conversations) (\<lambda>_.
     bindM (create_index Conversations) (\<lambda>_.
     bindM (create_table Messages) (\<lambda>_.
     bindM (create_index Messages) (\<lambda>_.
     bindM (create_index Messages) (\<lambda>_.
     bindM (create_index Messages) (\<lambda>_.
     mapErr DynSql (execute [SchemaInfo] (\<lambda>d. d\<lparr>schema_info := map (\<lambda>_. 2) (schema_info d)\<rparr>)))))))))"

definition schema_statements :: "(db, dyn_error, unit) M" where
  "schema_statements =
     bindM (create_table SchemaInfo) (\<lambda>_.
     bindM (mapErr DynSql (execute [SchemaInfo] (\<lambda>d. d\<lparr>schema_info := schema_info d @ [1]\<rparr>))) (\<lambda>_.
     bindM (mapErr DynSql (query_row [SchemaInfo] schema_info)) (\<lambda>current_version.
     bindM identity_create_tables (\<lambda>_.
     bindM session_create_tables (\<lambda>_.
     bindM pre_key_create_tables (\<lambda>_.
     bindM signed_pre_key_create_tables (\<lambda>_.
     bindM kyber_pre_key_create_tables (\<lambda>_.
     bindM (create_table Contacts) (\<lambda>_.
     bindM (create_index Contacts) (\<lambda>_.
     bindM (create_index Contacts) (\<lambda>_.
     bindM (create_table Settings) (\<lambda>_.
     bindM (create_table BundleMetadata) (\<lambda>_.
     whenM (current_version < 2) migrate_to_v2)))))))))))))"

definition initialize_schema :: "(sqlite_storage, dyn_error, unit) M" where
  "initialize_schema =
     bindM (on_conn (with_lock schema_statements)) (\<lambda>_.
     modify (\<lambda>s. s\<lparr>session_handle := Some (), identity_handle := Some (), pre_key_handle := Some (),
       signed_pre_key_handle := Some (), kyber_pre_key_handle := Some (),
       message_history_handle := Some ()\<rparr>))"

definition get_schema_version :: "(sqlite_storage, dyn_error, int) M" where
  "get_schema_version = on_conn (with_lock (
     bindM (mapErr DynSql (prepare [SchemaInfo])) (\<lambda>_.
     mapErr DynSql (query_row [SchemaInfo] schema_info))))"

text \<open>\<open>message_history()\<close>: only \<open>expect\<close>, no check that the storage is open.\<close>

definition expect_handle ::
    "(sqlite_storage \<Rightarrow> unit option) \<Rightarrow> string \<Rightarrow> (sqlite_storage, 'e, unit) M" where
  "expect_handle h msg = (\<lambda>s. case h s of None \<Rightarrow> (Panic msg, s) | Some u \<Rightarrow> (Ok (), s))"

definition message_history_of :: "(sqlite_storage, 'e, unit) M" where
  "message_history_of = expect_handle message_history_handle ''MessageHistory not initialized''"

definition last_message_timestamp_key :: string where
  "last_message_timestamp_key = ''last_message_timestamp''"

definition get_last_message_timestamp :: "(sqlite_storage, dyn_error, u64) M" where
  "get_last_message_timestamp = on_conn (with_lock (
     bindM (mapErr DynSql (prepare [Settings])) (\<lambda>_.
     bindM (attempt (query_row [Settings] (\<lambda>d.
       map snd (filter (\<lambda>kv. fst kv = last_message_timestamp_key) (settings d))))) (\<lambda>result.
     case result of
       Inr value_str \<Rightarrow> (case parse_u64 value_str of None \<Rightarrow> throw DynParseInt | Some t \<Rightarrow> ret t)
     | Inl e \<Rightarrow> if e = QueryReturnedNoRows then ret 0 else throw (DynSql e)))))"

definition set_last_message_timestamp :: "u64 \<Rightarrow> (sqlite_storage, dyn_error, unit) M" where
  "set_last_message_timestamp timestamp = on_conn (with_lock (
     mapErr DynSql (execute [Settings] (\<lambda>d.
       d\<lparr>settings := upsert fst (last_message_timestamp_key, show_u64 timestamp) (settings d)\<rparr>))))"

text \<open>
  The source takes the lock before it reads the clock; the first step is that lock (nothing else
  runs before the statement takes it again).
\<close>

definition record_published_bundle :: "u32 \<Rightarrow> u32 \<Rightarrow> u32 \<Rightarrow> (sqlite_storage sys, dyn_error, unit) M" where
  "record_published_bundle pre_key_id signed_pre_key_id kyber_pre_key_id =
     bindM (in_store (on_conn (with_lock (ret ())))) (\<lambda>_.
     bindM (mapErr (\<lambda>_. DynTime) now_secs) (\<lambda>now.
     in_store (on_conn (with_lock (mapErr DynSql (sql [BundleMetadata] (\<lambda>d.
       case u64_to_sql now of Inl e \<Rightarrow> Inl e
       | Inr published_at \<Rightarrow> Inr ((), d\<lparr>bundle_metadata :=
           Some (uint pre_key_id, uint signed_pre_key_id, uint kyber_pre_key_id, published_at)\<rparr>))))))))"

definition get_last_published_bundle_metadata ::
    "(sqlite_storage, dyn_error, (u32 \<times> u32 \<times> u32) option) M" where
  "get_last_published_bundle_metadata = on_conn (with_lock (
     bindM (mapErr DynSql (prepare [BundleMetadata])) (\<lambda>_.
     bindM (attempt (bindM (query_row [BundleMetadata] (\<lambda>d.
         case bundle_metadata d of None \<Rightarrow> [] | Some r \<Rightarrow> [r])) (\<lambda>(p, s, k, t).
       bindM (of_sum (get_u32 p)) (\<lambda>p'. bindM (of_sum (get_u32 s)) (\<lambda>s'.
       bindM (of_sum (get_u32 k)) (\<lambda>k'. ret (p', s', k'))))))) (\<lambda>result.
     case result of
       Inr m \<Rightarrow> ret (Some m)
     | Inl e \<Rightarrow> if e = QueryReturnedNoRows then ret None else throw (DynSql e)))))"

subsection \<open>Accessors, closing\<close>

definition open_handle :: "(sqlite_storage \<Rightarrow> unit option) \<Rightarrow> (sqlite_storage, 'e, unit) M" where
  "open_handle h = (\<lambda>s. if is_closed s then (Panic ''Storage has been closed'', s)
     else expect_handle h ''Storage not initialized'' s)"

definition via_session_store :: "(db, 'e, 'a) M \<Rightarrow> (sqlite_storage, 'e, 'a) M" where
  "via_session_store m = bindM (open_handle session_handle) (\<lambda>_. on_conn m)"

definition via_identity_store :: "(db, 'e, 'a) M \<Rightarrow> (sqlite_storage, 'e, 'a) M" where
  "via_identity_store m = bindM (open_handle identity_handle) (\<lambda>_. on_conn m)"

definition via_pre_key_store :: "(db, 'e, 'a) M \<Rightarrow> (sqlite_storage, 'e, 'a) M" where
  "via_pre_key_store m = bindM (open_handle pre_key_handle) (\<lambda>_. on_conn m)"

definition via_signed_pre_key_store :: "(db, 'e, 'a) M \<Rightarrow> (sqlite_storage, 'e, 'a) M" where
  "via_signed_pre_key_store m = bindM (open_handle signed_pre_key_handle) (\<lambda>_. on_conn m)"

definition via_kyber_pre_key_store :: "(db, 'e, 'a) M \<Rightarrow> (sqlite_storage, 'e, 'a) M" where
  "via_kyber_pre_key_store m = bindM (open_handle kyber_pre_key_handle) (\<lambda>_. on_conn m)"

definition sqlite_initialize :: "(sqlite_storage, dyn_error, unit) M" where
  "sqlite_initialize = initialize_schema"

definition sqlite_close :: "(sqlite_storage, dyn_error, unit) M" where
  "sqlite_close = (\<lambda>s. if is_closed s then (Ok (), s) else
     bindM (on_conn (with_lock (
       bindM (mapErr DynSql (execute [] (\<lambda>d. d))) (\<lambda>_.
       bindM (attempt (execute [] (\<lambda>d. d))) (\<lambda>_. ret ()))))) (\<lambda>_.
     modify (\<lambda>s. s\<lparr>is_closed := True, session_handle := None, identity_handle := None,
       pre_key_handle := None, signed_pre_key_handle := None, kyber_pre_key_handle := None\<rparr>)) s)"

definition sqlite_storage_type :: string where
  "sqlite_storage_type = ''sqlite''"

subsection \<open>The stores as trait implementations\<close>

text \<open>\<open>sqlite_stores\<close>: the stores themselves, on the connection.\<close>

definition sqlite_stores :: "'x libsignal_scheme \<Rightarrow> db container" where
  "sqlite_stores L = \<lparr>
     session_store = \<lparr>load_session = sqlite_load_session L, store_session = sqlite_store_session L,
       session_count = sqlite_session_count, clear_all_sessions = sqlite_clear_all_sessions,
       delete_session = sqlite_delete_session\<rparr>,
     identity_store = \<lparr>get_identity_key_pair = sqlite_get_identity_key_pair L,
       get_local_registration_id = sqlite_get_local_registration_id,
       save_identity = sqlite_save_identity L, is_trusted_identity = sqlite_is_trusted_identity L,
       get_identity = sqlite_get_identity L, identity_count = sqlite_identity_count,
       set_local_identity_key_pair = sqlite_set_local_identity_key_pair L,
       set_local_registration_id = sqlite_set_local_registration_id,
       get_peer_identity = sqlite_get_peer_identity L, delete_identity = sqlite_delete_identity,
       clear_all_identities = sqlite_clear_all_identities,
       clear_local_identity = sqlite_clear_local_identity\<rparr>,
     pre_key_store = \<lparr>get_pre_key = sqlite_get_pre_key L, save_pre_key = sqlite_save_pre_key L,
       remove_pre_key = sqlite_remove_pre_key, pre_key_count = sqlite_pre_key_count,
       clear_all_pre_keys = sqlite_clear_all_pre_keys,
       get_max_pre_key_id = sqlite_get_max_pre_key_id, delete_pre_key = sqlite_delete_pre_key\<rparr>,
     signed_pre_key_store = \<lparr>get_signed_pre_key = sqlite_get_signed_pre_key L,
       save_signed_pre_key = sqlite_save_signed_pre_key L,
       signed_pre_key_count = sqlite_signed_pre_key_count,
       clear_all_signed_pre_keys = sqlite_clear_all_signed_pre_keys,
       get_max_signed_pre_key_id = sqlite_get_max_signed_pre_key_id,
       delete_signed_pre_key = sqlite_delete_signed_pre_key,
       get_signed_pre_keys_older_than = sqlite_get_signed_pre_keys_older_than\<rparr>,
     kyber_pre_key_store = \<lparr>get_kyber_pre_key = sqlite_get_kyber_pre_key L,
       save_kyber_pre_key = sqlite_save_kyber_pre_key L,
       mark_kyber_pre_key_used = sqlite_mark_kyber_pre_key_used,
       kyber_pre_key_count = sqlite_kyber_pre_key_count,
       clear_all_kyber_pre_keys = sqlite_clear_all_kyber_pre_keys,
       get_max_kyber_pre_key_id = sqlite_get_max_kyber_pre_key_id,
       delete_kyber_pre_key = sqlite_delete_kyber_pre_key,
       get_kyber_pre_keys_older_than = sqlite_get_kyber_pre_keys_older_than\<rparr>\<rparr>"

text \<open>\<open>sqlite_container\<close>: the same methods reached through the accessors of the container.\<close>

definition sqlite_container :: "'x libsignal_scheme \<Rightarrow> sqlite_storage container" where
  "sqlite_container L = \<lparr>
     session_store = \<lparr>load_session = (\<lambda>a. via_session_store (sqlite_load_session L a)),
       store_session = (\<lambda>a r. via_session_store (sqlite_store_session L a r)),
       session_count = via_session_store sqlite_session_count,
       clear_all_sessions = via_session_store sqlite_clear_all_sessions,
       delete_session = (\<lambda>a. via_session_store (sqlite_delete_session a))\<rparr>,
     identity_store = \<lparr>get_identity_key_pair = via_identity_store (sqlite_get_identity_key_pair L),
       get_local_registration_id = via_identity_store sqlite_get_local_registration_id,
       save_identity = (\<lambda>a k. via_identity_store (sqlite_save_identity L a k)),
       is_trusted_identity = (\<lambda>a k d. via_identity_store (sqlite_is_trusted_identity L a k d)),
       get_identity = (\<lambda>a. via_identity_store (sqlite_get_identity L a)),
       identity_count = via_identity_store sqlite_identity_count,
       set_local_identity_key_pair = (\<lambda>k. via_identity_store (sqlite_set_local_identity_key_pair L k)),
       set_local_registration_id = (\<lambda>i. via_identity_store (sqlite_set_local_registration_id i)),
       get_peer_identity = (\<lambda>a. via_identity_store (sqlite_get_peer_identity L a)),
       delete_identity = (\<lambda>a. via_identity_store (sqlite_delete_identity a)),
       clear_all_identities = via_identity_store sqlite_clear_all_identities,
       clear_local_identity = via_identity_store sqlite_clear_local_identity\<rparr>,
     pre_key_store = \<lparr>get_pre_key = (\<lambda>i. via_pre_key_store (sqlite_get_pre_key L i)),
       save_pre_key = (\<lambda>i r. via_pre_key_store (sqlite_save_pre_key L i r)),
       remove_pre_key = (\<lambda>i. via_pre_key_store (sqlite_remove_pre_key i)),
       pre_key_count = via_pre_key_store sqlite_pre_key_count,
       clear_all_pre_keys = via_pre_key_store sqlite_clear_all_pre_keys,
       get_max_pre_key_id = via_pre_key_store sqlite_get_max_pre_key_id,
       delete_pre_key = (\<lambda>i. via_pre_key_store (sqlite_delete_pre_key i))\<rparr>,
     signed_pre_key_store = \<lparr>
       get_signed_pre_key = (\<lambda>i. via_signed_pre_key_store (sqlite_get_signed_pre_key L i)),
       save_signed_pre_key = (\<lambda>i r. via_signed_pre_key_store (sqlite_save_signed_pre_key L i r)),
       signed_pre_key_count = via_signed_pre_key_store sqlite_signed_pre_key_count,
       clear_all_signed_pre_keys = via_signed_pre_key_store sqlite_clear_all_signed_pre_keys,
       get_max_signed_pre_key_id = via_signed_pre_key_store sqlite_get_max_signed_pre_key_id,
       delete_signed_pre_key = (\<lambda>i. via_signed_pre_key_store (sqlite_delete_signed_pre_key i)),
       get_signed_pre_keys_older_than =
         (\<lambda>t. via_signed_pre_key_store (sqlite_get_signed_pre_keys_older_than t))\<rparr>,
     kyber_pre_key_store = \<lparr>
       get_kyber_pre_key = (\<lambda>i. via_kyber_pre_key_store (sqlite_get_kyber_pre_key L i)),
       save_kyber_pre_key = (\<lambda>i r. via_kyber_pre_key_store (sqlite_save_kyber_pre_key L i r)),
       mark_kyber_pre_key_used = (\<lambda>i. via_kyber_pre_key_store (sqlite_mark_kyber_pre_key_used i)),
       kyber_pre_key_count = via_kyber_pre_key_store sqlite_kyber_pre_key_count,
       clear_all_kyber_pre_keys = via_kyber_pre_key_store sqlite_clear_all_kyber_pre_keys,
       get_max_kyber_pre_key_id = via_kyber_pre_key_store sqlite_get_max_kyber_pre_key_id,
       delete_kyber_pre_key = (\<lambda>i. via_kyber_pre_key_store (sqlite_delete_kyber_pre_key i)),
       get_kyber_pre_keys_older_than =
         (\<lambda>t. via_kyber_pre_key_store (sqlite_get_kyber_pre_keys_older_than t))\<rparr>\<rparr>"

subsection \<open>Handing the stores to libsignal\<close>

definition expect_store :: "(sqlite_storage \<Rightarrow> unit option) \<Rightarrow> (sqlite_storage sys, 'e, unit) M" where
  "expect_store h = in_store (expect_handle h ''Storage not initialized'')"

definition sqlite_establish_session_from_bundle ::
    "'x libsignal_scheme \<Rightarrow> address \<Rightarrow> pre_key_bundle \<Rightarrow> (sqlite_storage sys, dyn_error, unit) M" where
  "sqlite_establish_session_from_bundle L addr bundle =
     bindM draw (\<lambda>rng.
     bindM system_time_now (\<lambda>timestamp.
     bindM (expect_store session_handle) (\<lambda>_.
     bindM (expect_store identity_handle) (\<lambda>_.
     mapErr DynProtocol (in_store (on_conn
       (run_peer (sqlite_stores L) (process_prekey_bundle L addr bundle timestamp rng))))))))"

definition sqlite_encrypt_message ::
    "'x libsignal_scheme \<Rightarrow> address \<Rightarrow> bytes \<Rightarrow> (sqlite_storage sys, protocol_error, ciphertext_message) M" where
  "sqlite_encrypt_message L remote_address plaintext =
     bindM draw (\<lambda>rng.
     bindM system_time_now (\<lambda>now.
     bindM (expect_store session_handle) (\<lambda>_.
     bindM (expect_store identity_handle) (\<lambda>_.
     in_store (on_conn (run_peer (sqlite_stores L) (message_encrypt L plaintext remote_address now rng)))))))"

definition sqlite_decrypt_message ::
    "'x libsignal_scheme \<Rightarrow> address \<Rightarrow> ciphertext_message \<Rightarrow> (sqlite_storage sys, protocol_error, bytes) M" where
  "sqlite_decrypt_message L remote_address ciphertext =
     bindM draw (\<lambda>rng.
     bindM (expect_store session_handle) (\<lambda>_.
     bindM (expect_store identity_handle) (\<lambda>_.
     bindM (expect_store pre_key_handle) (\<lambda>_.
     bindM (expect_store signed_pre_key_handle) (\<lambda>_.
     bindM (expect_store kyber_pre_key_handle) (\<lambda>_.
     in_store (on_conn (run_store (sqlite_stores L) (message_decrypt L ciphertext remote_address rng)))))))))"

end
