(* ===== verification/Contact_Manager.thy ===== *)
theory Contact_Manager
  imports Nostr_Identity Message_History Sqlite_Storage
begin

text \<open>
  contact_manager.rs over the shared connection. The contact table has \<open>rdx_fingerprint\<close> as its
  primary key and a UNIQUE \<open>nostr_pubkey\<close>: \<open>INSERT OR REPLACE\<close> first deletes every row in conflict
  with the new one, and with foreign keys enforced the conversations and messages of a deleted
  contact go with it (\<open>ON DELETE CASCADE\<close>), also when the new row has the same primary key.

  The \<open>impl SessionStore\<close> argument of the source is the record \<open>S\<close> of store methods.
\<close>

record contact_info =
  info_rdx_fingerprint :: string
  info_nostr_pubkey :: string
  info_user_alias :: "string option"
  info_has_active_session :: bool

definition generate_identity_fingerprint_from_key :: "'x crates_scheme \<Rightarrow> identity_key \<Rightarrow> string" where
  "generate_identity_fingerprint_from_key C identity_key = ''RDX:'' @ lower_hex (sha256 C
     (identity_key_serialize C identity_key @ bytes_of_chars ''radix-identity-fingerprint''))"

text \<open>\<open>&s[a..b]\<close>.\<close>

definition str_slice :: "nat \<Rightarrow> nat \<Rightarrow> string \<Rightarrow> ('s, 'e, string) M" where
  "str_slice a b s = (if a \<le> b \<and> b \<le> length s then ret (take (b - a) (drop a s))
     else panic ''byte index out of range'')"

section \<open>Statements\<close>

definition conflicting :: "contact_row \<Rightarrow> contact_row \<Rightarrow> bool" where
  "conflicting new r \<longleftrightarrow> rdx_fingerprint r = rdx_fingerprint new \<or> nostr_pubkey r = nostr_pubkey new"

definition replace_contact :: "contact_row \<Rightarrow> db \<Rightarrow> db" where
  "replace_contact new d =
     (let gone = map rdx_fingerprint (filter (conflicting new) (contacts d));
          d1 = d\<lparr>contacts := filter (\<lambda>r. \<not> conflicting new r) (contacts d) @ [new]\<rparr>
      in if foreign_keys d
         then delete_conversation_rows (map conversation_row_id
           (filter (\<lambda>c. conversation_rdx c \<in> set gone) (conversations d))) d1
         else d1)"

definition insert_or_replace_contact ::
    "string \<Rightarrow> string \<Rightarrow> string option \<Rightarrow> bytes \<Rightarrow> u64 \<Rightarrow> (db, sql_error, unit) M" where
  "insert_or_replace_contact rdx npub alias key now = sql [Contacts] (\<lambda>d.
     case u64_to_sql now of
       Inl e \<Rightarrow> Inl e
     | Inr t \<Rightarrow>
         let seen = (case filter (\<lambda>r. rdx_fingerprint r = rdx) (contacts d) of [] \<Rightarrow> t | r # _ \<Rightarrow> first_seen r)
         in Inr ((), replace_contact \<lparr>rdx_fingerprint = rdx, nostr_pubkey = npub, user_alias = alias,
           signal_identity_key = key, first_seen = seen, last_updated = t\<rparr> d))"

definition contact_of_row :: "contact_row \<Rightarrow> contact_info" where
  "contact_of_row r = \<lparr>info_rdx_fingerprint = rdx_fingerprint r, info_nostr_pubkey = nostr_pubkey r,
     info_user_alias = user_alias r, info_has_active_session = False\<rparr>"

definition names_contact :: "string \<Rightarrow> contact_row \<Rightarrow> bool" where
  "names_contact identifier r \<longleftrightarrow> rdx_fingerprint r = identifier \<or> user_alias r = Some identifier \<or>
     nostr_pubkey r = identifier"

section \<open>The operations\<close>

definition add_contact_from_identity_key ::
    "'x crates_scheme \<Rightarrow> identity_key \<Rightarrow> (sqlite_storage sys, bridge_error, string) M" where
  "add_contact_from_identity_key C identity_key =
     (let rdx = generate_identity_fingerprint_from_key C identity_key in
      bindM (of_sum (derive_public_key_from_peer_identity C identity_key)) (\<lambda>npub.
      bindM (str_slice 4 12 rdx) (\<lambda>short.
      let auto_alias = ''Unknown-'' @ short in
      bindM (mapErr bridge_from_time now_secs) (\<lambda>now.
      bindM (in_store (on_conn (with_lock (mapErr bridge_from_sql
        (insert_or_replace_contact rdx (nostr_to_hex C npub) (Some auto_alias)
          (identity_key_serialize C identity_key) now))))) (\<lambda>_.
      ret rdx)))))"

definition add_contact_from_bundle ::
    "'x crates_scheme \<Rightarrow> bytes \<Rightarrow> string option \<Rightarrow> (sqlite_storage sys, bridge_error, string) M" where
  "add_contact_from_bundle C bundle_bytes alias =
     bindM (mapErr (\<lambda>e. InvalidInput [Lit ''Failed to deserialize bundle: '', ShowCrate e])
       (of_sum (bincode_deserialize C bundle_bytes))) (\<lambda>bundle.
     bindM (mapErr bridge_from_protocol (of_sum (identity_key_decode C (bundle_identity_key bundle)))) (\<lambda>identity_key.
     bindM (of_sum (derive_public_key_from_peer_identity C identity_key)) (\<lambda>npub.
     let rdx = generate_identity_fingerprint_from_key C identity_key in
     bindM (mapErr bridge_from_time now_secs) (\<lambda>now.
     bindM (in_store (on_conn (with_lock (mapErr bridge_from_sql
       (insert_or_replace_contact rdx (nostr_to_hex C npub) alias (bundle_identity_key bundle) now))))) (\<lambda>_.
     ret rdx)))))"

text \<open>The address of a contact; \<open>DeviceId::new(1).unwrap()\<close>.\<close>

definition contact_address :: "'x crates_scheme \<Rightarrow> string \<Rightarrow> ('s, 'e, address) M" where
  "contact_address C name = (case device_id_new C 1 of
     Inl _ \<Rightarrow> panic ''called `Result::unwrap()` on an `Err` value''
   | Inr device \<Rightarrow> ret (Address name device))"

definition has_session ::
    "'x crates_scheme \<Rightarrow> db session_store_ops \<Rightarrow> string \<Rightarrow> (sqlite_storage sys, bridge_error, bool) M" where
  "has_session C S rdx =
     bindM (contact_address C rdx) (\<lambda>address.
     bindM (mapErr bridge_from_protocol (in_store (on_conn (load_session S address)))) (\<lambda>session.
     ret (session \<noteq> None)))"

definition lookup_contact ::
    "'x crates_scheme \<Rightarrow> db session_store_ops \<Rightarrow> string \<Rightarrow> (sqlite_storage sys, bridge_error, contact_info) M" where
  "lookup_contact C S identifier =
     bindM (in_store (on_conn (with_lock (
       bindM (mapErr bridge_from_sql (prepare [Contacts])) (\<lambda>_.
       mapErr (\<lambda>e. Storage [Lit ''Contact not found: '', ShowSql e])
         (query_row [Contacts] (\<lambda>d.
           map contact_of_row (scanned C (filter (names_contact identifier) (contacts d)))))))))) (\<lambda>contact.
     bindM (has_session C S (info_rdx_fingerprint contact)) (\<lambda>active.
     ret (contact\<lparr>info_has_active_session := active\<rparr>)))"

definition assign_contact_alias ::
    "'x crates_scheme \<Rightarrow> db session_store_ops \<Rightarrow> string \<Rightarrow> string \<Rightarrow> (sqlite_storage sys, bridge_error, unit) M" where
  "assign_contact_alias C S identifier new_alias =
     bindM (lookup_contact C S identifier) (\<lambda>contact.
     bindM (mapErr bridge_from_time now_secs) (\<lambda>now.
     in_store (on_conn (with_lock (
       bindM (attempt (query_row [Contacts] (\<lambda>d.
         map rdx_fingerprint (scanned C (filter (\<lambda>r. user_alias r = Some new_alias) (contacts d)))))) (\<lambda>existing.
       bindM (case existing of
           Inr existing_rdx \<Rightarrow>
             if existing_rdx \<noteq> info_rdx_fingerprint contact
             then throw (InvalidInput [Lit ''Alias '', Lit [CHR 0x27], Lit new_alias, Lit [CHR 0x27], Lit '' is already assigned to contact '',
               Lit existing_rdx, Lit ''. Remove it first before reassigning.''])
             else ret ()
         | Inl e \<Rightarrow> if e = QueryReturnedNoRows then ret () else throw (bridge_from_sql e)) (\<lambda>_.
       bindM (mapErr bridge_from_sql (sql [Contacts] (\<lambda>d.
         case u64_to_sql now of
           Inl e \<Rightarrow> Inl e
         | Inr t \<Rightarrow>
             let sel = (\<lambda>r. rdx_fingerprint r = info_rdx_fingerprint contact) in
             Inr (length (filter sel (contacts d)),
               d\<lparr>contacts := map (\<lambda>r. if sel r then r\<lparr>user_alias := Some new_alias, last_updated := t\<rparr> else r)
                 (contacts d)\<rparr>)))) (\<lambda>updated.
       if updated = 0 then throw (InvalidInput [Lit ''Contact not found: '', Lit identifier])
       else ret ()))))))))"

text \<open>Rows that fail to load are dropped (\<open>filter_map(Result::ok)\<close>).\<close>

definition list_contacts ::
    "'x crates_scheme \<Rightarrow> db session_store_ops \<Rightarrow> (sqlite_storage sys, bridge_error, contact_info list) M" where
  "list_contacts C S =
     bindM (in_store (on_conn (with_lock (
       bindM (mapErr bridge_from_sql (prepare [Contacts])) (\<lambda>_.
       bindM (attempt (query_all [Contacts] (\<lambda>d.
         map contact_of_row (sort_key (\<lambda>r. - last_updated r) (scanned C (contacts d)))))) (\<lambda>rows.
       ret (case rows of Inl _ \<Rightarrow> [] | Inr cs \<Rightarrow> cs))))))) (\<lambda>contacts.
     mapM (\<lambda>contact.
       bindM (has_session C S (info_rdx_fingerprint contact)) (\<lambda>active.
       ret (contact\<lparr>info_has_active_session := active\<rparr>))) contacts)"

end
