(* ===== verification/Db_Encryption.thy ===== *)
theory Db_Encryption
  imports Crates Sqlite_Storage "HOL-Library.AList"
begin

text \<open>
  db_encryption.rs (Unix build) over a small file system, and \<open>SqliteStorage::new\<close>. Each file
  operation fails when the next entry of \<open>io_faults\<close> says so (permissions, disk, ..) and otherwise
  has its POSIX effect. What opening the database file with a key gives is SQLCipher's and
  therefore an argument (\<open>open_db\<close>). Paths are plain: without \<open>.\<close> components.
\<close>

section \<open>Files\<close>

record disk_file =
  file_data :: bytes
  file_mode :: nat

record host =
  files :: "(string \<times> disk_file) list"
  directories :: "string list"
  default_mode :: nat
  io_faults :: "nat option list"

definition not_found :: nat where "not_found = 2"
definition already_exists :: nat where "already_exists = 17"
definition unexpected_eof :: nat where "unexpected_eof = 0"

definition io :: "(host \<Rightarrow> nat + ('a \<times> host)) \<Rightarrow> (host, nat, 'a) M" where
  "io f = (\<lambda>h.
     let h1 = h\<lparr>io_faults := tl (io_faults h)\<rparr> in
     case (case io_faults h of Some e # _ \<Rightarrow> Some e | _ \<Rightarrow> None) of
       Some e \<Rightarrow> (Err e, h1)
     | None \<Rightarrow> (case f h1 of Inl e \<Rightarrow> (Err e, h1) | Inr (a, h2) \<Rightarrow> (Ok a, h2)))"

text \<open>\<open>Path::parent\<close>: \<open>None\<close> for the empty path and for the root.\<close>

definition path_parent :: "string \<Rightarrow> string option" where
  "path_parent p =
     (let q = rev (dropWhile (\<lambda>c. c = CHR ''/'') (rev p)) in
      if q = [] then None
      else let r = rev (dropWhile (\<lambda>c. c \<noteq> CHR ''/'') (rev q));
               s = rev (dropWhile (\<lambda>c. c = CHR ''/'') (rev r))
           in Some (if r \<noteq> [] \<and> s = [] then ''/'' else s))"

definition create_dir_all :: "string \<Rightarrow> (host, nat, unit) M" where
  "create_dir_all p = (if p = [] then ret () else io (\<lambda>h.
     if map_of (files h) p \<noteq> None then Inl already_exists
     else Inr ((), h\<lparr>directories := List.insert p (directories h)\<rparr>)))"

definition directory_exists :: "host \<Rightarrow> string \<Rightarrow> bool" where
  "directory_exists h p \<longleftrightarrow> p = [] \<or> p = ''/'' \<or> p \<in> set (directories h)"

text \<open>\<open>File::create\<close> truncates an existing file and keeps its mode.\<close>

definition file_create :: "string \<Rightarrow> (host, nat, unit) M" where
  "file_create p = io (\<lambda>h. case path_parent p of
     None \<Rightarrow> Inl not_found
   | Some parent \<Rightarrow>
       if \<not> directory_exists h parent then Inl not_found
       else let mode = (case map_of (files h) p of None \<Rightarrow> default_mode h | Some f \<Rightarrow> file_mode f) in
         Inr ((), h\<lparr>files := AList.update p \<lparr>file_data = [], file_mode = mode\<rparr> (files h)\<rparr>))"

definition set_permissions :: "string \<Rightarrow> nat \<Rightarrow> (host, nat, unit) M" where
  "set_permissions p mode = io (\<lambda>h. case map_of (files h) p of
     None \<Rightarrow> Inl not_found
   | Some f \<Rightarrow> Inr ((), h\<lparr>files := AList.update p (f\<lparr>file_mode := mode\<rparr>) (files h)\<rparr>))"

text \<open>\<open>write_all\<close> on a file that was just created.\<close>

definition write_all :: "string \<Rightarrow> bytes \<Rightarrow> (host, nat, unit) M" where
  "write_all p bs = io (\<lambda>h. case map_of (files h) p of
     None \<Rightarrow> Inl not_found
   | Some f \<Rightarrow> Inr ((), h\<lparr>files := AList.update p (f\<lparr>file_data := bs\<rparr>) (files h)\<rparr>))"

definition file_open :: "string \<Rightarrow> (host, nat, disk_file) M" where
  "file_open p = io (\<lambda>h. case map_of (files h) p of None \<Rightarrow> Inl not_found | Some f \<Rightarrow> Inr (f, h))"

definition read_exact :: "nat \<Rightarrow> disk_file \<Rightarrow> (host, nat, bytes) M" where
  "read_exact n f = io (\<lambda>h. if length (file_data f) < n then Inl unexpected_eof else Inr (take n (file_data f), h))"

section \<open>The database key\<close>

text \<open>\<open>rng.fill_bytes\<close>: the bytes of the entropy drawn.\<close>

definition fill_bytes :: "nat \<Rightarrow> nat \<Rightarrow> bytes" where
  "fill_bytes n x = map (\<lambda>i. word_of_int (int x div 256 ^ i)) [0..<n]"

definition generate_db_key :: "('s sys, dyn_error, bytes) M" where
  "generate_db_key = bindM draw (\<lambda>rng. ret (fill_bytes 32 rng))"

definition get_key_file_path :: "string \<Rightarrow> string" where
  "get_key_file_path db_path = db_path @ ''.key''"

definition store_db_key :: "string \<Rightarrow> bytes \<Rightarrow> (host, dyn_error, unit) M" where
  "store_db_key db_path key =
     (if db_path = '':memory:'' then ret ()
      else let key_path = get_key_file_path db_path in
      bindM (case path_parent key_path of
          None \<Rightarrow> ret ()
        | Some parent \<Rightarrow> mapErr (\<lambda>e. KeyStorage [Lit ''Failed to create key directory: '', ShowIo e])
            (create_dir_all parent)) (\<lambda>_.
      bindM (mapErr (\<lambda>e. KeyStorage [Lit ''Failed to create key file: '', ShowIo e]) (file_create key_path)) (\<lambda>_.
      bindM (mapErr (\<lambda>e. KeyStorage [Lit ''Failed to set key file permissions: '', ShowIo e])
        (set_permissions key_path 0x180)) (\<lambda>_.
      mapErr (\<lambda>e. KeyStorage [Lit ''Failed to write key: '', ShowIo e]) (write_all key_path key)))))"

definition retrieve_db_key :: "string \<Rightarrow> (host, dyn_error, bytes) M" where
  "retrieve_db_key db_path =
     (if db_path = '':memory:''
      then throw (KeyStorage [Lit ''In-memory databases do not have persistent keys''])
      else let key_path = get_key_file_path db_path in
      bindM (mapErr (\<lambda>e. KeyStorage [Lit ''Failed to open key file: '', ShowIo e]) (file_open key_path)) (\<lambda>f.
      mapErr (\<lambda>e. KeyStorage [Lit ''Failed to read key: '', ShowIo e]) (read_exact 32 f)))"

definition get_or_create_db_key :: "string \<Rightarrow> (host sys, dyn_error, bytes) M" where
  "get_or_create_db_key db_path =
     bindM (attempt (in_store (retrieve_db_key db_path))) (\<lambda>result.
     case result of
       Inr key \<Rightarrow> ret key
     | Inl _ \<Rightarrow>
         bindM generate_db_key (\<lambda>key.
         bindM (in_store (store_db_key db_path key)) (\<lambda>_.
         ret key)))"

text \<open>
  \<open>SqliteStorage::new\<close>: the key, \<open>Connection::open\<close> and the key pragma; \<open>open_db path key\<close> is the
  database the connection then serves.
\<close>

definition sqlite_storage_open ::
    "'x crates_scheme \<Rightarrow> (string \<Rightarrow> string \<Rightarrow> sql_error + db) \<Rightarrow> string \<Rightarrow> (host sys, dyn_error, sqlite_storage) M" where
  "sqlite_storage_open C open_db db_path =
     bindM (get_or_create_db_key db_path) (\<lambda>key.
     bindM (mapErr DynSql (of_sum (open_db db_path (hex_encode C key)))) (\<lambda>connection.
     ret (sqlite_storage_new connection)))"

section \<open>Key files\<close>

lemma io_faults_restore [simp]: "io_faults h = [] \<Longrightarrow> h\<lparr>io_faults := []\<rparr> = h"
  by simp

lemma run_io: "io_faults h = [] \<Longrightarrow> io f h = (case f h of Inl e \<Rightarrow> (Err e, h) | Inr (a, h2) \<Rightarrow> (Ok a, h2))"
  by (simp add: io_def Let_def split: sum.split)

lemma io_cases:
  obtains e where "io f h = (Err e, h\<lparr>io_faults := tl (io_faults h)\<rparr>)"
  | a h' where "io f h = (Ok a, h')" and "f (h\<lparr>io_faults := tl (io_faults h)\<rparr>) = Inr (a, h')"
proof -
  let ?h = "h\<lparr>io_faults := tl (io_faults h)\<rparr>"
  consider (fault) e fs where "io_faults h = Some e # fs"
    | (run) "(case io_faults h of Some e # _ \<Rightarrow> Some e | _ \<Rightarrow> None) = None"
    by (cases "io_faults h"; cases "hd (io_faults h)") auto
  then show thesis
  proof cases
    case fault
    then show thesis using that(1) by (simp add: io_def Let_def)
  next
    case run
    then have "io f h = (case f ?h of Inl e \<Rightarrow> (Err e, ?h) | Inr (a, h2) \<Rightarrow> (Ok a, h2))"
      unfolding io_def Let_def by (simp only: option.case)
    then show thesis using that by (cases "f ?h") auto
  qed
qed

lemma file_path_parent: "\<exists>d. path_parent (get_key_file_path p) = Some d"
  by (simp add: path_parent_def get_key_file_path_def Let_def)

text \<open>
  A key file with content can be read by its owner only, and the key file is private or as it was (\<open>x\<close>).
\<close>

definition key_confined :: "string \<Rightarrow> host \<Rightarrow> bool" where
  "key_confined p h \<longleftrightarrow> (\<forall>f. map_of (files h) (get_key_file_path p) = Some f \<longrightarrow>
     file_data f \<noteq> [] \<longrightarrow> file_mode f = 0x180)"

definition key_safe :: "string \<Rightarrow> disk_file option \<Rightarrow> host \<Rightarrow> bool" where
  "key_safe p x h \<longleftrightarrow> key_confined p h \<or> map_of (files h) (get_key_file_path p) = x"

lemma key_safe_faults [simp]: "key_safe p x (h\<lparr>io_faults := fs\<rparr>) = key_safe p x h"
  by (simp add: key_safe_def key_confined_def)

lemma preserves_io_safe:
  assumes "\<And>h a h'. key_safe p x h \<Longrightarrow> f h = Inr (a, h') \<Longrightarrow> key_safe p x h'"
  shows "preserves (key_safe p x) (io f)"
proof (rule preservesI)
  fix h assume "key_safe p x h"
  then show "key_safe p x (snd (io f h))"
    by (cases rule: io_cases [of f h]) (auto intro: assms [of "h\<lparr>io_faults := tl (io_faults h)\<rparr>"])
qed

lemma file_operations_safe:
  "preserves (key_safe p x) (create_dir_all q)"
  "preserves (key_safe p x) (file_create q)"
  "preserves (key_safe p x) (set_permissions q 0x180)"
  "preserves (key_safe p x) (file_open q)"
  "preserves (key_safe p x) (read_exact n f)"
proof -
  show "preserves (key_safe p x) (create_dir_all q)"
    unfolding create_dir_all_def
    by (auto intro!: preserves_intro preserves_io_safe simp: key_safe_def key_confined_def split: if_splits)
  show "preserves (key_safe p x) (file_create q)" "preserves (key_safe p x) (set_permissions q 0x180)"
    "preserves (key_safe p x) (file_open q)" "preserves (key_safe p x) (read_exact n f)"
    unfolding file_create_def set_permissions_def file_open_def read_exact_def
    by (rule preserves_io_safe; auto simp: key_safe_def key_confined_def update_conv' Let_def split: option.splits if_splits)+
qed

lemma preserves_bind_post:
  assumes "preserves I m" and "\<And>s a s'. I s \<Longrightarrow> m s = (Ok a, s') \<Longrightarrow> I (snd (f a s'))"
  shows "preserves I (bindM m f)"
proof (rule preservesI)
  fix s assume "I s"
  then show "I (snd (bindM m f s))"
    using assms(1) assms(2) [of s] by (cases "m s") (auto simp: bindM_at preserves_def split: outcome.split)
qed

text \<open>The mode is set before the key is written.\<close>

lemma write_after_permissions:
  assumes "set_permissions (get_key_file_path p) 0x180 h = (Ok (), h')"
  shows "key_safe p x (snd (write_all (get_key_file_path p) key h'))"
proof -
  from assms obtain f where "map_of (files h') (get_key_file_path p) = Some f" and "file_mode f = 0x180"
    by (auto simp: set_permissions_def io_def Let_def update_conv' split: list.splits option.splits)
  then show ?thesis
    by (cases rule: io_cases [of _ h'])
      (auto simp: write_all_def io_def Let_def key_safe_def key_confined_def update_conv' split: list.splits option.splits)
qed

lemma mapErr_OkI: "mapErr g m s = (Ok a, s') \<longleftrightarrow> m s = (Ok a, s')"
  by (auto simp: mapErr_def split: prod.splits outcome.splits)

lemma snd_mapErr: "snd (mapErr g m s) = snd (m s)"
  by (simp add: mapErr_at split: prod.split outcome.split)

lemma store_db_key_safe: "preserves (key_safe p x) (store_db_key p key)"
  unfolding store_db_key_def Let_def
  by (intro preserves_intro preserves_bind_post [OF preserves_mapErr [OF file_operations_safe(3)]]
      file_operations_safe) (simp add: mapErr_OkI snd_mapErr write_after_permissions)

lemma retrieve_db_key_safe: "preserves (key_safe p x) (retrieve_db_key p)"
  unfolding retrieve_db_key_def Let_def by (intro preserves_intro file_operations_safe)

text \<open>
  C35. Whichever file operations fail while a database key is looked up or created, the key file is
  afterwards what it was before, or it is missing or empty or has mode 0600. So the key is never
  written into a file that others can read, and a private key file stays private; a key file
  that already had another mode is read and keeps it.
\<close>

theorem db_key_stays_private:
  "key_confined p (store (snd (get_or_create_db_key p w))) \<or>
    map_of (files (store (snd (get_or_create_db_key p w)))) (get_key_file_path p) = map_of (files (store w)) (get_key_file_path p)"
proof -
  have "preserves (in_sys (key_safe p x)) (get_or_create_db_key p)" for x
    unfolding get_or_create_db_key_def generate_db_key_def
    by (intro preserves_intro store_db_key_safe retrieve_db_key_safe)
  from this [of "map_of (files (store w)) (get_key_file_path p)"] show ?thesis
    by (simp add: preserves_def in_sys_def key_safe_def)
qed

definition sample_host :: "nat option list \<Rightarrow> (string \<times> disk_file) list \<Rightarrow> host sys" where
  "sample_host fs ks = \<lparr>clock = (\<lambda>_. 0), ticks = 0, entropy = (\<lambda>n. n + 7), draws = 0, overflow_checks = True,
     store = \<lparr>files = ks, directories = [''data''], default_mode = 0x1A4, io_faults = fs\<rparr>\<rparr>"

text \<open>The key file of a database holds a key.\<close>

definition key_at :: "string \<Rightarrow> host \<Rightarrow> bytes option" where
  "key_at p h = (case map_of (files h) (get_key_file_path p) of None \<Rightarrow> None
     | Some f \<Rightarrow> if length (file_data f) < 32 then None else Some (take 32 (file_data f)))"

lemma run_retrieve:
  assumes "io_faults h = []" and "p \<noteq> '':memory:''"
  shows "(\<exists>e. retrieve_db_key p h = (Err e, h) \<and> key_at p h = None) \<or>
    (\<exists>k. retrieve_db_key p h = (Ok k, h) \<and> key_at p h = Some k)"
  using assms
  by (auto simp: retrieve_db_key_def key_at_def file_open_def read_exact_def run_defs run_io split: option.split)

lemma run_store_db_key:
  assumes "io_faults h = []" and "p \<noteq> '':memory:''"
    and "path_parent (get_key_file_path p) = Some d" and "map_of (files h) d = None"
  shows "\<exists>h'. store_db_key p k h = (Ok (), h') \<and> io_faults h' = [] \<and>
    map_of (files h') = (map_of (files h))(get_key_file_path p \<mapsto> \<lparr>file_data = k, file_mode = 0x180\<rparr>)"
  using assms
  by (auto simp: store_db_key_def create_dir_all_def file_create_def set_permissions_def write_all_def
      directory_exists_def run_defs run_io Let_def update_conv' fun_eq_iff)

text \<open>
  C36. The key of a database is made once: a key file that holds a key is read and never written, and
  where there is none, 32 fresh random bytes are written (mode 0600, no other file touched) and
  every later call returns those bytes.
\<close>

theorem db_key_created_once:
  assumes "io_faults (store w) = []" and "p \<noteq> '':memory:''"
    and "\<And>d. path_parent (get_key_file_path p) = Some d \<Longrightarrow> map_of (files (store w)) d = None"
  shows "(\<forall>k. key_at p (store w) = Some k \<longrightarrow> get_or_create_db_key p w = (Ok k, w)) \<and>
    (key_at p (store w) = None \<longrightarrow> (\<exists>k w'. get_or_create_db_key p w = (Ok k, w') \<and>
       k = fill_bytes 32 (entropy w (draws w)) \<and> key_at p (store w') = Some k \<and>
       map_of (files (store w')) = (map_of (files (store w)))(get_key_file_path p \<mapsto> \<lparr>file_data = k, file_mode = 0x180\<rparr>) \<and>
       get_or_create_db_key p w' = (Ok k, w')))"
proof -
  have read: "get_or_create_db_key p v = (Ok k, v)"
    if "io_faults (store v) = []" and "key_at p (store v) = Some k" for v :: "host sys" and k
    using run_retrieve [OF that(1) assms(2)] that(2)
    by (auto simp: get_or_create_db_key_def run_defs in_store_at)
  obtain d where d: "path_parent (get_key_file_path p) = Some d" using file_path_parent by blast
  let ?k = "fill_bytes 32 (entropy w (draws w))"
  obtain h where h: "store_db_key p ?k (store w) = (Ok (), h)" "io_faults h = []"
      "map_of (files h) = (map_of (files (store w)))(get_key_file_path p \<mapsto> \<lparr>file_data = ?k, file_mode = 0x180\<rparr>)"
    using run_store_db_key [OF assms(1,2) d assms(3) [OF d]] by blast
  let ?w = "w\<lparr>draws := Suc (draws w), store := h\<rparr>"
  have "length ?k = 32" by (simp add: fill_bytes_def)
  then have at: "key_at p h = Some ?k" using h(3) by (simp add: key_at_def)
  have "get_or_create_db_key p w = (Ok ?k, ?w)" if "key_at p (store w) = None"
    using run_retrieve [OF assms(1,2)] that h(1)
    by (auto simp: get_or_create_db_key_def generate_db_key_def run_defs run_draw in_store_at)
  with read [of ?w ?k] read [OF assms(1)] at h show ?thesis by fastforce
qed

theorem db_key_created_once_witness:
  "fst (get_or_create_db_key ''data/r.db'' (sample_host [] [])) = Ok (fill_bytes 32 7) \<and>
   path_parent (get_key_file_path ''data/r.db'') = Some ''data''"
proof -
  have p: "path_parent (get_key_file_path ''data/r.db'') = Some ''data''" by code_simp
  have "key_at ''data/r.db'' (store (sample_host [] [])) = None" by code_simp
  with db_key_created_once [of "sample_host [] []" "''data/r.db''"] p show ?thesis
    by (auto simp: sample_host_def)
qed

text \<open>
  Any failure to read the key file, also a passing one, makes the next start write a new key over
  it: a database encrypted with the old key can no longer be opened.
\<close>

lemma db_key_lost_on_read_failure:
  "(let k = replicate 32 1; w = sample_host [Some 4] [(''data/r.db.key'', \<lparr>file_data = k, file_mode = 0x180\<rparr>)] in
    key_at ''data/r.db'' (store w) = Some k \<and>
    key_at ''data/r.db'' (store (snd (get_or_create_db_key ''data/r.db'' w))) = Some (fill_bytes 32 7) \<and>
    fill_bytes 32 7 \<noteq> k)"
  by code_simp

end
