(* ===== verification/Keys.thy ===== *)
theory Keys
  imports Storage_Traits
begin

text \<open>
  keys.rs: generation of the identity key pair, of a batch of one-time pre-keys and of a signed
  pre-key, over the entropy and the clock of the run.
\<close>

definition generate_identity_key_pair ::
    "'x libsignal_scheme \<Rightarrow> ('s sys, dyn_error, identity_key_pair) M" where
  "generate_identity_key_pair L = bindM draw (\<lambda>rng. ret (identity_key_pair_generate L rng))"

text \<open>\<open>for i in 0..count\<close>: the number \<open>start_id + i\<close> is an unchecked-in-release \<open>u32\<close> addition.\<close>

definition generate_pre_keys ::
    "'x libsignal_scheme \<Rightarrow> u32 \<Rightarrow> u32 \<Rightarrow> ('s sys, dyn_error, (u32 \<times> key_pair) list) M" where
  "generate_pre_keys L start_id how_many =
     bindM (gets overflow_checks) (\<lambda>checks.
     mapM (\<lambda>i.
       bindM (add_u32 checks start_id i) (\<lambda>key_id.
       bindM draw (\<lambda>rng.
       ret (key_id, key_pair_generate L rng)))) (map of_nat [0 ..< unat how_many]))"

definition generate_signed_pre_key ::
    "'x libsignal_scheme \<Rightarrow> identity_key_pair \<Rightarrow> u32 \<Rightarrow> ('s sys, dyn_error, signed_pre_key_record) M" where
  "generate_signed_pre_key L identity_key_pair signed_pre_key_id =
     bindM (mapErr (\<lambda>_. DynTime) now_millis) (\<lambda>timestamp.
     bindM draw (\<lambda>rng.
     let key_pair = key_pair_generate L rng in
     bindM draw (\<lambda>rng'.
     bindM (mapErr DynProtocol (of_sum (calculate_signature L
       (identity_key_pair_private_key L identity_key_pair)
       (public_key_serialize L (key_pair_public_key L key_pair)) rng'))) (\<lambda>signature.
     ret (signed_pre_key_record_new L signed_pre_key_id timestamp key_pair signature)))))"

section \<open>The generated keys\<close>

text \<open>A run whose clock and entropy moved on by so many steps.\<close>

definition advance :: "nat \<Rightarrow> nat \<Rightarrow> 's sys \<Rightarrow> 's sys" where
  "advance t n w = w\<lparr>ticks := ticks w + t, draws := draws w + n\<rparr>"

lemma advance_sel [simp]:
  "store (advance t n w) = store w" "clock (advance t n w) = clock w"
  "entropy (advance t n w) = entropy w" "overflow_checks (advance t n w) = overflow_checks w"
  "ticks (advance t n w) = ticks w + t" "draws (advance t n w) = draws w + n"
  by (simp_all add: advance_def)

lemma advance_0 [simp]: "advance 0 0 w = w"
  by (simp add: advance_def)

lemma advance_advance [simp]: "advance t n (advance t' n' w) = advance (t' + t) (n' + n) w"
  by (simp add: advance_def add.assoc)

text \<open>The batch: consecutive numbers, one draw of entropy per key.\<close>

definition pre_key_batch :: "'x libsignal_scheme \<Rightarrow> 's sys \<Rightarrow> u32 \<Rightarrow> nat list \<Rightarrow> (u32 \<times> key_pair) list" where
  "pre_key_batch L w start ns =
     map (\<lambda>n. (start + of_nat n, key_pair_generate L (entropy w (draws w + n)))) ns"

lemma generate_loop:
  assumes "unat start + hi < 2 ^ 32 + 1" and "lo \<le> hi"
  shows "mapM (\<lambda>i. bindM (add_u32 c start i) (\<lambda>key_id. bindM draw (\<lambda>rng.
      ret (key_id, key_pair_generate L rng)))) (map of_nat [lo ..< hi]) (advance 0 lo w) =
    (Ok (pre_key_batch L w start [lo ..< hi]), advance 0 hi w)"
  using assms(2)
proof (induction "hi - lo" arbitrary: lo)
  case 0
  then show ?case by (simp add: run_simps pre_key_batch_def)
next
  case (Suc k)
  then have lo: "[lo ..< hi] = lo # [Suc lo ..< hi]" by (simp add: upt_conv_Cons)
  have "unat start + unat (of_nat lo :: u32) < 2 ^ 32"
    using assms(1) Suc.hyps(2) unat_of_nat_u32 [of lo] by simp
  then have add: "add_u32 c start (of_nat lo) (advance 0 lo w) = (Ok (start + of_nat lo), advance 0 lo w)"
    by (rule run_add_u32)
  have draw: "draw (advance 0 lo w) = (Ok (entropy w (draws w + lo)), advance 0 (Suc lo) w)"
    by (simp add: draw_def advance_def)
  show ?case
    using Suc.hyps(1) [of "Suc lo"] Suc.hyps(2) Suc.prems
    unfolding lo by (simp add: run_defs add draw pre_key_batch_def)
qed

lemma run_generate_pre_keys:
  assumes "unat start + unat n \<le> 2 ^ 32"
  shows "generate_pre_keys L start n w =
    (Ok (pre_key_batch L w start [0 ..< unat n]), advance 0 (unat n) w)"
  using generate_loop [of start "unat n" 0 "overflow_checks w" L w] assms
  by (simp add: generate_pre_keys_def run_defs)

lemma map_fst_pre_key_batch: "map fst (pre_key_batch L w start ns) = map (\<lambda>n. start + of_nat n) ns"
  by (simp add: pre_key_batch_def)

lemma distinct_pre_key_batch:
  assumes "unat start + n \<le> 2 ^ 32"
  shows "distinct (map fst (pre_key_batch L w start [0 ..< n]))"
proof -
  have "inj_on (\<lambda>n. start + of_nat n) {0 ..< n}"
    using assms by (intro inj_onI) (simp add: of_nat_u32_inj)
  then show ?thesis by (simp add: map_fst_pre_key_batch distinct_map)
qed

lemma run_generate_signed_pre_key:
  assumes "0 \<le> clock w (ticks w)" and "libsignal_records_ok L"
  shows "\<exists>kp g. generate_signed_pre_key L ikp i w =
    (Ok (signed_pre_key_record_new L i (word_of_int (clock w (ticks w))) kp g), advance 1 2 w)"
proof -
  let ?kp = "key_pair_generate L (entropy w (draws w))"
  obtain g where "calculate_signature L (identity_key_pair_private_key L ikp)
      (public_key_serialize L (key_pair_public_key L ?kp)) (entropy w (Suc (draws w))) = Inr g"
    using libsignal_records_okD(10) [OF assms(2)] by blast
  then have "generate_signed_pre_key L ikp i w =
      (Ok (signed_pre_key_record_new L i (word_of_int (clock w (ticks w))) ?kp g), advance 1 2 w)"
    using assms(1)
    by (simp add: generate_signed_pre_key_def run_defs run_now_millis draw_def Let_def advance_def)
  then show ?thesis by blast
qed

end
