(* ===== verification/Key_Rotation.thy ===== *)
theory Key_Rotation
  imports Keys
begin

text \<open>
  key_rotation.rs: rotation of the signed and the Kyber pre-key, expiry of superseded keys, and the
  pool of one-time pre-keys, over any storage container. The functions for the signed and for the
  Kyber keys differ in the store they use; what they share (\<open>needs_rotation\<close>, \<open>cleanup_expired\<close>) is
  defined once. Their properties are proved once, from the contract of the stores.
\<close>

section \<open>The operations\<close>

definition MIN_PRE_KEY_COUNT :: nat where
  "MIN_PRE_KEY_COUNT = 50"

definition REPLENISH_COUNT :: u32 where
  "REPLENISH_COUNT = 100"

definition ROTATION_INTERVAL_SECS :: u64 where
  "ROTATION_INTERVAL_SECS = 7 * 24 * 60 * 60"

definition GRACE_PERIOD_SECS :: u64 where
  "GRACE_PERIOD_SECS = 7 * 24 * 60 * 60"

definition unwrap_or :: "'a option \<Rightarrow> 'a \<Rightarrow> 'a" where
  "unwrap_or x d = (case x of None \<Rightarrow> d | Some a \<Rightarrow> a)"

definition rotate_signed_pre_key ::
    "'x libsignal_scheme \<Rightarrow> 's container \<Rightarrow> identity_key_pair \<Rightarrow> ('s sys, dyn_error, unit) M" where
  "rotate_signed_pre_key L C identity_key_pair =
     bindM (in_store (get_max_signed_pre_key_id (signed_pre_key_store C))) (\<lambda>max_id.
     let current_max_id = unwrap_or max_id 0 in
     bindM (gets overflow_checks) (\<lambda>checks.
     bindM (add_u32 checks current_max_id 1) (\<lambda>next_id.
     bindM (generate_signed_pre_key L identity_key_pair next_id) (\<lambda>new_signed_pre_key.
     bindM (mapErr DynProtocol (of_sum (signed_pre_key_record_id L new_signed_pre_key))) (\<lambda>i.
     mapErr DynProtocol (in_store (save_signed_pre_key (signed_pre_key_store C) i new_signed_pre_key)))))))"

definition needs_rotation ::
    "('s, dyn_error, u32 option) M \<Rightarrow> (u32 \<Rightarrow> ('s, protocol_error, 'r) M) \<Rightarrow> ('r \<Rightarrow> protocol_error + u64) \<Rightarrow>
     ('s sys, dyn_error, bool) M" where
  "needs_rotation get_max get_key timestamp =
     bindM (in_store get_max) (\<lambda>max_id.
     case max_id of
       None \<Rightarrow> ret True
     | Some i \<Rightarrow>
         bindM (mapErr DynProtocol (in_store (get_key i))) (\<lambda>current_key.
         bindM (mapErr DynProtocol (of_sum (timestamp current_key))) (\<lambda>key_timestamp.
         bindM (mapErr (\<lambda>_. DynTime) now_millis) (\<lambda>now.
         bindM (gets overflow_checks) (\<lambda>checks.
         bindM (sub_u64 checks now key_timestamp) (\<lambda>age.
         let key_age_secs = age div 1000 in
         ret (key_age_secs > ROTATION_INTERVAL_SECS)))))))"

definition signed_pre_key_needs_rotation ::
    "'x libsignal_scheme \<Rightarrow> 's container \<Rightarrow> ('s sys, dyn_error, bool) M" where
  "signed_pre_key_needs_rotation L C =
     needs_rotation (get_max_signed_pre_key_id (signed_pre_key_store C))
       (get_signed_pre_key (signed_pre_key_store C)) (signed_pre_key_record_timestamp L)"

definition cleanup_expired ::
    "(u64 \<Rightarrow> ('s, dyn_error, u32 list) M) \<Rightarrow> ('s, dyn_error, nat) M \<Rightarrow> (u32 \<Rightarrow> ('s, dyn_error, unit) M) \<Rightarrow>
     ('s sys, dyn_error, unit) M" where
  "cleanup_expired older_than count_keys delete =
     bindM (mapErr (\<lambda>_. DynTime) now_millis) (\<lambda>now.
     bindM (gets overflow_checks) (\<lambda>checks.
     bindM (sub_u64 checks now (GRACE_PERIOD_SECS * 1000)) (\<lambda>cutoff.
     bindM (in_store (older_than cutoff)) (\<lambda>expired_ids.
     bindM (in_store count_keys) (\<lambda>current_count.
     if current_count \<le> 1 then ret ()
     else forM (\<lambda>i. bindM (in_store count_keys) (\<lambda>n. whenM (1 < n) (in_store (delete i)))) expired_ids)))))"

definition cleanup_expired_signed_pre_keys :: "'s container \<Rightarrow> ('s sys, dyn_error, unit) M" where
  "cleanup_expired_signed_pre_keys C =
     cleanup_expired (get_signed_pre_keys_older_than (signed_pre_key_store C))
       (signed_pre_key_count (signed_pre_key_store C)) (delete_signed_pre_key (signed_pre_key_store C))"

definition replenish_pre_keys ::
    "'x libsignal_scheme \<Rightarrow> 's container \<Rightarrow> ('s sys, dyn_error, unit) M" where
  "replenish_pre_keys L C =
     bindM (in_store (get_max_pre_key_id (pre_key_store C))) (\<lambda>max_id.
     bindM (gets overflow_checks) (\<lambda>checks.
     bindM (case max_id of None \<Rightarrow> ret 1 | Some i \<Rightarrow> add_u32 checks i 1) (\<lambda>next_id.
     bindM (generate_pre_keys L next_id REPLENISH_COUNT) (\<lambda>new_pre_keys.
     forM (\<lambda>(key_id, key_pair).
       let record = pre_key_record_new L key_id key_pair in
       mapErr DynProtocol (in_store (save_pre_key (pre_key_store C) key_id record))) new_pre_keys))))"

definition consume_pre_key ::
    "'x libsignal_scheme \<Rightarrow> 's container \<Rightarrow> u32 \<Rightarrow> ('s sys, dyn_error, unit) M" where
  "consume_pre_key L C pre_key_id =
     bindM (in_store (delete_pre_key (pre_key_store C) pre_key_id)) (\<lambda>_.
     bindM (in_store (pre_key_count (pre_key_store C))) (\<lambda>current_count.
     whenM (current_count < MIN_PRE_KEY_COUNT) (replenish_pre_keys L C)))"

definition rotate_kyber_pre_key ::
    "'x libsignal_scheme \<Rightarrow> 's container \<Rightarrow> identity_key_pair \<Rightarrow> ('s sys, dyn_error, unit) M" where
  "rotate_kyber_pre_key L C identity_key_pair =
     bindM (in_store (get_max_kyber_pre_key_id (kyber_pre_key_store C))) (\<lambda>max_id.
     let current_max_id = unwrap_or max_id 0 in
     bindM draw (\<lambda>rng.
     let kyber_keypair = kem_key_pair_generate L rng in
     bindM draw (\<lambda>rng'.
     bindM (mapErr DynProtocol (of_sum (calculate_signature L
       (identity_key_pair_private_key L identity_key_pair)
       (kem_public_key_serialize L (kem_key_pair_public_key L kyber_keypair)) rng'))) (\<lambda>kyber_signature.
     bindM system_time_now (\<lambda>now.
     bindM (gets overflow_checks) (\<lambda>checks.
     bindM (add_u32 checks current_max_id 1) (\<lambda>next_id.
     bindM (mapErr (\<lambda>_. DynTime) (duration_since_epoch now)) (\<lambda>d.
     let kyber_record = kyber_pre_key_record_new L next_id (as_millis_u64 d) kyber_keypair kyber_signature in
     bindM (add_u32 checks current_max_id 1) (\<lambda>next_id.
     mapErr DynProtocol (in_store (save_kyber_pre_key (kyber_pre_key_store C) next_id kyber_record)))))))))))"

definition kyber_pre_key_needs_rotation ::
    "'x libsignal_scheme \<Rightarrow> 's container \<Rightarrow> ('s sys, dyn_error, bool) M" where
  "kyber_pre_key_needs_rotation L C =
     needs_rotation (get_max_kyber_pre_key_id (kyber_pre_key_store C))
       (get_kyber_pre_key (kyber_pre_key_store C)) (kyber_pre_key_record_timestamp L)"

definition cleanup_expired_kyber_pre_keys :: "'s container \<Rightarrow> ('s sys, dyn_error, unit) M" where
  "cleanup_expired_kyber_pre_keys C =
     cleanup_expired (get_kyber_pre_keys_older_than (kyber_pre_key_store C))
       (kyber_pre_key_count (kyber_pre_key_store C)) (delete_kyber_pre_key (kyber_pre_key_store C))"

section \<open>Expiry and age of keys\<close>

context numbered_key_store
begin

text \<open>
  Deleting in ascending order with the guard spares the greatest number, provided that all keys
  are listed when the greatest one is.
\<close>

lemma delete_guarded_keeps_max:
  assumes "ready s" and "m \<in> dom (keys s)" and "\<forall>j \<in> dom (keys s). j \<le> m" and "sorted ids"
    and "m \<in> set ids \<longrightarrow> dom (keys s) \<subseteq> set ids"
    and "forM (\<lambda>i. bindM count_op (\<lambda>n. whenM (1 < n) (delete_op i))) ids s = (r, s')"
  shows "keys s' m = keys s m"
  using assms
proof (induction ids arbitrary: s)
  case Nil
  then show ?case by (simp add: ret_def)
next
  case (Cons i ids)
  let ?loop = "forM (\<lambda>i. bindM count_op (\<lambda>n. whenM (1 < n) (delete_op i)))"
  show ?case
  proof (cases "1 < card (dom (keys s))")
    case False
    then have "dom (keys s) = {m}"
      using Cons.prems(2) by (metis card_1_singletonE card_eq_0_iff empty_iff finite less_one
          linorder_neqE_nat singletonD)
    moreover have "bindM count_op (\<lambda>n. whenM (1 < n) (delete_op i)) s = (Ok (), s)"
      using False count_law [OF Cons.prems(1)] by (simp add: bindM_at whenM_at)
    then have "?loop ids s = (r, s')"
      using Cons.prems(6) unfolding forM.simps bindM_at [of _ "\<lambda>_. ?loop ids"] by simp
    ultimately show ?thesis using Cons.IH [of s] Cons.prems by simp
  next
    case True
    from delete_law [OF Cons.prems(1)] obtain s1 where s1: "delete_op i s = (Ok (), s1)" "ready s1"
      "keys s1 = (keys s)(i := None)" by blast
    have "bindM count_op (\<lambda>n. whenM (1 < n) (delete_op i)) s = (Ok (), s1)"
      using True count_law [OF Cons.prems(1)] s1(1) by (simp add: bindM_at whenM_at)
    then have loop: "?loop ids s1 = (r, s')"
      using Cons.prems(6) unfolding forM.simps bindM_at [of _ "\<lambda>_. ?loop ids"] by simp
    have "i \<noteq> m"
    proof
      assume "i = m"
      have "j = m" if "j \<in> dom (keys s)" for j
      proof -
        have "j \<in> set (i # ids)" using Cons.prems(5) \<open>i = m\<close> that by force
        then have "m \<le> j" using Cons.prems(4) \<open>i = m\<close> by auto
        with Cons.prems(3) that show ?thesis by (meson antisym)
      qed
      then have "dom (keys s) \<subseteq> {m}" by blast
      then show False using True card_mono [of "{m}" "dom (keys s)"] by simp
    qed
    moreover have dom: "dom (keys s1) = dom (keys s) - {i}" using s1(3) by simp
    ultimately have "keys s' m = keys s1 m"
      using Cons.prems(2-5) by (intro Cons.IH [OF s1(2) _ _ _ _ loop]) (simp_all add: dom; blast)+
    then show ?thesis using s1(3) \<open>i \<noteq> m\<close> by simp
  qed
qed

end

context aged_key_store
begin

lemma cleanup_loop:
  "forM (\<lambda>i. bindM (in_store count_op) (\<lambda>n. whenM (1 < n) (in_store (delete_op i)))) ids =
   in_store (forM (\<lambda>i. bindM count_op (\<lambda>n. whenM (1 < n) (delete_op i))) ids)"
  by (simp add: in_store_bindM in_store_whenM flip: forM_in_store)

text \<open>
  Expiry succeeds, removes only keys that the grace period has passed, never the last key, and
  removes every key that is at least a second past it unless a single key is left.
\<close>

lemma cleanup_expired_run:
  assumes ready: "ready (store w)" and clock: "0 \<le> clock w (ticks w)"
    and now: "now = word_of_int (clock w (ticks w))" and grace: "604800000 \<le> (now :: u64)"
  shows "\<exists>s'. cleanup_expired older_op count_op delete_op w = (Ok (), (advance 1 0 w)\<lparr>store := s'\<rparr>) \<and>
    ready s' \<and> rest s' = rest (store w) \<and> keys s' \<subseteq>\<^sub>m keys (store w) \<and>
    (dom (keys (store w)) \<noteq> {} \<longrightarrow> dom (keys s') \<noteq> {}) \<and>
    (\<forall>i r. keys (store w) i = Some r \<and> keys s' i = None \<longrightarrow> (\<exists>t. ts r = Inr t \<and> t < now - 604800000)) \<and>
    (card (dom (keys s')) \<le> 1 \<or>
     (\<forall>i r t. keys s' i = Some r \<and> ts r = Inr t \<longrightarrow> \<not> unat t + 1000 \<le> unat (now - 604800000)))"
proof -
  let ?s = "store w" and ?cut = "now - 604800000"
  from older_law [OF ready] obtain ids where ids: "older_op ?cut ?s = (Ok ids, ?s)"
    "\<And>i. i \<in> set ids \<Longrightarrow> \<exists>r t. keys ?s i = Some r \<and> ts r = Inr t \<and> t < ?cut"
    "\<And>i r t. keys ?s i = Some r \<Longrightarrow> ts r = Inr t \<Longrightarrow> unat t + 1000 \<le> unat ?cut \<Longrightarrow> i \<in> set ids"
    by blast
  have start: "cleanup_expired older_op count_op delete_op w =
      (if card (dom (keys ?s)) \<le> 1 then (Ok (), advance 1 0 w)
       else in_store (forM (\<lambda>i. bindM count_op (\<lambda>n. whenM (1 < n) (delete_op i))) ids) (advance 1 0 w))"
    using clock grace ids(1) count_law [OF ready]
    by (simp add: cleanup_expired_def cleanup_loop run_defs run_now_millis
        GRACE_PERIOD_SECS_def run_sub_u64 in_store_at advance_def Suc_eq_plus1 del: One_nat_def flip: now)
  show ?thesis
  proof (cases "card (dom (keys ?s)) \<le> 1")
    case True
    with start ready show ?thesis by (intro exI [of _ ?s]) (auto simp: advance_def)
  next
    case False
    then have ne: "dom (keys ?s) \<noteq> {}" by auto
    from delete_guarded [OF ready ne, of ids] obtain s' where
      s': "forM (\<lambda>i. bindM count_op (\<lambda>n. whenM (1 < n) (delete_op i))) ids ?s = (Ok (), s')" "ready s'"
      "rest s' = rest ?s" "dom (keys s') \<noteq> {}" "keys s' \<subseteq>\<^sub>m keys ?s" "dom (keys ?s) - dom (keys s') \<subseteq> set ids"
      "card (dom (keys s')) = 1 \<or> dom (keys s') = dom (keys ?s) - set ids" by blast
    have removed: "\<exists>t. ts r = Inr t \<and> t < ?cut" if "keys ?s i = Some r" "keys s' i = None" for i r
      using that s'(6) ids(2) [of i] by fastforce
    have left: "\<not> unat t + 1000 \<le> unat ?cut"
      if "dom (keys s') = dom (keys ?s) - set ids" "keys s' i = Some r" "ts r = Inr t" for i r t
    proof -
      have "keys ?s i = Some r" using s'(5) that(2) by (metis domI map_le_def)
      moreover have "i \<notin> set ids" using that(1,2) by auto
      ultimately show ?thesis using ids(3) that(3) by blast
    qed
    show ?thesis
      using False start s' removed left
      by (intro exI [of _ s']) (auto simp: in_store_at simp del: One_nat_def)
  qed
qed

text \<open>The age test looks at the key with the greatest number.\<close>

lemma needs_rotation_empty:
  "ready (store w) \<Longrightarrow> dom (keys (store w)) = {} \<Longrightarrow> needs_rotation max_op get_op ts w = (Ok True, w)"
  using max_law [of "store w"]
  by (simp add: greatest_def needs_rotation_def run_defs in_store_at)

lemma needs_rotation_run:
  assumes "ready (store w)" and "keys (store w) (Max (dom (keys (store w)))) = Some r" and "ts r = Inr t"
    and "0 \<le> clock w (ticks w)" and "now = word_of_int (clock w (ticks w))"
  shows "needs_rotation max_op get_op ts w =
    (if overflow_checks w \<and> now < t then (Panic ''attempt to subtract with overflow'', advance 1 0 w)
     else (Ok ((now - t) div 1000 > 604800), advance 1 0 w))"
proof -
  have "dom (keys (store w)) \<noteq> {}" using assms(2) by auto
  then show ?thesis
    using assms max_law [OF assms(1)] get_law [OF assms(1,2)]
    by (simp add: greatest_def needs_rotation_def run_defs in_store_at run_now_millis
        sub_u64_def ROTATION_INTERVAL_SECS_def advance_def Let_def)
qed

end

text \<open>The number after the greatest one in use, and when there is one.\<close>

definition next_number :: "(u32 \<Rightarrow> 'r option) \<Rightarrow> u32" where
  "next_number m = (if dom m = {} then 1 else Max (dom m) + 1)"

definition numbers_left :: "nat \<Rightarrow> (u32 \<Rightarrow> 'r option) \<Rightarrow> bool" where
  "numbers_left n m \<longleftrightarrow> (\<forall>i \<in> dom m. unat i + n < 2 ^ 32)"

lemma numbers_left_mono: "numbers_left n m \<Longrightarrow> k \<le> n \<Longrightarrow> numbers_left k m"
  unfolding numbers_left_def by (meson add_left_mono le_less_trans)

lemma numbers_left_max: "numbers_left n m \<Longrightarrow> dom m \<noteq> {} \<Longrightarrow> unat (Max (dom m)) + n < 2 ^ 32"
  using Max_in [of "dom m"] by (simp add: numbers_left_def)

lemma run_next_number:
  "numbers_left 1 m \<Longrightarrow>
   add_u32 c (unwrap_or (greatest m) 0) 1 w = (Ok (next_number m), w)"
  using numbers_left_max [of 1 m] by (simp add: greatest_def unwrap_or_def next_number_def run_add_u32)

lemma unat_next_number:
  assumes "numbers_left 1 m"
  shows "unat (next_number m) = (if dom m = {} then 1 else unat (Max (dom m)) + 1)"
  using numbers_left_max [OF assms] by (simp add: next_number_def unat_add_u32)

lemma next_number_greater:
  assumes "numbers_left 1 m" and "i \<in> dom m"
  shows "i < next_number m"
proof -
  have "i \<le> Max (dom m)" using assms(2) by simp
  then show ?thesis
    using unat_next_number [OF assms(1)] assms(2) by (auto simp: word_le_nat_alt word_less_nat_alt)
qed

lemma next_number_fresh: "numbers_left 1 m \<Longrightarrow> m (next_number m) = None"
  using next_number_greater [of m "next_number m"] by blast

lemma Max_dom_next:
  assumes "numbers_left 1 m"
  shows "Max (dom (m(next_number m \<mapsto> r))) = next_number m"
  using next_number_greater [OF assms] by (intro Max_eqI) (auto intro: less_imp_le)

text \<open>The records that one replenishment makes, numbered from \<open>start\<close>.\<close>

definition new_pre_keys :: "'x libsignal_scheme \<Rightarrow> 's sys \<Rightarrow> u32 \<Rightarrow> (u32 \<times> pre_key_record) list" where
  "new_pre_keys L w start =
     map (\<lambda>(i, kp). (i, pre_key_record_new L i kp)) (pre_key_batch L w start [0 ..< 100])"

lemma map_fst_new_pre_keys: "map fst (new_pre_keys L w start) = map (\<lambda>n. start + of_nat n) [0 ..< 100]"
  by (simp add: new_pre_keys_def pre_key_batch_def)

lemma new_pre_keys_store [simp]: "new_pre_keys L (w\<lparr>store := s\<rparr>) start = new_pre_keys L w start"
  by (simp add: new_pre_keys_def pre_key_batch_def)

section \<open>A storage with the three key stores\<close>

text \<open>
  What the rotation needs of a container: its three key stores keep the contract on one state,
  a call on one of them leaves the other two (and everything else, \<open>others\<close>) alone, and the
  records the rotation builds can be stored.
\<close>

locale key_storage =
  pk: numbered_key_store "pre_key_count (pre_key_store C)" "get_max_pre_key_id (pre_key_store C)"
    "get_pre_key (pre_key_store C)" "save_pre_key (pre_key_store C)" "delete_pre_key (pre_key_store C)"
    pk_keys pk_rest ready pk_storable +
  spk: aged_key_store "signed_pre_key_count (signed_pre_key_store C)"
    "get_max_signed_pre_key_id (signed_pre_key_store C)" "get_signed_pre_key (signed_pre_key_store C)"
    "save_signed_pre_key (signed_pre_key_store C)" "delete_signed_pre_key (signed_pre_key_store C)"
    spk_keys spk_rest ready spk_storable "get_signed_pre_keys_older_than (signed_pre_key_store C)"
    "signed_pre_key_record_timestamp L" +
  kpk: aged_key_store "kyber_pre_key_count (kyber_pre_key_store C)"
    "get_max_kyber_pre_key_id (kyber_pre_key_store C)" "get_kyber_pre_key (kyber_pre_key_store C)"
    "save_kyber_pre_key (kyber_pre_key_store C)" "delete_kyber_pre_key (kyber_pre_key_store C)"
    kpk_keys kpk_rest ready kpk_storable "get_kyber_pre_keys_older_than (kyber_pre_key_store C)"
    "kyber_pre_key_record_timestamp L"
  for L :: "'x libsignal_scheme" and C :: "'s container" and ready :: "'s \<Rightarrow> bool"
    and pk_keys pk_rest pk_storable spk_keys spk_rest spk_storable kpk_keys kpk_rest kpk_storable +
  fixes others :: "'s \<Rightarrow> 'o"
  assumes pk_frame: "pk_rest s' = pk_rest s \<Longrightarrow>
      spk_keys s' = spk_keys s \<and> kpk_keys s' = kpk_keys s \<and> others s' = others s"
    and spk_frame: "spk_rest s' = spk_rest s \<Longrightarrow>
      pk_keys s' = pk_keys s \<and> kpk_keys s' = kpk_keys s \<and> others s' = others s"
    and kpk_frame: "kpk_rest s' = kpk_rest s \<Longrightarrow>
      pk_keys s' = pk_keys s \<and> spk_keys s' = spk_keys s \<and> others s' = others s"
    and pk_new: "libsignal_records_ok L \<Longrightarrow> pk_storable i (pre_key_record_new L i kp)"
    and spk_new: "libsignal_records_ok L \<Longrightarrow> spk_storable i (signed_pre_key_record_new L i t kp g)"
    and kpk_new: "libsignal_records_ok L \<Longrightarrow> kpk_storable i (kyber_pre_key_record_new L i t kkp g)"
begin

lemma rotate_signed_run:
  assumes ready: "ready (store w)" and L: "libsignal_records_ok L" and clock: "0 \<le> clock w (ticks w)"
    and left: "numbers_left 1 (spk_keys (store w))"
  shows "\<exists>kp g s'. rotate_signed_pre_key L C ikp w = (Ok (), (advance 1 2 w)\<lparr>store := s'\<rparr>) \<and> ready s' \<and>
    spk_keys s' = (spk_keys (store w))(next_number (spk_keys (store w)) \<mapsto>
      signed_pre_key_record_new L (next_number (spk_keys (store w))) (word_of_int (clock w (ticks w))) kp g) \<and>
    pk_keys s' = pk_keys (store w) \<and> kpk_keys s' = kpk_keys (store w) \<and> others s' = others (store w)"
proof -
  let ?n = "next_number (spk_keys (store w))"
  obtain kp g where gen: "generate_signed_pre_key L ikp ?n w =
      (Ok (signed_pre_key_record_new L ?n (word_of_int (clock w (ticks w))) kp g), advance 1 2 w)"
    using run_generate_signed_pre_key [OF clock L] by blast
  from spk.save_law [OF ready spk_new [OF L, of ?n "word_of_int (clock w (ticks w))" kp g]] obtain s' where
    s': "save_signed_pre_key (signed_pre_key_store C) ?n
      (signed_pre_key_record_new L ?n (word_of_int (clock w (ticks w))) kp g) (store w) = (Ok (), s')"
    "ready s'" "spk_keys s' = (spk_keys (store w))(?n \<mapsto>
      signed_pre_key_record_new L ?n (word_of_int (clock w (ticks w))) kp g)"
    "spk_rest s' = spk_rest (store w)" by blast
  have "rotate_signed_pre_key L C ikp w = (Ok (), (advance 1 2 w)\<lparr>store := s'\<rparr>)"
    using spk.max_law [OF ready] s'(1)
    by (simp add: rotate_signed_pre_key_def run_defs in_store_at Let_def run_next_number [OF left] gen
        libsignal_records_okD [OF L])
  with s'(2,3) spk_frame [OF s'(4)] show ?thesis by blast
qed

lemma rotate_kyber_run:
  assumes ready: "ready (store w)" and L: "libsignal_records_ok L" and clock: "0 \<le> clock w (ticks w)"
    and left: "numbers_left 1 (kpk_keys (store w))"
  shows "\<exists>kp g s'. rotate_kyber_pre_key L C ikp w = (Ok (), (advance 1 2 w)\<lparr>store := s'\<rparr>) \<and> ready s' \<and>
    kpk_keys s' = (kpk_keys (store w))(next_number (kpk_keys (store w)) \<mapsto>
      kyber_pre_key_record_new L (next_number (kpk_keys (store w))) (word_of_int (clock w (ticks w))) kp g) \<and>
    pk_keys s' = pk_keys (store w) \<and> spk_keys s' = spk_keys (store w) \<and> others s' = others (store w)"
proof -
  let ?n = "next_number (kpk_keys (store w))" and ?kp = "kem_key_pair_generate L (entropy w (draws w))"
  obtain g where sig: "calculate_signature L (identity_key_pair_private_key L ikp)
      (kem_public_key_serialize L (kem_key_pair_public_key L ?kp)) (entropy w (Suc (draws w))) = Inr g"
    using libsignal_records_okD(10) [OF L] by blast
  from kpk.save_law [OF ready kpk_new [OF L, of ?n "word_of_int (clock w (ticks w))" ?kp g]] obtain s' where
    s': "save_kyber_pre_key (kyber_pre_key_store C) ?n
      (kyber_pre_key_record_new L ?n (word_of_int (clock w (ticks w))) ?kp g) (store w) = (Ok (), s')"
    "ready s'" "kpk_keys s' = (kpk_keys (store w))(?n \<mapsto>
      kyber_pre_key_record_new L ?n (word_of_int (clock w (ticks w))) ?kp g)"
    "kpk_rest s' = kpk_rest (store w)" by blast
  have "rotate_kyber_pre_key L C ikp w = (Ok (), (advance 1 2 w)\<lparr>store := s'\<rparr>)"
    using kpk.max_law [OF ready] s'(1) clock sig
    by (simp add: rotate_kyber_pre_key_def run_defs in_store_at Let_def run_next_number [OF left] run_draw
        run_system_time_now duration_since_epoch_def as_millis_u64_def advance_def)
  with s'(2,3) kpk_frame [OF s'(4)] show ?thesis by blast
qed

text \<open>Replenishment adds exactly 100 keys under new numbers.\<close>

lemma replenish_loop:
  "forM (\<lambda>(key_id, key_pair). let record = pre_key_record_new L key_id key_pair in
       mapErr DynProtocol (in_store (save_pre_key (pre_key_store C) key_id record)))
     (pre_key_batch L w start [0 ..< 100]) =
   mapErr DynProtocol (in_store (forM (\<lambda>(i, r). save_pre_key (pre_key_store C) i r) (new_pre_keys L w start)))"
  by (simp add: new_pre_keys_def forM_map case_prod_beta' flip: forM_in_store forM_mapErr)

lemma replenish_run:
  assumes ready: "ready (store w)" and L: "libsignal_records_ok L"
    and left: "numbers_left 100 (pk_keys (store w))"
  shows "\<exists>s'. replenish_pre_keys L C w = (Ok (), (advance 0 100 w)\<lparr>store := s'\<rparr>) \<and> ready s' \<and>
    pk_keys s' = pk_keys (store w) ++ map_of (new_pre_keys L w (next_number (pk_keys (store w)))) \<and>
    spk_keys s' = spk_keys (store w) \<and> kpk_keys s' = kpk_keys (store w) \<and> others s' = others (store w)"
proof -
  let ?m = "pk_keys (store w)" let ?n = "next_number ?m"
  have left1: "numbers_left 1 ?m" using left by (rule numbers_left_mono) simp
  have room: "unat ?n + 100 \<le> 2 ^ 32"
    using unat_next_number [OF left1] numbers_left_max [OF left] by (cases "dom ?m = {}") simp_all
  have number: "(case greatest ?m of None \<Rightarrow> ret 1
      | Some i \<Rightarrow> add_u32 c i 1) w = (Ok ?n, w)" for c
    using run_next_number [OF left1, of c w] by (auto simp: greatest_def unwrap_or_def next_number_def ret_def)
  have gen: "generate_pre_keys L ?n REPLENISH_COUNT w =
      (Ok (pre_key_batch L w ?n [0 ..< 100]), advance 0 100 w)"
    using run_generate_pre_keys [of ?n REPLENISH_COUNT L w] room by (simp add: REPLENISH_COUNT_def)
  have "\<forall>(i, r) \<in> set (new_pre_keys L w ?n). pk_storable i r"
    by (auto simp: new_pre_keys_def pre_key_batch_def pk_new [OF L])
  moreover have "distinct (map fst (new_pre_keys L w ?n))"
    using distinct_pre_key_batch [OF room, of L w] by (simp add: map_fst_new_pre_keys map_fst_pre_key_batch)
  ultimately obtain s' where s': "forM (\<lambda>(i, r). save_pre_key (pre_key_store C) i r) (new_pre_keys L w ?n) (store w)
      = (Ok (), s')" "ready s'" "pk_keys s' = ?m ++ map_of (new_pre_keys L w ?n)" "pk_rest s' = pk_rest (store w)"
    using pk.save_all [OF ready] by blast
  have "replenish_pre_keys L C w = (Ok (), (advance 0 100 w)\<lparr>store := s'\<rparr>)"
    using pk.max_law [OF ready] s'(1)
    by (simp add: replenish_pre_keys_def run_defs in_store_at number gen
        replenish_loop [unfolded Let_def])
  with s'(2,3) pk_frame [OF s'(4)] show ?thesis by blast
qed

text \<open>The new numbers are unused, so the pool grows by 100 and no old key changes.\<close>

lemma new_pre_keys_fresh:
  assumes "numbers_left 100 m"
  shows "dom m \<inter> dom (map_of (new_pre_keys L w (next_number m))) = {}"
    "card (dom (map_of (new_pre_keys L w (next_number m)))) = 100"
proof -
  have left1: "numbers_left 1 m" using assms by (rule numbers_left_mono) simp
  have room: "unat (next_number m) + 100 \<le> 2 ^ 32"
    using unat_next_number [OF left1] numbers_left_max [OF assms] by (cases "dom m = {}") simp_all
  have dom: "dom (map_of (new_pre_keys L w (next_number m))) = set (map (\<lambda>n. next_number m + of_nat n) [0 ..< 100])"
    unfolding dom_map_of_conv_image_fst by (simp add: map_fst_new_pre_keys flip: set_map)
  have "unat (next_number m + of_nat n) = unat (next_number m) + n" if "n < 100" for n
    using unat_add_u32 [of "next_number m" "of_nat n"] unat_of_nat_u32 [of n] room that by simp
  then have "next_number m \<le> next_number m + of_nat n" if "n < 100" for n
    using that by (simp add: word_le_nat_alt)
  then have "next_number m + of_nat n \<notin> dom m" if "n < 100" for n
    using next_number_greater [OF left1] leD that by blast
  then show "dom m \<inter> dom (map_of (new_pre_keys L w (next_number m))) = {}"
    unfolding dom by (auto simp: domIff)
  have "distinct (map (\<lambda>n. next_number m + of_nat n) [0 ..< 100])"
    using distinct_pre_key_batch [OF room, of L w] by (simp add: map_fst_pre_key_batch)
  then show "card (dom (map_of (new_pre_keys L w (next_number m)))) = 100"
    unfolding dom by (subst distinct_card) simp_all
qed

lemma pool_grows:
  assumes "numbers_left 100 m"
  shows "m \<subseteq>\<^sub>m m ++ map_of (new_pre_keys L w (next_number m))"
    "card (dom (m ++ map_of (new_pre_keys L w (next_number m)))) = card (dom m) + 100"
proof -
  let ?new = "map_of (new_pre_keys L w (next_number m))"
  note fresh = new_pre_keys_fresh [OF assms, of w]
  show "m \<subseteq>\<^sub>m m ++ ?new" using map_add_comm [OF fresh(1)] map_le_map_add [of m ?new] by simp
  show "card (dom (m ++ ?new)) = card (dom m) + 100"
    using fresh card_Un_disjoint [of "dom ?new" "dom m"] by (simp add: dom_map_add Int_commute)
qed

lemma replenish_pool:
  assumes "ready (store w)" and "libsignal_records_ok L" and "numbers_left 100 (pk_keys (store w))"
  shows "\<exists>s'. replenish_pre_keys L C w = (Ok (), (advance 0 100 w)\<lparr>store := s'\<rparr>) \<and> ready s' \<and>
    pk_keys (store w) \<subseteq>\<^sub>m pk_keys s' \<and> card (dom (pk_keys s')) = card (dom (pk_keys (store w))) + 100 \<and>
    spk_keys s' = spk_keys (store w) \<and> kpk_keys s' = kpk_keys (store w) \<and> others s' = others (store w)"
  using replenish_run [OF assms] pool_grows [OF assms(3), of w] by (metis (no_types, lifting))

text \<open>
  Consuming a pre-key leaves exactly the other keys and, when these are fewer than
  \<open>MIN_PRE_KEY_COUNT\<close>, 100 new ones.
\<close>

lemma consume_run:
  assumes ready: "ready (store w)" and L: "libsignal_records_ok L"
    and left: "numbers_left 100 (pk_keys (store w))" and others_def: "m = (pk_keys (store w))(i := None)"
  shows "\<exists>n s'. consume_pre_key L C i w = (Ok (), (advance 0 n w)\<lparr>store := s'\<rparr>) \<and> ready s' \<and>
    pk_keys s' = (if card (dom m) < 50 then m ++ map_of (new_pre_keys L w (next_number m)) else m) \<and>
    m \<subseteq>\<^sub>m pk_keys s' \<and> 50 \<le> card (dom (pk_keys s')) \<and>
    spk_keys s' = spk_keys (store w) \<and> kpk_keys s' = kpk_keys (store w) \<and> others s' = others (store w)"
proof -
  from pk.delete_law [OF ready] obtain s1 where s1: "delete_pre_key (pre_key_store C) i (store w) = (Ok (), s1)"
    "ready s1" "pk_keys s1 = m" "pk_rest s1 = pk_rest (store w)" unfolding others_def by blast
  have step: "consume_pre_key L C i w = whenM (card (dom m) < 50) (replenish_pre_keys L C) (w\<lparr>store := s1\<rparr>)"
    using s1(1,3) pk.count_law [OF s1(2)]
    by (simp add: consume_pre_key_def run_defs in_store_at MIN_PRE_KEY_COUNT_def)
  show ?thesis
  proof (cases "card (dom m) < 50")
    case False
    then show ?thesis using step s1(2,3) pk_frame [OF s1(4)]
      by (intro exI [of _ 0] exI [of _ s1]) (simp add: whenM_at)
  next
    case True
    have left1: "numbers_left 100 m" using left by (auto simp: numbers_left_def others_def)
    with replenish_run [of "w\<lparr>store := s1\<rparr>"] s1(2,3) L obtain s' where
      s': "replenish_pre_keys L C (w\<lparr>store := s1\<rparr>) = (Ok (), (advance 0 100 (w\<lparr>store := s1\<rparr>))\<lparr>store := s'\<rparr>)"
      "ready s'" "pk_keys s' = m ++ map_of (new_pre_keys L w (next_number m))"
      "spk_keys s' = spk_keys s1" "kpk_keys s' = kpk_keys s1" "others s' = others s1" by auto
    show ?thesis
      using True step s' pool_grows [OF left1, of w] pk_frame [OF s1(4)]
      by (intro exI [of _ 100] exI [of _ s']) (simp add: whenM_at advance_def)
  qed
qed

end

end
