(* ===== verification/Signal_Bridge.thy ===== *)
theory Signal_Bridge
  imports Contact_Manager Db_Encryption Keys Key_Rotation
begin

text \<open>
  \<open>SignalBridge\<close> of lib.rs, method by method. The bridge is its storage: the contact manager holds
  the same connection, so the state is \<open>sqlite_storage\<close> in a run. \<open>println!\<close> and \<open>eprintln!\<close> have no
  effect on the state, but the counts they print are calls and are kept.
\<close>

type_synonym signal_bridge = sqlite_storage

record key_maintenance_result =
  signed_pre_key_rotated :: bool
  kyber_pre_key_rotated :: bool
  pre_keys_replenished :: bool

record decryption_result =
  plaintext :: bytes
  should_republish_bundle :: bool

record bundle_info =
  announcement_json :: string
  announced_pre_key_id :: u32
  announced_signed_pre_key_id :: u32
  announced_kyber_pre_key_id :: u32

section \<open>Start\<close>

definition ensure_identity ::
    "'x crates_scheme \<Rightarrow> (sqlite_storage sys, bridge_error, identity_key_pair) M" where
  "ensure_identity C =
     bindM (attempt (in_store (get_identity_key_pair (identity_store (sqlite_container C))))) (\<lambda>result.
     case result of
       Inr existing_identity \<Rightarrow> ret existing_identity
     | Inl _ \<Rightarrow>
         bindM (mapErr bridge_from_dyn (generate_identity_key_pair C)) (\<lambda>new_identity.
         bindM draw (\<lambda>rng.
         let new_registration_id = of_nat rng in
         bindM (mapErr bridge_from_dyn (in_store
           (set_local_identity_key_pair (identity_store (sqlite_container C)) new_identity))) (\<lambda>_.
         bindM (mapErr bridge_from_dyn (in_store
           (set_local_registration_id (identity_store (sqlite_container C)) new_registration_id))) (\<lambda>_.
         ret new_identity)))))"

definition ensure_pre_keys :: "'x crates_scheme \<Rightarrow> (sqlite_storage sys, bridge_error, unit) M" where
  "ensure_pre_keys C =
     bindM (mapErr bridge_from_dyn (in_store (pre_key_count (pre_key_store (sqlite_container C))))) (\<lambda>n.
     whenM (n < 5) (
       bindM (mapErr bridge_from_dyn (generate_pre_keys C 1 100)) (\<lambda>pre_keys.
       forM (\<lambda>(key_id, key_pair).
         let record = pre_key_record_new C key_id key_pair in
         mapErr bridge_from_protocol (in_store
           (save_pre_key (pre_key_store (sqlite_container C)) key_id record))) pre_keys)))"

definition ensure_signed_pre_key ::
    "'x crates_scheme \<Rightarrow> identity_key_pair \<Rightarrow> (sqlite_storage sys, bridge_error, unit) M" where
  "ensure_signed_pre_key C identity_key_pair =
     bindM (mapErr bridge_from_dyn (in_store
       (signed_pre_key_count (signed_pre_key_store (sqlite_container C))))) (\<lambda>n.
     whenM (n = 0) (
       bindM (mapErr bridge_from_dyn (generate_signed_pre_key C identity_key_pair 1)) (\<lambda>signed_pre_key.
       bindM (mapErr bridge_from_protocol (of_sum (signed_pre_key_record_id C signed_pre_key))) (\<lambda>i.
       mapErr bridge_from_protocol (in_store
         (save_signed_pre_key (signed_pre_key_store (sqlite_container C)) i signed_pre_key))))))"

definition ensure_kyber_pre_key ::
    "'x crates_scheme \<Rightarrow> identity_key_pair \<Rightarrow> (sqlite_storage sys, bridge_error, unit) M" where
  "ensure_kyber_pre_key C identity_key_pair =
     bindM (mapErr bridge_from_dyn (in_store
       (kyber_pre_key_count (kyber_pre_key_store (sqlite_container C))))) (\<lambda>n.
     whenM (n = 0) (
       bindM draw (\<lambda>rng.
       let kyber_keypair = kem_key_pair_generate C rng in
       bindM draw (\<lambda>rng'.
       bindM (mapErr bridge_from_protocol (of_sum (calculate_signature C
         (identity_key_pair_private_key C identity_key_pair)
         (kem_public_key_serialize C (kem_key_pair_public_key C kyber_keypair)) rng'))) (\<lambda>kyber_signature.
       bindM (mapErr bridge_from_time now_millis) (\<lambda>now.
       let kyber_record = kyber_pre_key_record_new C 1 now kyber_keypair kyber_signature in
       mapErr bridge_from_protocol (in_store
         (save_kyber_pre_key (kyber_pre_key_store (sqlite_container C)) 1 kyber_record))))))))"

definition ensure_keys_exist ::
    "'x crates_scheme \<Rightarrow> (sqlite_storage sys, bridge_error, identity_key_pair) M" where
  "ensure_keys_exist C =
     bindM (ensure_identity C) (\<lambda>identity_key_pair.
     bindM (ensure_pre_keys C) (\<lambda>_.
     bindM (ensure_signed_pre_key C identity_key_pair) (\<lambda>_.
     bindM (ensure_kyber_pre_key C identity_key_pair) (\<lambda>_.
     ret identity_key_pair))))"

definition start_bridge :: "'x crates_scheme \<Rightarrow> (sqlite_storage sys, bridge_error, unit) M" where
  "start_bridge C =
     bindM (mapErr bridge_from_dyn (in_store sqlite_initialize)) (\<lambda>_.
     bindM (mapErr bridge_from_dyn (in_store get_schema_version)) (\<lambda>schema_version.
     if schema_version < 1 then throw SchemaVersionTooOld
     else
     bindM (ensure_keys_exist C) (\<lambda>_.
     mapErr bridge_from_dyn (
     bindM (in_store (session_count (session_store (sqlite_container C)))) (\<lambda>_.
     bindM (in_store (identity_count (identity_store (sqlite_container C)))) (\<lambda>_.
     bindM (in_store (pre_key_count (pre_key_store (sqlite_container C)))) (\<lambda>_.
     bindM (in_store (signed_pre_key_count (signed_pre_key_store (sqlite_container C)))) (\<lambda>_.
     bindM (in_store (kyber_pre_key_count (kyber_pre_key_store (sqlite_container C)))) (\<lambda>_.
     ret ())))))))))"

text \<open>A call on a storage that was just opened: it goes on with the clock and the entropy.\<close>

definition with_storage ::
    "sqlite_storage \<Rightarrow> (sqlite_storage sys, 'e, unit) M \<Rightarrow> (host sys, 'e, signal_bridge) M" where
  "with_storage s m = (\<lambda>w.
     case m \<lparr>clock = clock w, ticks = ticks w, entropy = entropy w, draws = draws w,
         overflow_checks = overflow_checks w, store = s\<rparr> of
       (r, v) \<Rightarrow> ((case r of Ok _ \<Rightarrow> Ok (store v) | Err e \<Rightarrow> Err e | Panic p \<Rightarrow> Panic p),
         w\<lparr>ticks := ticks v, draws := draws v\<rparr>))"

definition bridge_new ::
    "'x crates_scheme \<Rightarrow> (string \<Rightarrow> string \<Rightarrow> sql_error + db) \<Rightarrow> string \<Rightarrow> (host sys, bridge_error, signal_bridge) M" where
  "bridge_new C open_db db_path =
     bindM (case path_parent db_path of
         None \<Rightarrow> ret ()
       | Some parent \<Rightarrow> mapErr bridge_from_io (in_store (create_dir_all parent))) (\<lambda>_.
     bindM (mapErr bridge_from_dyn (sqlite_storage_open C open_db db_path)) (\<lambda>storage.
     with_storage storage (start_bridge C)))"

definition bridge_drop :: "(sqlite_storage, bridge_error, unit) M" where
  "bridge_drop = (\<lambda>s. if is_closed s then (Ok (), s)
     else bindM (attempt sqlite_close) (\<lambda>_. ret ()) s)"

section \<open>Contacts\<close>

definition checked_session_store ::
    "'x crates_scheme \<Rightarrow> (db session_store_ops \<Rightarrow> (sqlite_storage sys, bridge_error, 'a) M) \<Rightarrow>
     (sqlite_storage sys, bridge_error, 'a) M" where
  "checked_session_store C f = bindM (in_store (open_handle session_handle)) (\<lambda>_. f (session_store (sqlite_stores C)))"

definition bridge_add_contact_from_bundle ::
    "'x crates_scheme \<Rightarrow> bytes \<Rightarrow> string option \<Rightarrow> (sqlite_storage sys, bridge_error, string) M" where
  "bridge_add_contact_from_bundle C bundle_bytes alias =
     checked_session_store C (\<lambda>_. add_contact_from_bundle C bundle_bytes alias)"

definition bridge_lookup_contact ::
    "'x crates_scheme \<Rightarrow> string \<Rightarrow> (sqlite_storage sys, bridge_error, contact_info) M" where
  "bridge_lookup_contact C identifier = checked_session_store C (\<lambda>S. lookup_contact C S identifier)"

definition bridge_assign_contact_alias ::
    "'x crates_scheme \<Rightarrow> string \<Rightarrow> string \<Rightarrow> (sqlite_storage sys, bridge_error, unit) M" where
  "bridge_assign_contact_alias C identifier new_alias =
     checked_session_store C (\<lambda>S. assign_contact_alias C S identifier new_alias)"

definition bridge_list_contacts ::
    "'x crates_scheme \<Rightarrow> (sqlite_storage sys, bridge_error, contact_info list) M" where
  "bridge_list_contacts C = checked_session_store C (list_contacts C)"

section \<open>Messages\<close>

definition device_one :: "'x crates_scheme \<Rightarrow> (sqlite_storage sys, bridge_error, u32) M" where
  "device_one C = mapErr (\<lambda>e. Protocol [ShowCrate e]) (of_sum (device_id_new C 1))"

definition specify_peer :: "string \<Rightarrow> (sqlite_storage sys, bridge_error, unit) M" where
  "specify_peer peer = whenM (peer = []) (throw (InvalidInput [Lit ''Specify a peer name'']))"

text \<open>The fingerprint of a contact that goes by this name, or else the name itself.\<close>

definition session_name ::
    "'x crates_scheme \<Rightarrow> string \<Rightarrow> (sqlite_storage sys, bridge_error, string) M" where
  "session_name C peer =
     bindM (attempt (bridge_lookup_contact C peer)) (\<lambda>result.
     ret (case result of Inr contact \<Rightarrow> info_rdx_fingerprint contact | Inl _ \<Rightarrow> peer))"

definition in_history :: "(db, history_error, 'a) M \<Rightarrow> (sqlite_storage sys, history_error, 'a) M" where
  "in_history m = in_store (bindM message_history_of (\<lambda>_. on_conn m))"

definition bridge_encrypt_message ::
    "'x crates_scheme \<Rightarrow> string \<Rightarrow> bytes \<Rightarrow> (sqlite_storage sys, bridge_error, bytes) M" where
  "bridge_encrypt_message C peer text =
     bindM (specify_peer peer) (\<lambda>_.
     bindM (session_name C peer) (\<lambda>session_address.
     bindM (device_one C) (\<lambda>device.
     let address = Address session_address device in
     bindM (mapErr bridge_from_protocol (in_store
       (load_session (session_store (sqlite_container C)) address))) (\<lambda>session.
     bindM (whenM (session = None) (throw (SessionNotFound [Lit ''Establish a session with '', Lit peer,
       Lit '' before sending messages'']))) (\<lambda>_.
     bindM (mapErr bridge_from_protocol (sqlite_encrypt_message C address text)) (\<lambda>ciphertext.
     bindM (mapErr bridge_from_time now_millis) (\<lambda>timestamp.
     bindM (attempt (in_history (store_outgoing_message session_address timestamp text))) (\<lambda>_.
     ret (ciphertext_serialize C ciphertext)))))))))"

text \<open>Who sent a message: the address, whether a one-time pre-key was used, the parsed message.\<close>

definition identify_sender ::
    "'x crates_scheme \<Rightarrow> string \<Rightarrow> bytes \<Rightarrow>
     (sqlite_storage sys, bridge_error, string \<times> bool \<times> ciphertext_message) M" where
  "identify_sender C peer_hint ciphertext_bytes =
     (case pre_key_signal_message_try_from C ciphertext_bytes of
        Inr prekey_msg \<Rightarrow>
          let sender_identity = pre_key_signal_message_identity_key C prekey_msg;
              rdx_fingerprint = generate_identity_fingerprint_from_key C sender_identity in
          bindM (attempt (bridge_lookup_contact C rdx_fingerprint)) (\<lambda>found.
          bindM (whenM (case found of Inr _ \<Rightarrow> False | Inl _ \<Rightarrow> True)
            (bindM (add_contact_from_identity_key C sender_identity) (\<lambda>_. ret ()))) (\<lambda>_.
          let pre_key_consumed = pre_key_signal_message_pre_key_id C prekey_msg \<noteq> None in
          ret (rdx_fingerprint, pre_key_consumed, PreKeySignalMessage prekey_msg)))
      | Inl _ \<Rightarrow>
          (case signal_message_try_from C ciphertext_bytes of
             Inr signal_msg \<Rightarrow>
               if peer_hint = [] then throw (InvalidInput
                 [Lit ''SignalMessage requires peer_hint (Nostr pubkey from event wrapper)''])
               else bindM (bridge_lookup_contact C peer_hint) (\<lambda>contact.
                 ret (info_rdx_fingerprint contact, False, SignalMessage signal_msg))
           | Inl _ \<Rightarrow> throw (Serialization [Lit ''Provide a valid Signal Protocol message''])))"

definition bridge_decrypt_message ::
    "'x crates_scheme \<Rightarrow> string \<Rightarrow> bytes \<Rightarrow> (sqlite_storage sys, bridge_error, decryption_result) M" where
  "bridge_decrypt_message C peer_hint ciphertext_bytes =
     bindM (whenM (ciphertext_bytes = []) (throw (InvalidInput [Lit ''Provide a message to decrypt'']))) (\<lambda>_.
     bindM (identify_sender C peer_hint ciphertext_bytes) (\<lambda>(session_address, pre_key_consumed, ciphertext).
     bindM (device_one C) (\<lambda>device.
     let address = Address session_address device in
     bindM (mapErr bridge_from_protocol (sqlite_decrypt_message C address ciphertext)) (\<lambda>text.
     bindM (mapErr bridge_from_time now_millis) (\<lambda>timestamp.
     let session_established = pre_key_consumed in
     bindM (attempt (in_history (store_incoming_message (address_name address) timestamp text
       pre_key_consumed session_established))) (\<lambda>_.
     ret \<lparr>plaintext = text, should_republish_bundle = pre_key_consumed\<rparr>))))))"

section \<open>Sessions and bundles\<close>

text \<open>\<open>u32\<close> to \<open>u8\<close> with \<open>try_into\<close>; the error is the out-of-range one.\<close>

definition u32_to_u8 :: "u32 \<Rightarrow> nat + u8" where
  "u32_to_u8 w = (if unat w < 256 then Inr (ucast w) else Inl 0)"

definition decode_error :: "protocol_error \<Rightarrow> bridge_error" where
  "decode_error e = Serialization [ShowProtocol e]"

text \<open>The arguments of \<open>PreKeyBundle::new\<close>, evaluated from left to right.\<close>

definition parse_bundle ::
    "'x crates_scheme \<Rightarrow> serializable_pre_key_bundle \<Rightarrow> (sqlite_storage sys, bridge_error, pre_key_bundle) M" where
  "parse_bundle C b =
     bindM (mapErr (\<lambda>e. InvalidInput [Lit ''Invalid device ID: '', ShowCrate e])
       (of_sum (u32_to_u8 (bundle_device_id b)))) (\<lambda>d.
     bindM (mapErr (\<lambda>e. Protocol [ShowCrate e]) (of_sum (device_id_new C d))) (\<lambda>device.
     bindM (case bundle_pre_key_id b of
         None \<Rightarrow> ret None
       | Some i \<Rightarrow> (case bundle_pre_key_public b of
           None \<Rightarrow> panic ''called `Option::unwrap()` on a `None` value''
         | Some key \<Rightarrow> bindM (mapErr decode_error (of_sum (public_key_deserialize C key))) (\<lambda>public_key.
             ret (Some (i, public_key))))) (\<lambda>pre_key.
     bindM (mapErr decode_error (of_sum (public_key_deserialize C (bundle_signed_pre_key_public b)))) (\<lambda>signed_key.
     bindM (mapErr decode_error (of_sum (kem_public_key_deserialize C (bundle_kyber_pre_key_public b)))) (\<lambda>kyber_key.
     bindM (mapErr decode_error (of_sum (identity_key_decode C (bundle_identity_key b)))) (\<lambda>identity.
     mapErr bridge_from_protocol (of_sum (pre_key_bundle_new C (bundle_registration_id b) device pre_key
       (bundle_signed_pre_key_id b) signed_key (bundle_signed_pre_key_signature b)
       (bundle_kyber_pre_key_id b) kyber_key (bundle_kyber_pre_key_signature b) identity))))))))"

definition bridge_establish_session ::
    "'x crates_scheme \<Rightarrow> string \<Rightarrow> bytes \<Rightarrow> (sqlite_storage sys, bridge_error, unit) M" where
  "bridge_establish_session C peer pre_key_bundle_bytes =
     bindM (specify_peer peer) (\<lambda>_.
     bindM (whenM (pre_key_bundle_bytes = [])
       (throw (InvalidInput [Lit ''Provide a pre-key bundle from the peer'']))) (\<lambda>_.
     bindM (mapErr bridge_from_bincode (of_sum (bincode_deserialize C pre_key_bundle_bytes))) (\<lambda>serializable.
     bindM (parse_bundle C serializable) (\<lambda>bundle.
     bindM (device_one C) (\<lambda>device.
     mapErr bridge_from_dyn (sqlite_establish_session_from_bundle C (Address peer device) bundle))))))"

definition available :: "string \<Rightarrow> u32 option \<Rightarrow> (sqlite_storage sys, bridge_error, u32) M" where
  "available message x = (case x of None \<Rightarrow> throw (Protocol [Lit message]) | Some i \<Rightarrow> ret i)"

text \<open>The fields of a bundle as \<open>SerializablePreKeyBundle\<close>.\<close>

definition serializable_of_bundle ::
    "'x crates_scheme \<Rightarrow> pre_key_bundle \<Rightarrow> (sqlite_storage sys, protocol_error, serializable_pre_key_bundle) M" where
  "serializable_of_bundle C bundle =
     bindM (of_sum (pre_key_bundle_registration_id C bundle)) (\<lambda>registration.
     bindM (of_sum (pre_key_bundle_device_id C bundle)) (\<lambda>device.
     bindM (of_sum (pre_key_bundle_pre_key_id C bundle)) (\<lambda>pre_key_id.
     bindM (of_sum (pre_key_bundle_pre_key_public C bundle)) (\<lambda>pre_key_public.
     bindM (of_sum (pre_key_bundle_signed_pre_key_id C bundle)) (\<lambda>signed_id.
     bindM (of_sum (pre_key_bundle_signed_pre_key_public C bundle)) (\<lambda>signed_public.
     bindM (of_sum (pre_key_bundle_signed_pre_key_signature C bundle)) (\<lambda>signed_signature.
     bindM (of_sum (pre_key_bundle_identity_key C bundle)) (\<lambda>identity.
     bindM (of_sum (pre_key_bundle_kyber_pre_key_id C bundle)) (\<lambda>kyber_id.
     bindM (of_sum (pre_key_bundle_kyber_pre_key_public C bundle)) (\<lambda>kyber_public.
     bindM (of_sum (pre_key_bundle_kyber_pre_key_signature C bundle)) (\<lambda>kyber_signature.
     ret \<lparr>bundle_registration_id = registration, bundle_device_id = device,
       bundle_pre_key_id = pre_key_id,
       bundle_pre_key_public = map_option (public_key_serialize C) pre_key_public,
       bundle_signed_pre_key_id = signed_id,
       bundle_signed_pre_key_public = public_key_serialize C signed_public,
       bundle_signed_pre_key_signature = signed_signature,
       bundle_identity_key = identity_key_serialize C identity,
       bundle_kyber_pre_key_id = kyber_id,
       bundle_kyber_pre_key_public = kem_public_key_serialize C kyber_public,
       bundle_kyber_pre_key_signature = kyber_signature\<rparr>)))))))))))"

text \<open>\<open>PreKeyBundle::new\<close> on the fields of the three key records, from left to right.\<close>

definition bundle_of_records ::
    "'x crates_scheme \<Rightarrow> u32 \<Rightarrow> u32 \<Rightarrow> identity_key \<Rightarrow> u32 \<Rightarrow> pre_key_record \<Rightarrow> signed_pre_key_record \<Rightarrow>
     u32 \<Rightarrow> kyber_pre_key_record \<Rightarrow> (sqlite_storage sys, protocol_error, pre_key_bundle) M" where
  "bundle_of_records C reg_id device identity_key pre_key_id pre_key_rec signed_rec kyber_pre_key_id kyber_rec =
     bindM (of_sum (pre_key_record_key_pair C pre_key_rec)) (\<lambda>pre_key_pair.
     bindM (of_sum (signed_pre_key_record_id C signed_rec)) (\<lambda>signed_id.
     bindM (of_sum (signed_pre_key_record_public_key C signed_rec)) (\<lambda>signed_public.
     bindM (of_sum (signed_pre_key_record_signature C signed_rec)) (\<lambda>signed_signature.
     bindM (of_sum (kyber_pre_key_record_key_pair C kyber_rec)) (\<lambda>kyber_pair.
     bindM (of_sum (kyber_pre_key_record_signature C kyber_rec)) (\<lambda>kyber_signature.
     of_sum (pre_key_bundle_new C reg_id device
       (Some (pre_key_id, key_pair_public_key C pre_key_pair)) signed_id signed_public signed_signature
       kyber_pre_key_id (kem_key_pair_public_key C kyber_pair) kyber_signature identity_key)))))))"

definition bridge_generate_pre_key_bundle ::
    "'x crates_scheme \<Rightarrow> (sqlite_storage sys, bridge_error, bytes \<times> u32 \<times> u32 \<times> u32) M" where
  "bridge_generate_pre_key_bundle C =
     bindM (mapErr bridge_from_protocol (in_store
       (get_identity_key_pair (identity_store (sqlite_container C))))) (\<lambda>identity_key_pair.
     let identity_key = identity_key_pair_identity_key C identity_key_pair in
     bindM (mapErr bridge_from_protocol (in_store
       (get_local_registration_id (identity_store (sqlite_container C))))) (\<lambda>registration_id.
     bindM (mapErr bridge_from_dyn (in_store (get_max_pre_key_id (pre_key_store (sqlite_container C))))) (\<lambda>max_pk.
     bindM (available ''No pre-keys available'' max_pk) (\<lambda>pre_key_id.
     bindM (mapErr bridge_from_dyn (in_store
       (get_max_signed_pre_key_id (signed_pre_key_store (sqlite_container C))))) (\<lambda>max_spk.
     bindM (available ''No signed pre-keys available'' max_spk) (\<lambda>signed_pre_key_id.
     bindM (mapErr bridge_from_dyn (in_store
       (get_max_kyber_pre_key_id (kyber_pre_key_store (sqlite_container C))))) (\<lambda>max_kpk.
     bindM (available ''No kyber pre-keys available'' max_kpk) (\<lambda>kyber_pre_key_id.
     bindM (mapErr bridge_from_protocol (in_store
       (get_pre_key (pre_key_store (sqlite_container C)) pre_key_id))) (\<lambda>pre_key_rec.
     bindM (mapErr bridge_from_protocol (in_store
       (get_signed_pre_key (signed_pre_key_store (sqlite_container C)) signed_pre_key_id))) (\<lambda>signed_rec.
     bindM (mapErr bridge_from_protocol (in_store
       (get_kyber_pre_key (kyber_pre_key_store (sqlite_container C)) kyber_pre_key_id))) (\<lambda>kyber_rec.
     bindM (device_one C) (\<lambda>device.
     bindM (mapErr bridge_from_protocol (bundle_of_records C registration_id device identity_key
       pre_key_id pre_key_rec signed_rec kyber_pre_key_id kyber_rec)) (\<lambda>bundle.
     bindM (mapErr bridge_from_protocol (serializable_of_bundle C bundle)) (\<lambda>serializable.
     bindM (mapErr bridge_from_bincode (of_sum (bincode_serialize C serializable))) (\<lambda>bundle_bytes.
     ret (bundle_bytes, pre_key_id, signed_pre_key_id, kyber_pre_key_id))))))))))))))))"

section \<open>Clearing\<close>

definition bridge_cleanup_all_sessions :: "'x crates_scheme \<Rightarrow> (sqlite_storage sys, bridge_error, unit) M" where
  "bridge_cleanup_all_sessions C =
     mapErr bridge_from_dyn (
     bindM (in_store (session_count (session_store (sqlite_container C)))) (\<lambda>n.
     whenM (0 < n) (in_store (clear_all_sessions (session_store (sqlite_container C))))))"

definition bridge_clear_peer_session ::
    "'x crates_scheme \<Rightarrow> string \<Rightarrow> (sqlite_storage sys, bridge_error, unit) M" where
  "bridge_clear_peer_session C peer =
     bindM (specify_peer peer) (\<lambda>_.
     bindM (device_one C) (\<lambda>device.
     let address = Address peer device in
     bindM (mapErr bridge_from_dyn (in_store
       (delete_session (session_store (sqlite_container C)) address))) (\<lambda>_.
     bindM (attempt (in_store (get_peer_identity (identity_store (sqlite_container C)) address))) (\<lambda>known.
     whenM (case known of Inr _ \<Rightarrow> True | Inl _ \<Rightarrow> False)
       (mapErr bridge_from_dyn (in_store (delete_identity (identity_store (sqlite_container C)) address)))))))"

definition bridge_clear_all_sessions :: "'x crates_scheme \<Rightarrow> (sqlite_storage sys, bridge_error, unit) M" where
  "bridge_clear_all_sessions C =
     mapErr bridge_from_dyn (
     bindM (in_store (session_count (session_store (sqlite_container C)))) (\<lambda>n.
     bindM (in_store (identity_count (identity_store (sqlite_container C)))) (\<lambda>m.
     whenM (0 < n \<or> 0 < m) (
       bindM (in_store (clear_all_sessions (session_store (sqlite_container C)))) (\<lambda>_.
       in_store (clear_all_identities (identity_store (sqlite_container C))))))))"

definition bridge_reset_identity :: "'x crates_scheme \<Rightarrow> (sqlite_storage sys, bridge_error, unit) M" where
  "bridge_reset_identity C =
     bindM (bridge_clear_all_sessions C) (\<lambda>_.
     bindM (mapErr bridge_from_dyn (
       bindM (in_store (clear_all_pre_keys (pre_key_store (sqlite_container C)))) (\<lambda>_.
       bindM (in_store (clear_all_signed_pre_keys (signed_pre_key_store (sqlite_container C)))) (\<lambda>_.
       bindM (in_store (clear_all_kyber_pre_keys (kyber_pre_key_store (sqlite_container C)))) (\<lambda>_.
       in_store (clear_local_identity (identity_store (sqlite_container C)))))))) (\<lambda>_.
     bindM (ensure_keys_exist C) (\<lambda>_.
     ret ())))"

section \<open>Nostr\<close>

definition bridge_derive_nostr_keypair ::
    "'x crates_scheme \<Rightarrow> (sqlite_storage sys, bridge_error, nostr_keys) M" where
  "bridge_derive_nostr_keypair C =
     bindM (mapErr bridge_from_protocol (in_store
       (get_identity_key_pair (identity_store (sqlite_container C))))) (\<lambda>identity_key_pair.
     of_sum (derive_from_signal_identity C identity_key_pair))"

definition bridge_derive_peer_nostr_key ::
    "'x crates_scheme \<Rightarrow> string \<Rightarrow> (sqlite_storage sys, bridge_error, bytes) M" where
  "bridge_derive_peer_nostr_key C peer =
     bindM (session_name C peer) (\<lambda>session_address.
     bindM (contact_address C session_address) (\<lambda>address.
     bindM (mapErr bridge_from_protocol (in_store
       (get_identity (identity_store (sqlite_container C)) address))) (\<lambda>found.
     bindM (case found of
         None \<Rightarrow> throw (SessionNotFound [Lit ''No identity found for peer: '', Lit peer])
       | Some peer_identity \<Rightarrow> ret peer_identity) (\<lambda>peer_identity.
     bindM (of_sum (derive_public_key_from_peer_identity C peer_identity)) (\<lambda>npub.
     ret (nostr_to_bytes C npub))))))"

definition bridge_create_subscription_for_self ::
    "'x crates_scheme \<Rightarrow> string \<Rightarrow> u64 \<Rightarrow> (sqlite_storage sys, bridge_error, string) M" where
  "bridge_create_subscription_for_self C subscription_id since_timestamp =
     bindM (bridge_derive_nostr_keypair C) (\<lambda>keys.
     let our_pubkey = nostr_to_hex C (keys_public_key C keys) in
     bindM (if 0 < since_timestamp then ret since_timestamp
       else mapErr (\<lambda>e. Protocol [Lit ''Failed to get last message timestamp: '', ShowDyn e])
         (in_store get_last_message_timestamp)) (\<lambda>since.
     let base = [(''kinds'', JArray [json_u64 40001]), (''#p'', json_strings [our_pubkey])];
         filter = json_object (if 0 < since then base @ [(''since'', json_u64 since)] else base)
     in ret (value_to_string C (JArray [JString ''REQ'', JString subscription_id, filter]))))"

definition bridge_update_last_message_timestamp :: "u64 \<Rightarrow> (sqlite_storage sys, bridge_error, unit) M" where
  "bridge_update_last_message_timestamp timestamp =
     mapErr (\<lambda>e. Protocol [Lit ''Failed to update last message timestamp: '', ShowDyn e])
       (in_store (set_last_message_timestamp timestamp))"

definition parse_tag :: "'x crates_scheme \<Rightarrow> string list \<Rightarrow> ('s, 'e, nostr_tag) M" where
  "parse_tag C tag_vec = (case tag_parse C (if tag_vec = [] then [[]] else tag_vec) of
     Inr tag \<Rightarrow> ret tag
   | Inl _ \<Rightarrow> (case tag_parse C [''unknown''] of
       Inl _ \<Rightarrow> panic ''called `Result::unwrap()` on an `Err` value''
     | Inr tag \<Rightarrow> ret tag))"

definition bridge_sign_nostr_event ::
    "'x crates_scheme \<Rightarrow> u64 \<Rightarrow> u32 \<Rightarrow> string list list \<Rightarrow> string \<Rightarrow>
     (sqlite_storage sys, bridge_error, string \<times> string \<times> string) M" where
  "bridge_sign_nostr_event C created_at kind tags content =
     bindM (bridge_derive_nostr_keypair C) (\<lambda>keys.
     bindM (mapM (parse_tag C) tags) (\<lambda>nostr_tags.
     bindM draw (\<lambda>rng.
     bindM (mapErr (\<lambda>e. Protocol [Lit ''Failed to create event: '', ShowCrate e])
       (of_sum (event_sign C (ucast kind) content nostr_tags created_at keys rng))) (\<lambda>event.
     ret (nostr_to_hex C (keys_public_key C keys), event_id_to_hex C event, event_sig_to_string C event)))))"

definition event_json ::
    "string \<Rightarrow> string \<Rightarrow> u64 \<Rightarrow> u64 \<Rightarrow> string list list \<Rightarrow> string \<Rightarrow> string \<Rightarrow> json" where
  "event_json event_id pubkey created_at kind tags content signature = json_object
     [(''id'', JString event_id), (''pubkey'', JString pubkey), (''created_at'', json_u64 created_at),
      (''kind'', json_u64 kind), (''tags'', JArray (map json_strings tags)),
      (''content'', JString content), (''sig'', JString signature)]"

definition bridge_generate_prekey_bundle_announcement ::
    "'x crates_scheme \<Rightarrow> string \<Rightarrow> (sqlite_storage sys, bridge_error, bundle_info) M" where
  "bridge_generate_prekey_bundle_announcement C project_version =
     bindM (bridge_generate_pre_key_bundle C) (\<lambda>(bundle_bytes, pre_key_id, signed_pre_key_id, kyber_pre_key_id).
     bindM (bridge_add_contact_from_bundle C bundle_bytes (Some ''self'')) (\<lambda>rdx.
     let bundle_base64 = base64_encode C bundle_bytes in
     bindM (mapErr bridge_from_time now_secs) (\<lambda>timestamp.
     let tags = [[''d'', ''radix_prekey_bundle_v1''], [''rdx'', rdx], [''radix_version'', project_version],
       [''bundle_timestamp'', show_u64 timestamp]] in
     bindM (bridge_sign_nostr_event C timestamp 30078 tags bundle_base64) (\<lambda>(pubkey, event_id, signature).
     let event = event_json event_id pubkey timestamp 30078 tags bundle_base64 signature in
     bindM (mapErr (\<lambda>e. Serialization [ShowCrate e]) (of_sum (json_to_string C event))) (\<lambda>json.
     ret \<lparr>announcement_json = json, announced_pre_key_id = pre_key_id,
       announced_signed_pre_key_id = signed_pre_key_id, announced_kyber_pre_key_id = kyber_pre_key_id\<rparr>)))))"

definition bridge_generate_empty_bundle_announcement ::
    "'x crates_scheme \<Rightarrow> string \<Rightarrow> (sqlite_storage sys, bridge_error, string) M" where
  "bridge_generate_empty_bundle_announcement C project_version =
     bindM (mapErr bridge_from_time now_secs) (\<lambda>timestamp.
     let tags = [[''d'', ''radix_prekey_bundle_v1''], [''radix_version'', project_version]] in
     bindM (bridge_sign_nostr_event C timestamp 30078 tags []) (\<lambda>(pubkey, event_id, signature).
     let event = event_json event_id pubkey timestamp 30078 tags [] signature in
     mapErr (\<lambda>e. Serialization [ShowCrate e]) (of_sum (json_to_string C event))))"

definition bridge_add_contact_and_establish_session ::
    "'x crates_scheme \<Rightarrow> bytes \<Rightarrow> string option \<Rightarrow> (sqlite_storage sys, bridge_error, string) M" where
  "bridge_add_contact_and_establish_session C bundle_bytes alias =
     bindM (mapErr (\<lambda>e. InvalidInput [Lit ''Failed to deserialize bundle: '', ShowCrate e])
       (of_sum (bincode_deserialize C bundle_bytes))) (\<lambda>bundle.
     bindM (mapErr bridge_from_protocol (of_sum (identity_key_decode C (bundle_identity_key bundle)))) (\<lambda>bundle_key.
     bindM (mapErr (\<lambda>e. Storage [ShowProtocol e]) (in_store
       (get_identity_key_pair (identity_store (sqlite_container C))))) (\<lambda>our_identity_pair.
     if identity_key_public_key C bundle_key =
        identity_key_public_key C (identity_key_pair_identity_key C our_identity_pair)
     then throw (InvalidInput [Lit ''Ignoring bundle from self''])
     else
     bindM (bridge_add_contact_from_bundle C bundle_bytes alias) (\<lambda>rdx.
     bindM (bridge_establish_session C rdx bundle_bytes) (\<lambda>_.
     ret rdx)))))"

definition bridge_generate_node_fingerprint ::
    "'x crates_scheme \<Rightarrow> (sqlite_storage sys, bridge_error, string) M" where
  "bridge_generate_node_fingerprint C =
     bindM (mapErr bridge_from_protocol (in_store
       (get_identity_key_pair (identity_store (sqlite_container C))))) (\<lambda>identity_key_pair.
     ret (generate_identity_fingerprint_from_key C (identity_key_pair_identity_key C identity_key_pair)))"

section \<open>Key maintenance\<close>

definition bridge_perform_key_maintenance ::
    "'x crates_scheme \<Rightarrow> (sqlite_storage sys, bridge_error, key_maintenance_result) M" where
  "bridge_perform_key_maintenance C =
     bindM (mapErr bridge_from_protocol (in_store
       (get_identity_key_pair (identity_store (sqlite_container C))))) (\<lambda>identity_key_pair.
     mapErr bridge_from_dyn (
     bindM (signed_pre_key_needs_rotation C (sqlite_container C)) (\<lambda>signed_due.
     bindM (whenM signed_due (rotate_signed_pre_key C (sqlite_container C) identity_key_pair)) (\<lambda>_.
     bindM (kyber_pre_key_needs_rotation C (sqlite_container C)) (\<lambda>kyber_due.
     bindM (whenM kyber_due (rotate_kyber_pre_key C (sqlite_container C) identity_key_pair)) (\<lambda>_.
     bindM (cleanup_expired_signed_pre_keys (sqlite_container C)) (\<lambda>_.
     bindM (cleanup_expired_kyber_pre_keys (sqlite_container C)) (\<lambda>_.
     bindM (in_store (pre_key_count (pre_key_store (sqlite_container C)))) (\<lambda>n.
     let low = n < MIN_PRE_KEY_COUNT in
     bindM (whenM low (replenish_pre_keys C (sqlite_container C))) (\<lambda>_.
     ret \<lparr>signed_pre_key_rotated = signed_due, kyber_pre_key_rotated = kyber_due,
       pre_keys_replenished = low\<rparr>))))))))))"

end
