(* ===== verification/Ffi.thy ===== *)
theory Ffi
  imports Signal_Bridge
begin

text \<open>
  The \<open>ffi\<close> module of lib.rs: the types shared with C++ and the exported functions. A function that
  drives an asynchronous method makes a tokio runtime first; whether that succeeds is its argument
  \<open>rt\<close>. Errors cross the boundary boxed (\<open>dyn_error\<close>).
\<close>

section \<open>Shared types\<close>

datatype ffi_message_direction = FfiIncoming | FfiOutgoing
datatype ffi_message_type = FfiText | FfiBundleAnnouncement | FfiSystem
datatype ffi_delivery_status = FfiPending | FfiSent | FfiDelivered | FfiFailed

record ffi_contact_info =
  ffi_rdx_fingerprint :: string
  ffi_nostr_pubkey :: string
  ffi_user_alias :: string
  ffi_has_active_session :: bool

record ffi_key_maintenance_result =
  ffi_signed_pre_key_rotated :: bool
  ffi_kyber_pre_key_rotated :: bool
  ffi_pre_keys_replenished :: bool

record ffi_decryption_result =
  ffi_plaintext :: bytes
  ffi_should_republish_bundle :: bool

record ffi_pre_key_bundle_with_metadata =
  ffi_bundle_bytes :: bytes
  ffi_pre_key_id :: u32
  ffi_signed_pre_key_id :: u32
  ffi_kyber_pre_key_id :: u32

record ffi_stored_message =
  ffi_id :: int
  ffi_conversation_id :: int
  ffi_direction :: ffi_message_direction
  ffi_timestamp :: u64
  ffi_message_type :: ffi_message_type
  ffi_content :: string
  ffi_delivery_status :: ffi_delivery_status
  ffi_was_prekey_message :: bool
  ffi_session_established :: bool

record ffi_conversation =
  ffi_conv_id :: int
  ffi_conv_rdx_fingerprint :: string
  ffi_conv_last_message_timestamp :: u64
  ffi_conv_unread_count :: u32
  ffi_conv_archived :: bool

section \<open>Calls\<close>

definition with_runtime :: "nat + unit \<Rightarrow> ('s, bridge_error, 'a) M \<Rightarrow> ('s, dyn_error, 'a) M" where
  "with_runtime rt m = (case rt of Inl e \<Rightarrow> throw (DynIo e) | Inr _ \<Rightarrow> mapErr DynBridge m)"

definition ffi_new_signal_bridge ::
    "'x crates_scheme \<Rightarrow> (string \<Rightarrow> string \<Rightarrow> sql_error + db) \<Rightarrow> nat + unit \<Rightarrow> string \<Rightarrow>
     (host sys, dyn_error, signal_bridge) M" where
  "ffi_new_signal_bridge C open_db rt db_path = with_runtime rt (bridge_new C open_db db_path)"

definition ffi_encrypt_message ::
    "'x crates_scheme \<Rightarrow> nat + unit \<Rightarrow> string \<Rightarrow> bytes \<Rightarrow> (signal_bridge sys, dyn_error, bytes) M" where
  "ffi_encrypt_message C rt peer text = with_runtime rt (bridge_encrypt_message C peer text)"

definition ffi_decrypt_message ::
    "'x crates_scheme \<Rightarrow> nat + unit \<Rightarrow> string \<Rightarrow> bytes \<Rightarrow> (signal_bridge sys, dyn_error, ffi_decryption_result) M" where
  "ffi_decrypt_message C rt peer ciphertext =
     bindM (with_runtime rt (bridge_decrypt_message C peer ciphertext)) (\<lambda>result.
     ret \<lparr>ffi_plaintext = plaintext result, ffi_should_republish_bundle = should_republish_bundle result\<rparr>)"

definition ffi_establish_session ::
    "'x crates_scheme \<Rightarrow> nat + unit \<Rightarrow> string \<Rightarrow> bytes \<Rightarrow> (signal_bridge sys, dyn_error, unit) M" where
  "ffi_establish_session C rt peer bundle = with_runtime rt (bridge_establish_session C peer bundle)"

definition ffi_generate_pre_key_bundle ::
    "'x crates_scheme \<Rightarrow> nat + unit \<Rightarrow> (signal_bridge sys, dyn_error, ffi_pre_key_bundle_with_metadata) M" where
  "ffi_generate_pre_key_bundle C rt =
     bindM (with_runtime rt (bridge_generate_pre_key_bundle C)) (\<lambda>(bundle_bytes, p, s, k).
     ret \<lparr>ffi_bundle_bytes = bundle_bytes, ffi_pre_key_id = p, ffi_signed_pre_key_id = s, ffi_kyber_pre_key_id = k\<rparr>)"

definition ffi_clear_peer_session ::
    "'x crates_scheme \<Rightarrow> nat + unit \<Rightarrow> string \<Rightarrow> (signal_bridge sys, dyn_error, unit) M" where
  "ffi_clear_peer_session C rt peer = with_runtime rt (bridge_clear_peer_session C peer)"

definition ffi_clear_all_sessions ::
    "'x crates_scheme \<Rightarrow> nat + unit \<Rightarrow> (signal_bridge sys, dyn_error, unit) M" where
  "ffi_clear_all_sessions C rt = with_runtime rt (bridge_clear_all_sessions C)"

definition ffi_reset_identity ::
    "'x crates_scheme \<Rightarrow> nat + unit \<Rightarrow> (signal_bridge sys, dyn_error, unit) M" where
  "ffi_reset_identity C rt = with_runtime rt (bridge_reset_identity C)"

definition ffi_perform_key_maintenance ::
    "'x crates_scheme \<Rightarrow> nat + unit \<Rightarrow> (signal_bridge sys, dyn_error, ffi_key_maintenance_result) M" where
  "ffi_perform_key_maintenance C rt =
     bindM (with_runtime rt (bridge_perform_key_maintenance C)) (\<lambda>result.
     ret \<lparr>ffi_signed_pre_key_rotated = signed_pre_key_rotated result,
       ffi_kyber_pre_key_rotated = kyber_pre_key_rotated result,
       ffi_pre_keys_replenished = pre_keys_replenished result\<rparr>)"

definition ffi_record_published_bundle :: "u32 \<Rightarrow> u32 \<Rightarrow> u32 \<Rightarrow> (signal_bridge sys, dyn_error, unit) M" where
  "ffi_record_published_bundle pre_key_id signed_pre_key_id kyber_pre_key_id =
     record_published_bundle pre_key_id signed_pre_key_id kyber_pre_key_id"

subsection \<open>Message history\<close>

definition boxed_history :: "(db, history_error, 'a) M \<Rightarrow> (signal_bridge sys, dyn_error, 'a) M" where
  "boxed_history m = mapErr DynHistory (in_history m)"

definition ffi_of_conversation :: "conversation \<Rightarrow> ffi_conversation" where
  "ffi_of_conversation c = \<lparr>ffi_conv_id = conv_id c, ffi_conv_rdx_fingerprint = conv_rdx_fingerprint c,
     ffi_conv_last_message_timestamp = conv_last_message_timestamp c,
     ffi_conv_unread_count = conv_unread_count c, ffi_conv_archived = conv_archived c\<rparr>"

definition ffi_get_conversations ::
    "'x crates_scheme \<Rightarrow> bool \<Rightarrow> (signal_bridge sys, dyn_error, ffi_conversation list) M" where
  "ffi_get_conversations C include_archived =
     bindM (boxed_history (get_conversations C include_archived)) (\<lambda>conversations.
     ret (map ffi_of_conversation conversations))"

definition ffi_of_message :: "stored_message \<Rightarrow> ffi_stored_message" where
  "ffi_of_message m = \<lparr>ffi_id = stored_id m, ffi_conversation_id = stored_conversation_id m,
     ffi_direction = (case stored_direction m of Incoming \<Rightarrow> FfiIncoming | Outgoing \<Rightarrow> FfiOutgoing),
     ffi_timestamp = stored_timestamp m,
     ffi_message_type = (case stored_kind m of TextMessage \<Rightarrow> FfiText
       | BundleAnnouncement \<Rightarrow> FfiBundleAnnouncement | SystemMessage \<Rightarrow> FfiSystem),
     ffi_content = stored_content m,
     ffi_delivery_status = (case stored_delivery_status m of Pending \<Rightarrow> FfiPending | Sent \<Rightarrow> FfiSent
       | Delivered \<Rightarrow> FfiDelivered | Failed \<Rightarrow> FfiFailed),
     ffi_was_prekey_message = stored_was_prekey_message m,
     ffi_session_established = stored_session_established m\<rparr>"

definition ffi_get_conversation_messages ::
    "'x crates_scheme \<Rightarrow> string \<Rightarrow> u32 \<Rightarrow> u32 \<Rightarrow> (signal_bridge sys, dyn_error, ffi_stored_message list) M" where
  "ffi_get_conversation_messages C rdx limit offset =
     bindM (boxed_history (get_conversation_messages C rdx limit offset)) (\<lambda>messages.
     ret (map ffi_of_message messages))"

definition ffi_mark_conversation_read :: "string \<Rightarrow> (signal_bridge sys, dyn_error, unit) M" where
  "ffi_mark_conversation_read rdx = boxed_history (mark_conversation_read rdx)"

definition ffi_mark_conversation_read_up_to :: "string \<Rightarrow> u64 \<Rightarrow> (signal_bridge sys, dyn_error, unit) M" where
  "ffi_mark_conversation_read_up_to rdx up_to_timestamp =
     boxed_history (mark_conversation_read_up_to rdx up_to_timestamp)"

definition ffi_delete_message :: "int \<Rightarrow> (signal_bridge sys, dyn_error, unit) M" where
  "ffi_delete_message message_id = boxed_history (delete_message message_id)"

definition ffi_delete_conversation :: "string \<Rightarrow> (signal_bridge sys, dyn_error, unit) M" where
  "ffi_delete_conversation rdx = boxed_history (delete_conversation rdx)"

definition ffi_get_unread_count :: "string \<Rightarrow> (signal_bridge sys, dyn_error, u32) M" where
  "ffi_get_unread_count rdx = boxed_history (get_unread_count rdx)"

subsection \<open>Nostr events\<close>

definition ffi_generate_node_fingerprint ::
    "'x crates_scheme \<Rightarrow> nat + unit \<Rightarrow> (signal_bridge sys, dyn_error, string) M" where
  "ffi_generate_node_fingerprint C rt = with_runtime rt (bridge_generate_node_fingerprint C)"

definition required :: "string \<Rightarrow> 'a option \<Rightarrow> (signal_bridge sys, dyn_error, 'a) M" where
  "required message x = (case x of None \<Rightarrow> throw (DynStr message) | Some a \<Rightarrow> ret a)"

definition tag_strings :: "json \<Rightarrow> string list" where
  "tag_strings tag = map (\<lambda>v. case as_str v of None \<Rightarrow> [] | Some s \<Rightarrow> s)
     (case as_array tag of None \<Rightarrow> [] | Some vs \<Rightarrow> vs)"

definition ffi_sign_nostr_event ::
    "'x crates_scheme \<Rightarrow> nat + unit \<Rightarrow> string \<Rightarrow> (signal_bridge sys, dyn_error, string) M" where
  "ffi_sign_nostr_event C rt text =
     bindM (mapErr DynIo (of_sum rt)) (\<lambda>_.
     bindM (mapErr DynCrate (of_sum (json_from_str C text))) (\<lambda>event.
     bindM (required ''Missing created_at'' (as_u64 (json_index event ''created_at''))) (\<lambda>created_at.
     bindM (required ''Missing kind'' (as_u64 (json_index event ''kind''))) (\<lambda>kind.
     bindM (required ''Missing content'' (as_str (json_index event ''content''))) (\<lambda>content.
     bindM (required ''Missing tags'' (as_array (json_index event ''tags''))) (\<lambda>tags_array.
     let tags = map tag_strings tags_array in
     bindM (mapErr DynBridge (bridge_sign_nostr_event C created_at (ucast kind) tags content))
       (\<lambda>(pubkey, event_id, signature).
     bindM (json_assign ''pubkey'' (JString pubkey) event) (\<lambda>event.
     bindM (json_assign ''id'' (JString event_id) event) (\<lambda>event.
     bindM (json_assign ''sig'' (JString signature) event) (\<lambda>event.
     mapErr DynCrate (of_sum (json_to_string C event))))))))))))"

definition ffi_create_and_sign_encrypted_message ::
    "'x crates_scheme \<Rightarrow> nat + unit \<Rightarrow> nat + unit \<Rightarrow> string \<Rightarrow> string \<Rightarrow> u64 \<Rightarrow> string \<Rightarrow>
     (signal_bridge sys, dyn_error, string) M" where
  "ffi_create_and_sign_encrypted_message C rt rt' session_id encrypted_content timestamp project_version =
     bindM (with_runtime rt (bridge_derive_peer_nostr_key C session_id)) (\<lambda>recipient_pubkey_bytes.
     let recipient_pubkey = hex_encode C recipient_pubkey_bytes;
         event = event_json [] [] timestamp 40001
           [[''p'', recipient_pubkey], [''radix_version'', project_version]] encrypted_content [] in
     bindM (mapErr DynCrate (of_sum (json_to_string C event))) (\<lambda>event_json_str.
     ffi_sign_nostr_event C rt' event_json_str))"

definition ffi_create_subscription_for_self ::
    "'x crates_scheme \<Rightarrow> nat + unit \<Rightarrow> string \<Rightarrow> u64 \<Rightarrow> (signal_bridge sys, dyn_error, string) M" where
  "ffi_create_subscription_for_self C rt subscription_id since_timestamp =
     with_runtime rt (bridge_create_subscription_for_self C subscription_id since_timestamp)"

definition ffi_update_last_message_timestamp ::
    "nat + unit \<Rightarrow> u64 \<Rightarrow> (signal_bridge sys, dyn_error, unit) M" where
  "ffi_update_last_message_timestamp rt timestamp =
     with_runtime rt (bridge_update_last_message_timestamp timestamp)"

subsection \<open>Contacts\<close>

definition ffi_of_contact :: "contact_info \<Rightarrow> ffi_contact_info" where
  "ffi_of_contact c = \<lparr>ffi_rdx_fingerprint = info_rdx_fingerprint c, ffi_nostr_pubkey = info_nostr_pubkey c,
     ffi_user_alias = (case info_user_alias c of None \<Rightarrow> [] | Some s \<Rightarrow> s),
     ffi_has_active_session = info_has_active_session c\<rparr>"

definition ffi_lookup_contact ::
    "'x crates_scheme \<Rightarrow> nat + unit \<Rightarrow> string \<Rightarrow> (signal_bridge sys, dyn_error, ffi_contact_info) M" where
  "ffi_lookup_contact C rt identifier =
     bindM (with_runtime rt (bridge_lookup_contact C identifier)) (\<lambda>contact. ret (ffi_of_contact contact))"

definition ffi_assign_contact_alias ::
    "'x crates_scheme \<Rightarrow> nat + unit \<Rightarrow> string \<Rightarrow> string \<Rightarrow> (signal_bridge sys, dyn_error, unit) M" where
  "ffi_assign_contact_alias C rt identifier new_alias =
     with_runtime rt (bridge_assign_contact_alias C identifier new_alias)"

definition ffi_list_contacts ::
    "'x crates_scheme \<Rightarrow> nat + unit \<Rightarrow> (signal_bridge sys, dyn_error, ffi_contact_info list) M" where
  "ffi_list_contacts C rt =
     bindM (with_runtime rt (bridge_list_contacts C)) (\<lambda>contacts. ret (map ffi_of_contact contacts))"

definition ffi_generate_prekey_bundle_announcement ::
    "'x crates_scheme \<Rightarrow> nat + unit \<Rightarrow> string \<Rightarrow> (signal_bridge sys, dyn_error, bundle_info) M" where
  "ffi_generate_prekey_bundle_announcement C rt project_version =
     with_runtime rt (bridge_generate_prekey_bundle_announcement C project_version)"

definition ffi_generate_empty_bundle_announcement ::
    "'x crates_scheme \<Rightarrow> nat + unit \<Rightarrow> string \<Rightarrow> (signal_bridge sys, dyn_error, string) M" where
  "ffi_generate_empty_bundle_announcement C rt project_version =
     with_runtime rt (bridge_generate_empty_bundle_announcement C project_version)"

definition ffi_add_contact_and_establish_session ::
    "'x crates_scheme \<Rightarrow> nat + unit \<Rightarrow> bytes \<Rightarrow> string \<Rightarrow> (signal_bridge sys, dyn_error, string) M" where
  "ffi_add_contact_and_establish_session C rt bundle_bytes alias =
     with_runtime rt (bridge_add_contact_and_establish_session C bundle_bytes
       (if alias = [] then None else Some alias))"

definition decode_base64 :: "'x crates_scheme \<Rightarrow> string \<Rightarrow> (signal_bridge sys, dyn_error, bytes) M" where
  "decode_base64 C text =
     mapErr (\<lambda>e. DynBridge (Protocol [Lit ''Base64 decode error: '', ShowCrate e])) (of_sum (base64_decode C text))"

definition ffi_add_contact_and_establish_session_from_base64 ::
    "'x crates_scheme \<Rightarrow> nat + unit \<Rightarrow> string \<Rightarrow> string \<Rightarrow> (signal_bridge sys, dyn_error, string) M" where
  "ffi_add_contact_and_establish_session_from_base64 C rt bundle_base64 alias =
     bindM (decode_base64 C bundle_base64) (\<lambda>bundle_bytes.
     ffi_add_contact_and_establish_session C rt bundle_bytes alias)"

definition ffi_extract_rdx_from_bundle ::
    "'x crates_scheme \<Rightarrow> bytes \<Rightarrow> (signal_bridge sys, dyn_error, string) M" where
  "ffi_extract_rdx_from_bundle C bundle_bytes =
     bindM (mapErr (\<lambda>e. DynBridge (InvalidInput [Lit ''Failed to deserialize bundle: '', ShowCrate e]))
       (of_sum (bincode_deserialize C bundle_bytes))) (\<lambda>bundle.
     bindM (mapErr (\<lambda>e. DynBridge (bridge_from_protocol e))
       (of_sum (identity_key_decode C (bundle_identity_key bundle)))) (\<lambda>identity_key.
     ret (generate_identity_fingerprint_from_key C identity_key)))"

definition ffi_extract_rdx_from_bundle_base64 ::
    "'x crates_scheme \<Rightarrow> string \<Rightarrow> (signal_bridge sys, dyn_error, string) M" where
  "ffi_extract_rdx_from_bundle_base64 C bundle_base64 =
     bindM (decode_base64 C bundle_base64) (ffi_extract_rdx_from_bundle C)"

end
