(* ===== verification/Sample_Libsignal.thy ===== *)
theory Sample_Libsignal
  imports Libsignal
begin

text \<open>
  A concrete libsignal that satisfies the hypotheses \<open>libsignal_ok\<close> and \<open>libsignal_records_ok\<close>, used
  to show that the theorems that assume them are not vacuous. It has no cryptography: keys are
  decimal numbers, a record is the concatenation of its length-prefixed fields.
\<close>

section \<open>Length-prefixed fields\<close>

definition put_field :: "bytes \<Rightarrow> bytes \<Rightarrow> bytes" where
  "put_field f rest = replicate (length f) 1 @ 0 # f @ rest"

definition field_length :: "bytes \<Rightarrow> nat" where
  "field_length b = length (takeWhile (\<lambda>x. x = 1) b)"

definition field_of :: "bytes \<Rightarrow> bytes" where
  "field_of b = take (field_length b) (drop (Suc (field_length b)) b)"

definition after_field :: "bytes \<Rightarrow> bytes" where
  "after_field b = drop (field_length b + Suc (field_length b)) b"

lemma field_length_put [simp]: "field_length (put_field f rest) = length f"
  by (simp add: field_length_def put_field_def takeWhile_append)

lemma drop_ones: "drop (Suc n) (replicate n x @ y # ys) = ys"
  by (induction n) simp_all

lemma field_of_put [simp]: "field_of (put_field f rest) = f"
  by (simp add: field_of_def) (simp add: put_field_def drop_ones)

lemma after_field_put [simp]: "after_field (put_field f rest) = rest"
proof -
  have "after_field (put_field f rest) = drop (length f) (drop (Suc (length f)) (put_field f rest))"
    by (simp add: after_field_def)
  also have "\<dots> = rest" by (simp add: put_field_def drop_ones)
  finally show ?thesis .
qed

text \<open>Numbers as decimal text.\<close>

definition num_bytes :: "nat \<Rightarrow> bytes" where
  "num_bytes n = bytes_of_chars (show_nat n)"

definition num_of_bytes :: "bytes \<Rightarrow> nat" where
  "num_of_bytes b = (case parse_digits 0 (chars_of_bytes b) of None \<Rightarrow> 0 | Some n \<Rightarrow> n)"

lemma num_of_bytes_inverse [simp]: "n < 2 ^ 64 \<Longrightarrow> num_of_bytes (num_bytes n) = n"
  by (simp only: num_of_bytes_def num_bytes_def chars_of_bytes_inverse parse_digits_show_nat option.case)

lemma num_u64 [simp]: "of_nat (num_of_bytes (num_bytes (unat t))) = (t :: u64)"
  using unat_u64_less [of t] by (simp only: num_of_bytes_inverse) simp

lemma num_u32 [simp]: "of_nat (num_of_bytes (num_bytes (unat i))) = (i :: u32)"
proof -
  have "unat i < 4294967296" using unsigned_less [of i] by simp
  then have "unat i < 2 ^ 64" by simp
  then show ?thesis by (simp only: num_of_bytes_inverse) simp
qed

section \<open>The instance\<close>

definition record_bytes :: "u32 \<Rightarrow> u64 \<Rightarrow> bytes \<Rightarrow> bytes \<Rightarrow> bytes" where
  "record_bytes i t kp g =
     put_field (num_bytes (unat i)) (put_field (num_bytes (unat t)) (put_field kp g))"

definition record_number :: "bytes \<Rightarrow> u32" where
  "record_number b = of_nat (num_of_bytes (field_of b))"

definition record_timestamp :: "bytes \<Rightarrow> u64" where
  "record_timestamp b = of_nat (num_of_bytes (field_of (after_field b)))"

definition record_key :: "bytes \<Rightarrow> bytes" where
  "record_key b = field_of (after_field (after_field b))"

definition record_signature :: "bytes \<Rightarrow> bytes" where
  "record_signature b = after_field (after_field (after_field b))"

lemma record_fields [simp]:
  "record_number (record_bytes i t kp g) = i" "record_timestamp (record_bytes i t kp g) = t"
  "record_key (record_bytes i t kp g) = kp" "record_signature (record_bytes i t kp g) = g"
  by (simp_all add: record_bytes_def record_number_def record_timestamp_def record_key_def record_signature_def)

text \<open>
  Messages: a session is needed to send, the plaintext travels as it is, and the receiver's first
  message consumes a one-time pre-key and stores a session.
\<close>

definition sample_process :: "address \<Rightarrow> pre_key_bundle \<Rightarrow> int \<Rightarrow> nat \<Rightarrow> unit peer_prog" where
  "sample_process a b t r = (case b of PreKeyBundle k \<Rightarrow>
     PeerCall (SaveIdentity a (IdentityKey k)) (\<lambda>_.
     PeerCall (StoreSession a (SessionRecord k)) (\<lambda>_. PeerDone (Inr ()))))"

definition sample_encrypt :: "bytes \<Rightarrow> address \<Rightarrow> int \<Rightarrow> nat \<Rightarrow> ciphertext_message peer_prog" where
  "sample_encrypt p a t r = PeerCall (LoadSession a) (\<lambda>x. case x of
     SessionAnswer (Inr (Some s)) \<Rightarrow> PeerDone (Inr (SignalMessage (SignalMessageV p)))
   | _ \<Rightarrow> PeerDone (Inl (OtherProtocolError 0)))"

definition sample_decrypt :: "ciphertext_message \<Rightarrow> address \<Rightarrow> nat \<Rightarrow> bytes store_prog" where
  "sample_decrypt c a r = (case c of
     PreKeySignalMessage (PreKeySignalMessageV p) \<Rightarrow>
       StoreCall (RemovePreKey 1) (\<lambda>_.
       StoreCall (PeerRequest (StoreSession a (SessionRecord p))) (\<lambda>_. StoreDone (Inr p)))
   | SignalMessage (SignalMessageV p) \<Rightarrow> StoreDone (Inr p)
   | OtherCiphertext _ \<Rightarrow> StoreDone (Inl (OtherProtocolError 1)))"

definition sample_libsignal :: libsignal where
  "sample_libsignal = \<lparr>
     public_key_serialize = (\<lambda>k. case k of PublicKey b \<Rightarrow> b),
     public_key_deserialize = (\<lambda>b. Inr (PublicKey b)),
     identity_key_serialize = (\<lambda>k. case k of IdentityKey b \<Rightarrow> b),
     identity_key_decode = (\<lambda>b. Inr (IdentityKey b)),
     identity_key_public_key = (\<lambda>k. case k of IdentityKey b \<Rightarrow> PublicKey b),
     identity_key_pair_generate = (\<lambda>r. IdentityKeyPair (num_bytes r)),
     identity_key_pair_serialize = (\<lambda>k. case k of IdentityKeyPair b \<Rightarrow> b),
     identity_key_pair_try_from = (\<lambda>b. Inr (IdentityKeyPair b)),
     identity_key_pair_identity_key = (\<lambda>k. case k of IdentityKeyPair b \<Rightarrow> IdentityKey b),
     identity_key_pair_private_key = (\<lambda>k. case k of IdentityKeyPair b \<Rightarrow> PrivateKey b),
     key_pair_generate = (\<lambda>r. KeyPair (num_bytes r)),
     key_pair_public_key = (\<lambda>k. case k of KeyPair b \<Rightarrow> PublicKey b),
     calculate_signature = (\<lambda>k m r. case k of PrivateKey b \<Rightarrow> Inr (b @ m)),
     kem_key_pair_generate = (\<lambda>r. KemKeyPair (num_bytes r)),
     kem_key_pair_public_key = (\<lambda>k. case k of KemKeyPair b \<Rightarrow> KemPublicKey b),
     kem_public_key_serialize = (\<lambda>k. case k of KemPublicKey b \<Rightarrow> b),
     kem_public_key_deserialize = (\<lambda>b. Inr (KemPublicKey b)),
     pre_key_record_new = (\<lambda>i k. case k of KeyPair b \<Rightarrow> PreKeyRecord (record_bytes i 0 b [])),
     pre_key_record_key_pair = (\<lambda>r. case r of PreKeyRecord b \<Rightarrow> Inr (KeyPair (record_key b))),
     pre_key_record_serialize = (\<lambda>r. case r of PreKeyRecord b \<Rightarrow> Inr b),
     pre_key_record_deserialize = (\<lambda>b. Inr (PreKeyRecord b)),
     signed_pre_key_record_new = (\<lambda>i t k g. case k of KeyPair b \<Rightarrow> SignedPreKeyRecord (record_bytes i t b g)),
     signed_pre_key_record_id = (\<lambda>r. case r of SignedPreKeyRecord b \<Rightarrow> Inr (record_number b)),
     signed_pre_key_record_timestamp = (\<lambda>r. case r of SignedPreKeyRecord b \<Rightarrow> Inr (record_timestamp b)),
     signed_pre_key_record_public_key = (\<lambda>r. case r of SignedPreKeyRecord b \<Rightarrow> Inr (PublicKey (record_key b))),
     signed_pre_key_record_signature = (\<lambda>r. case r of SignedPreKeyRecord b \<Rightarrow> Inr (record_signature b)),
     signed_pre_key_record_serialize = (\<lambda>r. case r of SignedPreKeyRecord b \<Rightarrow> Inr b),
     signed_pre_key_record_deserialize = (\<lambda>b. Inr (SignedPreKeyRecord b)),
     kyber_pre_key_record_new = (\<lambda>i t k g. case k of KemKeyPair b \<Rightarrow> KyberPreKeyRecord (record_bytes i t b g)),
     kyber_pre_key_record_timestamp = (\<lambda>r. case r of KyberPreKeyRecord b \<Rightarrow> Inr (record_timestamp b)),
     kyber_pre_key_record_key_pair = (\<lambda>r. case r of KyberPreKeyRecord b \<Rightarrow> Inr (KemKeyPair (record_key b))),
     kyber_pre_key_record_signature = (\<lambda>r. case r of KyberPreKeyRecord b \<Rightarrow> Inr (record_signature b)),
     kyber_pre_key_record_serialize = (\<lambda>r. case r of KyberPreKeyRecord b \<Rightarrow> Inr b),
     kyber_pre_key_record_deserialize = (\<lambda>b. Inr (KyberPreKeyRecord b)),
     session_record_serialize = (\<lambda>r. case r of SessionRecord b \<Rightarrow> Inr b),
     session_record_deserialize = (\<lambda>b. Inr (SessionRecord b)),
     device_id_new = (\<lambda>i. if 1 \<le> i \<and> i \<le> 127 then Inr (of_nat (unat i)) else Inl 0),
     process_prekey_bundle = sample_process,
     message_encrypt = sample_encrypt,
     message_decrypt = sample_decrypt\<rparr>"

lemma sample_libsignal_ok [simp]: "libsignal_ok sample_libsignal"
  by (auto simp: libsignal_ok_def sample_libsignal_def split: session_record.splits pre_key_record.splits
      signed_pre_key_record.splits kyber_pre_key_record.splits identity_key.splits identity_key_pair.splits)

lemma sample_libsignal_records_ok [simp]: "libsignal_records_ok sample_libsignal"
  by (auto simp: libsignal_records_ok_def sample_libsignal_def split: key_pair.splits kem_key_pair.splits
      private_key.splits)

end
