(* ===== verification/Sample_Crates.thy ===== *)
theory Sample_Crates
  imports Crates Sample_Libsignal
begin

text \<open>
  Concrete crates that satisfy \<open>crates_ok\<close>, \<open>codecs_ok\<close> and \<open>bundles_ok\<close>, used to show that the
  theorems that assume them are not vacuous. A bundle is the concatenation of its length-prefixed
  fields; JSON text is a table of a few values.
\<close>

section \<open>Bundles\<close>

definition put_u32 :: "u32 \<Rightarrow> bytes \<Rightarrow> bytes" where
  "put_u32 w rest = put_field (num_bytes (unat w)) rest"

definition u32_field :: "bytes \<Rightarrow> u32" where
  "u32_field b = of_nat (num_of_bytes (field_of b))"

definition put_option :: "bytes option \<Rightarrow> bytes \<Rightarrow> bytes" where
  "put_option x rest = put_field (case x of None \<Rightarrow> [] | Some b \<Rightarrow> 1 # b) rest"

definition option_field :: "bytes \<Rightarrow> bytes option" where
  "option_field b = (case field_of b of [] \<Rightarrow> None | _ # c \<Rightarrow> Some c)"

lemma fields_inverse [simp]:
  "u32_field (put_u32 w rest) = w" "after_field (put_u32 w rest) = rest"
  "option_field (put_option x rest) = x" "after_field (put_option x rest) = rest"
  by (simp_all add: u32_field_def put_u32_def option_field_def put_option_def split: option.split)

definition bundle_bytes :: "serializable_pre_key_bundle \<Rightarrow> bytes" where
  "bundle_bytes b = put_u32 (bundle_registration_id b) (put_u32 (bundle_device_id b)
     (put_option (map_option (\<lambda>w. num_bytes (unat w)) (bundle_pre_key_id b)) (put_option (bundle_pre_key_public b)
     (put_u32 (bundle_signed_pre_key_id b) (put_field (bundle_signed_pre_key_public b)
     (put_field (bundle_signed_pre_key_signature b) (put_field (bundle_identity_key b)
     (put_u32 (bundle_kyber_pre_key_id b) (put_field (bundle_kyber_pre_key_public b)
     (bundle_kyber_pre_key_signature b))))))))))"

definition nth_field :: "nat \<Rightarrow> bytes \<Rightarrow> bytes" where
  "nth_field n b = (after_field ^^ n) b"

lemma nth_field_simps:
  "nth_field 0 b = b" "nth_field (Suc n) b = nth_field n (after_field b)"
  "nth_field (numeral k) b = nth_field (pred_numeral k) (after_field b)"
  by (simp_all add: nth_field_def numeral_eq_Suc funpow_swap1)

definition bundle_of_bytes :: "bytes \<Rightarrow> serializable_pre_key_bundle" where
  "bundle_of_bytes b = \<lparr>
     bundle_registration_id = u32_field b, bundle_device_id = u32_field (nth_field 1 b),
     bundle_pre_key_id = map_option (\<lambda>x. of_nat (num_of_bytes x)) (option_field (nth_field 2 b)),
     bundle_pre_key_public = option_field (nth_field 3 b),
     bundle_signed_pre_key_id = u32_field (nth_field 4 b),
     bundle_signed_pre_key_public = field_of (nth_field 5 b),
     bundle_signed_pre_key_signature = field_of (nth_field 6 b),
     bundle_identity_key = field_of (nth_field 7 b),
     bundle_kyber_pre_key_id = u32_field (nth_field 8 b),
     bundle_kyber_pre_key_public = field_of (nth_field 9 b),
     bundle_kyber_pre_key_signature = nth_field 10 b\<rparr>"

lemma bundle_of_bytes_inverse [simp]: "bundle_of_bytes (bundle_bytes b) = b"
  by (simp add: bundle_of_bytes_def bundle_bytes_def nth_field_simps option.map_comp comp_def option.map_ident)

section \<open>Text\<close>

definition sample_event :: json where
  "sample_event = json_object [(''created_at'', json_u64 5), (''kind'', json_u64 1), (''content'', JString ''hi''),
     (''tags'', JArray [json_strings [''p'', ''q'']])]"

definition signed_sample_event :: "string \<Rightarrow> json" where
  "signed_sample_event pubkey = json_object [(''created_at'', json_u64 5), (''kind'', json_u64 1),
     (''content'', JString ''hi''), (''tags'', JArray [json_strings [''p'', ''q'']]),
     (''pubkey'', JString pubkey), (''id'', JString ''event''), (''sig'', JString ''sig'')]"

fun json_text :: "json \<Rightarrow> nat + string" where
  "json_text v = (if v = sample_event then Inr ''event''
     else case json_index v ''pubkey'' of
       JString s \<Rightarrow> if v = signed_sample_event s then Inr (''signed'' @ s) else Inl 0
     | _ \<Rightarrow> Inl 0)"

definition json_of_text :: "string \<Rightarrow> nat + json" where
  "json_of_text s = (if s = ''event'' then Inr sample_event
     else if take 6 s = ''signed'' then Inr (signed_sample_event (drop 6 s)) else Inl 0)"

lemma json_of_text_inverse: "json_text v = Inr s \<Longrightarrow> json_of_text s = Inr v"
  by (auto simp: json_of_text_def split: if_splits json.splits)

section \<open>The instance\<close>

definition sample_crates :: crates where
  "sample_crates = libsignal.extend sample_libsignal (crates.fields
     (\<lambda>b. take 32 (b @ replicate 32 0))
     (\<lambda>ikm info n. Inr (take n (ikm @ replicate n 0)))
     (\<lambda>b. Inr (NostrSecretKey b))
     (\<lambda>k. case k of NostrSecretKey b \<Rightarrow> NostrKeys b)
     (\<lambda>k. case k of NostrKeys b \<Rightarrow> NostrPublicKey b)
     (\<lambda>k. case k of NostrPublicKey b \<Rightarrow> lower_hex b)
     (\<lambda>k. case k of NostrPublicKey b \<Rightarrow> b)
     (\<lambda>ss. if ss = [] then Inl 0 else Inr (NostrTag (bytes_of_chars (concat ss))))
     (\<lambda>kind content tags t keys rng. Inr (NostrEvent (num_bytes rng)))
     (\<lambda>e. ''event'')
     (\<lambda>e. ''sig'')
     (\<lambda>b. Inr (bundle_bytes b))
     (\<lambda>b. Inr (bundle_of_bytes b))
     chars_of_bytes
     (\<lambda>s. Inr (bytes_of_chars s))
     lower_hex
     json_text
     json_of_text
     (\<lambda>v. ''value'')
     (\<lambda>r d p i k g j q h y. Inr (PreKeyBundle (bundle_bytes \<lparr>bundle_registration_id = r, bundle_device_id = d,
       bundle_pre_key_id = map_option fst p,
       bundle_pre_key_public = map_option (\<lambda>x. case snd x of PublicKey b \<Rightarrow> b) p,
       bundle_signed_pre_key_id = i, bundle_signed_pre_key_public = (case k of PublicKey b \<Rightarrow> b),
       bundle_signed_pre_key_signature = g, bundle_identity_key = (case y of IdentityKey b \<Rightarrow> b),
       bundle_kyber_pre_key_id = j, bundle_kyber_pre_key_public = (case q of KemPublicKey b \<Rightarrow> b),
       bundle_kyber_pre_key_signature = h\<rparr>)))
     (\<lambda>b. case b of PreKeyBundle x \<Rightarrow> Inr (bundle_registration_id (bundle_of_bytes x)))
     (\<lambda>b. case b of PreKeyBundle x \<Rightarrow> Inr (bundle_device_id (bundle_of_bytes x)))
     (\<lambda>b. case b of PreKeyBundle x \<Rightarrow> Inr (bundle_pre_key_id (bundle_of_bytes x)))
     (\<lambda>b. case b of PreKeyBundle x \<Rightarrow> Inr (map_option PublicKey (bundle_pre_key_public (bundle_of_bytes x))))
     (\<lambda>b. case b of PreKeyBundle x \<Rightarrow> Inr (bundle_signed_pre_key_id (bundle_of_bytes x)))
     (\<lambda>b. case b of PreKeyBundle x \<Rightarrow> Inr (PublicKey (bundle_signed_pre_key_public (bundle_of_bytes x))))
     (\<lambda>b. case b of PreKeyBundle x \<Rightarrow> Inr (bundle_signed_pre_key_signature (bundle_of_bytes x)))
     (\<lambda>b. case b of PreKeyBundle x \<Rightarrow> Inr (bundle_kyber_pre_key_id (bundle_of_bytes x)))
     (\<lambda>b. case b of PreKeyBundle x \<Rightarrow> Inr (KemPublicKey (bundle_kyber_pre_key_public (bundle_of_bytes x))))
     (\<lambda>b. case b of PreKeyBundle x \<Rightarrow> Inr (bundle_kyber_pre_key_signature (bundle_of_bytes x)))
     (\<lambda>b. case b of PreKeyBundle x \<Rightarrow> Inr (IdentityKey (bundle_identity_key (bundle_of_bytes x))))
     (\<lambda>b. if take 1 b = [3] then Inr (PreKeySignalMessageV (drop 1 b)) else Inl (OtherProtocolError 0))
     (\<lambda>m. case m of PreKeySignalMessageV b \<Rightarrow> IdentityKey b)
     (\<lambda>m. Some 1)
     (\<lambda>b. if take 1 b = [2] then Inr (SignalMessageV (drop 1 b)) else Inl (OtherProtocolError 0))
     (\<lambda>m. case m of PreKeySignalMessage (PreKeySignalMessageV b) \<Rightarrow> 3 # b | SignalMessage (SignalMessageV b) \<Rightarrow> 2 # b
        | OtherCiphertext b \<Rightarrow> b)
     (\<lambda>n. [0..<n])
     (\<lambda>l k ids. [0..<length ids]))"

lemmas sample_crates_defs = sample_crates_def libsignal.defs crates.defs

lemma sample_crates_ok [simp]: "crates_ok sample_crates"
proof -
  have "libsignal_ok sample_crates"
    using sample_libsignal_ok unfolding libsignal_ok_def by (simp add: sample_crates_defs)
  moreover have "length (sha256 sample_crates b) = 32" "scan_order sample_crates n = [0..<n]"
    "page_order sample_crates l k ids = [0..<length ids]" for b n l k ids
    by (simp_all add: sample_crates_defs)
  ultimately show ?thesis by (simp add: crates_ok_def)
qed

lemma sample_crates_records_ok [simp]: "libsignal_records_ok sample_crates"
  using sample_libsignal_records_ok unfolding libsignal_records_ok_def by (simp add: sample_crates_defs)

lemma sample_codecs_ok [simp]: "codecs_ok sample_crates"
  using json_of_text_inverse
  by (auto simp: codecs_ok_def sample_crates_defs sample_libsignal_def simp del: json_text.simps
      split: public_key.split kem_public_key.split)

lemma wrapped_public_key [simp]: "PublicKey (case k of PublicKey b \<Rightarrow> b) = k"
  by (cases k) simp

lemma sample_bundles_ok [simp]: "bundles_ok sample_crates"
  by (auto simp: bundles_ok_def sample_crates_defs option.map_comp comp_def split: public_key.split identity_key.split
      kem_public_key.split)

end
