(* ===== verification/History_Correct.thy ===== *)
theory History_Correct
  imports Message_History Sample_Crates
begin

text \<open>
  What holds of the message history: its well-formedness and that every operation keeps it whatever
  fails, the abstract view (a thread of messages and an unread counter per fingerprint) that the
  operations implement, paging, and the round trip of a stored message.
\<close>

section \<open>Well-formed history\<close>

text \<open>The columns of a message row hold values of their Rust types.\<close>

definition row_typed :: "message_row \<Rightarrow> bool" where
  "row_typed m \<longleftrightarrow> in_i64 (message_timestamp m) \<and> message_direction m \<in> {0, 1} \<and> message_type m \<in> {0, 1, 2} \<and>
     message_delivery_status m \<in> {0, 1, 2, 3}"

lemma row_typed_status [simp]: "row_typed m \<Longrightarrow> row_typed (m\<lparr>message_delivery_status := status_as_i64 st\<rparr>)"
  by (simp add: row_typed_def status_as_i64_def split: delivery_status.split)

definition history_wf :: "db \<Rightarrow> bool" where
  "history_wf d \<longleftrightarrow>
     sorted_wrt (<) (map conversation_row_id (conversations d)) \<and>
     distinct (map conversation_rdx (conversations d)) \<and>
     (\<forall>c \<in> set (conversations d). conversation_row_id c \<le> conversation_sequence d \<and> 0 \<le> unread_count c) \<and>
     sorted_wrt (<) (map message_row_id (messages d)) \<and>
     (\<forall>m \<in> set (messages d). message_row_id m \<le> message_sequence d \<and> row_typed m) \<and>
     (foreign_keys d \<longrightarrow>
        (\<forall>m \<in> set (messages d). message_conversation_id m \<in> set (map conversation_row_id (conversations d))) \<and>
        (\<forall>c \<in> set (conversations d). conversation_rdx c \<in> set (map rdx_fingerprint (contacts d))))"

lemma table_pred_history_wf [simp]: "table_pred history_wf"
  by (simp add: table_pred_def history_wf_def)

lemma bound_step: "\<forall>x \<in> A. f x \<le> (n :: int) \<and> P x \<Longrightarrow> \<forall>x \<in> A. f x < n + 1 \<and> f x \<le> n + 1 \<and> P x"
  by force

lemma insert_conversation_wf: "preserves history_wf (insert_conversation rdx npub)"
  unfolding insert_conversation_def
proof (rule preserves_sql [OF table_pred_history_wf])
  fix d a d'
  assume wf: "history_wf d" and ins: "(if foreign_keys d \<and> rdx \<notin> set (map rdx_fingerprint (contacts d))
      then Inl (SqliteFailure ''FOREIGN KEY constraint failed'')
      else if rdx \<in> set (map conversation_rdx (conversations d))
      then Inl (SqliteFailure ''UNIQUE constraint failed: conversations.rdx_fingerprint'')
      else if max_rowid \<le> conversation_sequence d then Inl (SqliteFailure ''database or disk is full'')
      else let i = conversation_sequence d + 1 in
        Inr ((), d\<lparr>conversations := conversations d @ [\<lparr>conversation_row_id = i, conversation_rdx = rdx,
            conversation_nostr_pubkey = npub, last_message_timestamp = 0, unread_count = 0, archived = False\<rparr>],
          conversation_sequence := i, last_insert_rowid := i\<rparr>)) = Inr (a, d')"
  from wf have bound: "\<forall>c \<in> set (conversations d). conversation_row_id c < conversation_sequence d + 1 \<and>
      conversation_row_id c \<le> conversation_sequence d + 1 \<and> 0 \<le> unread_count c"
    by (intro bound_step) (simp add: history_wf_def)
  from wf ins bound show "history_wf d'"
    by (simp add: history_wf_def Let_def sorted_wrt_append split: if_splits) (auto simp: sorted_wrt_append)
qed

lemma insert_message_wf:
  assumes row: "\<And>i. message_row_id (row i) = i" "\<And>i. row_typed (row i)"
  shows "preserves history_wf (insert_message row)"
  unfolding insert_message_def
proof (rule preserves_sql [OF table_pred_history_wf])
  fix d a d'
  assume wf: "history_wf d" and ins: "(let i = message_sequence d + 1; r = row i in
      if foreign_keys d \<and> message_conversation_id r \<notin> set (map conversation_row_id (conversations d))
      then Inl (SqliteFailure ''FOREIGN KEY constraint failed'')
      else if max_rowid \<le> message_sequence d then Inl (SqliteFailure ''database or disk is full'')
      else Inr ((), d\<lparr>messages := messages d @ [r], message_sequence := i, last_insert_rowid := i\<rparr>)) = Inr (a, d')"
  from wf have bound: "\<forall>m \<in> set (messages d). message_row_id m < message_sequence d + 1 \<and>
      message_row_id m \<le> message_sequence d + 1 \<and> row_typed m"
    by (intro bound_step) (simp add: history_wf_def)
  from wf ins bound row show "history_wf d'"
    by (simp add: history_wf_def Let_def sorted_wrt_append split: if_splits) (auto simp: sorted_wrt_append)
qed

lemma update_conversations_wf:
  assumes "\<And>r. conversation_row_id (upd r) = conversation_row_id r"
    and "\<And>r. conversation_rdx (upd r) = conversation_rdx r"
    and "\<And>r. 0 \<le> unread_count r \<Longrightarrow> 0 \<le> unread_count (upd r)"
    and "history_wf d"
  shows "history_wf (update_conversations sel upd d)"
proof -
  have "conversation_row_id (if sel r then upd r else r) = conversation_row_id r"
    "conversation_rdx (if sel r then upd r else r) = conversation_rdx r"
    "0 \<le> unread_count r \<Longrightarrow> 0 \<le> unread_count (if sel r then upd r else r)" for r
    using assms(1-3) by simp_all
  with assms(4) show ?thesis
    by (simp add: history_wf_def update_conversations_def comp_def image_image)
      (auto simp: assms(1,2) intro: assms(3))
qed

lemma filter_rows_wf:
  assumes "history_wf d"
  shows "history_wf (d\<lparr>messages := filter P (messages d)\<rparr>)"
  using assms by (auto simp: history_wf_def sorted_wrt_filter sorted_wrt_map)

lemma delete_conversation_rows_wf:
  assumes "history_wf d" and "\<not> foreign_keys d \<longrightarrow> (\<forall>m \<in> set (messages d). message_conversation_id m \<notin> set is)"
  shows "history_wf (delete_conversation_rows is d)"
  using assms by (auto simp: history_wf_def delete_conversation_rows_def sorted_wrt_filter sorted_wrt_map distinct_map_filter)

lemma preserves_query_row_history [preserves_intro]:
  "preserves history_wf (query_row ts q)" "preserves history_wf (query_all ts q')" "preserves history_wf (prepare ts)"
  by (rule preserves_queries [OF table_pred_history_wf])+

lemma get_or_create_wf: "preserves history_wf (get_or_create_conversation rdx)"
  unfolding get_or_create_conversation_def Let_def
  by (intro preserves_intro table_pred_history_wf insert_conversation_wf)

lemma update_conversation_wf: "preserves history_wf (update_conversation i t inc)"
  unfolding update_conversation_def
  by (intro preserves_intro table_pred_history_wf preserves_execute update_conversations_wf) simp_all

lemma store_incoming_wf: "preserves history_wf (store_incoming_message rdx t p b e)"
  unfolding store_incoming_message_def
  by (intro preserves_intro table_pred_history_wf get_or_create_wf update_conversation_wf insert_message_wf)
    (simp_all add: row_typed_def direction_as_i64_def kind_as_i64_def status_as_i64_def)

lemma store_outgoing_wf: "preserves history_wf (store_outgoing_message rdx t p)"
  unfolding store_outgoing_message_def
  by (intro preserves_intro table_pred_history_wf get_or_create_wf update_conversation_wf insert_message_wf)
    (simp_all add: row_typed_def direction_as_i64_def kind_as_i64_def status_as_i64_def)

lemma update_status_wf: "preserves history_wf (update_delivery_status i st)"
proof -
  have ids: "map message_row_id (map (\<lambda>r. if message_row_id r = i then r\<lparr>message_delivery_status := s\<rparr> else r) ms)
      = map message_row_id ms" for ms s by simp
  show ?thesis
    unfolding update_delivery_status_def
    by (intro preserves_intro table_pred_history_wf preserves_execute) (auto simp: history_wf_def ids simp del: map_map)
qed

lemma mark_read_wf: "preserves history_wf (mark_conversation_read rdx)"
  unfolding mark_conversation_read_def
  by (intro preserves_intro table_pred_history_wf preserves_execute update_conversations_wf) simp_all

lemma query_count_nonneg:
  assumes "\<And>d. I d \<Longrightarrow> I (d\<lparr>faults := tl (faults d)\<rparr>)" and "\<And>n. 0 \<le> n \<Longrightarrow> preserves I (f n)"
  shows "preserves I (bindM (mapErr g (query_row ts (\<lambda>d. [int (length (q d))]))) f)"
proof (rule preservesI)
  fix d assume "I d"
  then have I1: "I (d\<lparr>faults := tl (faults d)\<rparr>)" by (rule assms(1))
  show "I (snd (bindM (mapErr g (query_row ts (\<lambda>d. [int (length (q d))]))) f d))"
    using I1 assms(2)
    by (auto simp: bindM_at mapErr_at query_row_def sql_def Let_def preserves_def split: list.splits option.splits)
qed

lemma mark_read_up_to_wf: "preserves history_wf (mark_conversation_read_up_to rdx t)"
  unfolding mark_conversation_read_up_to_def
  by (intro preserves_with_lock preserves_bindM query_count_nonneg preserves_mapErr preserves_query_row_history
      table_pred_history_wf preserves_execute update_conversations_wf)
    (simp_all add: table_predD(1) [OF table_pred_history_wf])

lemma delete_message_wf: "preserves history_wf (delete_message i)"
  unfolding delete_message_def delete_key_def
  by (intro preserves_intro table_pred_history_wf preserves_execute filter_rows_wf)

text \<open>
  The two statements of \<open>delete_conversation\<close>: a failure between them leaves the conversation
  without messages, which is still well-formed.
\<close>

lemma delete_conversation_body_wf:
  "preserves history_wf (bindM (mapErr Database (execute [Messages] (\<lambda>d.
       d\<lparr>messages := filter (\<lambda>m. message_conversation_id m \<noteq> i) (messages d)\<rparr>))) (\<lambda>_.
     mapErr Database (execute [Conversations] (delete_conversation_rows [i]))))"
proof (rule preservesI)
  fix d assume wf: "history_wf d"
  let ?J = "\<lambda>d. history_wf d \<and> (\<forall>m \<in> set (messages d). message_conversation_id m \<noteq> i)"
  have J: "table_pred ?J" by (simp add: table_pred_def history_wf_def)
  have first: "preserves history_wf (mapErr Database (execute [Messages] (\<lambda>d.
      d\<lparr>messages := filter (\<lambda>m. message_conversation_id m \<noteq> i) (messages d)\<rparr>)))"
    by (intro preserves_mapErr preserves_execute filter_rows_wf table_pred_history_wf)
  have ok: "?J d'" if "mapErr Database (execute [Messages] (\<lambda>d.
      d\<lparr>messages := filter (\<lambda>m. message_conversation_id m \<noteq> i) (messages d)\<rparr>)) d = (Ok u, d')" for u d'
    using that preservesD [OF first wf that]
    by (auto simp: mapErr_at execute_def sql_def Let_def split: prod.splits outcome.splits option.splits
        list.splits if_splits)
  have second: "preserves ?J (mapErr Database (execute [Conversations] (delete_conversation_rows [i])))"
  proof (intro preserves_mapErr preserves_execute [OF J] conjI)
    fix d assume "?J d"
    then show "history_wf (delete_conversation_rows [i] d)" by (intro delete_conversation_rows_wf) auto
    from \<open>?J d\<close> show "\<forall>m \<in> set (messages (delete_conversation_rows [i] d)). message_conversation_id m \<noteq> i"
      by (auto simp: delete_conversation_rows_def)
  qed
  show "history_wf (snd (bindM (mapErr Database (execute [Messages] (\<lambda>d.
       d\<lparr>messages := filter (\<lambda>m. message_conversation_id m \<noteq> i) (messages d)\<rparr>))) (\<lambda>_.
     mapErr Database (execute [Conversations] (delete_conversation_rows [i]))) d))"
  proof (cases "mapErr Database (execute [Messages] (\<lambda>d.
      d\<lparr>messages := filter (\<lambda>m. message_conversation_id m \<noteq> i) (messages d)\<rparr>)) d")
    case (Pair r d')
    show ?thesis
    proof (cases r)
      case (Ok u)
      with Pair have "?J d'" using ok by blast
      then have "history_wf (snd (mapErr Database (execute [Conversations] (delete_conversation_rows [i])) d'))"
        using second unfolding preserves_def by blast
      then show ?thesis using Pair Ok by (simp add: bindM_at)
    qed (use Pair preservesD [OF first wf Pair] in \<open>simp_all add: bindM_at\<close>)
  qed
qed

lemma delete_conversation_wf: "preserves history_wf (delete_conversation rdx)"
  unfolding delete_conversation_def
  by (intro preserves_with_lock preserves_bindM [OF preserves_attempt] preserves_sum
      preserves_query_row_history table_pred_history_wf delete_conversation_body_wf preserves_basic)

lemma readers_wf:
  "preserves history_wf (get_message i)" "preserves history_wf (get_conversation_messages C rdx l k)"
  "preserves history_wf (get_conversations C b)" "preserves history_wf (get_unread_count rdx)"
  unfolding get_message_def get_conversation_messages_def get_conversations_def get_unread_count_def
  by (intro preserves_intro table_pred_history_wf)+

section \<open>The abstract view\<close>

text \<open>
  A fingerprint has a thread, the rows of its conversation in the order they were stored, and an
  unread counter.
\<close>

definition conversation_at :: "string \<Rightarrow> db \<Rightarrow> conversation_row option" where
  "conversation_at rdx d = lookup_row conversation_rdx rdx (conversations d)"

definition thread_of :: "string \<Rightarrow> db \<Rightarrow> message_row list" where
  "thread_of rdx d = (case conversation_at rdx d of
     None \<Rightarrow> []
   | Some c \<Rightarrow> filter (\<lambda>m. message_conversation_id m = conversation_row_id c) (messages d))"

definition unread_of :: "string \<Rightarrow> db \<Rightarrow> int" where
  "unread_of rdx d = (case conversation_at rdx d of None \<Rightarrow> 0 | Some c \<Rightarrow> unread_count c)"

text \<open>A database on which the history serves calls; the bundled SQLite enforces foreign keys.\<close>

definition history_serving :: "db \<Rightarrow> bool" where
  "history_serving d \<longleftrightarrow> mutex d = Unlocked \<and> faults d = [] \<and> foreign_keys d \<and> history_wf d \<and>
     {Contacts, Conversations, Messages} \<subseteq> set (created d)"

lemma history_servingD:
  assumes "history_serving d"
  shows "mutex d = Unlocked" "faults d = []" "foreign_keys d" "history_wf d"
    "Contacts \<in> set (created d)" "Conversations \<in> set (created d)" "Messages \<in> set (created d)"
  using assms by (auto simp: history_serving_def)

lemma conversation_ids_of_at:
  assumes "history_wf d"
  shows "conversation_ids_of rdx d = (case conversation_at rdx d of None \<Rightarrow> [] | Some c \<Rightarrow> [conversation_row_id c])"
  using assms filter_key_lookup [of conversation_rdx "conversations d" rdx]
  by (auto simp: history_wf_def conversation_ids_of_def conversation_at_def split: option.split)

lemma conversation_atD:
  "conversation_at rdx d = Some c \<Longrightarrow> c \<in> set (conversations d) \<and> conversation_rdx c = rdx"
  by (auto simp: conversation_at_def dest: lookup_row_SomeD)

subsection \<open>Opening a conversation\<close>

definition open_thread :: "string \<Rightarrow> db \<Rightarrow> db" where
  "open_thread rdx d = (case conversation_at rdx d of
     Some c \<Rightarrow> d
   | None \<Rightarrow> d\<lparr>conversations := conversations d @ [\<lparr>conversation_row_id = conversation_sequence d + 1,
       conversation_rdx = rdx, conversation_nostr_pubkey = map_option nostr_pubkey (lookup_row rdx_fingerprint rdx (contacts d)),
       last_message_timestamp = 0, unread_count = 0, archived = False\<rparr>],
       conversation_sequence := conversation_sequence d + 1, last_insert_rowid := conversation_sequence d + 1\<rparr>)"

definition thread_id :: "string \<Rightarrow> db \<Rightarrow> int" where
  "thread_id rdx d = (case conversation_at rdx d of
     Some c \<Rightarrow> conversation_row_id c | None \<Rightarrow> conversation_sequence d + 1)"

text \<open>A message can be stored: the contact is known and the sequences are not exhausted.\<close>

definition can_store :: "string \<Rightarrow> db \<Rightarrow> bool" where
  "can_store rdx d \<longleftrightarrow> rdx \<in> rdx_fingerprint ` set (contacts d) \<and> conversation_sequence d < max_rowid \<and>
     message_sequence d < max_rowid"

lemma run_get_or_create:
  assumes "history_serving d" and "can_store rdx d"
  shows "get_or_create_conversation rdx d = (Ok (thread_id rdx d), open_thread rdx d)"
proof -
  note serve = history_servingD [OF assms(1)]
  have locked: "conversation_ids_of rdx (d\<lparr>mutex := Locked\<rparr>) = conversation_ids_of rdx d"
    by (simp add: conversation_ids_of_def)
  show ?thesis
  proof (cases "conversation_at rdx d")
    case (Some c)
    then show ?thesis
      using serve locked
      by (simp add: get_or_create_conversation_def with_lock_def run_defs run_statements
          conversation_ids_of_at [OF serve(4)] thread_id_def open_thread_def)
  next
    case None
    then have new: "rdx \<notin> conversation_rdx ` set (conversations d)"
      by (simp add: conversation_at_def lookup_row_None_iff)
    obtain k ks where keys: "filter (\<lambda>r. rdx_fingerprint r = rdx) (contacts d) = k # ks"
      using assms(2) by (cases "filter (\<lambda>r. rdx_fingerprint r = rdx) (contacts d)")
        (auto simp: can_store_def filter_empty_conv)
    then have "lookup_row rdx_fingerprint rdx (contacts d) = Some k" by (simp add: lookup_row_filter_hd)
    with None show ?thesis
      using serve locked assms(2) new keys
      by (simp add: get_or_create_conversation_def with_lock_def run_defs run_statements insert_conversation_def
          conversation_ids_of_at [OF serve(4)] thread_id_def open_thread_def can_store_def Let_def)
  qed
qed

lemma open_thread_at:
  "conversation_at rdx' (open_thread rdx d) = (if rdx' = rdx \<and> conversation_at rdx d = None
     then Some \<lparr>conversation_row_id = conversation_sequence d + 1,
       conversation_rdx = rdx, conversation_nostr_pubkey = map_option nostr_pubkey (lookup_row rdx_fingerprint rdx (contacts d)),
       last_message_timestamp = 0, unread_count = 0, archived = False\<rparr>
     else conversation_at rdx' d)"
  by (auto simp: open_thread_def conversation_at_def lookup_row_def find_append split: option.splits)

lemma open_thread_sel [simp]:
  "messages (open_thread rdx d) = messages d" "contacts (open_thread rdx d) = contacts d"
  "message_sequence (open_thread rdx d) = message_sequence d" "mutex (open_thread rdx d) = mutex d"
  "faults (open_thread rdx d) = faults d" "foreign_keys (open_thread rdx d) = foreign_keys d"
  "created (open_thread rdx d) = created d"
  by (simp_all add: open_thread_def split: option.split)

lemma open_thread_serving:
  assumes "history_serving d" and "can_store rdx d"
  shows "history_serving (open_thread rdx d)"
  using preservesD [OF get_or_create_wf history_servingD(4) [OF assms(1)] run_get_or_create [OF assms]] assms(1)
  by (simp add: history_serving_def)

lemma fresh_conversation_number:
  assumes "history_serving d" and "m \<in> set (messages d)"
  shows "message_conversation_id m \<le> conversation_sequence d"
  using history_servingD [OF assms(1)] assms(2) unfolding history_wf_def by fastforce

lemma open_thread_views:
  assumes "history_serving d"
  shows "thread_of rdx' (open_thread rdx d) = thread_of rdx' d" "unread_of rdx' (open_thread rdx d) = unread_of rdx' d"
proof -
  have "filter (\<lambda>m. message_conversation_id m = conversation_sequence d + 1) (messages d) = []"
    using fresh_conversation_number [OF assms] by (fastforce simp: filter_empty_conv)
  then show "thread_of rdx' (open_thread rdx d) = thread_of rdx' d"
    by (auto simp: thread_of_def open_thread_at split: option.split)
  show "unread_of rdx' (open_thread rdx d) = unread_of rdx' d"
    by (auto simp: unread_of_def open_thread_at)
qed

subsection \<open>Storing a message\<close>

lemma conversation_at_update:
  assumes "\<And>r. conversation_rdx (upd r) = conversation_rdx r"
  shows "conversation_at rdx (update_conversations sel upd d) =
    map_option (\<lambda>r. if sel r then upd r else r) (conversation_at rdx d)"
proof -
  have "lookup_row conversation_rdx rdx (map (\<lambda>r. if sel r then upd r else r) cs) =
      map_option (\<lambda>r. if sel r then upd r else r) (lookup_row conversation_rdx rdx cs)" for cs
    by (induction cs) (auto simp: lookup_row_def assms)
  then show ?thesis by (simp add: conversation_at_def update_conversations_def)
qed

text \<open>Different fingerprints have different conversation numbers.\<close>

lemma conversation_id_inj:
  assumes "history_wf d" and "conversation_at a d = Some c" and "conversation_at b d = Some e"
  shows "conversation_row_id c = conversation_row_id e \<longleftrightarrow> a = b"
proof
  have "distinct (map conversation_row_id (conversations d))"
    using assms(1) strict_sorted_iff [of "map conversation_row_id (conversations d)"]
    by (simp add: history_wf_def)
  then have inj: "inj_on conversation_row_id (set (conversations d))" by (simp add: distinct_map)
  assume "conversation_row_id c = conversation_row_id e"
  with inj conversation_atD [OF assms(2)] conversation_atD [OF assms(3)] show "a = b"
    by (metis inj_onD)
qed (use assms in simp)

lemma thread_id_open:
  "conversation_at rdx (open_thread rdx d) = Some c \<Longrightarrow> thread_id rdx d = conversation_row_id c"
  by (auto simp: open_thread_at thread_id_def split: if_splits option.split)

definition touch :: "u64 \<Rightarrow> bool \<Rightarrow> conversation_row \<Rightarrow> conversation_row" where
  "touch t inc r = (if inc then r\<lparr>last_message_timestamp := u64_as_i64 t, unread_count := unread_count r + 1\<rparr>
     else r\<lparr>last_message_timestamp := u64_as_i64 t\<rparr>)"

lemma touch_sel [simp]:
  "conversation_rdx (touch t inc r) = conversation_rdx r" "conversation_row_id (touch t inc r) = conversation_row_id r"
  "unread_count (touch t inc r) = unread_count r + (if inc then 1 else 0)"
  by (simp_all add: touch_def)

definition append_message :: "string \<Rightarrow> u64 \<Rightarrow> bool \<Rightarrow> message_row \<Rightarrow> db \<Rightarrow> db" where
  "append_message rdx t inc row d =
     update_conversations (\<lambda>r. conversation_row_id r = thread_id rdx d) (touch t inc)
       ((open_thread rdx d)\<lparr>messages := messages d @ [row], message_sequence := message_sequence d + 1,
          last_insert_rowid := message_sequence d + 1\<rparr>)"

lemma append_message_sel [simp]:
  "messages (append_message rdx t inc row d) = messages d @ [row]"
  "contacts (append_message rdx t inc row d) = contacts d" "mutex (append_message rdx t inc row d) = mutex d"
  "faults (append_message rdx t inc row d) = faults d" "foreign_keys (append_message rdx t inc row d) = foreign_keys d"
  "created (append_message rdx t inc row d) = created d"
  by (simp_all add: append_message_def update_conversations_def)

text \<open>The two steps after the conversation is open.\<close>

lemma run_insert_and_touch:
  assumes "history_serving d" and "can_store rdx d"
    and "\<And>i. message_conversation_id (row i) = thread_id rdx d"
  shows "bindM (with_lock (bindM (mapErr Database (insert_message row)) (\<lambda>_. gets last_insert_rowid))) (\<lambda>message_id.
      bindM (update_conversation (thread_id rdx d) t inc) (\<lambda>_. ret message_id)) (open_thread rdx d) =
    (Ok (message_sequence d + 1), append_message rdx t inc (row (message_sequence d + 1)) d)"
proof -
  note serve = history_servingD [OF open_thread_serving [OF assms(1,2)]]
  obtain c where c: "conversation_at rdx (open_thread rdx d) = Some c"
    by (cases "conversation_at rdx (open_thread rdx d)") (auto simp: open_thread_at split: if_splits)
  then have "thread_id rdx d \<in> conversation_row_id ` set (conversations (open_thread rdx d))"
    using conversation_atD thread_id_open by (metis image_eqI)
  then show ?thesis
    using serve assms(2,3)
    by (simp add: with_lock_def run_defs run_statements insert_message_def update_conversation_def Let_def
        can_store_def append_message_def update_conversations_def touch_def [abs_def])
qed

lemma append_message_views:
  assumes "history_serving d" and "can_store rdx d" and "message_conversation_id row = thread_id rdx d"
  shows "thread_of rdx (append_message rdx t inc row d) = thread_of rdx d @ [row]"
    "unread_of rdx (append_message rdx t inc row d) = unread_of rdx d + (if inc then 1 else 0)"
    "rdx' \<noteq> rdx \<Longrightarrow> thread_of rdx' (append_message rdx t inc row d) = thread_of rdx' d"
    "rdx' \<noteq> rdx \<Longrightarrow> unread_of rdx' (append_message rdx t inc row d) = unread_of rdx' d"
proof -
  let ?o = "open_thread rdx d"
  note wf = history_servingD(4) [OF open_thread_serving [OF assms(1,2)]]
  obtain c where c: "conversation_at rdx ?o = Some c"
    by (cases "conversation_at rdx ?o") (auto simp: open_thread_at split: if_splits)
  note i = thread_id_open [OF c]
  have at: "conversation_at r (append_message rdx t inc row d) =
      map_option (\<lambda>r. if conversation_row_id r = thread_id rdx d then touch t inc r else r) (conversation_at r ?o)" for r
    unfolding append_message_def by (subst conversation_at_update) (simp_all add: conversation_at_def)
  show "thread_of rdx (append_message rdx t inc row d) = thread_of rdx d @ [row]"
    unfolding open_thread_views(1) [OF assms(1), of rdx rdx, symmetric]
    using assms(3) by (simp add: thread_of_def at c i)
  show "unread_of rdx (append_message rdx t inc row d) = unread_of rdx d + (if inc then 1 else 0)"
    unfolding open_thread_views(2) [OF assms(1), of rdx rdx, symmetric] by (simp add: unread_of_def at c i)
  assume ne: "rdx' \<noteq> rdx"
  have "conversation_row_id e \<noteq> thread_id rdx d" if "conversation_at rdx' ?o = Some e" for e
    using conversation_id_inj [OF wf that c] ne i by simp
  then show "thread_of rdx' (append_message rdx t inc row d) = thread_of rdx' d"
    "unread_of rdx' (append_message rdx t inc row d) = unread_of rdx' d"
    unfolding open_thread_views [OF assms(1), of rdx' rdx, symmetric]
    using assms(3) by (auto simp: thread_of_def unread_of_def at split: option.split)
qed

definition incoming_row :: "int \<Rightarrow> u64 \<Rightarrow> bytes \<Rightarrow> bool \<Rightarrow> bool \<Rightarrow> int \<Rightarrow> message_row" where
  "incoming_row conversation_id t p b e i = \<lparr>message_row_id = i, message_conversation_id = conversation_id,
     message_direction = 0, message_timestamp = u64_as_i64 t, message_type = 0, message_content = p,
     message_delivery_status = 0, message_was_prekey = b, message_session_established = e\<rparr>"

definition outgoing_row :: "int \<Rightarrow> u64 \<Rightarrow> bytes \<Rightarrow> int \<Rightarrow> message_row" where
  "outgoing_row conversation_id t p i = \<lparr>message_row_id = i, message_conversation_id = conversation_id,
     message_direction = 1, message_timestamp = u64_as_i64 t, message_type = 0, message_content = p,
     message_delivery_status = 0, message_was_prekey = False, message_session_established = False\<rparr>"

lemma run_store_incoming:
  assumes "history_serving d" and "can_store rdx d"
  shows "store_incoming_message rdx t p b e d = (Ok (message_sequence d + 1),
    append_message rdx t True (incoming_row (thread_id rdx d) t p b e (message_sequence d + 1)) d)"
  unfolding store_incoming_message_def bindM_at [of "get_or_create_conversation rdx"] run_get_or_create [OF assms]
  using run_insert_and_touch [OF assms, of "incoming_row (thread_id rdx d) t p b e" t True]
  by (simp add: incoming_row_def [abs_def] direction_as_i64_def kind_as_i64_def)

lemma run_store_outgoing:
  assumes "history_serving d" and "can_store rdx d"
  shows "store_outgoing_message rdx t p d = (Ok (message_sequence d + 1),
    append_message rdx t False (outgoing_row (thread_id rdx d) t p (message_sequence d + 1)) d)"
  unfolding store_outgoing_message_def bindM_at [of "get_or_create_conversation rdx"] run_get_or_create [OF assms]
  using run_insert_and_touch [OF assms, of "outgoing_row (thread_id rdx d) t p" t False]
  by (simp add: outgoing_row_def [abs_def] direction_as_i64_def kind_as_i64_def status_as_i64_def)

lemma append_serving:
  assumes "history_serving d" and "m d = (r, append_message rdx t inc row d)" and "preserves history_wf m"
  shows "history_serving (append_message rdx t inc row d)"
  using preservesD [OF assms(3) history_servingD(4) [OF assms(1)] assms(2)] assms(1)
  by (simp add: history_serving_def)

text \<open>A database with one known contact, used by the witnesses.\<close>

definition sample_history :: db where
  "sample_history = (empty_db True)\<lparr>created := [Contacts, Conversations, Messages],
     contacts := [\<lparr>rdx_fingerprint = ''RDX:aa'', nostr_pubkey = ''bb'', user_alias = None,
       signal_identity_key = [1], first_seen = 5, last_updated = 5\<rparr>]\<rparr>"

lemma sample_history_serving [simp]: "history_serving sample_history" "can_store ''RDX:aa'' sample_history"
  "message_sequence sample_history = 0"
  by (simp_all add: history_serving_def sample_history_def empty_db_def history_wf_def can_store_def max_rowid_def)

text \<open>
  C33. A stored incoming message is read back by the number that storing it returned: its body when
  it is valid UTF-8 (and the empty string when it is not), its timestamp for every 64-bit value,
  and its flags.
\<close>

theorem stored_message_reads_back:
  assumes "history_serving d" and "can_store rdx d"
  shows "\<exists>i m d'. bindM (store_incoming_message rdx t p b e) get_message d = (Ok m, d') \<and>
    stored_id m = i \<and> i = message_sequence d + 1 \<and> stored_timestamp m = t \<and> stored_direction m = Incoming \<and>
    stored_kind m = TextMessage \<and> stored_content m = (if utf8_valid p then chars_of_bytes p else []) \<and>
    stored_was_prekey_message m = b \<and> stored_session_established m = e"
proof -
  let ?n = "message_sequence d + 1" and ?row = "incoming_row (thread_id rdx d) t p b e (message_sequence d + 1)"
  let ?d = "append_message rdx t True ?row d"
  note run = run_store_incoming [OF assms, of t p b e]
  note serve = history_servingD [OF append_serving [OF assms(1) run store_incoming_wf]]
  have "filter (\<lambda>r. message_row_id r = ?n) (messages d) = []"
    using history_servingD(4) [OF assms(1)] by (fastforce simp: history_wf_def filter_empty_conv)
  then have "filter (\<lambda>r. message_row_id r = ?n) (messages ?d) = [?row]"
    by (simp add: incoming_row_def)
  then have "get_message ?n ?d = (Ok (message_of_row ?row), ?d)"
    using serve by (simp add: get_message_def with_lock_def run_defs run_statements)
  then show ?thesis
    using run by (simp add: bindM_at message_of_row_def incoming_row_def direction_from_i64_def kind_from_i64_def
        from_utf8_def)
qed

theorem stored_message_reads_back_witness:
  "\<exists>i m d'. bindM (store_incoming_message ''RDX:aa'' (-1) [104, 105] True False) get_message sample_history = (Ok m, d') \<and>
    stored_id m = i \<and> stored_timestamp m = -1 \<and> stored_content m = ''hi''"
proof -
  have "utf8_valid [104, 105]" "chars_of_bytes [104, 105] = ''hi''" by code_simp+
  then show ?thesis
    using stored_message_reads_back [of sample_history "''RDX:aa''" "-1" "[104, 105]" True False] by auto
qed

section \<open>Reading and marking\<close>

text \<open>Whatever order SQLite meets the rows in, a page is cut from all rows, newest first.\<close>

lemma newest_first_props:
  assumes "crates_ok C"
  shows "mset (newest_first C l k rows) = mset rows" "newest_first C l k [] = []"
    "sorted_wrt (\<lambda>a b. message_timestamp b \<le> message_timestamp a) (newest_first C l k rows)"
proof -
  show mset: "mset (newest_first C l k rows) = mset rows" for rows
    using mset_paged [OF assms, of "map message_row_id rows" rows] by (simp add: newest_first_def)
  show "newest_first C l k [] = []" using mset [of "[]"] by simp
  have "sorted (map (\<lambda>r. - message_timestamp r) (newest_first C l k rows))" by (simp add: newest_first_def)
  then show "sorted_wrt (\<lambda>a b. message_timestamp b \<le> message_timestamp a) (newest_first C l k rows)"
    by (simp add: sorted_wrt_map)
qed

text \<open>Without equal timestamps there is only one such order.\<close>

lemma newest_first_unique:
  assumes "crates_ok C" and "distinct (map message_timestamp rows)"
  shows "newest_first C l k rows = sort_key (\<lambda>r. - message_timestamp r) rows"
proof (rule map_sorted_distinct_set_unique [where f = "\<lambda>r. - message_timestamp r"])
  note mset = newest_first_props(1) [OF assms(1), of l k rows]
  then have set: "set (newest_first C l k rows) = set rows" by (rule mset_eq_setD)
  have "distinct (map (\<lambda>r. - message_timestamp r) xs)" if "mset xs = mset rows" for xs
  proof -
    have "distinct (map message_timestamp xs) = distinct (map message_timestamp rows)"
      using that by (intro mset_eq_imp_distinct_iff) simp
    with assms(2) show ?thesis by (simp add: distinct_map inj_on_def)
  qed
  from this [OF mset] this [of "sort_key (\<lambda>r. - message_timestamp r) rows"]
  show "distinct (map (\<lambda>r. - message_timestamp r) (newest_first C l k rows))"
    "distinct (map (\<lambda>r. - message_timestamp r) (sort_key (\<lambda>r. - message_timestamp r) rows))" by simp_all
  show "inj_on (\<lambda>r. - message_timestamp r) (set (newest_first C l k rows) \<union> set (sort_key (\<lambda>r. - message_timestamp r) rows))"
    using assms(2) by (simp add: set distinct_map inj_on_def)
qed (use newest_first_props(1) [OF assms(1), of l k rows, THEN mset_eq_setD] in \<open>simp_all add: newest_first_def\<close>)

lemma run_get_conversation_messages:
  assumes "history_serving d" and "crates_ok C"
  shows "get_conversation_messages C rdx l k d = (Ok (map message_of_row (take (unat l) (drop (unat k)
    (newest_first C l k (thread_of rdx d))))), d)"
proof -
  note serve = history_servingD [OF assms(1)]
  have "conversation_ids_of rdx (d\<lparr>mutex := Locked\<rparr>) = conversation_ids_of rdx d"
    by (simp add: conversation_ids_of_def)
  then show ?thesis
    using serve
    by (cases "conversation_at rdx d")
      (simp_all add: get_conversation_messages_def with_lock_def run_defs run_statements
        conversation_ids_of_at [OF serve(4)] thread_of_def newest_first_props(2) [OF assms(2)])
qed

text \<open>
  C34. Reading a conversation returns the requested slice of an ordering of the contact's whole
  thread, newest first, so that one page that is long enough shows every message once; the order
  of messages with equal timestamps is open and may differ between pages. When the timestamps
  are distinct, all pages are slices of one and the same list, so that consecutive pages neither
  repeat nor skip a message. An unknown contact has no messages.
\<close>

theorem conversation_pages:
  assumes "history_serving d" and "crates_ok C"
  shows "(\<forall>l k. \<exists>rows. sorted_wrt (\<lambda>a b. message_timestamp b \<le> message_timestamp a) rows \<and> mset rows = mset (thread_of rdx d) \<and>
      get_conversation_messages C rdx l k d = (Ok (map message_of_row (take (unat l) (drop (unat k) rows))), d)) \<and>
    (distinct (map message_timestamp (thread_of rdx d)) \<longrightarrow>
      (\<exists>rows. sorted_wrt (\<lambda>a b. message_timestamp b \<le> message_timestamp a) rows \<and> mset rows = mset (thread_of rdx d) \<and>
        (\<forall>l k. get_conversation_messages C rdx l k d = (Ok (map message_of_row (take (unat l) (drop (unat k) rows))), d))))"
proof (intro conjI allI impI)
  note run = run_get_conversation_messages [OF assms] and props = newest_first_props [OF assms(2)]
  show "\<exists>rows. sorted_wrt (\<lambda>a b. message_timestamp b \<le> message_timestamp a) rows \<and> mset rows = mset (thread_of rdx d) \<and>
      get_conversation_messages C rdx l k d = (Ok (map message_of_row (take (unat l) (drop (unat k) rows))), d)" for l k
    using run props by blast
  assume "distinct (map message_timestamp (thread_of rdx d))"
  note unique = newest_first_unique [OF assms(2) this]
  show "\<exists>rows. sorted_wrt (\<lambda>a b. message_timestamp b \<le> message_timestamp a) rows \<and> mset rows = mset (thread_of rdx d) \<and>
        (\<forall>l k. get_conversation_messages C rdx l k d = (Ok (map message_of_row (take (unat l) (drop (unat k) rows))), d))"
    using run props(3) [of 0 0 "thread_of rdx d"]
    by (intro exI [of _ "sort_key (\<lambda>r. - message_timestamp r) (thread_of rdx d)"]) (simp add: unique)
qed

text \<open>A conversation of two messages, at times \<open>s\<close> and \<open>t\<close>.\<close>

definition sample_thread :: "u64 \<Rightarrow> u64 \<Rightarrow> db" where
  "sample_thread s t = sample_history\<lparr>conversations := [\<lparr>conversation_row_id = 1, conversation_rdx = ''RDX:aa'',
       conversation_nostr_pubkey = Some ''bb'', last_message_timestamp = u64_as_i64 t, unread_count = 1, archived = False\<rparr>],
     messages := [incoming_row 1 s [104, 105] False False 1, outgoing_row 1 t [111, 107] 2],
     conversation_sequence := 1, message_sequence := 2\<rparr>"

lemma sample_thread_serving [simp]: "history_serving (sample_thread s t)"
  by (simp add: history_serving_def sample_thread_def sample_history_def empty_db_def history_wf_def row_typed_def
      incoming_row_def outgoing_row_def)

lemma thread_of_sample [simp]:
  "thread_of ''RDX:aa'' (sample_thread s t) = [incoming_row 1 s [104, 105] False False 1, outgoing_row 1 t [111, 107] 2]"
  by (simp add: thread_of_def conversation_at_def lookup_row_def sample_thread_def incoming_row_def outgoing_row_def)

theorem conversation_pages_witness:
  "\<exists>rows. mset rows = {#incoming_row 1 5 [104, 105] False False 1, outgoing_row 1 9 [111, 107] 2#} \<and>
    sorted_wrt (\<lambda>a b. message_timestamp b \<le> message_timestamp a) rows \<and>
    (\<forall>l k. get_conversation_messages sample_crates ''RDX:aa'' l k (sample_thread 5 9) =
      (Ok (map message_of_row (take (unat l) (drop (unat k) rows))), sample_thread 5 9))"
proof -
  have "u64_as_i64 5 \<noteq> u64_as_i64 9" by code_simp
  then have "distinct (map message_timestamp (thread_of ''RDX:aa'' (sample_thread 5 9)))"
    by (simp add: incoming_row_def outgoing_row_def)
  with conversation_pages [OF sample_thread_serving sample_crates_ok, of "''RDX:aa''" 5 9] show ?thesis by auto
qed

text \<open>
  Messages with equal timestamps: SQLite may order them differently for the two pages, and then the
  second page repeats the message of the first and the other one is never shown.
\<close>

lemma tied_pages_repeat:
  "let C = sample_crates\<lparr>page_order := \<lambda>l k ids. if k = 0 then [0..<length ids] else rev [0..<length ids]\<rparr> in
   crates_ok C \<and>
   get_conversation_messages C ''RDX:aa'' 1 0 (sample_thread 5 5) = get_conversation_messages C ''RDX:aa'' 1 1 (sample_thread 5 5)"
proof -
  let ?C = "sample_crates\<lparr>page_order := \<lambda>l k ids. if k = 0 then [0..<length ids] else rev [0..<length ids]\<rparr>"
  have "libsignal_ok ?C = libsignal_ok sample_crates" by (simp add: libsignal_ok_def)
  then have ok: "crates_ok ?C" using sample_crates_ok by (simp add: crates_ok_def)
  then show ?thesis
    by (simp add: Let_def run_get_conversation_messages newest_first_def paged_def incoming_row_def outgoing_row_def sort_key_def
        upt_rec)
qed

lemma run_get_unread_count:
  assumes "history_serving d"
  shows "get_unread_count rdx d = (Ok (word_of_int (unread_of rdx d)), d)"
proof -
  note serve = history_servingD [OF assms]
  have "filter (\<lambda>r. conversation_rdx r = rdx) (conversations d) =
      (case conversation_at rdx d of None \<Rightarrow> [] | Some c \<Rightarrow> [c])"
    using serve(4) filter_key_lookup [of conversation_rdx "conversations d" rdx]
    by (simp add: history_wf_def conversation_at_def)
  then show ?thesis
    using serve
    by (cases "conversation_at rdx d")
      (simp_all add: get_unread_count_def with_lock_def run_defs run_statements unread_of_def i64_as_u32_def)
qed

lemma update_conversations_serving:
  assumes "history_serving d" and "\<And>r. conversation_row_id (upd r) = conversation_row_id r"
    and "\<And>r. conversation_rdx (upd r) = conversation_rdx r"
    and "\<And>r. 0 \<le> unread_count r \<Longrightarrow> 0 \<le> unread_count (upd r)"
  shows "history_serving (update_conversations sel upd d)"
  using assms update_conversations_wf [OF assms(2,3,4) history_servingD(4) [OF assms(1)]]
  by (simp add: history_serving_def) (simp add: update_conversations_def)

lemma thread_of_update:
  assumes "\<And>r. conversation_row_id (upd r) = conversation_row_id r" and "\<And>r. conversation_rdx (upd r) = conversation_rdx r"
  shows "thread_of rdx (update_conversations sel upd d) = thread_of rdx d"
  using conversation_at_update [OF assms(2)]
  by (auto simp: thread_of_def assms(1) update_conversations_def split: option.split)

text \<open>
  Marking a conversation as read: without a bound the unread counter becomes 0; with a bound it
  becomes the number of the thread's incoming messages after the bound (as signed seconds), and the
  call fails for an unknown contact.
\<close>

lemma conversation_ids_locked [simp]: "conversation_ids_of rdx (d\<lparr>mutex := m\<rparr>) = conversation_ids_of rdx d"
  by (simp add: conversation_ids_of_def)

lemma run_mark_read:
  "history_serving d \<Longrightarrow> mark_conversation_read rdx d =
     (Ok (), update_conversations (\<lambda>r. conversation_rdx r = rdx) (\<lambda>r. r\<lparr>unread_count := 0\<rparr>) d)"
  using history_servingD [of d]
  by (simp add: mark_conversation_read_def with_lock_def run_defs run_statements update_conversations_def)

definition incoming_after :: "u64 \<Rightarrow> message_row list \<Rightarrow> int" where
  "incoming_after t rows = int (length (filter (\<lambda>m. message_direction m = 0 \<and> u64_as_i64 t < message_timestamp m) rows))"

lemma run_mark_read_up_to:
  assumes "history_serving d"
  shows "conversation_at rdx d = None \<Longrightarrow> mark_conversation_read_up_to rdx t d = (Err (Database QueryReturnedNoRows), d)"
    "conversation_at rdx d = Some c \<Longrightarrow> mark_conversation_read_up_to rdx t d =
      (Ok (), update_conversations (\<lambda>r. conversation_row_id r = conversation_row_id c)
        (\<lambda>r. r\<lparr>unread_count := incoming_after t (thread_of rdx d)\<rparr>) d)"
proof -
  note serve = history_servingD [OF assms]
  show "mark_conversation_read_up_to rdx t d = (Err (Database QueryReturnedNoRows), d)" if "conversation_at rdx d = None"
    using serve that
    by (simp add: mark_conversation_read_up_to_def with_lock_def run_defs run_statements conversation_ids_of_at)
  assume c: "conversation_at rdx d = Some c"
  have "int (length (later_incoming (conversation_row_id c) (u64_as_i64 t) (d\<lparr>mutex := Locked\<rparr>))) = incoming_after t (thread_of rdx d)"
    using c by (simp add: later_incoming_def thread_of_def incoming_after_def conj_commute)
  then show "mark_conversation_read_up_to rdx t d = (Ok (), update_conversations
      (\<lambda>r. conversation_row_id r = conversation_row_id c) (\<lambda>r. r\<lparr>unread_count := incoming_after t (thread_of rdx d)\<rparr>) d)"
    using serve c
    by (simp add: mark_conversation_read_up_to_def with_lock_def run_defs run_statements conversation_ids_of_at
        update_conversations_def)
qed

lemma lookup_row_filter:
  "distinct (map key rows) \<Longrightarrow> lookup_row key k (filter P rows) =
     (case lookup_row key k rows of None \<Rightarrow> None | Some x \<Rightarrow> if P x then Some x else None)"
  by (induction rows) (auto simp: lookup_row_def find_None_iff split: option.split dest!: find_Some_iff [THEN iffD1])

text \<open>Deleting a conversation removes the contact's thread and its counter and touches no other contact's.\<close>

definition without_conversation :: "int \<Rightarrow> db \<Rightarrow> db" where
  "without_conversation i d = d\<lparr>conversations := filter (\<lambda>r. conversation_row_id r \<noteq> i) (conversations d),
     messages := filter (\<lambda>m. message_conversation_id m \<noteq> i) (messages d)\<rparr>"

lemma run_delete_conversation:
  assumes "history_serving d"
  shows "conversation_at rdx d = None \<Longrightarrow> delete_conversation rdx d = (Ok (), d)"
    "conversation_at rdx d = Some c \<Longrightarrow> delete_conversation rdx d = (Ok (), without_conversation (conversation_row_id c) d)"
  using history_servingD [OF assms]
  by (simp_all add: delete_conversation_def with_lock_def run_defs run_statements conversation_ids_of_at
      delete_conversation_rows_def without_conversation_def)

lemma without_conversation_views:
  assumes "history_serving d" and c: "conversation_at rdx d = Some c"
  shows "conversation_at r (without_conversation (conversation_row_id c) d) = (if r = rdx then None else conversation_at r d)"
    "r \<noteq> rdx \<Longrightarrow> thread_of r (without_conversation (conversation_row_id c) d) = thread_of r d"
proof -
  note serve = history_servingD [OF assms(1)]
  show at: "conversation_at r (without_conversation (conversation_row_id c) d) = (if r = rdx then None else conversation_at r d)"
    using lookup_row_filter [of conversation_rdx "conversations d" r] conversation_id_inj [OF serve(4) _ c] c serve(4)
    by (auto simp: conversation_at_def history_wf_def without_conversation_def split: option.split)
  assume "r \<noteq> rdx"
  show "thread_of r (without_conversation (conversation_row_id c) d) = thread_of r d"
  proof (cases "conversation_at r d")
    case (Some e)
    then have "conversation_row_id e \<noteq> conversation_row_id c"
      using conversation_id_inj [OF serve(4) Some c] \<open>r \<noteq> rdx\<close> by simp
    then have "filter (\<lambda>m. message_conversation_id m \<noteq> conversation_row_id c \<and>
        message_conversation_id m = conversation_row_id e) (messages d) =
        filter (\<lambda>m. message_conversation_id m = conversation_row_id e) (messages d)"
      by (intro filter_cong) auto
    then show ?thesis using Some at \<open>r \<noteq> rdx\<close> by (simp add: thread_of_def) (simp add: without_conversation_def)
  qed (use at \<open>r \<noteq> rdx\<close> in \<open>simp add: thread_of_def\<close>)
qed

text \<open>
  Marking as read up to a moment counts every later incoming message as unread again, also those
  that were read before: after reading everything, marking up to an earlier moment raises the
  counter from 0.
\<close>

lemma mark_up_to_reopens:
  "unread_of ''RDX:aa'' (snd (bindM (store_incoming_message ''RDX:aa'' 9 [] False False)
      (\<lambda>_. mark_conversation_read ''RDX:aa'') sample_history)) = 0 \<and>
    unread_of ''RDX:aa'' (snd (bindM (store_incoming_message ''RDX:aa'' 9 [] False False) (\<lambda>_.
      bindM (mark_conversation_read ''RDX:aa'') (\<lambda>_. mark_conversation_read_up_to ''RDX:aa'' 5)) sample_history)) = 1"
  by code_simp

end
