(* ===== verification/Sqlite_Correct.thy ===== *)
theory Sqlite_Correct
  imports Sqlite_Storage Key_Rotation
begin

text \<open>
  What holds of the SQLite stores: the well-formedness of the tables (\<open>db_wf\<close>), that every store
  method and therefore every libsignal call keeps it whatever fails on the way, and that the three
  key stores implement the contract of the theory Storage_Traits.
\<close>

section \<open>Tables of numbered keys\<close>

definition numbered :: "('r \<Rightarrow> int) \<Rightarrow> 'r list \<Rightarrow> bool" where
  "numbered key rows \<longleftrightarrow> sorted (map key rows) \<and> distinct (map key rows) \<and>
     (\<forall>r \<in> set rows. 0 \<le> key r \<and> key r < 2 ^ 32)"

lemma numbered_Nil [simp]: "numbered key []"
  by (simp add: numbered_def)

lemma numbered_upsert [simp]:
  "numbered key rows \<Longrightarrow> key r = uint (i :: u32) \<Longrightarrow> numbered key (upsert_sorted key r rows)"
  using uint_lt2p [of i] by (auto simp: numbered_def set_upsert_sorted)

lemma numbered_delete [simp]: "numbered key rows \<Longrightarrow> numbered key (delete_key key k rows)"
  by (auto simp: numbered_def set_delete_key)

text \<open>The finite map a table of numbered keys stands for, given how a row is decoded.\<close>

definition row_map :: "('r \<Rightarrow> int) \<Rightarrow> ('r \<Rightarrow> 'e + 'x) \<Rightarrow> 'r list \<Rightarrow> u32 \<Rightarrow> 'x option" where
  "row_map key dec rows i =
     (case lookup_row key (uint i) rows of
        None \<Rightarrow> None
      | Some r \<Rightarrow> (case dec r of Inl _ \<Rightarrow> None | Inr x \<Rightarrow> Some x))"

lemma row_map_upsert:
  "key r = uint i \<Longrightarrow> dec r = Inr x \<Longrightarrow>
   row_map key dec (upsert_sorted key r rows) = (row_map key dec rows)(i \<mapsto> x)"
  by (auto simp: row_map_def fun_eq_iff)

lemma row_map_delete: "row_map key dec (delete_key key (uint i) rows) = (row_map key dec rows)(i := None)"
  by (auto simp: row_map_def fun_eq_iff)


lemma dom_row_map:
  assumes "\<forall>r \<in> set rows. \<exists>x. dec r = Inr x"
  shows "dom (row_map key dec rows) = {i. uint i \<in> key ` set rows}"
proof (rule set_eqI)
  fix i :: u32
  show "i \<in> dom (row_map key dec rows) \<longleftrightarrow> i \<in> {i. uint i \<in> key ` set rows}"
  proof (cases "lookup_row key (uint i) rows")
    case None
    then show ?thesis by (simp add: row_map_def dom_def lookup_row_None_iff [symmetric])
  next
    case (Some r)
    then have "r \<in> set rows" "key r = uint i" by (auto dest: lookup_row_SomeD)
    with assms obtain x where "dec r = Inr x" by blast
    with Some \<open>r \<in> set rows\<close> \<open>key r = uint i\<close> show ?thesis
      by (auto simp: row_map_def dom_def intro: image_eqI [of _ key r])
  qed
qed

lemma uint_dom_row_map:
  assumes "numbered key rows" and "\<forall>r \<in> set rows. \<exists>x. dec r = Inr x"
  shows "uint ` dom (row_map key dec rows) = key ` set rows"
proof -
  have "\<exists>i :: u32. key r = uint i" if "r \<in> set rows" for r
    using assms(1) that by (intro exI [of _ "word_of_int (key r)"])
      (auto simp: numbered_def unsigned_of_int intro!: take_bit_int_eq_self [symmetric])
  then show ?thesis using assms(2)
    by (simp add: dom_row_map set_eq_iff image_iff Bex_def) metis
qed

lemma card_row_map:
  assumes "numbered key rows" and "\<forall>r \<in> set rows. \<exists>x. dec r = Inr x"
  shows "card (dom (row_map key dec rows)) = length rows"
proof -
  have "card (dom (row_map key dec rows)) = card (uint ` dom (row_map key dec rows))"
    by (rule card_image [symmetric]) (simp add: inj_on_def)
  also have "\<dots> = card (set (map key rows))"
    by (simp add: uint_dom_row_map [OF assms])
  also have "\<dots> = length rows"
    using assms(1) distinct_card [of "map key rows"] by (simp add: numbered_def)
  finally show ?thesis .
qed

lemma max_row_map:
  assumes "numbered key rows" and "\<forall>r \<in> set rows. \<exists>x. dec r = Inr x" and "rows \<noteq> []"
  shows "get_u32 (Max (key ` set rows)) = Inr (Max (dom (row_map key dec rows)))"
proof -
  let ?D = "dom (row_map key dec rows)"
  have ne: "?D \<noteq> {}" using uint_dom_row_map [OF assms(1,2)] assms(3) by auto
  have mono: "mono (uint :: u32 \<Rightarrow> int)" by (simp add: mono_def word_le_def)
  have "uint (Max ?D) = Max (key ` set rows)"
    using mono_Max_commute [OF mono _ ne] uint_dom_row_map [OF assms(1,2)] by simp
  moreover have "uint (Max ?D) < 2 ^ 32" "0 \<le> uint (Max ?D)" using uint_lt2p [of "Max ?D"] by simp_all
  ultimately show ?thesis by (simp add: get_u32_def flip: \<open>uint (Max ?D) = Max (key ` set rows)\<close>)
qed

section \<open>Well-formed tables\<close>

text \<open>
  Primary keys are unique, key numbers fit in 32 bits, and every stored blob decodes; for the
  signed and Kyber keys the columns also agree with the record they were filled from.
\<close>

definition signed_row_ok ::
    "(bytes \<Rightarrow> protocol_error + 'r) \<Rightarrow> ('r \<Rightarrow> protocol_error + u64) \<Rightarrow> signed_key_row \<Rightarrow> bool" where
  "signed_row_ok deser ts r \<longleftrightarrow>
     (\<exists>x t. deser (signed_key_data r) = Inr x \<and> ts x = Inr t \<and>
        signed_created_at r = u64_as_i64 (t div 1000) \<and>
        signed_expires_at r = signed_created_at r + 2592000 \<and> \<not> signed_is_current r)"

definition db_wf :: "'x libsignal_scheme \<Rightarrow> db \<Rightarrow> bool" where
  "db_wf L d \<longleftrightarrow>
     distinct (map session_key (sessions d)) \<and>
     (\<forall>r \<in> set (sessions d). \<exists>x. session_record_deserialize L (session_data r) = Inr x) \<and>
     distinct (map identity_row_key (identity_keys d)) \<and>
     (\<forall>r \<in> set (identity_keys d). \<exists>x. identity_public_key r = identity_key_serialize L x) \<and>
     numbered pre_key_row_id (pre_keys d) \<and>
     (\<forall>r \<in> set (pre_keys d). \<exists>x. pre_key_record_deserialize L (pre_key_data r) = Inr x) \<and>
     numbered signed_row_id (signed_pre_keys d) \<and>
     (\<forall>r \<in> set (signed_pre_keys d). signed_row_ok (signed_pre_key_record_deserialize L)
        (signed_pre_key_record_timestamp L) r) \<and>
     numbered signed_row_id (kyber_pre_keys d) \<and>
     (\<forall>r \<in> set (kyber_pre_keys d). signed_row_ok (kyber_pre_key_record_deserialize L)
        (kyber_pre_key_record_timestamp L) r) \<and>
     (\<forall>r. local_identity d = Some r \<longrightarrow> 0 \<le> registration_id r \<and> registration_id r < 2 ^ 32)"

lemma table_pred_db_wf [simp]: "table_pred (db_wf L)"
  by (simp add: table_pred_def db_wf_def)

text \<open>30 days after any \<open>u64\<close> number of milliseconds: no overflow, and it fits a SQL integer.\<close>

lemma uint_div_1000: "uint (t div 1000 :: u64) = uint t div 1000"
  by (simp add: uint_div)

lemma secs_bound: "0 \<le> uint (t :: u64) div 1000 \<and> uint t div 1000 < 2 ^ 55"
proof -
  have "uint t < 2 ^ 64" using uint_lt2p [of t] by simp
  then show ?thesis using uint_ge_0 [of t] by (auto simp: pos_imp_zdiv_nonneg_iff div_less_iff_less_mult)
qed

lemma created_at_secs: "u64_as_i64 (t div 1000) = uint t div 1000"
  using secs_bound [of t] by (subst u64_as_i64_small) (simp_all add: uint_div_1000)

lemma expires_at_secs:
  "u64_to_sql (t div 1000 + key_lifetime_secs) = Inr (uint t div 1000 + 2592000)"
proof -
  have "uint (t div 1000 + key_lifetime_secs) = uint t div 1000 + 2592000"
    using secs_bound [of t]
    by (simp add: key_lifetime_secs_def uint_word_ariths uint_div mod_pos_pos_trivial del: uint_div_distrib)
  then show ?thesis using secs_bound [of t] by (simp add: u64_to_sql_def)
qed

lemma preserves_insert_signed_row:
  assumes "table_pred I"
    and "\<And>d r. I d \<Longrightarrow> signed_row_id r = uint key_id \<Longrightarrow> signed_key_data r = b \<Longrightarrow>
      signed_created_at r = u64_as_i64 (t div 1000) \<Longrightarrow>
      signed_expires_at r = signed_created_at r + 2592000 \<Longrightarrow> \<not> signed_is_current r \<Longrightarrow> I (put r d)"
  shows "preserves I (insert_signed_row tb put key_id b g (t div 1000) (t div 1000 + key_lifetime_secs))"
  unfolding insert_signed_row_def
  by (rule preserves_sql) (use assms in \<open>auto simp: expires_at_secs created_at_secs\<close>)

lemmas store_defs = sqlite_load_session_def sqlite_store_session_def sqlite_session_count_def
  sqlite_clear_all_sessions_def sqlite_delete_session_def sqlite_get_identity_key_pair_def
  sqlite_get_local_registration_id_def sqlite_save_identity_def sqlite_get_identity_def
  sqlite_is_trusted_identity_def sqlite_identity_count_def sqlite_set_local_identity_key_pair_def
  sqlite_set_local_registration_id_def sqlite_get_peer_identity_def sqlite_delete_identity_def
  sqlite_clear_all_identities_def sqlite_clear_local_identity_def sqlite_get_pre_key_def
  sqlite_save_pre_key_def sqlite_remove_pre_key_def sqlite_pre_key_count_def
  sqlite_clear_all_pre_keys_def sqlite_get_max_pre_key_id_def sqlite_delete_pre_key_def
  sqlite_get_signed_pre_key_def sqlite_save_signed_pre_key_def sqlite_signed_pre_key_count_def
  sqlite_clear_all_signed_pre_keys_def sqlite_get_max_signed_pre_key_id_def
  sqlite_delete_signed_pre_key_def sqlite_get_signed_pre_keys_older_than_def
  sqlite_get_kyber_pre_key_def sqlite_save_kyber_pre_key_def sqlite_mark_kyber_pre_key_used_def
  sqlite_kyber_pre_key_count_def sqlite_clear_all_kyber_pre_keys_def
  sqlite_get_max_kyber_pre_key_id_def sqlite_delete_kyber_pre_key_def
  sqlite_get_kyber_pre_keys_older_than_def

lemma preserves_max_id_row [preserves_intro]: "table_pred I \<Longrightarrow> preserves I (max_id_row t ids)"
  unfolding max_id_row_def by (rule preserves_sql) (auto split: list.splits sum.splits)

text \<open>The methods that only read keep every table predicate.\<close>

lemma preserves_readers [preserves_intro]:
  assumes "table_pred I"
  shows "preserves I (sqlite_load_session L a)" "preserves I sqlite_session_count"
    "preserves I (sqlite_get_identity_key_pair L)" "preserves I sqlite_get_local_registration_id"
    "preserves I (sqlite_get_identity L a)" "preserves I sqlite_identity_count"
    "preserves I (sqlite_get_peer_identity L a)" "preserves I (sqlite_get_pre_key L i)"
    "preserves I sqlite_pre_key_count" "preserves I sqlite_get_max_pre_key_id"
    "preserves I (sqlite_get_signed_pre_key L i)" "preserves I sqlite_signed_pre_key_count"
    "preserves I sqlite_get_max_signed_pre_key_id" "preserves I (sqlite_get_signed_pre_keys_older_than t)"
    "preserves I (sqlite_get_kyber_pre_key L i)" "preserves I sqlite_kyber_pre_key_count"
    "preserves I sqlite_get_max_kyber_pre_key_id" "preserves I (sqlite_get_kyber_pre_keys_older_than t)"
  unfolding store_defs Let_def
  by (intro preserves_intro assms)+

lemma preserves_is_trusted [preserves_intro]:
  "table_pred I \<Longrightarrow> preserves I (sqlite_is_trusted_identity L a k dr)"
  unfolding sqlite_is_trusted_identity_def by (intro preserves_intro)

text \<open>The methods that write keep the tables well-formed.\<close>

lemma store_session_wf: "libsignal_ok L \<Longrightarrow> preserves (db_wf L) (sqlite_store_session L a r)"
  unfolding sqlite_store_session_def
  by (intro preserves_with_lock preserves_bind_sum preserves_mapErr preserves_execute table_pred_db_wf)
    (auto simp: db_wf_def set_upsert libsignal_ok_def)

lemma save_identity_wf: "libsignal_ok L \<Longrightarrow> preserves (db_wf L) (sqlite_save_identity L a k)"
  unfolding sqlite_save_identity_def Let_def
  by (intro preserves_intro preserves_execute table_pred_db_wf)
    (auto simp: db_wf_def set_upsert libsignal_ok_def)

lemma save_pre_key_wf: "libsignal_ok L \<Longrightarrow> preserves (db_wf L) (sqlite_save_pre_key L i r)"
  unfolding sqlite_save_pre_key_def
  by (intro preserves_with_lock preserves_bind_sum preserves_mapErr preserves_execute table_pred_db_wf)
    (auto simp: db_wf_def set_upsert_sorted libsignal_ok_def)

lemma remove_pre_key_wf: "preserves (db_wf L) (sqlite_remove_pre_key i)"
  unfolding sqlite_remove_pre_key_def
  by (intro preserves_intro preserves_execute table_pred_db_wf) (auto simp: db_wf_def set_delete_key)

lemma put_signed_wf:
  assumes "db_wf L d" and "signed_row_id r = uint (i :: u32)"
    and "signed_row_ok (signed_pre_key_record_deserialize L) (signed_pre_key_record_timestamp L) r"
  shows "db_wf L (put_signed_pre_key_row r d)"
  using assms numbered_upsert [of signed_row_id "signed_pre_keys d" r i]
  by (auto simp: db_wf_def put_signed_pre_key_row_def set_upsert_sorted)

lemma put_kyber_wf:
  assumes "db_wf L d" and "signed_row_id r = uint (i :: u32)"
    and "signed_row_ok (kyber_pre_key_record_deserialize L) (kyber_pre_key_record_timestamp L) r"
  shows "db_wf L (put_kyber_pre_key_row r d)"
  using assms numbered_upsert [of signed_row_id "kyber_pre_keys d" r i]
  by (auto simp: db_wf_def put_kyber_pre_key_row_def set_upsert_sorted)

lemma save_signed_pre_key_wf: "libsignal_ok L \<Longrightarrow> preserves (db_wf L) (sqlite_save_signed_pre_key L i r)"
  unfolding sqlite_save_signed_pre_key_def Let_def
  by (intro preserves_with_lock preserves_bind_sum preserves_mapErr preserves_insert_signed_row table_pred_db_wf)
    (auto intro!: put_signed_wf [of L _ _ i] simp: signed_row_ok_def libsignal_ok_def)

lemma save_kyber_pre_key_wf: "libsignal_ok L \<Longrightarrow> preserves (db_wf L) (sqlite_save_kyber_pre_key L i r)"
  unfolding sqlite_save_kyber_pre_key_def Let_def
  by (intro preserves_with_lock preserves_bind_sum preserves_mapErr preserves_insert_signed_row table_pred_db_wf)
    (auto intro!: put_kyber_wf [of L _ _ i] simp: signed_row_ok_def libsignal_ok_def)

text \<open>Marking a Kyber key as used clears a flag that no row ever has set.\<close>

lemma mark_used_rows:
  "\<forall>r \<in> set rows. \<not> signed_is_current r \<Longrightarrow>
   map (\<lambda>r. if signed_row_id r = i then r\<lparr>signed_is_current := False\<rparr> else r) rows = rows"
  by (induction rows) auto

lemma mark_kyber_wf: "preserves (db_wf L) (sqlite_mark_kyber_pre_key_used i)"
  unfolding sqlite_mark_kyber_pre_key_used_def
proof (intro preserves_intro preserves_execute table_pred_db_wf)
  fix d assume wf: "db_wf L d"
  then have "\<forall>r \<in> set (kyber_pre_keys d). \<not> signed_is_current r"
    by (auto simp: db_wf_def signed_row_ok_def)
  with wf show "db_wf L (d\<lparr>kyber_pre_keys :=
      map (\<lambda>r. if signed_row_id r = uint i then r\<lparr>signed_is_current := False\<rparr> else r) (kyber_pre_keys d)\<rparr>)"
    by (simp add: mark_used_rows)
qed

lemma writers_wf:
  "preserves (db_wf L) sqlite_clear_all_sessions" "preserves (db_wf L) (sqlite_delete_session a)"
  "preserves (db_wf L) (sqlite_set_local_identity_key_pair L k)"
  "preserves (db_wf L) (sqlite_set_local_registration_id j)"
  "preserves (db_wf L) (sqlite_delete_identity a)" "preserves (db_wf L) sqlite_clear_all_identities"
  "preserves (db_wf L) sqlite_clear_local_identity" "preserves (db_wf L) sqlite_clear_all_pre_keys"
  "preserves (db_wf L) (sqlite_delete_pre_key i)" "preserves (db_wf L) sqlite_clear_all_signed_pre_keys"
  "preserves (db_wf L) (sqlite_delete_signed_pre_key i)" "preserves (db_wf L) sqlite_clear_all_kyber_pre_keys"
  "preserves (db_wf L) (sqlite_delete_kyber_pre_key i)"
  using uint_lt2p [of j]
  by (auto simp: store_defs Let_def db_wf_def set_delete_key split: option.splits
      intro!: preserves_with_lock preserves_mapErr preserves_execute table_pred_db_wf [unfolded db_wf_def])

section \<open>What libsignal does to the tables\<close>

lemma sqlite_stores_sel [simp]:
  "session_store (sqlite_stores L) = \<lparr>load_session = sqlite_load_session L,
     store_session = sqlite_store_session L, session_count = sqlite_session_count,
     clear_all_sessions = sqlite_clear_all_sessions, delete_session = sqlite_delete_session\<rparr>"
  "get_identity_key_pair (identity_store (sqlite_stores L)) = sqlite_get_identity_key_pair L"
  "get_local_registration_id (identity_store (sqlite_stores L)) = sqlite_get_local_registration_id"
  "save_identity (identity_store (sqlite_stores L)) = sqlite_save_identity L"
  "is_trusted_identity (identity_store (sqlite_stores L)) = sqlite_is_trusted_identity L"
  "get_identity (identity_store (sqlite_stores L)) = sqlite_get_identity L"
  "get_pre_key (pre_key_store (sqlite_stores L)) = sqlite_get_pre_key L"
  "save_pre_key (pre_key_store (sqlite_stores L)) = sqlite_save_pre_key L"
  "remove_pre_key (pre_key_store (sqlite_stores L)) = sqlite_remove_pre_key"
  "get_signed_pre_key (signed_pre_key_store (sqlite_stores L)) = sqlite_get_signed_pre_key L"
  "save_signed_pre_key (signed_pre_key_store (sqlite_stores L)) = sqlite_save_signed_pre_key L"
  "get_kyber_pre_key (kyber_pre_key_store (sqlite_stores L)) = sqlite_get_kyber_pre_key L"
  "save_kyber_pre_key (kyber_pre_key_store (sqlite_stores L)) = sqlite_save_kyber_pre_key L"
  "mark_kyber_pre_key_used (kyber_pre_key_store (sqlite_stores L)) = sqlite_mark_kyber_pre_key_used"
  by (simp_all add: sqlite_stores_def)

lemma sqlite_peer_callbacks: "libsignal_ok L \<Longrightarrow> peer_callbacks_keep (db_wf L) (sqlite_stores L)"
  by (rule peer_callbacks_keepI)
    (simp_all add: preserves_readers preserves_is_trusted store_session_wf save_identity_wf)

lemma sqlite_store_callbacks: "libsignal_ok L \<Longrightarrow> store_callbacks_keep (db_wf L) (sqlite_stores L)"
  by (rule store_callbacks_keepI)
    (simp_all add: sqlite_peer_callbacks preserves_readers save_pre_key_wf remove_pre_key_wf
      save_signed_pre_key_wf save_kyber_pre_key_wf mark_kyber_wf)

text \<open>The storage's own invariant, and the calls on the connection that keep it.\<close>

definition storage_wf :: "'x libsignal_scheme \<Rightarrow> sqlite_storage \<Rightarrow> bool" where
  "storage_wf L s \<longleftrightarrow> db_wf L (connection s)"

lemma preserves_on_conn: "preserves (db_wf L) m \<Longrightarrow> preserves (storage_wf L) (on_conn m)"
  unfolding on_conn_def by (rule preserves_zoom) (auto simp: storage_wf_def)

lemma preserves_expect_store [preserves_intro]: "preserves (in_sys (storage_wf L)) (expect_store h)"
  unfolding expect_store_def
  by (rule preserves_in_store) (auto simp: preserves_def expect_handle_def split: option.split)

lemma establish_session_wf:
  "libsignal_ok L \<Longrightarrow> preserves (in_sys (storage_wf L)) (sqlite_establish_session_from_bundle L a b)"
  unfolding sqlite_establish_session_from_bundle_def
  by (intro preserves_intro preserves_on_conn run_peer_preserves sqlite_peer_callbacks)

lemma encrypt_message_wf:
  "libsignal_ok L \<Longrightarrow> preserves (in_sys (storage_wf L)) (sqlite_encrypt_message L a p)"
  unfolding sqlite_encrypt_message_def
  by (intro preserves_intro preserves_on_conn run_peer_preserves sqlite_peer_callbacks)

lemma decrypt_message_wf:
  "libsignal_ok L \<Longrightarrow> preserves (in_sys (storage_wf L)) (sqlite_decrypt_message L a c)"
  unfolding sqlite_decrypt_message_def
  by (intro preserves_intro preserves_on_conn run_store_preserves sqlite_store_callbacks)

section \<open>A storage that serves its calls\<close>

definition all_tables :: "table list" where
  "all_tables = [SchemaInfo, LocalIdentity, IdentityKeys, Sessions, PreKeys, SignedPreKeys,
     KyberPreKeys, Contacts, Settings, BundleMetadata, Conversations, Messages]"

definition serving :: "'x libsignal_scheme \<Rightarrow> db \<Rightarrow> bool" where
  "serving L d \<longleftrightarrow> mutex d = Unlocked \<and> faults d = [] \<and> set all_tables \<subseteq> set (created d) \<and>
     db_wf L d \<and> libsignal_ok L"

definition sqlite_ready :: "'x libsignal_scheme \<Rightarrow> sqlite_storage \<Rightarrow> bool" where
  "sqlite_ready L s \<longleftrightarrow> serving L (connection s) \<and> \<not> is_closed s \<and>
     session_handle s = Some () \<and> identity_handle s = Some () \<and> pre_key_handle s = Some () \<and>
     signed_pre_key_handle s = Some () \<and> kyber_pre_key_handle s = Some () \<and>
     message_history_handle s = Some ()"

lemma servingD:
  assumes "serving L d"
  shows "mutex d = Unlocked" "faults d = []" "t \<in> set (created d)" "db_wf L d" "libsignal_ok L"
  using assms by (cases t; auto simp: serving_def all_tables_def)+

lemma run_via:
  assumes "sqlite_ready L s"
  shows "via_session_store m s = (case m (connection s) of (r, d) \<Rightarrow> (r, s\<lparr>connection := d\<rparr>))"
    "via_identity_store m s = (case m (connection s) of (r, d) \<Rightarrow> (r, s\<lparr>connection := d\<rparr>))"
    "via_pre_key_store m s = (case m (connection s) of (r, d) \<Rightarrow> (r, s\<lparr>connection := d\<rparr>))"
    "via_signed_pre_key_store m s = (case m (connection s) of (r, d) \<Rightarrow> (r, s\<lparr>connection := d\<rparr>))"
    "via_kyber_pre_key_store m s = (case m (connection s) of (r, d) \<Rightarrow> (r, s\<lparr>connection := d\<rparr>))"
  using assms
  by (simp_all add: sqlite_ready_def via_session_store_def via_identity_store_def
      via_pre_key_store_def via_signed_pre_key_store_def via_kyber_pre_key_store_def
      open_handle_def expect_handle_def on_conn_def zoom_def bindM_def)

lemma sqlite_container_sel [simp]:
  "pre_key_store (sqlite_container L) = \<lparr>get_pre_key = (\<lambda>i. via_pre_key_store (sqlite_get_pre_key L i)),
       save_pre_key = (\<lambda>i r. via_pre_key_store (sqlite_save_pre_key L i r)),
       remove_pre_key = (\<lambda>i. via_pre_key_store (sqlite_remove_pre_key i)),
       pre_key_count = via_pre_key_store sqlite_pre_key_count,
       clear_all_pre_keys = via_pre_key_store sqlite_clear_all_pre_keys,
       get_max_pre_key_id = via_pre_key_store sqlite_get_max_pre_key_id,
       delete_pre_key = (\<lambda>i. via_pre_key_store (sqlite_delete_pre_key i))\<rparr>"
  by (simp add: sqlite_container_def)

lemma sqlite_container_signed_sel [simp]:
  "signed_pre_key_count (signed_pre_key_store (sqlite_container L)) =
     via_signed_pre_key_store sqlite_signed_pre_key_count"
  "get_max_signed_pre_key_id (signed_pre_key_store (sqlite_container L)) =
     via_signed_pre_key_store sqlite_get_max_signed_pre_key_id"
  "get_signed_pre_key (signed_pre_key_store (sqlite_container L)) =
     (\<lambda>i. via_signed_pre_key_store (sqlite_get_signed_pre_key L i))"
  "save_signed_pre_key (signed_pre_key_store (sqlite_container L)) =
     (\<lambda>i r. via_signed_pre_key_store (sqlite_save_signed_pre_key L i r))"
  "delete_signed_pre_key (signed_pre_key_store (sqlite_container L)) =
     (\<lambda>i. via_signed_pre_key_store (sqlite_delete_signed_pre_key i))"
  "get_signed_pre_keys_older_than (signed_pre_key_store (sqlite_container L)) =
     (\<lambda>t. via_signed_pre_key_store (sqlite_get_signed_pre_keys_older_than t))"
  "kyber_pre_key_count (kyber_pre_key_store (sqlite_container L)) =
     via_kyber_pre_key_store sqlite_kyber_pre_key_count"
  "get_max_kyber_pre_key_id (kyber_pre_key_store (sqlite_container L)) =
     via_kyber_pre_key_store sqlite_get_max_kyber_pre_key_id"
  "get_kyber_pre_key (kyber_pre_key_store (sqlite_container L)) =
     (\<lambda>i. via_kyber_pre_key_store (sqlite_get_kyber_pre_key L i))"
  "save_kyber_pre_key (kyber_pre_key_store (sqlite_container L)) =
     (\<lambda>i r. via_kyber_pre_key_store (sqlite_save_kyber_pre_key L i r))"
  "delete_kyber_pre_key (kyber_pre_key_store (sqlite_container L)) =
     (\<lambda>i. via_kyber_pre_key_store (sqlite_delete_kyber_pre_key i))"
  "get_kyber_pre_keys_older_than (kyber_pre_key_store (sqlite_container L)) =
     (\<lambda>t. via_kyber_pre_key_store (sqlite_get_kyber_pre_keys_older_than t))"
  by (simp_all add: sqlite_container_def)

definition sqlite_pre_keys :: "'x libsignal_scheme \<Rightarrow> sqlite_storage \<Rightarrow> u32 \<Rightarrow> pre_key_record option" where
  "sqlite_pre_keys L s =
     row_map pre_key_row_id (\<lambda>r. pre_key_record_deserialize L (pre_key_data r)) (pre_keys (connection s))"

definition without_pre_keys :: "sqlite_storage \<Rightarrow> sqlite_storage" where
  "without_pre_keys s = s\<lparr>connection := (connection s)\<lparr>pre_keys := []\<rparr>\<rparr>"

definition pre_key_storable :: "'x libsignal_scheme \<Rightarrow> u32 \<Rightarrow> pre_key_record \<Rightarrow> bool" where
  "pre_key_storable L i r \<longleftrightarrow> (\<exists>b. pre_key_record_serialize L r = Inr b)"

lemma conn_same [simp]: "s\<lparr>connection := connection s\<rparr> = s"
  by simp

text \<open>The contract at the level of the connection.\<close>

lemma run_pre_key_ops:
  assumes "serving L d"
  shows "sqlite_pre_key_count d = (Ok (length (pre_keys d)), d)"
    "sqlite_get_max_pre_key_id d = (Ok (case pre_keys d of [] \<Rightarrow> None
       | _ \<Rightarrow> (case get_u32 (Max (pre_key_row_id ` set (pre_keys d))) of Inl _ \<Rightarrow> None | Inr m \<Rightarrow> Some m)), d)"
    "sqlite_delete_pre_key i d = (Ok (), d\<lparr>pre_keys := delete_key pre_key_row_id (uint i) (pre_keys d)\<rparr>)"
    "lookup_row pre_key_row_id (uint i) (pre_keys d) = None \<Longrightarrow> sqlite_get_pre_key L i d = (Err InvalidPreKeyId, d)"
    "lookup_row pre_key_row_id (uint i) (pre_keys d) = Some r \<Longrightarrow>
       pre_key_record_deserialize L (pre_key_data r) = Inr x \<Longrightarrow> sqlite_get_pre_key L i d = (Ok x, d)"
    "pre_key_record_serialize L x = Inr b \<Longrightarrow> sqlite_save_pre_key L i x d =
       (Ok (), d\<lparr>pre_keys := upsert_sorted pre_key_row_id \<lparr>pre_key_row_id = uint i, pre_key_data = b\<rparr> (pre_keys d)\<rparr>)"
  by (simp_all add: store_defs run_defs run_statements with_lock_def unwrapM_def max_id_row_def
      lookup_row_filter_hd servingD [OF assms] split: list.splits sum.splits)

lemma run_signed_pre_key_ops:
  assumes "serving L d"
  shows "sqlite_signed_pre_key_count d = (Ok (length (signed_pre_keys d)), d)"
    "sqlite_get_max_signed_pre_key_id d = (Ok (case signed_pre_keys d of [] \<Rightarrow> None
       | _ \<Rightarrow> (case get_u32 (Max (signed_row_id ` set (signed_pre_keys d))) of Inl _ \<Rightarrow> None | Inr m \<Rightarrow> Some m)), d)"
    "sqlite_delete_signed_pre_key i d =
       (Ok (), d\<lparr>signed_pre_keys := delete_key signed_row_id (uint i) (signed_pre_keys d)\<rparr>)"
    "lookup_row signed_row_id (uint i) (signed_pre_keys d) = None \<Longrightarrow>
       sqlite_get_signed_pre_key L i d = (Err InvalidSignedPreKeyId, d)"
    "lookup_row signed_row_id (uint i) (signed_pre_keys d) = Some r \<Longrightarrow>
       signed_pre_key_record_deserialize L (signed_key_data r) = Inr x \<Longrightarrow>
       sqlite_get_signed_pre_key L i d = (Ok x, d)"
    "signed_pre_key_record_serialize L x = Inr b \<Longrightarrow> signed_pre_key_record_timestamp L x = Inr t \<Longrightarrow>
       signed_pre_key_record_signature L x = Inr g \<Longrightarrow>
       sqlite_save_signed_pre_key L i x d = (Ok (), put_signed_pre_key_row
         \<lparr>signed_row_id = uint i, signed_key_data = b, signed_signature = g,
          signed_created_at = uint t div 1000, signed_expires_at = uint t div 1000 + 2592000,
          signed_is_current = False\<rparr> d)"
  by (simp_all add: store_defs run_defs run_statements with_lock_def unwrapM_def max_id_row_def
      lookup_row_filter_hd servingD [OF assms] insert_signed_row_def expires_at_secs created_at_secs
      put_signed_pre_key_row_def Let_def split: list.splits sum.splits)

lemma run_kyber_pre_key_ops:
  assumes "serving L d"
  shows "sqlite_kyber_pre_key_count d = (Ok (length (kyber_pre_keys d)), d)"
    "sqlite_get_max_kyber_pre_key_id d = (Ok (case kyber_pre_keys d of [] \<Rightarrow> None
       | _ \<Rightarrow> (case get_u32 (Max (signed_row_id ` set (kyber_pre_keys d))) of Inl _ \<Rightarrow> None | Inr m \<Rightarrow> Some m)), d)"
    "sqlite_delete_kyber_pre_key i d =
       (Ok (), d\<lparr>kyber_pre_keys := delete_key signed_row_id (uint i) (kyber_pre_keys d)\<rparr>)"
    "lookup_row signed_row_id (uint i) (kyber_pre_keys d) = None \<Longrightarrow>
       sqlite_get_kyber_pre_key L i d = (Err InvalidKyberPreKeyId, d)"
    "lookup_row signed_row_id (uint i) (kyber_pre_keys d) = Some r \<Longrightarrow>
       kyber_pre_key_record_deserialize L (signed_key_data r) = Inr x \<Longrightarrow>
       sqlite_get_kyber_pre_key L i d = (Ok x, d)"
    "kyber_pre_key_record_serialize L x = Inr b \<Longrightarrow> kyber_pre_key_record_timestamp L x = Inr t \<Longrightarrow>
       kyber_pre_key_record_signature L x = Inr g \<Longrightarrow>
       sqlite_save_kyber_pre_key L i x d = (Ok (), put_kyber_pre_key_row
         \<lparr>signed_row_id = uint i, signed_key_data = b, signed_signature = g,
          signed_created_at = uint t div 1000, signed_expires_at = uint t div 1000 + 2592000,
          signed_is_current = False\<rparr> d)"
  by (simp_all add: store_defs run_defs run_statements with_lock_def unwrapM_def max_id_row_def
      lookup_row_filter_hd servingD [OF assms] insert_signed_row_def expires_at_secs created_at_secs
      put_kyber_pre_key_row_def Let_def split: list.splits sum.splits)

text \<open>The state stays ready when a call changed only tables and left them well-formed.\<close>

lemma ready_update:
  assumes "sqlite_ready L s" and "db_wf L d" and "mutex d = Unlocked" and "faults d = []"
    and "created d = created (connection s)"
  shows "sqlite_ready L (s\<lparr>connection := d\<rparr>)"
  using assms by (simp add: sqlite_ready_def serving_def)

lemma readyD: "sqlite_ready L s \<Longrightarrow> serving L (connection s)"
  by (simp add: sqlite_ready_def)

lemma row_map_None:
  "\<forall>r \<in> set rows. \<exists>x. dec r = Inr x \<Longrightarrow> row_map key dec rows i = None \<longleftrightarrow> lookup_row key (uint i) rows = None"
  by (auto simp: row_map_def split: option.splits sum.splits dest!: lookup_row_SomeD)

lemma row_map_Some:
  "row_map key dec rows i = Some x \<longleftrightarrow> (\<exists>r. lookup_row key (uint i) rows = Some r \<and> dec r = Inr x)"
  by (auto simp: row_map_def split: option.splits sum.splits)

text \<open>\<open>SELECT MAX(id)\<close> is the greatest key number of the map.\<close>

lemma max_of_row_map:
  assumes "numbered key rows" and "\<forall>r \<in> set rows. \<exists>x. dec r = Inr x"
  shows "(case rows of [] \<Rightarrow> None | _ \<Rightarrow> (case get_u32 (Max (key ` set rows)) of Inl _ \<Rightarrow> None | Inr m \<Rightarrow> Some m))
    = greatest (row_map key dec rows)"
proof (cases "rows = []")
  case True
  then show ?thesis by (simp add: greatest_def dom_row_map)
next
  case False
  moreover have "dom (row_map key dec rows) \<noteq> {}" using uint_dom_row_map [OF assms] False by auto
  ultimately show ?thesis using max_row_map [OF assms False] by (cases rows) (auto simp: greatest_def)
qed

section \<open>The key stores implement the contract\<close>

lemma pre_keys_wf:
  assumes "sqlite_ready L s"
  shows "numbered pre_key_row_id (pre_keys (connection s))"
    "\<forall>r \<in> set (pre_keys (connection s)). \<exists>x. pre_key_record_deserialize L (pre_key_data r) = Inr x"
  using assms by (auto simp: sqlite_ready_def serving_def db_wf_def)

interpretation sqlite_pk: numbered_key_store
  "pre_key_count (pre_key_store (sqlite_container L))"
  "get_max_pre_key_id (pre_key_store (sqlite_container L))"
  "get_pre_key (pre_key_store (sqlite_container L))"
  "save_pre_key (pre_key_store (sqlite_container L))"
  "delete_pre_key (pre_key_store (sqlite_container L))"
  "sqlite_pre_keys L" without_pre_keys "sqlite_ready L" "pre_key_storable L" for L
proof unfold_locales
  fix s i r assume ready: "sqlite_ready L s"
  note serve = readyD [OF ready] and wf = pre_keys_wf [OF ready]
  note run = run_pre_key_ops [OF serve] run_via(3) [OF ready]
  show "pre_key_count (pre_key_store (sqlite_container L)) s = (Ok (card (dom (sqlite_pre_keys L s))), s)"
    by (simp add: run sqlite_pre_keys_def card_row_map [OF wf])
  show "get_max_pre_key_id (pre_key_store (sqlite_container L)) s =
      (Ok (greatest (sqlite_pre_keys L s)), s)"
    by (simp add: run sqlite_pre_keys_def max_of_row_map [OF wf])
  show "get_pre_key (pre_key_store (sqlite_container L)) i s = (Ok r, s)" if "sqlite_pre_keys L s i = Some r"
    using that by (auto simp: sqlite_pre_keys_def row_map_Some run)
  show "\<exists>e. get_pre_key (pre_key_store (sqlite_container L)) i s = (Err e, s)" if "sqlite_pre_keys L s i = None"
    using that by (auto simp: sqlite_pre_keys_def row_map_None [OF wf(2)] run)
  show "\<exists>s'. save_pre_key (pre_key_store (sqlite_container L)) i r s = (Ok (), s') \<and> sqlite_ready L s' \<and>
      sqlite_pre_keys L s' = (sqlite_pre_keys L s)(i \<mapsto> r) \<and> without_pre_keys s' = without_pre_keys s"
    if "pre_key_storable L i r"
  proof -
    from that obtain b where b: "pre_key_record_serialize L r = Inr b" by (auto simp: pre_key_storable_def)
    note eq = run_pre_key_ops(6) [OF serve b, of i]
    have "db_wf L (connection s)" "libsignal_ok L" using servingD [OF serve] by blast+
    then have "db_wf L ((connection s)\<lparr>pre_keys := upsert_sorted pre_key_row_id
        \<lparr>pre_key_row_id = uint i, pre_key_data = b\<rparr> (pre_keys (connection s))\<rparr>)"
      using preservesD [OF save_pre_key_wf _ eq] by blast
    then show ?thesis
      using b servingD [OF serve]
      by (auto simp: eq run_via(3) [OF ready] sqlite_pre_keys_def without_pre_keys_def libsignal_ok_def
          intro!: ready_update [OF ready] row_map_upsert)
  qed
  show "\<exists>s'. delete_pre_key (pre_key_store (sqlite_container L)) i s = (Ok (), s') \<and> sqlite_ready L s' \<and>
      sqlite_pre_keys L s' = (sqlite_pre_keys L s)(i := None) \<and> without_pre_keys s' = without_pre_keys s"
    using servingD [OF serve] preservesD [OF writers_wf(9) _ run_pre_key_ops(3) [OF serve, of i]]
    by (auto simp: run sqlite_pre_keys_def without_pre_keys_def
        row_map_delete intro!: ready_update [OF ready])
qed

text \<open>The keys older than a moment, in whole seconds.\<close>

definition older_numbers :: "u64 \<Rightarrow> signed_key_row list \<Rightarrow> u32 list" where
  "older_numbers c rows = map word_of_int (older_ids (uint c div 1000) rows)"

lemma mapM_get_u32:
  "\<forall>i \<in> set is. 0 \<le> i \<and> i < 2 ^ 32 \<Longrightarrow> mapM (\<lambda>v. of_sum (get_u32 v)) is s = (Ok (map word_of_int is), s)"
  by (induction "is") (simp_all add: run_defs get_u32_def)

lemma older_ids_bounds:
  "numbered signed_row_id rows \<Longrightarrow> \<forall>i \<in> set (older_ids c rows). 0 \<le> i \<and> i < 2 ^ 32"
  by (auto simp: older_ids_def numbered_def)

lemma run_signed_pre_keys_older:
  assumes "serving L d"
  shows "sqlite_get_signed_pre_keys_older_than c d = (Ok (older_numbers c (signed_pre_keys d)), d)"
proof -
  have "numbered signed_row_id (signed_pre_keys d)" using servingD(4) [OF assms] by (simp add: db_wf_def)
  then show ?thesis
    by (simp add: sqlite_get_signed_pre_keys_older_than_def bindM_def mapErr_def run_statements with_lock_def
        servingD [OF assms] mapM_get_u32 [OF older_ids_bounds] created_at_secs older_numbers_def Let_def)
qed

lemma run_kyber_pre_keys_older:
  assumes "serving L d"
  shows "sqlite_get_kyber_pre_keys_older_than c d = (Ok (older_numbers c (kyber_pre_keys d)), d)"
proof -
  have "numbered signed_row_id (kyber_pre_keys d)" using servingD(4) [OF assms] by (simp add: db_wf_def)
  then show ?thesis
    by (simp add: sqlite_get_kyber_pre_keys_older_than_def bindM_def mapErr_def run_statements with_lock_def
        servingD [OF assms] mapM_get_u32 [OF older_ids_bounds] created_at_secs older_numbers_def Let_def)
qed

lemma secs_less: "uint (t :: u64) div 1000 < uint c div 1000 \<Longrightarrow> t < c"
proof (rule ccontr)
  assume less: "uint t div 1000 < uint c div 1000" and "\<not> t < c"
  then have "uint c \<le> uint t" by (simp add: word_less_def)
  then have "uint c div 1000 \<le> uint t div 1000" by (rule zdiv_mono1) simp
  with less show False by simp
qed

lemma secs_less_if: "unat (t :: u64) + 1000 \<le> unat c \<Longrightarrow> uint t div 1000 < uint c div 1000"
proof -
  assume "unat t + 1000 \<le> unat c"
  then have "uint t + 1000 \<le> uint c" unfolding uint_nat by linarith
  then have "(uint t + 1000) div 1000 \<le> uint c div 1000" by (rule zdiv_mono1) simp
  then show ?thesis by simp
qed

lemma older_numbers_iff:
  assumes "numbered signed_row_id rows" and "\<forall>r \<in> set rows. signed_row_ok deser ts r"
  shows "i \<in> set (older_numbers c rows) \<longleftrightarrow> (\<exists>x t.
    row_map signed_row_id (\<lambda>r. deser (signed_key_data r)) rows i = Some x \<and> ts x = Inr t \<and>
    uint t div 1000 < uint c div 1000)" (is "?l \<longleftrightarrow> ?r")
proof
  assume ?l
  then obtain r where r: "r \<in> set rows" "signed_created_at r < uint c div 1000"
    "i = word_of_int (signed_row_id r)"
    by (auto simp: older_numbers_def older_ids_def)
  have bounds: "0 \<le> signed_row_id r" "signed_row_id r < 2 ^ 32" using assms(1) r(1) by (auto simp: numbered_def)
  then have i: "uint i = signed_row_id r"
    by (simp add: r(3) unsigned_of_int take_bit_int_eq_self)
  have "lookup_row signed_row_id (uint i) rows = Some r"
    using assms(1) r(1) unfolding i by (intro lookup_row_distinct) (auto simp: numbered_def)
  moreover from assms(2) r(1) obtain x t where "deser (signed_key_data r) = Inr x" "ts x = Inr t"
    "signed_created_at r = u64_as_i64 (t div 1000)" by (auto simp: signed_row_ok_def)
  ultimately show ?r using r(2) by (auto simp: row_map_Some created_at_secs)
next
  assume ?r
  then obtain x t where *: "row_map signed_row_id (\<lambda>r. deser (signed_key_data r)) rows i = Some x"
    "ts x = Inr t" "uint t div 1000 < uint c div 1000" by blast
  then obtain r where r: "lookup_row signed_row_id (uint i) rows = Some r" "deser (signed_key_data r) = Inr x"
    by (auto simp: row_map_Some)
  then have "r \<in> set rows" "signed_row_id r = uint i" by (auto dest: lookup_row_SomeD)
  with assms(2) r(2) *(2) have "signed_created_at r = uint t div 1000"
    by (fastforce simp: signed_row_ok_def created_at_secs)
  with *(3) \<open>r \<in> set rows\<close> have "signed_row_id r \<in> set (older_ids (uint c div 1000) rows)"
    by (auto simp: older_ids_def)
  then show ?l
    unfolding older_numbers_def \<open>signed_row_id r = uint i\<close> by (force intro: image_eqI [of _ _ "uint i"])
qed

lemma older_rows:
  assumes "numbered signed_row_id rows" and "\<forall>r \<in> set rows. signed_row_ok deser ts r"
  shows "(\<forall>i \<in> set (older_numbers c rows). \<exists>r t.
        row_map signed_row_id (\<lambda>r. deser (signed_key_data r)) rows i = Some r \<and> ts r = Inr t \<and> t < c) \<and>
      (\<forall>i r t. row_map signed_row_id (\<lambda>r. deser (signed_key_data r)) rows i = Some r \<longrightarrow> ts r = Inr t \<longrightarrow>
        unat t + 1000 \<le> unat c \<longrightarrow> i \<in> set (older_numbers c rows))"
  by (intro conjI ballI) (use older_numbers_iff [OF assms] secs_less secs_less_if in blast)+

lemma signed_pre_keys_wf:
  assumes "sqlite_ready L s"
  shows "numbered signed_row_id (signed_pre_keys (connection s))"
    "\<forall>r \<in> set (signed_pre_keys (connection s)). signed_row_ok (signed_pre_key_record_deserialize L) (signed_pre_key_record_timestamp L) r"
    "\<forall>r \<in> set (signed_pre_keys (connection s)). \<exists>x. signed_pre_key_record_deserialize L (signed_key_data r) = Inr x"
  using assms by (auto simp: sqlite_ready_def serving_def db_wf_def signed_row_ok_def)

definition sqlite_signed_pre_keys :: "'x libsignal_scheme \<Rightarrow> sqlite_storage \<Rightarrow> u32 \<Rightarrow> signed_pre_key_record option" where
  "sqlite_signed_pre_keys L s =
     row_map signed_row_id (\<lambda>r. signed_pre_key_record_deserialize L (signed_key_data r)) (signed_pre_keys (connection s))"

definition without_signed_pre_keys :: "sqlite_storage \<Rightarrow> sqlite_storage" where
  "without_signed_pre_keys s = s\<lparr>connection := (connection s)\<lparr>signed_pre_keys := []\<rparr>\<rparr>"

definition signed_pre_key_storable :: "'x libsignal_scheme \<Rightarrow> u32 \<Rightarrow> signed_pre_key_record \<Rightarrow> bool" where
  "signed_pre_key_storable L i r \<longleftrightarrow> (\<exists>b t g. signed_pre_key_record_serialize L r = Inr b \<and>
     signed_pre_key_record_timestamp L r = Inr t \<and> signed_pre_key_record_signature L r = Inr g)"

interpretation sqlite_spk: aged_key_store
  "signed_pre_key_count (signed_pre_key_store (sqlite_container L))"
  "get_max_signed_pre_key_id (signed_pre_key_store (sqlite_container L))"
  "get_signed_pre_key (signed_pre_key_store (sqlite_container L))"
  "save_signed_pre_key (signed_pre_key_store (sqlite_container L))"
  "delete_signed_pre_key (signed_pre_key_store (sqlite_container L))"
  "sqlite_signed_pre_keys L" without_signed_pre_keys "sqlite_ready L" "signed_pre_key_storable L"
  "get_signed_pre_keys_older_than (signed_pre_key_store (sqlite_container L))"
  "signed_pre_key_record_timestamp L" for L
proof unfold_locales
  fix s i r c assume ready: "sqlite_ready L s"
  note serve = readyD [OF ready] and wf = signed_pre_keys_wf(1,3) [OF ready] and rows = signed_pre_keys_wf(2) [OF ready]
  note run = run_signed_pre_key_ops [OF serve] run_via(4) [OF ready]
  show "signed_pre_key_count (signed_pre_key_store (sqlite_container L)) s = (Ok (card (dom (sqlite_signed_pre_keys L s))), s)"
    by (simp add: run sqlite_signed_pre_keys_def card_row_map [OF wf])
  show "get_max_signed_pre_key_id (signed_pre_key_store (sqlite_container L)) s =
      (Ok (greatest (sqlite_signed_pre_keys L s)), s)"
    by (simp add: run sqlite_signed_pre_keys_def max_of_row_map [OF wf])
  show "get_signed_pre_key (signed_pre_key_store (sqlite_container L)) i s = (Ok r, s)" if "sqlite_signed_pre_keys L s i = Some r"
    using that by (auto simp: sqlite_signed_pre_keys_def row_map_Some run)
  show "\<exists>e. get_signed_pre_key (signed_pre_key_store (sqlite_container L)) i s = (Err e, s)" if "sqlite_signed_pre_keys L s i = None"
    using that by (auto simp: sqlite_signed_pre_keys_def row_map_None [OF wf(2)] run)
  show "\<exists>s'. save_signed_pre_key (signed_pre_key_store (sqlite_container L)) i r s = (Ok (), s') \<and> sqlite_ready L s' \<and>
      sqlite_signed_pre_keys L s' = (sqlite_signed_pre_keys L s)(i \<mapsto> r) \<and> without_signed_pre_keys s' = without_signed_pre_keys s"
    if "signed_pre_key_storable L i r"
  proof -
    from that obtain b t g where b: "signed_pre_key_record_serialize L r = Inr b"
      "signed_pre_key_record_timestamp L r = Inr t" "signed_pre_key_record_signature L r = Inr g"
      by (auto simp: signed_pre_key_storable_def)
    note eq = run_signed_pre_key_ops(6) [OF serve b, of i]
    let ?row = "\<lparr>signed_row_id = uint i, signed_key_data = b, signed_signature = g,
      signed_created_at = uint t div 1000, signed_expires_at = uint t div 1000 + 2592000,
      signed_is_current = False\<rparr>"
    have ok: "db_wf L (connection s)" "libsignal_ok L" using servingD [OF serve] by blast+
    have "db_wf L (put_signed_pre_key_row ?row (connection s))"
      by (rule preservesD [OF save_signed_pre_key_wf [OF ok(2)] ok(1) eq])
    moreover have "signed_pre_key_record_deserialize L b = Inr r" using b ok(2) by (auto simp: libsignal_ok_def)
    ultimately show ?thesis
      using servingD [OF serve]
      by (auto simp: eq run_via(4) [OF ready] sqlite_signed_pre_keys_def without_signed_pre_keys_def put_signed_pre_key_row_def
          intro!: ready_update [OF ready] row_map_upsert)
  qed
  show "\<exists>s'. delete_signed_pre_key (signed_pre_key_store (sqlite_container L)) i s = (Ok (), s') \<and> sqlite_ready L s' \<and>
      sqlite_signed_pre_keys L s' = (sqlite_signed_pre_keys L s)(i := None) \<and> without_signed_pre_keys s' = without_signed_pre_keys s"
    using servingD [OF serve] preservesD [OF writers_wf(11) _ run_signed_pre_key_ops(3) [OF serve, of i]]
    by (auto simp: run sqlite_signed_pre_keys_def without_signed_pre_keys_def row_map_delete intro!: ready_update [OF ready])
  show "\<exists>ids. get_signed_pre_keys_older_than (signed_pre_key_store (sqlite_container L)) c s = (Ok ids, s) \<and>
      (\<forall>i \<in> set ids. \<exists>r t. sqlite_signed_pre_keys L s i = Some r \<and> signed_pre_key_record_timestamp L r = Inr t \<and> t < c) \<and>
      (\<forall>i r t. sqlite_signed_pre_keys L s i = Some r \<longrightarrow> signed_pre_key_record_timestamp L r = Inr t \<longrightarrow>
        unat t + 1000 \<le> unat c \<longrightarrow> i \<in> set ids)"
    using older_rows [OF wf(1) rows, of c]
    by (intro exI [of _ "older_numbers c (signed_pre_keys (connection s))"])
      (simp add: run_via(4) [OF ready] run_signed_pre_keys_older [OF serve] sqlite_signed_pre_keys_def)
qed

lemma kyber_pre_keys_wf:
  assumes "sqlite_ready L s"
  shows "numbered signed_row_id (kyber_pre_keys (connection s))"
    "\<forall>r \<in> set (kyber_pre_keys (connection s)). signed_row_ok (kyber_pre_key_record_deserialize L) (kyber_pre_key_record_timestamp L) r"
    "\<forall>r \<in> set (kyber_pre_keys (connection s)). \<exists>x. kyber_pre_key_record_deserialize L (signed_key_data r) = Inr x"
  using assms by (auto simp: sqlite_ready_def serving_def db_wf_def signed_row_ok_def)

definition sqlite_kyber_pre_keys :: "'x libsignal_scheme \<Rightarrow> sqlite_storage \<Rightarrow> u32 \<Rightarrow> kyber_pre_key_record option" where
  "sqlite_kyber_pre_keys L s =
     row_map signed_row_id (\<lambda>r. kyber_pre_key_record_deserialize L (signed_key_data r)) (kyber_pre_keys (connection s))"

definition without_kyber_pre_keys :: "sqlite_storage \<Rightarrow> sqlite_storage" where
  "without_kyber_pre_keys s = s\<lparr>connection := (connection s)\<lparr>kyber_pre_keys := []\<rparr>\<rparr>"

definition kyber_pre_key_storable :: "'x libsignal_scheme \<Rightarrow> u32 \<Rightarrow> kyber_pre_key_record \<Rightarrow> bool" where
  "kyber_pre_key_storable L i r \<longleftrightarrow> (\<exists>b t g. kyber_pre_key_record_serialize L r = Inr b \<and>
     kyber_pre_key_record_timestamp L r = Inr t \<and> kyber_pre_key_record_signature L r = Inr g)"

interpretation sqlite_kpk: aged_key_store
  "kyber_pre_key_count (kyber_pre_key_store (sqlite_container L))"
  "get_max_kyber_pre_key_id (kyber_pre_key_store (sqlite_container L))"
  "get_kyber_pre_key (kyber_pre_key_store (sqlite_container L))"
  "save_kyber_pre_key (kyber_pre_key_store (sqlite_container L))"
  "delete_kyber_pre_key (kyber_pre_key_store (sqlite_container L))"
  "sqlite_kyber_pre_keys L" without_kyber_pre_keys "sqlite_ready L" "kyber_pre_key_storable L"
  "get_kyber_pre_keys_older_than (kyber_pre_key_store (sqlite_container L))"
  "kyber_pre_key_record_timestamp L" for L
proof unfold_locales
  fix s i r c assume ready: "sqlite_ready L s"
  note serve = readyD [OF ready] and wf = kyber_pre_keys_wf(1,3) [OF ready] and rows = kyber_pre_keys_wf(2) [OF ready]
  note run = run_kyber_pre_key_ops [OF serve] run_via(5) [OF ready]
  show "kyber_pre_key_count (kyber_pre_key_store (sqlite_container L)) s = (Ok (card (dom (sqlite_kyber_pre_keys L s))), s)"
    by (simp add: run sqlite_kyber_pre_keys_def card_row_map [OF wf])
  show "get_max_kyber_pre_key_id (kyber_pre_key_store (sqlite_container L)) s =
      (Ok (greatest (sqlite_kyber_pre_keys L s)), s)"
    by (simp add: run sqlite_kyber_pre_keys_def max_of_row_map [OF wf])
  show "get_kyber_pre_key (kyber_pre_key_store (sqlite_container L)) i s = (Ok r, s)" if "sqlite_kyber_pre_keys L s i = Some r"
    using that by (auto simp: sqlite_kyber_pre_keys_def row_map_Some run)
  show "\<exists>e. get_kyber_pre_key (kyber_pre_key_store (sqlite_container L)) i s = (Err e, s)" if "sqlite_kyber_pre_keys L s i = None"
    using that by (auto simp: sqlite_kyber_pre_keys_def row_map_None [OF wf(2)] run)
  show "\<exists>s'. save_kyber_pre_key (kyber_pre_key_store (sqlite_container L)) i r s = (Ok (), s') \<and> sqlite_ready L s' \<and>
      sqlite_kyber_pre_keys L s' = (sqlite_kyber_pre_keys L s)(i \<mapsto> r) \<and> without_kyber_pre_keys s' = without_kyber_pre_keys s"
    if "kyber_pre_key_storable L i r"
  proof -
    from that obtain b t g where b: "kyber_pre_key_record_serialize L r = Inr b"
      "kyber_pre_key_record_timestamp L r = Inr t" "kyber_pre_key_record_signature L r = Inr g"
      by (auto simp: kyber_pre_key_storable_def)
    note eq = run_kyber_pre_key_ops(6) [OF serve b, of i]
    let ?row = "\<lparr>signed_row_id = uint i, signed_key_data = b, signed_signature = g,
      signed_created_at = uint t div 1000, signed_expires_at = uint t div 1000 + 2592000,
      signed_is_current = False\<rparr>"
    have ok: "db_wf L (connection s)" "libsignal_ok L" using servingD [OF serve] by blast+
    have "db_wf L (put_kyber_pre_key_row ?row (connection s))"
      by (rule preservesD [OF save_kyber_pre_key_wf [OF ok(2)] ok(1) eq])
    moreover have "kyber_pre_key_record_deserialize L b = Inr r" using b ok(2) by (auto simp: libsignal_ok_def)
    ultimately show ?thesis
      using servingD [OF serve]
      by (auto simp: eq run_via(5) [OF ready] sqlite_kyber_pre_keys_def without_kyber_pre_keys_def put_kyber_pre_key_row_def
          intro!: ready_update [OF ready] row_map_upsert)
  qed
  show "\<exists>s'. delete_kyber_pre_key (kyber_pre_key_store (sqlite_container L)) i s = (Ok (), s') \<and> sqlite_ready L s' \<and>
      sqlite_kyber_pre_keys L s' = (sqlite_kyber_pre_keys L s)(i := None) \<and> without_kyber_pre_keys s' = without_kyber_pre_keys s"
    using servingD [OF serve] preservesD [OF writers_wf(13) _ run_kyber_pre_key_ops(3) [OF serve, of i]]
    by (auto simp: run sqlite_kyber_pre_keys_def without_kyber_pre_keys_def row_map_delete intro!: ready_update [OF ready])
  show "\<exists>ids. get_kyber_pre_keys_older_than (kyber_pre_key_store (sqlite_container L)) c s = (Ok ids, s) \<and>
      (\<forall>i \<in> set ids. \<exists>r t. sqlite_kyber_pre_keys L s i = Some r \<and> kyber_pre_key_record_timestamp L r = Inr t \<and> t < c) \<and>
      (\<forall>i r t. sqlite_kyber_pre_keys L s i = Some r \<longrightarrow> kyber_pre_key_record_timestamp L r = Inr t \<longrightarrow>
        unat t + 1000 \<le> unat c \<longrightarrow> i \<in> set ids)"
    using older_rows [OF wf(1) rows, of c]
    by (intro exI [of _ "older_numbers c (kyber_pre_keys (connection s))"])
      (simp add: run_via(5) [OF ready] run_kyber_pre_keys_older [OF serve] sqlite_kyber_pre_keys_def)
qed

end
