(* ===== verification/Sqlite_Properties.thy ===== *)
theory Sqlite_Properties
  imports Sqlite_Correct Sample_Libsignal
begin

text \<open>
  The properties of the SQLite storage: start-up and migration, round trips of sessions,
  identities, settings and bundle metadata, trust on first use, closing, the poisoned mutex, and
  that no library call can leave the tables ill-formed.
\<close>

section \<open>Start-up\<close>

text \<open>A database the storage can be opened on: empty, or left by an earlier run.\<close>

definition openable :: "'x libsignal_scheme \<Rightarrow> db \<Rightarrow> bool" where
  "openable L d \<longleftrightarrow> mutex d = Unlocked \<and> faults d = [] \<and> db_wf L d \<and> libsignal_ok L \<and>
     (\<forall>v vs. schema_info d = v # vs \<and> 2 \<le> v \<longrightarrow>
        Conversations \<in> set (created d) \<and> Messages \<in> set (created d))"

definition with_table :: "table \<Rightarrow> db \<Rightarrow> db" where
  "with_table t d = d\<lparr>created := List.insert t (created d)\<rparr>"

lemma with_table_sel [simp]:
  "faults (with_table t d) = faults d" "mutex (with_table t d) = mutex d"
  "schema_info (with_table t d) = schema_info d" "set (created (with_table t d)) = insert t (set (created d))"
  by (simp_all add: with_table_def)

lemma run_create_table:
  "faults d = [] \<Longrightarrow> mapErr DynSql (execute [] (\<lambda>d. d\<lparr>created := List.insert t (created d)\<rparr>)) d =
     (Ok (), with_table t d)"
  "faults d = [] \<Longrightarrow> create_table t d = (Ok (), with_table t d)"
  "faults d = [] \<Longrightarrow> t \<in> set (created d) \<Longrightarrow> create_index t d = (Ok (), d)"
  by (simp_all add: create_table_def create_index_def run_defs run_statements with_table_def)

lemma bind_Ok: "m s = (Ok a, s') \<Longrightarrow> bindM m f s = f a s'"
  by (simp add: bindM_at)

definition base_tables :: "db \<Rightarrow> db" where
  "base_tables d = with_table BundleMetadata (with_table Settings (with_table Contacts
     (with_table KyberPreKeys (with_table SignedPreKeys (with_table PreKeys (with_table Sessions
     (with_table IdentityKeys (with_table LocalIdentity (with_table SchemaInfo d)))))))))"

lemma base_tables_sel [simp]:
  "faults (base_tables d) = faults d" "mutex (base_tables d) = mutex d"
  "schema_info (base_tables d) = schema_info d"
  "set (created (base_tables d)) = {BundleMetadata, Settings, Contacts, KyberPreKeys, SignedPreKeys,
     PreKeys, Sessions, IdentityKeys, LocalIdentity, SchemaInfo} \<union> set (created d)"
  by (auto simp: base_tables_def)

lemma with_table_commute_info: "with_table t (d\<lparr>schema_info := x\<rparr>) = (with_table t d)\<lparr>schema_info := x\<rparr>"
  by (simp add: with_table_def)

lemma base_tables_commute_info: "base_tables (d\<lparr>schema_info := x\<rparr>) = (base_tables d)\<lparr>schema_info := x\<rparr>"
  by (simp add: base_tables_def with_table_commute_info)

lemma run_migrate:
  assumes "faults d = []" and "SchemaInfo \<in> set (created d)"
  shows "migrate_to_v2 d = (Ok (), (with_table Messages (with_table Conversations d))\<lparr>
    schema_info := map (\<lambda>_. 2) (schema_info d)\<rparr>)"
  using assms unfolding migrate_to_v2_def
  by (simp add: bind_Ok [OF run_create_table(2)] bind_Ok [OF run_create_table(3)] mapErr_at run_statements)

lemma run_schema_statements:
  assumes "faults d = []"
  shows "schema_statements d = whenM (hd (schema_info d @ [1]) < 2) migrate_to_v2
    ((base_tables d)\<lparr>schema_info := schema_info d @ [1]\<rparr>)"
proof -
  let ?d = "(with_table SchemaInfo d)\<lparr>schema_info := schema_info d @ [1]\<rparr>"
  have head: "(case schema_info d @ [1] of [] \<Rightarrow> (Err QueryReturnedNoRows, ?d) | r # _ \<Rightarrow> (Ok r, ?d)) =
      (Ok (hd (schema_info d @ [1])), ?d)"
    by (cases "schema_info d") simp_all
  have q: "mapErr DynSql (query_row [SchemaInfo] schema_info) ?d = (Ok (hd (schema_info d @ [1])), ?d)"
    using assms head by (simp add: mapErr_at run_statements)
  have i: "identity_create_tables ?d = (Ok (), with_table IdentityKeys (with_table LocalIdentity ?d))"
    using assms unfolding identity_create_tables_def
    by (simp add: bind_Ok [OF run_create_table(1)] run_create_table(1))
  have e: "mapErr DynSql (execute [SchemaInfo] (\<lambda>d. d\<lparr>schema_info := schema_info d @ [1]\<rparr>))
      (with_table SchemaInfo d) = (Ok (), ?d)"
    using assms by (simp add: mapErr_at run_statements)
  show ?thesis
    using assms
    unfolding schema_statements_def session_create_tables_def pre_key_create_tables_def
      signed_pre_key_create_tables_def kyber_pre_key_create_tables_def base_tables_def
    by (simp add: bindM_at run_create_table q i e with_table_commute_info)
qed

lemma db_wf_schema [simp]:
  "db_wf L (d\<lparr>schema_info := x\<rparr>) = db_wf L d" "db_wf L (with_table t d) = db_wf L d"
  "db_wf L (d\<lparr>mutex := m\<rparr>) = db_wf L d"
  by (simp_all add: db_wf_def with_table_def)

lemma db_wf_base_tables [simp]: "db_wf L (base_tables d) = db_wf L d"
  by (simp add: base_tables_def)

text \<open>Everything but the list of tables and the version rows.\<close>

definition contents :: "db \<Rightarrow> db" where
  "contents d = d\<lparr>created := [], schema_info := []\<rparr>"

lemma contents_schema [simp]:
  "contents (d\<lparr>schema_info := x\<rparr>) = contents d" "contents (with_table t d) = contents d"
  by (simp_all add: contents_def with_table_def)

lemma contents_base_tables [simp]: "contents (base_tables d) = contents d"
  by (simp add: base_tables_def)

definition current_version :: "db \<Rightarrow> int" where
  "current_version d = (case schema_info d of [] \<Rightarrow> 2 | v # _ \<Rightarrow> max 2 v)"

text \<open>The state in which the schema statements leave a database that can be opened.\<close>

definition migrated :: "db \<Rightarrow> db" where
  "migrated d = (if hd (schema_info d @ [1]) < 2
     then (with_table Messages (with_table Conversations (base_tables d)))\<lparr>
       schema_info := map (\<lambda>_. 2) (schema_info d @ [1])\<rparr>
     else (base_tables d)\<lparr>schema_info := schema_info d @ [1]\<rparr>)"

lemma run_schema:
  assumes "faults d = []"
  shows "schema_statements d = (Ok (), migrated d)"
  using run_schema_statements [OF assms] run_migrate [of "(base_tables d)\<lparr>schema_info := schema_info d @ [1]\<rparr>"] assms
  by (simp add: whenM_at migrated_def with_table_commute_info)

lemma with_table_mutex: "with_table t (d\<lparr>mutex := m\<rparr>) = (with_table t d)\<lparr>mutex := m\<rparr>"
  by (simp add: with_table_def)

lemma migrated_mutex: "migrated (d\<lparr>mutex := m\<rparr>) = (migrated d)\<lparr>mutex := m\<rparr>"
  by (simp add: migrated_def base_tables_def with_table_mutex)

lemma migrated_serving:
  assumes "openable L d"
  shows "serving L (migrated d)" "contents (migrated d) = contents d"
    "schema_info (migrated d) \<noteq> []" "hd (schema_info (migrated d)) = current_version d"
    "length (schema_info (migrated d)) = Suc (length (schema_info d))"
proof -
  show "serving L (migrated d)"
    using assms
    by (cases "schema_info d") (auto simp: openable_def serving_def migrated_def all_tables_def split: if_splits)
  show "hd (schema_info (migrated d)) = current_version d"
    by (cases "schema_info d") (auto simp: migrated_def current_version_def)
qed (auto simp: migrated_def)

definition opened :: "db \<Rightarrow> sqlite_storage" where
  "opened d = \<lparr>connection = migrated d, session_handle = Some (), identity_handle = Some (),
    pre_key_handle = Some (), signed_pre_key_handle = Some (), kyber_pre_key_handle = Some (),
    message_history_handle = Some (), is_closed = False\<rparr>"

lemma connection_opened [simp]: "connection (opened d) = migrated d"
  by (simp add: opened_def)

lemma opened_ready: "openable L d \<Longrightarrow> sqlite_ready L (opened d)"
  using migrated_serving(1) by (simp add: sqlite_ready_def opened_def)

lemma run_initialize:
  assumes "openable L d"
  shows "sqlite_initialize (sqlite_storage_new d) = (Ok (), opened d)"
proof -
  have "mutex (migrated d) = Unlocked" using migrated_serving(1) [OF assms] by (rule servingD)
  moreover have "with_lock schema_statements d = (Ok (), migrated d)"
    using assms calculation
    by (simp add: openable_def with_lock_def run_schema migrated_mutex)
  ultimately show ?thesis
    by (simp add: sqlite_initialize_def initialize_schema_def sqlite_storage_new_def opened_def on_conn_def zoom_def run_defs)
qed

lemma run_get_schema_version:
  assumes "openable L d"
  shows "get_schema_version (opened d) = (Ok (current_version d), opened d)"
  using migrated_serving(3,4) [OF assms] servingD [OF migrated_serving(1) [OF assms]]
  by (cases "schema_info (migrated d)")
    (simp_all add: get_schema_version_def opened_def on_conn_def zoom_def with_lock_def run_defs run_statements)

text \<open>
  C29. Opening a database, new or left by an earlier run, and creating or migrating its schema
  succeeds; afterwards the storage serves calls, reports its schema version (2 for a new or a
  version-1 database) and all stored data is unchanged.
\<close>

theorem sqlite_initialize_ready:
  assumes "openable L d"
  shows "\<exists>s. sqlite_initialize (sqlite_storage_new d) = (Ok (), s) \<and> sqlite_ready L s \<and>
    get_schema_version s = (Ok (current_version d), s) \<and> contents (connection s) = contents d"
  using run_initialize [OF assms] opened_ready [OF assms] run_get_schema_version [OF assms]
    migrated_serving(2) [OF assms] by simp

lemma openable_empty [simp]: "libsignal_ok L \<Longrightarrow> openable L (empty_db fk)"
  by (simp add: openable_def empty_db_def db_wf_def)

theorem sqlite_initialize_ready_witness:
  "\<exists>s. sqlite_initialize (sqlite_storage_new (empty_db True)) = (Ok (), s) \<and>
    sqlite_ready sample_libsignal s \<and> get_schema_version s = (Ok 2, s) \<and>
    contents (connection s) = contents (empty_db True)"
  using sqlite_initialize_ready [of sample_libsignal "empty_db True"]
  by (simp add: current_version_def empty_db_def [of True, THEN arg_cong [where f = schema_info]])

text \<open>The storage of a first start, used by the witnesses below.\<close>

definition sample_storage :: sqlite_storage where
  "sample_storage = opened (empty_db True)"

lemma sample_storage_ready [simp]: "libsignal_ok L \<Longrightarrow> sqlite_ready L sample_storage"
  by (simp add: sample_storage_def opened_ready)

section \<open>Sessions\<close>

lemma address_columns_inj [simp]: "address_columns a = address_columns b \<longleftrightarrow> a = b"
  by (auto simp: address_columns_def intro: address.expand)

definition session_at :: "'x libsignal_scheme \<Rightarrow> db \<Rightarrow> address \<Rightarrow> session_record option" where
  "session_at L d a = (case lookup_row session_key (address_columns a) (sessions d) of
     None \<Rightarrow> None
   | Some r \<Rightarrow> (case session_record_deserialize L (session_data r) of Inl _ \<Rightarrow> None | Inr x \<Rightarrow> Some x))"

lemma run_load_session:
  assumes "serving L d"
  shows "sqlite_load_session L a d = (Ok (session_at L d a), d)"
proof (cases "filter (\<lambda>r. session_key r = address_columns a) (sessions d)")
  case Nil
  then show ?thesis
    by (simp add: sqlite_load_session_def with_lock_def run_defs run_statements servingD [OF assms]
        session_at_def lookup_row_filter_hd)
next
  case (Cons r rs)
  then have "r \<in> set (sessions d)" by (metis filter_eq_ConsD in_set_conv_decomp)
  then obtain x where "session_record_deserialize L (session_data r) = Inr x"
    using servingD(4) [OF assms] by (auto simp: db_wf_def)
  with Cons show ?thesis
    by (simp add: sqlite_load_session_def with_lock_def run_defs run_statements servingD [OF assms]
        session_at_def lookup_row_filter_hd)
qed

lemma run_store_session:
  assumes "serving L d" and "session_record_serialize L r = Inr b"
  shows "sqlite_store_session L a r d = (Ok (), d\<lparr>sessions := upsert session_key
    \<lparr>session_address = address_name a, session_device = uint (address_device a), session_data = b\<rparr> (sessions d)\<rparr>)"
  using assms(2)
  by (simp add: sqlite_store_session_def with_lock_def run_defs run_statements servingD [OF assms(1)])

lemma session_row_key [simp]:
  "session_key \<lparr>session_address = address_name a, session_device = uint (address_device a), session_data = b\<rparr> =
   address_columns a"
  by (simp add: session_key_def address_columns_def)

text \<open>
  C28. A session that was stored for an address is the one loaded for that address, and the sessions
  of all other addresses (also those that differ only in the device number) are unchanged.
\<close>

theorem session_roundtrip:
  assumes "sqlite_ready L s" and "session_record_serialize L r = Inr b"
  shows "\<exists>s'. store_session (session_store (sqlite_container L)) a r s = (Ok (), s') \<and> sqlite_ready L s' \<and>
    (\<forall>a'. load_session (session_store (sqlite_container L)) a' s' =
      (if a' = a then Ok (Some r) else fst (load_session (session_store (sqlite_container L)) a' s), s'))"
proof -
  note serve = readyD [OF assms(1)]
  let ?d = "(connection s)\<lparr>sessions := upsert session_key \<lparr>session_address = address_name a,
    session_device = uint (address_device a), session_data = b\<rparr> (sessions (connection s))\<rparr>"
  note run = run_store_session [OF serve assms(2), of a]
  have wf: "db_wf L ?d"
    using preservesD [OF store_session_wf servingD(4) [OF serve] run] servingD(5) [OF serve] by blast
  have ready: "sqlite_ready L (s\<lparr>connection := ?d\<rparr>)"
    using servingD [OF serve] by (intro ready_update [OF assms(1) wf]) simp_all
  have "session_at L ?d a' = (if a' = a then Some r else session_at L (connection s) a')" for a'
    using libsignal_okD(1) [OF servingD(5) [OF serve] assms(2)] by (simp add: session_at_def)
  then show ?thesis
    using run run_load_session [OF serve] run_load_session [OF readyD [OF ready]] ready
    by (intro exI [of _ "s\<lparr>connection := ?d\<rparr>"])
      (simp add: sqlite_container_def run_via(1) [OF assms(1)] run_via(1) [OF ready])
qed

theorem session_roundtrip_witness:
  "\<exists>s'. store_session (session_store (sqlite_container sample_libsignal)) (Address ''bob'' 1) (SessionRecord [7])
      sample_storage = (Ok (), s') \<and> sqlite_ready sample_libsignal s' \<and>
    (\<forall>a'. load_session (session_store (sqlite_container sample_libsignal)) a' s' =
      (if a' = Address ''bob'' 1 then Ok (Some (SessionRecord [7]))
       else fst (load_session (session_store (sqlite_container sample_libsignal)) a' sample_storage), s'))"
  using session_roundtrip [of sample_libsignal sample_storage "SessionRecord [7]" "[7]" "Address ''bob'' 1"]
  by (simp add: sample_libsignal_def [THEN arg_cong [where f = session_record_serialize]])

section \<open>Identities\<close>

definition identity_at :: "'x libsignal_scheme \<Rightarrow> db \<Rightarrow> address \<Rightarrow> identity_key option" where
  "identity_at L d a = (case identity_bytes_at a d of
     [] \<Rightarrow> None | b # _ \<Rightarrow> (case identity_key_decode L b of Inl _ \<Rightarrow> None | Inr k \<Rightarrow> Some k))"

lemma identity_bytes_wf:
  assumes "serving L d" and "identity_bytes_at a d = b # bs"
  obtains k where "b = identity_key_serialize L k" and "identity_at L d a = Some k"
proof -
  have "b \<in> set (identity_bytes_at a d)" using assms(2) by simp
  then obtain k where "b = identity_key_serialize L k"
    using servingD(4) [OF assms(1)] by (auto simp: db_wf_def identity_bytes_at_def)
  then show ?thesis
    using that libsignal_okD(2) [OF servingD(5) [OF assms(1)]] assms(2) by (simp add: identity_at_def)
qed

lemma identity_bytes_mutex [simp]: "identity_bytes_at a (d\<lparr>mutex := m\<rparr>) = identity_bytes_at a d"
  by (simp add: identity_bytes_at_def)

lemma run_get_identity:
  assumes "serving L d"
  shows "sqlite_get_identity L a d = (Ok (identity_at L d a), d)"
proof (cases "identity_bytes_at a d")
  case Nil
  then show ?thesis
    by (simp add: sqlite_get_identity_def with_lock_def run_defs run_statements servingD [OF assms] identity_at_def)
next
  case (Cons b bs)
  then obtain k where "b = identity_key_serialize L k" by (rule identity_bytes_wf [OF assms])
  with Cons libsignal_okD(2) [OF servingD(5) [OF assms]] show ?thesis
    by (simp add: sqlite_get_identity_def with_lock_def run_defs run_statements servingD [OF assms] identity_at_def)
qed

lemma run_is_trusted:
  "serving L d \<Longrightarrow> sqlite_is_trusted_identity L a k dir d =
     (Ok (case identity_at L d a of None \<Rightarrow> True | Some k' \<Rightarrow> k' = k), d)"
  by (simp add: sqlite_is_trusted_identity_def bindM_at run_get_identity ret_def split: option.split)

definition put_identity :: "address \<Rightarrow> bytes \<Rightarrow> db \<Rightarrow> db" where
  "put_identity a b d = d\<lparr>identity_keys := upsert identity_row_key
     \<lparr>identity_address = address_name a, identity_device = uint (address_device a), identity_public_key = b\<rparr>
     (identity_keys d)\<rparr>"

lemma run_save_identity:
  assumes "serving L d"
  shows "sqlite_save_identity L a k d =
    (Ok (case identity_bytes_at a d of [] \<Rightarrow> NewOrUnchanged
       | b # _ \<Rightarrow> if b = identity_key_serialize L k then NewOrUnchanged else ReplacedExisting),
     put_identity a (identity_key_serialize L k) d)"
  by (cases "identity_bytes_at a d")
    (simp_all add: sqlite_save_identity_def with_lock_def run_defs run_statements servingD [OF assms]
      put_identity_def Let_def)

lemma identity_change_at:
  assumes "serving L d"
  shows "(case identity_bytes_at a d of [] \<Rightarrow> NewOrUnchanged
      | b # _ \<Rightarrow> if b = identity_key_serialize L k then NewOrUnchanged else ReplacedExisting) =
    (case identity_at L d a of None \<Rightarrow> NewOrUnchanged
      | Some k' \<Rightarrow> if k' = k then NewOrUnchanged else ReplacedExisting)"
proof (cases "identity_bytes_at a d")
  case Nil
  then show ?thesis by (simp add: identity_at_def)
next
  case (Cons b bs)
  then obtain k' where k': "b = identity_key_serialize L k'" "identity_at L d a = Some k'"
    by (rule identity_bytes_wf [OF assms])
  then have "b = identity_key_serialize L k \<longleftrightarrow> k' = k"
    by (metis Inr_inject libsignal_okD(2) servingD(5) [OF assms])
  then show ?thesis using Cons k' by simp
qed

lemma identity_row_key_new [simp]:
  "identity_row_key \<lparr>identity_address = address_name a, identity_device = uint (address_device a),
     identity_public_key = b\<rparr> = address_columns a"
  by (simp add: identity_row_key_def address_columns_def)

lemma identity_bytes_put:
  "identity_bytes_at a' (put_identity a b d) = (if a' = a then [b] else identity_bytes_at a' d)"
proof -
  have "filter (\<lambda>r. identity_row_key r = address_columns a') (filter (\<lambda>r. identity_row_key r \<noteq> address_columns a) rows)
      = (if a' = a then [] else filter (\<lambda>r. identity_row_key r = address_columns a') rows)" for rows
    by (induction rows) auto
  then show ?thesis
    by (auto simp: identity_bytes_at_def put_identity_def upsert_def simp del: filter_filter)
qed

text \<open>
  C27. Trust on first use: any key is trusted for an address without a stored identity; once a key is
  saved, exactly that key is trusted for the address, for both directions, and the answers for all
  other addresses do not change. Saving reports \<open>ReplacedExisting\<close> exactly when a different key was
  stored.
\<close>

theorem trust_on_first_use:
  assumes "sqlite_ready L s"
  shows "\<exists>s'. save_identity (identity_store (sqlite_container L)) a k s =
      (Ok (case identity_at L (connection s) a of None \<Rightarrow> NewOrUnchanged
         | Some k' \<Rightarrow> if k' = k then NewOrUnchanged else ReplacedExisting), s') \<and> sqlite_ready L s' \<and>
    get_identity (identity_store (sqlite_container L)) a s' = (Ok (Some k), s') \<and>
    (\<forall>k' dir. is_trusted_identity (identity_store (sqlite_container L)) a k' dir s' = (Ok (k' = k), s')) \<and>
    (\<forall>a' k' dir. a' \<noteq> a \<longrightarrow>
      fst (is_trusted_identity (identity_store (sqlite_container L)) a' k' dir s') =
      fst (is_trusted_identity (identity_store (sqlite_container L)) a' k' dir s)) \<and>
    (\<forall>a' k' dir. identity_at L (connection s) a' = None \<longrightarrow>
      is_trusted_identity (identity_store (sqlite_container L)) a' k' dir s = (Ok True, s))"
proof -
  note serve = readyD [OF assms]
  let ?d = "put_identity a (identity_key_serialize L k) (connection s)" let ?s = "s\<lparr>connection := ?d\<rparr>"
  note run = run_save_identity [OF serve, of a k] and ok = servingD(5) [OF serve]
  have wf: "db_wf L ?d" by (rule preservesD [OF save_identity_wf [OF ok] servingD(4) [OF serve] run])
  have ready: "sqlite_ready L ?s"
    using servingD [OF serve] by (intro ready_update [OF assms wf]) (simp_all add: put_identity_def)
  have at: "identity_at L ?d a' = (if a' = a then Some k else identity_at L (connection s) a')" for a'
    using libsignal_okD(2) [OF ok] by (simp add: identity_at_def identity_bytes_put)
  have serve': "serving L ?d" using readyD [OF ready] by simp
  note runs = run_via(2) [OF assms] run_via(2) [OF ready] run run_get_identity [OF serve']
    run_is_trusted [OF serve] run_is_trusted [OF serve']
  show ?thesis
    using ready at
    by (intro exI [of _ ?s]) (auto simp: sqlite_container_def runs identity_change_at [OF serve])
qed

theorem trust_on_first_use_witness:
  "\<exists>s'. save_identity (identity_store (sqlite_container sample_libsignal)) (Address ''bob'' 1) (IdentityKey [5])
      sample_storage = (Ok (case identity_at sample_libsignal (connection sample_storage) (Address ''bob'' 1) of
        None \<Rightarrow> NewOrUnchanged
      | Some k' \<Rightarrow> if k' = IdentityKey [5] then NewOrUnchanged else ReplacedExisting), s') \<and>
    is_trusted_identity (identity_store (sqlite_container sample_libsignal)) (Address ''bob'' 1)
      (IdentityKey [6]) Receiving s' = (Ok False, s')"
  using trust_on_first_use [of sample_libsignal sample_storage "Address ''bob'' 1" "IdentityKey [5]"]
  by auto

section \<open>Settings and bundle metadata\<close>

lemma run_on_conn_lock:
  assumes "sqlite_ready L s"
  shows "on_conn (with_lock m) s = (case m ((connection s)\<lparr>mutex := Locked\<rparr>) of
      (Panic p, d') \<Rightarrow> (Panic p, s\<lparr>connection := d'\<lparr>mutex := Poisoned\<rparr>\<rparr>)
    | (Err e, d') \<Rightarrow> (Err e, s\<lparr>connection := d'\<lparr>mutex := Unlocked\<rparr>\<rparr>)
    | (Ok a, d') \<Rightarrow> (Ok a, s\<lparr>connection := d'\<lparr>mutex := Unlocked\<rparr>\<rparr>))"
  using servingD [OF readyD [OF assms]]
  by (auto simp: on_conn_def zoom_def with_lock_def split: prod.splits outcome.splits)

lemma locked_serving [simp]:
  assumes "sqlite_ready L s"
  shows "faults (connection s) = []" "t \<in> set (created (connection s))" "mutex (connection s) = Unlocked"
  using servingD [OF readyD [OF assms]] by blast+

text \<open>
  The timestamp of the last message, stored as decimal text, reads back exactly, for every
  64-bit value; before the first write it reads as 0.
\<close>

lemma last_message_timestamp_roundtrip:
  assumes "sqlite_ready L s"
  shows "\<exists>s'. set_last_message_timestamp t s = (Ok (), s') \<and> sqlite_ready L s' \<and>
    get_last_message_timestamp s' = (Ok t, s') \<and> local_identity (connection s') = local_identity (connection s) \<and>
    (last_message_timestamp_key \<notin> fst ` set (settings (connection s)) \<longrightarrow>
      get_last_message_timestamp s = (Ok 0, s))"
proof -
  let ?d = "(connection s)\<lparr>settings := upsert fst (last_message_timestamp_key, show_u64 t) (settings (connection s))\<rparr>"
  let ?s = "s\<lparr>connection := ?d\<rparr>"
  note serve = servingD [OF readyD [OF assms]]
  have ready: "sqlite_ready L ?s"
    using serve by (intro ready_update [OF assms]) (simp_all add: db_wf_def)
  have found: "filter (\<lambda>kv. fst kv = last_message_timestamp_key)
      (upsert fst (last_message_timestamp_key, show_u64 t) xs) = [(last_message_timestamp_key, show_u64 t)]" for xs
    by (auto simp: upsert_def filter_empty_conv)
  have "set_last_message_timestamp t s = (Ok (), ?s)"
    by (simp add: set_last_message_timestamp_def run_on_conn_lock [OF assms] run_defs run_statements
        locked_serving [OF assms])
  moreover have "get_last_message_timestamp ?s = (Ok t, ?s)"
    by (simp add: get_last_message_timestamp_def run_on_conn_lock [OF ready] run_defs run_statements
        locked_serving [OF assms] found)
  moreover have "get_last_message_timestamp s = (Ok 0, s)"
    if "last_message_timestamp_key \<notin> fst ` set (settings (connection s))"
  proof -
    have "filter (\<lambda>kv. fst kv = last_message_timestamp_key) (settings (connection s)) = []"
      using that by (force simp: filter_empty_conv)
    then show ?thesis
      by (simp add: get_last_message_timestamp_def run_on_conn_lock [OF assms] run_defs run_statements
          locked_serving [OF assms])
  qed
  moreover have "local_identity (connection ?s) = local_identity (connection s)" by simp
  ultimately show ?thesis using ready by blast
qed

text \<open>
  The metadata of the last published bundle reads back the three key numbers that were recorded;
  on a database without the row it is \<open>None\<close>.
\<close>

lemma bundle_metadata_roundtrip:
  assumes "sqlite_ready L (store w)" and "0 \<le> clock w (ticks w)" and "clock w (ticks w) < 2 ^ 63"
  shows "\<exists>s'. record_published_bundle p q r w = (Ok (), w\<lparr>ticks := Suc (ticks w), store := s'\<rparr>) \<and>
    sqlite_ready L s' \<and> get_last_published_bundle_metadata s' = (Ok (Some (p, q, r)), s') \<and>
    (bundle_metadata (connection (store w)) = None \<longrightarrow>
      get_last_published_bundle_metadata (store w) = (Ok None, store w))"
proof -
  let ?s = "store w" and ?secs = "clock w (ticks w) div 1000"
  let ?d = "(connection ?s)\<lparr>bundle_metadata := Some (uint p, uint q, uint r, ?secs)\<rparr>"
  let ?s' = "?s\<lparr>connection := ?d\<rparr>"
  note serve = servingD [OF readyD [OF assms(1)]] and locked = locked_serving [OF assms(1)]
  have secs: "0 \<le> ?secs" "?secs < 2 ^ 63" using assms(2,3) by (auto simp: div_less_iff_less_mult)
  then have "uint (word_of_int ?secs :: u64) = ?secs"
    by (simp add: unsigned_of_int take_bit_int_eq_self)
  then have sql: "u64_to_sql (word_of_int ?secs) = Inr ?secs" using secs by (simp add: u64_to_sql_def)
  have ready: "sqlite_ready L ?s'"
    using serve by (intro ready_update [OF assms(1)]) (simp_all add: db_wf_def)
  have get: "get_u32 (uint (i :: u32)) = Inr i" for i
    using uint_lt2p [of i] by (simp add: get_u32_def)
  have lock: "in_store (on_conn (with_lock (ret ()))) w = (Ok (), w)"
    by (simp add: in_store_at run_on_conn_lock [OF assms(1)] ret_def locked)
  have clock: "mapErr (\<lambda>_. DynTime) now_secs w = (Ok (word_of_int ?secs), w\<lparr>ticks := Suc (ticks w)\<rparr>)"
    using assms(2) by (simp add: mapErr_at run_now_secs)
  have insert: "in_store (on_conn (with_lock (mapErr DynSql (Database.sql [BundleMetadata] (\<lambda>d.
      case u64_to_sql (word_of_int ?secs) of Inl e \<Rightarrow> Inl e
      | Inr published_at \<Rightarrow> Inr ((), d\<lparr>bundle_metadata := Some (uint p, uint q, uint r, published_at)\<rparr>))))))
      (w\<lparr>ticks := Suc (ticks w)\<rparr>) = (Ok (), w\<lparr>ticks := Suc (ticks w), store := ?s'\<rparr>)"
    by (simp add: in_store_at run_on_conn_lock [OF assms(1)] mapErr_at run_statements locked sql)
  have "record_published_bundle p q r w = (Ok (), w\<lparr>ticks := Suc (ticks w), store := ?s'\<rparr>)"
    by (simp add: record_published_bundle_def bindM_at lock clock insert)
  moreover have "get_last_published_bundle_metadata ?s' = (Ok (Some (p, q, r)), ?s')"
    by (simp add: get_last_published_bundle_metadata_def run_defs run_on_conn_lock [OF ready] run_statements
        locked get)
  moreover have "get_last_published_bundle_metadata ?s = (Ok None, ?s)" if "bundle_metadata (connection ?s) = None"
    using that by (simp add: get_last_published_bundle_metadata_def run_defs run_on_conn_lock [OF assms(1)]
        run_statements locked)
  ultimately show ?thesis using ready by (intro exI [of _ ?s'] conjI impI)
qed

text \<open>A run of the process on the storage of a first start, the clock at 1700000000000 ms.\<close>

definition sample_sys :: "'s \<Rightarrow> 's sys" where
  "sample_sys s = \<lparr>clock = (\<lambda>_. 1700000000000), ticks = 0, entropy = id, draws = 0, overflow_checks = True,
     store = s\<rparr>"

lemma sample_sys_sel [simp]:
  "clock (sample_sys s) n = 1700000000000" "store (sample_sys s) = s" "overflow_checks (sample_sys s)"
  "ticks (sample_sys s) = 0" "draws (sample_sys s) = 0"
  by (simp_all add: sample_sys_def)

section \<open>Failures\<close>

text \<open>The counting methods of the five stores, which unwrap the prepared statement.\<close>

definition counting_methods :: "'x libsignal_scheme \<Rightarrow> (sqlite_storage, dyn_error, nat) M list" where
  "counting_methods L = [session_count (session_store (sqlite_container L)), identity_count (identity_store (sqlite_container L)),
     pre_key_count (pre_key_store (sqlite_container L)), signed_pre_key_count (signed_pre_key_store (sqlite_container L)),
     kyber_pre_key_count (kyber_pre_key_store (sqlite_container L))]"

lemmas poison_defs = sqlite_container_def via_session_store_def via_identity_store_def via_pre_key_store_def
  via_signed_pre_key_store_def via_kyber_pre_key_store_def open_handle_def expect_handle_def on_conn_def zoom_def run_defs with_lock_def

lemma poisoned_accessors:
  assumes "\<not> is_closed s" and "session_handle s = Some ()" "identity_handle s = Some ()" "pre_key_handle s = Some ()"
    "signed_pre_key_handle s = Some ()" "kyber_pre_key_handle s = Some ()" and "mutex (connection s) = Poisoned"
  shows "via_session_store (with_lock m1) s = (Panic ''PoisonError'', s)" "via_identity_store (with_lock m2) s = (Panic ''PoisonError'', s)"
    "via_pre_key_store (with_lock m3) s = (Panic ''PoisonError'', s)" "via_signed_pre_key_store (with_lock m4) s = (Panic ''PoisonError'', s)"
    "via_kyber_pre_key_store (with_lock m5) s = (Panic ''PoisonError'', s)"
  using assms by (simp_all add: poison_defs)

text \<open>
  C31. When the first statement of a counting method fails, which is where it unwraps the prepared
  query, the method panics under the lock and poisons the mutex; from then on every counting method and
  everything else the five stores do under the lock panics too, on whatever arguments. When only the
  second statement fails, the query itself, the method answers 0.
\<close>

theorem count_failure_poisons:
  assumes "sqlite_ready L (s\<lparr>connection := (connection s)\<lparr>faults := []\<rparr>\<rparr>)" and "counted \<in> set (counting_methods L)"
  shows "(\<forall>e fs. faults (connection s) = Some e # fs \<longrightarrow> (\<exists>p s'. counted s = (Panic p, s') \<and> mutex (connection s') = Poisoned \<and>
      (\<forall>c \<in> set (counting_methods L). c s' = (Panic ''PoisonError'', s')) \<and>
      via_session_store (with_lock m1) s' = (Panic ''PoisonError'', s') \<and>
      via_identity_store (with_lock m2) s' = (Panic ''PoisonError'', s') \<and>
      via_pre_key_store (with_lock m3) s' = (Panic ''PoisonError'', s') \<and>
      via_signed_pre_key_store (with_lock m4) s' = (Panic ''PoisonError'', s') \<and>
      via_kyber_pre_key_store (with_lock m5) s' = (Panic ''PoisonError'', s') \<and>
      load_session (session_store (sqlite_container L)) a s' = (Panic ''PoisonError'', s') \<and>
      save_pre_key (pre_key_store (sqlite_container L)) i r s' = (Panic ''PoisonError'', s'))) \<and>
    (\<forall>e fs. faults (connection s) = None # Some e # fs \<longrightarrow>
      counted s = (Ok 0, s\<lparr>connection := (connection s)\<lparr>faults := fs\<rparr>\<rparr>))"
proof (intro conjI allI impI)
  have opened: "\<not> is_closed s" "session_handle s = Some ()" "identity_handle s = Some ()" "pre_key_handle s = Some ()"
    "signed_pre_key_handle s = Some ()" "kyber_pre_key_handle s = Some ()" "mutex (connection s) = Unlocked"
    "set all_tables \<subseteq> set (created (connection s))"
    using assms(1) unfolding sqlite_ready_def serving_def by (simp_all del: faults_restore)
  note counts = sqlite_session_count_def sqlite_identity_count_def sqlite_pre_key_count_def sqlite_signed_pre_key_count_def
    sqlite_kyber_pre_key_count_def unwrapM_def prepare_def query_row_def Database.sql_def
  show "counted s = (Ok 0, s\<lparr>connection := (connection s)\<lparr>faults := fs\<rparr>\<rparr>)" if "faults (connection s) = None # Some e # fs" for e fs
    using opened assms(2) that by (auto simp: counting_methods_def poison_defs counts all_tables_def)
  fix e fs
  assume fault: "faults (connection s) = Some e # fs"
  let ?s = "s\<lparr>connection := (connection s)\<lparr>faults := fs, mutex := Poisoned\<rparr>\<rparr>"
  have "counted s = (Panic ''called `Result::unwrap()` on an `Err` value'', ?s)"
    using opened assms(2) fault by (auto simp: counting_methods_def poison_defs counts)
  moreover have s: "\<not> is_closed ?s" "session_handle ?s = Some ()" "identity_handle ?s = Some ()" "pre_key_handle ?s = Some ()"
    "signed_pre_key_handle ?s = Some ()" "kyber_pre_key_handle ?s = Some ()" "mutex (connection ?s) = Poisoned"
    using opened by simp_all
  moreover note panics = poisoned_accessors [OF s]
  moreover have "\<forall>c \<in> set (counting_methods L). c ?s = (Panic ''PoisonError'', ?s)"
    by (simp add: counting_methods_def sqlite_container_def counts panics)
  moreover have "load_session (session_store (sqlite_container L)) a ?s = (Panic ''PoisonError'', ?s)"
    "save_pre_key (pre_key_store (sqlite_container L)) i r ?s = (Panic ''PoisonError'', ?s)"
    by (simp_all add: sqlite_container_def sqlite_load_session_def sqlite_save_pre_key_def panics)
  ultimately show "\<exists>p s'. counted s = (Panic p, s') \<and> mutex (connection s') = Poisoned \<and>
      (\<forall>c \<in> set (counting_methods L). c s' = (Panic ''PoisonError'', s')) \<and>
      via_session_store (with_lock m1) s' = (Panic ''PoisonError'', s') \<and>
      via_identity_store (with_lock m2) s' = (Panic ''PoisonError'', s') \<and>
      via_pre_key_store (with_lock m3) s' = (Panic ''PoisonError'', s') \<and>
      via_signed_pre_key_store (with_lock m4) s' = (Panic ''PoisonError'', s') \<and>
      via_kyber_pre_key_store (with_lock m5) s' = (Panic ''PoisonError'', s') \<and>
      load_session (session_store (sqlite_container L)) a s' = (Panic ''PoisonError'', s') \<and>
      save_pre_key (pre_key_store (sqlite_container L)) i r s' = (Panic ''PoisonError'', s')"
    by (intro exI [of _ ?s] exI conjI)
qed

theorem count_failure_poisons_witness:
  "(\<exists>p s'. pre_key_count (pre_key_store (sqlite_container sample_libsignal)) (sample_storage\<lparr>connection :=
      (connection sample_storage)\<lparr>faults := [Some ''disk I/O error'']\<rparr>\<rparr>) = (Panic p, s') \<and>
    mutex (connection s') = Poisoned) \<and>
   pre_key_count (pre_key_store (sqlite_container sample_libsignal)) (sample_storage\<lparr>connection :=
      (connection sample_storage)\<lparr>faults := [None, Some ''disk I/O error'']\<rparr>\<rparr>) = (Ok 0, sample_storage)"
proof -
  have same: "sample_storage\<lparr>connection := (connection sample_storage)\<lparr>faults := []\<rparr>\<rparr> = sample_storage"
    using locked_serving(1) [OF sample_storage_ready [OF sample_libsignal_ok]] by simp
  let ?s = "\<lambda>fs. sample_storage\<lparr>connection := (connection sample_storage)\<lparr>faults := fs\<rparr>\<rparr>"
  have "sqlite_ready sample_libsignal ((?s fs)\<lparr>connection := (connection (?s fs))\<lparr>faults := []\<rparr>\<rparr>)" for fs
    using same by simp
  moreover have "pre_key_count (pre_key_store (sqlite_container sample_libsignal)) \<in> set (counting_methods sample_libsignal)"
    by (simp add: counting_methods_def)
  ultimately have run: "(\<forall>e gs. faults (connection (?s fs)) = Some e # gs \<longrightarrow>
      (\<exists>p s'. pre_key_count (pre_key_store (sqlite_container sample_libsignal)) (?s fs) = (Panic p, s') \<and> mutex (connection s') = Poisoned)) \<and>
    (\<forall>e gs. faults (connection (?s fs)) = None # Some e # gs \<longrightarrow>
      pre_key_count (pre_key_store (sqlite_container sample_libsignal)) (?s fs) =
        (Ok 0, (?s fs)\<lparr>connection := (connection (?s fs))\<lparr>faults := gs\<rparr>\<rparr>))" for fs
    using count_failure_poisons [of sample_libsignal "?s fs"] by blast
  show ?thesis using run [of "[Some ''disk I/O error'']"] run [of "[None, Some ''disk I/O error'']"] same
    by (simp del: sqlite_container_sel)
qed

text \<open>
  C32. Closing checkpoints the database and drops the store handles; a second close is a no-op, the
  stored data stays as it was, and reaching for any store of a closed storage panics.
\<close>

theorem close_then_stores_panic:
  assumes "sqlite_ready L s"
  shows "\<exists>s'. sqlite_close s = (Ok (), s') \<and> connection s' = connection s \<and> sqlite_close s' = (Ok (), s') \<and>
    load_session (session_store (sqlite_container L)) a s' = (Panic ''Storage has been closed'', s') \<and>
    get_identity_key_pair (identity_store (sqlite_container L)) s' = (Panic ''Storage has been closed'', s') \<and>
    get_pre_key (pre_key_store (sqlite_container L)) i s' = (Panic ''Storage has been closed'', s') \<and>
    get_signed_pre_key (signed_pre_key_store (sqlite_container L)) i s' = (Panic ''Storage has been closed'', s') \<and>
    get_kyber_pre_key (kyber_pre_key_store (sqlite_container L)) i s' = (Panic ''Storage has been closed'', s')"
proof -
  let ?s = "s\<lparr>is_closed := True, session_handle := None, identity_handle := None, pre_key_handle := None,
    signed_pre_key_handle := None, kyber_pre_key_handle := None\<rparr>"
  have "sqlite_close s = (Ok (), ?s)"
    using assms by (simp add: sqlite_close_def run_defs run_on_conn_lock [OF assms] run_statements
        locked_serving [OF assms]) (simp add: sqlite_ready_def)
  moreover have "sqlite_close ?s = (Ok (), ?s)" by (simp add: sqlite_close_def)
  moreover have "load_session (session_store (sqlite_container L)) a ?s = (Panic ''Storage has been closed'', ?s)"
    "get_identity_key_pair (identity_store (sqlite_container L)) ?s = (Panic ''Storage has been closed'', ?s)"
    "get_pre_key (pre_key_store (sqlite_container L)) i ?s = (Panic ''Storage has been closed'', ?s)"
    "get_signed_pre_key (signed_pre_key_store (sqlite_container L)) i ?s = (Panic ''Storage has been closed'', ?s)"
    "get_kyber_pre_key (kyber_pre_key_store (sqlite_container L)) i ?s = (Panic ''Storage has been closed'', ?s)"
    by (simp_all add: sqlite_container_def via_session_store_def via_identity_store_def via_pre_key_store_def
        via_signed_pre_key_store_def via_kyber_pre_key_store_def open_handle_def bindM_at)
  ultimately show ?thesis by (intro exI [of _ ?s]) simp
qed

theorem close_then_stores_panic_witness:
  "\<exists>s'. sqlite_close sample_storage = (Ok (), s') \<and>
    get_pre_key (pre_key_store (sqlite_container sample_libsignal)) 1 s' = (Panic ''Storage has been closed'', s')"
  using close_then_stores_panic [of sample_libsignal sample_storage _ 1] by auto

end
