(* ===== verification/Contact_Correct.thy ===== *)
theory Contact_Correct
  imports Contact_Manager History_Correct Sqlite_Properties Sample_Crates
begin

text \<open>
  The contact table: its invariant (unique fingerprints, unique Nostr keys) and that every
  operation keeps it together with the history's, what adding, looking up and renaming a contact
  do on a serving storage, and what adding a known contact again costs.
\<close>

declare sqlite_stores_sel(1) [simp del]

lemma load_session_of_stores [simp]: "load_session (session_store (sqlite_stores C)) = sqlite_load_session C"
  by (simp add: sqlite_stores_sel)

section \<open>Well-formed contacts\<close>

definition contacts_wf :: "db \<Rightarrow> bool" where
  "contacts_wf d \<longleftrightarrow> distinct (map rdx_fingerprint (contacts d)) \<and> distinct (map nostr_pubkey (contacts d)) \<and>
     history_wf d"

lemma table_pred_contacts_wf [simp]: "table_pred contacts_wf"
  using table_pred_history_wf by (simp add: table_pred_def contacts_wf_def)

lemma replace_contact_contacts [simp]:
  "contacts (replace_contact new d) = filter (\<lambda>r. \<not> conflicting new r) (contacts d) @ [new]"
  by (simp add: replace_contact_def Let_def delete_conversation_rows_def)

lemma replace_contact_wf:
  assumes "contacts_wf d"
  shows "contacts_wf (replace_contact new d)"
proof -
  have "history_wf (replace_contact new d)"
    using assms
    by (auto simp: contacts_wf_def replace_contact_def history_wf_def delete_conversation_rows_def Let_def
        sorted_wrt_filter sorted_wrt_map distinct_map_filter conflicting_def) blast
  then show ?thesis
    using assms by (auto simp: contacts_wf_def distinct_map_filter conflicting_def)
qed

lemma insert_or_replace_contact_wf: "preserves contacts_wf (insert_or_replace_contact rdx npub alias key now)"
  unfolding insert_or_replace_contact_def
  by (rule preserves_sql) (auto simp: Let_def replace_contact_wf split: sum.splits)

lemma rename_contact_wf:
  "contacts_wf d \<Longrightarrow> contacts_wf (d\<lparr>contacts := map (\<lambda>r. if sel r then r\<lparr>user_alias := a, last_updated := t\<rparr> else r) (contacts d)\<rparr>)"
proof -
  have "rdx_fingerprint (if sel r then r\<lparr>user_alias := a, last_updated := t\<rparr> else r) = rdx_fingerprint r"
    "nostr_pubkey (if sel r then r\<lparr>user_alias := a, last_updated := t\<rparr> else r) = nostr_pubkey r" for r
    by simp_all
  then show "contacts_wf d \<Longrightarrow> ?thesis" by (simp add: contacts_wf_def history_wf_def comp_def image_image)
qed

text \<open>The invariant of a storage in a run, and the calls that keep it.\<close>

definition contacts_kept :: "sqlite_storage \<Rightarrow> bool" where
  "contacts_kept s \<longleftrightarrow> contacts_wf (connection s)"

lemma preserves_on_conn_contacts [preserves_intro]:
  "preserves contacts_wf m \<Longrightarrow> preserves contacts_kept (on_conn m)"
  unfolding on_conn_def by (rule preserves_zoom) (auto simp: contacts_kept_def)

lemma preserves_queries_contacts [preserves_intro]:
  "preserves contacts_wf (query_row ts q)" "preserves contacts_wf (query_all ts q')" "preserves contacts_wf (prepare ts)"
  by (rule preserves_queries [OF table_pred_contacts_wf])+

lemma contacts_wf_sessions [simp]: "contacts_wf (d\<lparr>sessions := x\<rparr>) = contacts_wf d"
  by (simp add: contacts_wf_def history_wf_def)

lemma load_session_contacts: "preserves contacts_wf (sqlite_load_session C a)"
  unfolding sqlite_load_session_def
  by (intro preserves_intro table_pred_contacts_wf)

lemma has_session_contacts: "preserves (in_sys contacts_kept) (has_session C (session_store (sqlite_stores C)) rdx)"
  unfolding has_session_def contact_address_def
  by (intro preserves_intro) (simp add: load_session_contacts)

lemma contact_calls_keep:
  "preserves (in_sys contacts_kept) (add_contact_from_identity_key C k)"
  "preserves (in_sys contacts_kept) (add_contact_from_bundle C b alias)"
  "preserves (in_sys contacts_kept) (lookup_contact C (session_store (sqlite_stores C)) i)"
  "preserves (in_sys contacts_kept) (list_contacts C (session_store (sqlite_stores C)))"
proof -
  show "preserves (in_sys contacts_kept) (add_contact_from_identity_key C k)"
    unfolding add_contact_from_identity_key_def Let_def str_slice_def
    by (intro preserves_intro table_pred_contacts_wf insert_or_replace_contact_wf)
  show "preserves (in_sys contacts_kept) (add_contact_from_bundle C b alias)"
    unfolding add_contact_from_bundle_def Let_def
    by (intro preserves_intro table_pred_contacts_wf insert_or_replace_contact_wf)
  show "preserves (in_sys contacts_kept) (lookup_contact C (session_store (sqlite_stores C)) i)"
    unfolding lookup_contact_def by (intro preserves_intro table_pred_contacts_wf has_session_contacts)
  show "preserves (in_sys contacts_kept) (list_contacts C (session_store (sqlite_stores C)))"
    unfolding list_contacts_def by (intro preserves_intro table_pred_contacts_wf has_session_contacts)
qed

lemma assign_alias_keeps:
  "preserves (in_sys contacts_kept) (assign_contact_alias C (session_store (sqlite_stores C)) i a)"
proof -
  have "preserves contacts_wf (sql [Contacts] (\<lambda>d. case u64_to_sql now of Inl e \<Rightarrow> Inl e
      | Inr t \<Rightarrow> let sel = (\<lambda>r. rdx_fingerprint r = rdx) in Inr (length (filter sel (contacts d)),
          d\<lparr>contacts := map (\<lambda>r. if sel r then r\<lparr>user_alias := Some a, last_updated := t\<rparr> else r) (contacts d)\<rparr>)))"
    for now rdx
    by (rule preserves_sql) (auto simp: Let_def rename_contact_wf split: sum.splits)
  then show ?thesis
    unfolding assign_contact_alias_def
    by (intro preserves_intro table_pred_contacts_wf contact_calls_keep(3))
qed

text \<open>A run over the sample history's database, used by the witnesses.\<close>

definition contact_sys :: "contact_row list \<Rightarrow> sqlite_storage sys" where
  "contact_sys rows = \<lparr>clock = (\<lambda>n. 9000), ticks = 0, entropy = (\<lambda>n. n), draws = 0, overflow_checks = True,
     store = sample_storage\<lparr>connection := (migrated (empty_db True))\<lparr>contacts := rows\<rparr>\<rparr>\<rparr>"

section \<open>Adding a contact\<close>

text \<open>A bundle that can be read, its identity key and the Nostr key derived from it.\<close>

definition readable_bundle ::
    "'x crates_scheme \<Rightarrow> bytes \<Rightarrow> serializable_pre_key_bundle \<Rightarrow> identity_key \<Rightarrow> nostr_public_key \<Rightarrow> bool" where
  "readable_bundle C bytes b k npub \<longleftrightarrow> bincode_deserialize C bytes = Inr b \<and>
     identity_key_decode C (bundle_identity_key b) = Inr k \<and>
     derive_public_key_from_peer_identity C k = Inr npub"

definition contact_at :: "string \<Rightarrow> db \<Rightarrow> contact_row option" where
  "contact_at rdx d = lookup_row rdx_fingerprint rdx (contacts d)"

definition new_contact ::
    "'x crates_scheme \<Rightarrow> serializable_pre_key_bundle \<Rightarrow> identity_key \<Rightarrow> nostr_public_key \<Rightarrow> string option \<Rightarrow>
     int \<Rightarrow> db \<Rightarrow> contact_row" where
  "new_contact C b k npub alias now d = (let rdx = generate_identity_fingerprint_from_key C k in
     \<lparr>rdx_fingerprint = rdx, nostr_pubkey = nostr_to_hex C npub, user_alias = alias,
       signal_identity_key = bundle_identity_key b,
       first_seen = (case contact_at rdx d of None \<Rightarrow> now | Some r \<Rightarrow> first_seen r), last_updated = now\<rparr>)"

lemma new_contact_sel [simp]:
  "rdx_fingerprint (new_contact C b k npub alias now d) = generate_identity_fingerprint_from_key C k"
  "nostr_pubkey (new_contact C b k npub alias now d) = nostr_to_hex C npub"
  "user_alias (new_contact C b k npub alias now d) = alias"
  by (simp_all add: new_contact_def Let_def)

text \<open>The clock reads a moment after the epoch whose seconds fit a SQL integer.\<close>

definition clock_sane :: "'s sys \<Rightarrow> bool" where
  "clock_sane w \<longleftrightarrow> 0 \<le> clock w (ticks w) \<and> clock w (ticks w) < 2 ^ 63"

lemma run_sane_secs:
  assumes "clock_sane w"
  shows "now_secs w = (Ok (word_of_int (clock w (ticks w) div 1000)), w\<lparr>ticks := Suc (ticks w)\<rparr>)"
    "u64_to_sql (word_of_int (clock w (ticks w) div 1000)) = Inr (clock w (ticks w) div 1000)"
proof -
  have "clock w (ticks w) div 1000 < 2 ^ 63" "0 \<le> clock w (ticks w) div 1000"
    using assms by (auto simp: clock_sane_def)
  then show "u64_to_sql (word_of_int (clock w (ticks w) div 1000)) = Inr (clock w (ticks w) div 1000)"
    by (simp add: u64_to_sql_def unsigned_of_int take_bit_int_eq_self)
qed (use assms in \<open>simp add: run_now_secs clock_sane_def\<close>)

lemma replace_contact_sel [simp]:
  "mutex (replace_contact new d) = mutex d" "faults (replace_contact new d) = faults d"
  "created (replace_contact new d) = created d" "db_wf L (replace_contact new d) = db_wf L d"
  "foreign_keys (replace_contact new d) = foreign_keys d"
  by (simp_all add: replace_contact_def Let_def delete_conversation_rows_def db_wf_def)

lemma replace_contact_mutex:
  "(replace_contact new (d\<lparr>mutex := m\<rparr>))\<lparr>mutex := n\<rparr> = (replace_contact new d)\<lparr>mutex := n\<rparr>"
  by (simp add: replace_contact_def Let_def delete_conversation_rows_def)

lemma run_add_contact_from_bundle:
  assumes ready: "sqlite_ready C (store w)" and b: "readable_bundle C bytes b k npub" and clk: "clock_sane w"
  shows "add_contact_from_bundle C bytes alias w = (Ok (generate_identity_fingerprint_from_key C k),
    w\<lparr>ticks := Suc (ticks w), store := (store w)\<lparr>connection := replace_contact
      (new_contact C b k npub alias (clock w (ticks w) div 1000) (connection (store w))) (connection (store w))\<rparr>\<rparr>)"
proof -
  let ?d = "connection (store w)" let ?t = "clock w (ticks w) div 1000"
  let ?rdx = "generate_identity_fingerprint_from_key C k"
  note serve = servingD [OF readyD [OF ready]]
  have seen: "(case filter (\<lambda>r. rdx_fingerprint r = ?rdx) (contacts ?d) of [] \<Rightarrow> ?t | r # _ \<Rightarrow> first_seen r) =
      (case contact_at ?rdx ?d of None \<Rightarrow> ?t | Some r \<Rightarrow> first_seen r)"
    by (simp add: contact_at_def lookup_row_filter_hd split: list.split)
  have "with_lock (mapErr bridge_from_sql (insert_or_replace_contact ?rdx (nostr_to_hex C npub) alias
      (bundle_identity_key b) (word_of_int ?t))) ?d = (Ok (), replace_contact (new_contact C b k npub alias ?t ?d) ?d)"
    by (simp add: with_lock_def mapErr_at insert_or_replace_contact_def run_statements serve run_sane_secs(2) [OF clk]
        seen replace_contact_mutex new_contact_def Let_def)
  with b show ?thesis
    by (simp add: add_contact_from_bundle_def readable_bundle_def run_defs run_sane_secs(1) [OF clk] Let_def in_store_at
        on_conn_def zoom_def)
qed

lemma contact_at_iff:
  "contacts_wf d \<Longrightarrow> contact_at rdx d = Some r \<longleftrightarrow> r \<in> set (contacts d) \<and> rdx_fingerprint r = rdx"
  by (auto simp: contact_at_def contacts_wf_def dest: lookup_row_SomeD intro: lookup_row_distinct)

lemma option_eqI: "(\<And>x. a = Some x \<longleftrightarrow> b = Some x) \<Longrightarrow> a = b"
  by (metis option.exhaust)

lemma contact_at_replace:
  assumes "contacts_wf d"
  shows "contact_at rdx (replace_contact new d) = (if rdx = rdx_fingerprint new then Some new
    else case contact_at rdx d of None \<Rightarrow> None
      | Some r \<Rightarrow> if nostr_pubkey r = nostr_pubkey new then None else Some r)"
proof (rule option_eqI)
  fix x
  have "contact_at rdx (replace_contact new d) = Some x \<longleftrightarrow>
      (x = new \<or> x \<in> set (contacts d) \<and> \<not> conflicting new x) \<and> rdx_fingerprint x = rdx"
    using contact_at_iff [OF replace_contact_wf [OF assms]] by auto
  also have "\<dots> \<longleftrightarrow> (if rdx = rdx_fingerprint new then Some new
      else case contact_at rdx d of None \<Rightarrow> None
        | Some r \<Rightarrow> if nostr_pubkey r = nostr_pubkey new then None else Some r) = Some x"
    using contact_at_iff [OF assms, of rdx x] contact_at_iff [OF assms, of rdx]
    by (cases "contact_at rdx d") (simp_all add: conflicting_def, metis+)
  finally show "contact_at rdx (replace_contact new d) = Some x \<longleftrightarrow> \<dots>" .
qed

lemma session_at_replace [simp]: "session_at L (replace_contact new d) a = session_at L d a"
  by (simp add: session_at_def replace_contact_def Let_def delete_conversation_rows_def)

text \<open>
  C37. A contact added from a readable bundle is stored under the fingerprint of its identity key, with
  the derived Nostr key, the given alias and the time of the call; the time it was first seen is
  kept when it was known. All other contacts stay as they are, except one under another
  fingerprint with the same Nostr key, which is replaced.
\<close>

theorem contact_added:
  assumes "sqlite_ready C (store w)" and "contacts_wf (connection (store w))" and "readable_bundle C bytes b k npub"
    and "clock_sane w"
  shows "\<exists>w'. add_contact_from_bundle C bytes alias w = (Ok (generate_identity_fingerprint_from_key C k), w') \<and>
    sqlite_ready C (store w') \<and> contacts_wf (connection (store w')) \<and>
    contact_at (generate_identity_fingerprint_from_key C k) (connection (store w')) =
      Some (new_contact C b k npub alias (clock w (ticks w) div 1000) (connection (store w))) \<and>
    (\<forall>rdx r. rdx \<noteq> generate_identity_fingerprint_from_key C k \<longrightarrow> contact_at rdx (connection (store w)) = Some r \<longrightarrow>
      contact_at rdx (connection (store w')) = (if nostr_pubkey r = nostr_to_hex C npub then None else Some r)) \<and>
    (\<forall>a. session_at C (connection (store w')) a = session_at C (connection (store w)) a)"
proof -
  let ?d = "connection (store w)"
  let ?new = "new_contact C b k npub alias (clock w (ticks w) div 1000) ?d"
  have "sqlite_ready C ((store w)\<lparr>connection := replace_contact ?new ?d\<rparr>)"
    using servingD [OF readyD [OF assms(1)]] by (intro ready_update [OF assms(1)]) simp_all
  then show ?thesis
    using run_add_contact_from_bundle [OF assms(1,3,4), of "alias"] replace_contact_wf [OF assms(2), of ?new]
      contact_at_replace [OF assms(2), of _ ?new]
    by (intro exI [of _ "w\<lparr>ticks := Suc (ticks w), store := (store w)\<lparr>connection := replace_contact ?new ?d\<rparr>\<rparr>"])
      (simp del: replace_contact_contacts)
qed

definition sample_bundle :: serializable_pre_key_bundle where
  "sample_bundle = \<lparr>bundle_registration_id = 4, bundle_device_id = 1, bundle_pre_key_id = Some 3,
     bundle_pre_key_public = Some [8], bundle_signed_pre_key_id = 2, bundle_signed_pre_key_public = [9],
     bundle_signed_pre_key_signature = [10], bundle_identity_key = [5, 6], bundle_kyber_pre_key_id = 1,
     bundle_kyber_pre_key_public = [11], bundle_kyber_pre_key_signature = [12]\<rparr>"

definition sample_key :: identity_key where
  "sample_key = IdentityKey [5, 6]"

definition sample_npub :: nostr_public_key where
  "sample_npub = NostrPublicKey ([5, 6] @ replicate 30 0)"

lemma sample_readable: "readable_bundle sample_crates (bundle_bytes sample_bundle) sample_bundle sample_key sample_npub"
  by (simp add: readable_bundle_def sample_crates_defs sample_libsignal_def sample_bundle_def sample_key_def
      sample_npub_def derive_public_key_from_peer_identity_def derive_keys_def)

lemma contact_sys_ready:
  "sqlite_ready sample_crates (store (contact_sys rows))" "clock_sane (contact_sys rows)"
  "contacts (connection (store (contact_sys rows))) = rows"
proof -
  have "sqlite_ready sample_crates sample_storage"
    using sample_crates_ok by (simp add: crates_ok_def)
  from ready_update [OF this, of "(migrated (empty_db True))\<lparr>contacts := rows\<rparr>"]
  show "sqlite_ready sample_crates (store (contact_sys rows))"
    using servingD [OF readyD [OF \<open>sqlite_ready sample_crates sample_storage\<close>]]
    by (simp add: contact_sys_def sample_storage_def db_wf_def)
qed (simp_all add: contact_sys_def clock_sane_def)

lemma contact_sys_wf [simp]:
  "distinct (map rdx_fingerprint rows) \<Longrightarrow> distinct (map nostr_pubkey rows) \<Longrightarrow>
   contacts_wf (connection (store (contact_sys rows)))"
proof -
  have "conversations (migrated (empty_db True)) = []" "messages (migrated (empty_db True)) = []" by code_simp+
  then show "distinct (map rdx_fingerprint rows) \<Longrightarrow> distinct (map nostr_pubkey rows) \<Longrightarrow> ?thesis"
    by (simp add: contacts_wf_def history_wf_def contact_sys_def)
qed

theorem contact_added_witness:
  "\<exists>w'. add_contact_from_bundle sample_crates (bundle_bytes sample_bundle) (Some ''bob'') (contact_sys []) =
     (Ok (generate_identity_fingerprint_from_key sample_crates sample_key), w')"
  using contact_added [OF contact_sys_ready(1) contact_sys_wf sample_readable contact_sys_ready(2), of "[]" "Some ''bob''"]
  by auto

text \<open>
  C38. Adding a known contact again, which a re-announced bundle does, deletes its conversation with all
  messages and its alias: the row is replaced, and the deletion cascades to the rows of both tables.
\<close>

theorem readding_contact_erases_thread:
  assumes "sqlite_ready C (store w)" and "contacts_wf (connection (store w))" and "readable_bundle C bytes b k npub"
    and "clock_sane w" and "foreign_keys (connection (store w))"
    and "contact_at (generate_identity_fingerprint_from_key C k) (connection (store w)) = Some r"
  shows "\<exists>w'. add_contact_from_bundle C bytes None w = (Ok (generate_identity_fingerprint_from_key C k), w') \<and>
    conversation_at (generate_identity_fingerprint_from_key C k) (connection (store w')) = None \<and>
    thread_of (generate_identity_fingerprint_from_key C k) (connection (store w')) = [] \<and>
    unread_of (generate_identity_fingerprint_from_key C k) (connection (store w')) = 0 \<and>
    (\<forall>c m. conversation_at (generate_identity_fingerprint_from_key C k) (connection (store w)) = Some c \<and>
      m \<in> set (messages (connection (store w'))) \<longrightarrow> message_conversation_id m \<noteq> conversation_row_id c) \<and>
    map_option user_alias (contact_at (generate_identity_fingerprint_from_key C k) (connection (store w'))) = Some None"
proof -
  let ?d = "connection (store w)" let ?rdx = "generate_identity_fingerprint_from_key C k"
  let ?new = "new_contact C b k npub None (clock w (ticks w) div 1000) ?d"
  have r: "r \<in> set (contacts ?d)" "rdx_fingerprint r = ?rdx"
    using assms(6) by (auto simp: contact_at_def dest: lookup_row_SomeD)
  then have "?rdx \<in> set (map rdx_fingerprint (filter (conflicting ?new) (contacts ?d)))"
    by (force simp: conflicting_def)
  note gone = this
  then have "?rdx \<notin> conversation_rdx ` set (conversations (replace_contact ?new ?d))"
    using assms(5) by (auto simp: replace_contact_def Let_def delete_conversation_rows_def)
  then have none: "conversation_at ?rdx (replace_contact ?new ?d) = None"
    by (simp add: conversation_at_def lookup_row_None_iff)
  have "message_conversation_id m \<noteq> conversation_row_id c"
    if "conversation_at ?rdx ?d = Some c" and "m \<in> set (messages (replace_contact ?new ?d))" for c m
    using that assms(5) gone conversation_atD [OF that(1)]
    by (auto simp: replace_contact_def Let_def delete_conversation_rows_def)
  then show ?thesis
    using run_add_contact_from_bundle [OF assms(1,3,4), of None] none contact_at_replace [OF assms(2), of ?rdx ?new]
    by (simp add: thread_of_def unread_of_def del: replace_contact_contacts)
qed

definition known_contact :: contact_row where
  "known_contact = \<lparr>rdx_fingerprint = generate_identity_fingerprint_from_key sample_crates sample_key,
     nostr_pubkey = ''npub'', user_alias = Some ''bob'', signal_identity_key = [5, 6], first_seen = 2, last_updated = 3\<rparr>"

text \<open>The known contact has sent a message.\<close>

definition threaded_sys :: "sqlite_storage sys" where
  "threaded_sys = (let w = contact_sys [known_contact]; s = store w in w\<lparr>store := s\<lparr>connection := (connection s)\<lparr>
     conversations := [\<lparr>conversation_row_id = 1, conversation_rdx = rdx_fingerprint known_contact,
       conversation_nostr_pubkey = Some ''npub'', last_message_timestamp = 5, unread_count = 1, archived = False\<rparr>],
     messages := [incoming_row 1 5 [104, 105] False False 1], conversation_sequence := 1, message_sequence := 1\<rparr>\<rparr>\<rparr>)"

lemma threaded_sys_ready:
  "sqlite_ready sample_crates (store threaded_sys)" "contacts_wf (connection (store threaded_sys))"
  "clock_sane threaded_sys" "foreign_keys (connection (store threaded_sys))"
  "contacts (connection (store threaded_sys)) = [known_contact]"
  "thread_of (rdx_fingerprint known_contact) (connection (store threaded_sys)) = [incoming_row 1 5 [104, 105] False False 1]"
proof -
  note serve = servingD [OF readyD [OF contact_sys_ready(1) [of "[known_contact]"]]]
  obtain cs ms where st: "store threaded_sys = (store (contact_sys [known_contact]))\<lparr>connection :=
      (connection (store (contact_sys [known_contact])))\<lparr>conversations := cs, messages := ms,
        conversation_sequence := 1, message_sequence := 1\<rparr>\<rparr>"
    by (simp add: threaded_sys_def Let_def)
  show "sqlite_ready sample_crates (store threaded_sys)"
    unfolding st
  proof (rule ready_update [OF contact_sys_ready(1)])
    show "db_wf sample_crates ((connection (store (contact_sys [known_contact])))\<lparr>conversations := cs, messages := ms,
        conversation_sequence := 1, message_sequence := 1\<rparr>)" using serve(4) by (simp add: db_wf_def)
  qed (simp_all add: serve(1,2))
  show "contacts (connection (store threaded_sys)) = [known_contact]"
    by (simp add: threaded_sys_def contact_sys_ready(3) Let_def)
  then show "contacts_wf (connection (store threaded_sys))"
    by (simp add: contacts_wf_def history_wf_def threaded_sys_def Let_def incoming_row_def row_typed_def)
  show "clock_sane threaded_sys"
    using contact_sys_ready(2) [of "[known_contact]"] by (simp add: threaded_sys_def clock_sane_def Let_def)
  show "foreign_keys (connection (store threaded_sys))"
    by (simp add: threaded_sys_def contact_sys_def migrated_def base_tables_def with_table_def empty_db_def Let_def)
  show "thread_of (rdx_fingerprint known_contact) (connection (store threaded_sys)) = [incoming_row 1 5 [104, 105] False False 1]"
    by (simp add: threaded_sys_def thread_of_def conversation_at_def lookup_row_def incoming_row_def Let_def)
qed

theorem readding_contact_erases_thread_witness:
  "thread_of (rdx_fingerprint known_contact) (connection (store threaded_sys)) = [incoming_row 1 5 [104, 105] False False 1] \<and>
   (\<exists>w'. add_contact_from_bundle sample_crates (bundle_bytes sample_bundle) None threaded_sys =
     (Ok (rdx_fingerprint known_contact), w') \<and>
   thread_of (rdx_fingerprint known_contact) (connection (store w')) = [])"
proof -
  have "contact_at (generate_identity_fingerprint_from_key sample_crates sample_key)
      (connection (store threaded_sys)) = Some known_contact"
    by (simp add: contact_at_def threaded_sys_ready(5) lookup_row_def known_contact_def)
  from readding_contact_erases_thread [OF threaded_sys_ready(1,2) sample_readable threaded_sys_ready(3,4) this]
  show ?thesis using threaded_sys_ready(6) by (auto simp: known_contact_def)
qed

section \<open>Looking up and renaming\<close>

lemma run_on_conn_store:
  "in_store (on_conn m) w = (case m (connection (store w)) of (r, d) \<Rightarrow> (r, w\<lparr>store := (store w)\<lparr>connection := d\<rparr>\<rparr>))"
  by (simp add: in_store_at on_conn_def zoom_def split: prod.split)

lemma run_has_session:
  assumes "sqlite_ready C (store w)"
  shows "has_session C (session_store (sqlite_stores C)) rdx w =
    (Ok (session_at C (connection (store w)) (Address rdx 1) \<noteq> None), w)"
proof -
  note serve = readyD [OF assms]
  have "device_id_new C 1 = Inr 1" using servingD(5) [OF serve] by (rule libsignal_okD)
  then show ?thesis
    by (simp add: has_session_def contact_address_def run_defs run_on_conn_store run_load_session [OF serve])
qed

definition info_of :: "'x crates_scheme \<Rightarrow> db \<Rightarrow> contact_row \<Rightarrow> contact_info" where
  "info_of C d r = \<lparr>info_rdx_fingerprint = rdx_fingerprint r, info_nostr_pubkey = nostr_pubkey r,
     info_user_alias = user_alias r, info_has_active_session = session_at C d (Address (rdx_fingerprint r) 1) \<noteq> None\<rparr>"

lemma run_lookup_contact:
  assumes "sqlite_ready C (store w)"
  shows "lookup_contact C (session_store (sqlite_stores C)) i w =
    (case scanned C (filter (names_contact i) (contacts (connection (store w)))) of
       [] \<Rightarrow> (Err (Storage [Lit ''Contact not found: '', ShowSql QueryReturnedNoRows]), w)
     | r # _ \<Rightarrow> (Ok (info_of C (connection (store w)) r), w))"
  using servingD [OF readyD [OF assms]] run_has_session [OF assms]
  by (simp add: lookup_contact_def run_defs run_on_conn_store with_lock_def run_statements contact_of_row_def info_of_def
      split: list.split)

lemma lookup_contact_finds_raw:
  assumes "sqlite_ready C (store w)" and "crates_ok C"
  shows "((\<exists>r \<in> set (contacts (connection (store w))). names_contact i r) \<longrightarrow>
      (\<exists>r \<in> set (contacts (connection (store w))). names_contact i r \<and>
        lookup_contact C (session_store (sqlite_stores C)) i w = (Ok (info_of C (connection (store w)) r), w))) \<and>
    (\<not> (\<exists>r \<in> set (contacts (connection (store w))). names_contact i r) \<longrightarrow>
      lookup_contact C (session_store (sqlite_stores C)) i w =
        (Err (Storage [Lit ''Contact not found: '', ShowSql QueryReturnedNoRows]), w))"
proof -
  let ?rows = "filter (names_contact i) (contacts (connection (store w)))"
  have set: "set (scanned C ?rows) = {r \<in> set (contacts (connection (store w))). names_contact i r}"
    by (simp add: scanned_set [OF assms(2)])
  show ?thesis
  proof (cases "scanned C ?rows")
    case Nil
    with set show ?thesis by (auto simp: run_lookup_contact [OF assms(1)])
  next
    case (Cons r rs)
    with set have "r \<in> set (contacts (connection (store w))) \<and> names_contact i r" by auto
    with Cons show ?thesis by (auto simp: run_lookup_contact [OF assms(1)])
  qed
qed

text \<open>
  C39. Looking up a contact by fingerprint, alias or Nostr key, whatever order the rows are scanned in:
  it fails exactly when no contact goes by that name, and otherwise returns a contact that does,
  with whether a session with it is stored. Nothing changes.
\<close>

theorem lookup_contact_finds:
  assumes "sqlite_ready C (store w)" and "crates_ok C"
  shows "((\<exists>r \<in> set (contacts (connection (store w))). names_contact i r) \<longrightarrow>
      (\<exists>r \<in> set (contacts (connection (store w))). names_contact i r \<and>
        lookup_contact C (session_store (sqlite_stores C)) i w = (Ok (info_of C (connection (store w)) r), w))) \<and>
    (\<not> (\<exists>r \<in> set (contacts (connection (store w))). names_contact i r) \<longrightarrow>
      lookup_contact C (session_store (sqlite_stores C)) i w =
        (Err (Storage [Lit ''Contact not found: '', ShowSql QueryReturnedNoRows]), w))"
  by (rule lookup_contact_finds_raw [OF assms])

theorem lookup_contact_finds_witness:
  "\<exists>r \<in> set [known_contact]. names_contact ''bob'' r \<and>
     fst (lookup_contact sample_crates (session_store (sqlite_stores sample_crates)) ''bob'' (contact_sys [known_contact])) =
       Ok (info_of sample_crates (connection (store (contact_sys [known_contact]))) r)"
proof -
  have "names_contact ''bob'' known_contact" by (simp add: names_contact_def known_contact_def)
  with lookup_contact_finds [OF contact_sys_ready(1) sample_crates_ok, of "[known_contact]" "''bob''"]
  show ?thesis by (auto simp: contact_sys_ready(3))
qed

text \<open>No two contacts share an alias.\<close>

definition aliases_unique :: "db \<Rightarrow> bool" where
  "aliases_unique d \<longleftrightarrow> (\<forall>r \<in> set (contacts d). \<forall>r' \<in> set (contacts d).
     user_alias r = user_alias r' \<longrightarrow> user_alias r \<noteq> None \<longrightarrow> rdx_fingerprint r = rdx_fingerprint r')"

definition renamed :: "string \<Rightarrow> string \<Rightarrow> int \<Rightarrow> db \<Rightarrow> db" where
  "renamed rdx a t d = d\<lparr>contacts := map (\<lambda>r. if rdx_fingerprint r = rdx
     then r\<lparr>user_alias := Some a, last_updated := t\<rparr> else r) (contacts d)\<rparr>"

definition alias_taken :: "string \<Rightarrow> string \<Rightarrow> db \<Rightarrow> bool" where
  "alias_taken rdx a d \<longleftrightarrow> (\<exists>r \<in> set (contacts d). user_alias r = Some a \<and> rdx_fingerprint r \<noteq> rdx)"

lemma scanned_alias:
  assumes "crates_ok C" and "aliases_unique d"
  shows "scanned C (filter (\<lambda>r. user_alias r = Some a) (contacts d)) = x # xs \<Longrightarrow>
    alias_taken rdx a d \<longleftrightarrow> rdx_fingerprint x \<noteq> rdx"
    "scanned C (filter (\<lambda>r. user_alias r = Some a) (contacts d)) = [] \<Longrightarrow> \<not> alias_taken rdx a d"
proof -
  let ?rows = "filter (\<lambda>r. user_alias r = Some a) (contacts d)"
  have set: "set (scanned C ?rows) = {r \<in> set (contacts d). user_alias r = Some a}"
    by (simp add: scanned_set [OF assms(1)])
  show "\<not> alias_taken rdx a d" if "scanned C ?rows = []"
    using set that by (auto simp: alias_taken_def)
  show "alias_taken rdx a d \<longleftrightarrow> rdx_fingerprint x \<noteq> rdx" if "scanned C ?rows = x # xs"
  proof -
    have x: "x \<in> set (contacts d)" "user_alias x = Some a" using set that by auto
    have "rdx_fingerprint r = rdx_fingerprint x" if "r \<in> set (contacts d)" "user_alias r = Some a" for r
      using assms(2) x that unfolding aliases_unique_def by (metis option.distinct(1))
    with x show ?thesis unfolding alias_taken_def by metis
  qed
qed

lemma run_assign:
  assumes ready: "sqlite_ready C (store w)" and C: "crates_ok C" and uniq: "aliases_unique (connection (store w))"
    and r: "r \<in> set (contacts (connection (store w)))" and clk: "clock_sane w"
    and look: "lookup_contact C (session_store (sqlite_stores C)) i w = (Ok (info_of C (connection (store w)) r), w)"
  shows "alias_taken (rdx_fingerprint r) a (connection (store w)) \<Longrightarrow>
      \<exists>e. assign_contact_alias C (session_store (sqlite_stores C)) i a w = (Err (InvalidInput e), w\<lparr>ticks := Suc (ticks w)\<rparr>)"
    "\<not> alias_taken (rdx_fingerprint r) a (connection (store w)) \<Longrightarrow>
      assign_contact_alias C (session_store (sqlite_stores C)) i a w = (Ok (), w\<lparr>ticks := Suc (ticks w),
        store := (store w)\<lparr>connection := renamed (rdx_fingerprint r) a (clock w (ticks w) div 1000) (connection (store w))\<rparr>\<rparr>)"
proof -
  let ?d = "connection (store w)"
  note serve = servingD [OF readyD [OF ready]]
  have len: "filter (\<lambda>x. rdx_fingerprint x = rdx_fingerprint r) (contacts ?d) \<noteq> []"
    using r by (auto simp: filter_empty_conv)
  note simps = assign_contact_alias_def run_defs look run_sane_secs [OF clk] run_on_conn_store with_lock_def
    run_statements serve info_of_def renamed_def len
  show "\<exists>e. assign_contact_alias C (session_store (sqlite_stores C)) i a w = (Err (InvalidInput e), w\<lparr>ticks := Suc (ticks w)\<rparr>)"
    if "alias_taken (rdx_fingerprint r) a ?d"
    using that scanned_alias [OF C uniq, where a = a and rdx = "rdx_fingerprint r"]
    by (cases "scanned C (filter (\<lambda>r. user_alias r = Some a) (contacts ?d))") (auto simp: simps)
  show "assign_contact_alias C (session_store (sqlite_stores C)) i a w = (Ok (), w\<lparr>ticks := Suc (ticks w),
      store := (store w)\<lparr>connection := renamed (rdx_fingerprint r) a (clock w (ticks w) div 1000) ?d\<rparr>\<rparr>)"
    if "\<not> alias_taken (rdx_fingerprint r) a ?d"
    using that scanned_alias [OF C uniq, where a = a and rdx = "rdx_fingerprint r"]
    by (cases "scanned C (filter (\<lambda>r. user_alias r = Some a) (contacts ?d))") (auto simp: simps)
qed

lemma renamed_sel [simp]:
  "mutex (renamed rdx a t d) = mutex d" "faults (renamed rdx a t d) = faults d"
  "created (renamed rdx a t d) = created d" "db_wf L (renamed rdx a t d) = db_wf L d"
  by (simp_all add: renamed_def db_wf_def)

lemma renamed_aliases:
  assumes "aliases_unique d" and "\<not> alias_taken rdx a d"
  shows "aliases_unique (renamed rdx a t d)"
proof -
  have "user_alias r \<noteq> Some a" if "r \<in> set (contacts d)" "rdx_fingerprint r \<noteq> rdx" for r
    using assms(2) that by (auto simp: alias_taken_def)
  with assms(1) show ?thesis by (fastforce simp: aliases_unique_def renamed_def)
qed

lemma renamed_at:
  "contact_at x (renamed rdx a t d) =
    (if x = rdx then map_option (\<lambda>r. r\<lparr>user_alias := Some a, last_updated := t\<rparr>) (contact_at x d) else contact_at x d)"
proof -
  let ?f = "\<lambda>r. if rdx_fingerprint r = rdx then r\<lparr>user_alias := Some a, last_updated := t\<rparr> else r"
  have "find (\<lambda>r. rdx_fingerprint r = rdx) (map ?f rows) =
      map_option (\<lambda>r. r\<lparr>user_alias := Some a, last_updated := t\<rparr>) (find (\<lambda>r. rdx_fingerprint r = rdx) rows)"
    "x \<noteq> rdx \<Longrightarrow> find (\<lambda>r. rdx_fingerprint r = x) (map ?f rows) = find (\<lambda>r. rdx_fingerprint r = x) rows"
    for rows :: "contact_row list"
    by (induction rows) auto
  then show ?thesis by (simp add: contact_at_def lookup_row_def renamed_def)
qed

lemma renamed_named:
  assumes "contacts_wf d" and "\<not> alias_taken rdx a d" and "a \<notin> rdx_fingerprint ` set (contacts d)"
    and "a \<notin> nostr_pubkey ` set (contacts d)" and "r \<in> set (contacts (renamed rdx a t d))"
  shows "names_contact a r \<longleftrightarrow> rdx_fingerprint r = rdx"
  using assms(2-5) by (auto simp: renamed_def names_contact_def alias_taken_def)

text \<open>
  C40. Giving a contact an alias: when another contact has it, the call reports invalid input and changes
  nothing. Otherwise exactly that contact's alias and time of change are updated, aliases stay
  unique, and (unless the alias is some contact's fingerprint or Nostr key) a lookup by the new
  alias returns that contact.
\<close>

theorem assign_alias_unique:
  assumes "sqlite_ready C (store w)" and "crates_ok C" and "contacts_wf (connection (store w))"
    and "aliases_unique (connection (store w))" and "clock_sane w"
    and "\<exists>r \<in> set (contacts (connection (store w))). names_contact i r"
  shows "\<exists>r \<in> set (contacts (connection (store w))). names_contact i r \<and>
    (if alias_taken (rdx_fingerprint r) a (connection (store w))
     then \<exists>e. assign_contact_alias C (session_store (sqlite_stores C)) i a w = (Err (InvalidInput e), w\<lparr>ticks := Suc (ticks w)\<rparr>)
     else \<exists>w'. assign_contact_alias C (session_store (sqlite_stores C)) i a w = (Ok (), w') \<and>
       sqlite_ready C (store w') \<and> aliases_unique (connection (store w')) \<and>
       contact_at (rdx_fingerprint r) (connection (store w')) =
         Some (r\<lparr>user_alias := Some a, last_updated := clock w (ticks w) div 1000\<rparr>) \<and>
       (\<forall>x. x \<noteq> rdx_fingerprint r \<longrightarrow> contact_at x (connection (store w')) = contact_at x (connection (store w))) \<and>
       (a \<notin> rdx_fingerprint ` set (contacts (connection (store w))) \<longrightarrow>
        a \<notin> nostr_pubkey ` set (contacts (connection (store w))) \<longrightarrow>
        (\<exists>c. lookup_contact C (session_store (sqlite_stores C)) a w' = (Ok c, w') \<and>
           info_rdx_fingerprint c = rdx_fingerprint r)))"
proof -
  let ?d = "connection (store w)" let ?t = "clock w (ticks w) div 1000"
  from lookup_contact_finds_raw [OF assms(1,2), of i] assms(6)
  obtain r where r: "r \<in> set (contacts ?d)" "names_contact i r"
    "lookup_contact C (session_store (sqlite_stores C)) i w = (Ok (info_of C ?d r), w)" by blast
  note run = run_assign [OF assms(1,2,4) r(1) assms(5) r(3), of a]
  let ?e = "renamed (rdx_fingerprint r) a ?t ?d"
  let ?w = "w\<lparr>ticks := Suc (ticks w), store := (store w)\<lparr>connection := ?e\<rparr>\<rparr>"
  have at: "contact_at (rdx_fingerprint r) ?d = Some r" using contact_at_iff [OF assms(3)] r(1) by simp
  have ready: "sqlite_ready C (store ?w)"
    using servingD [OF readyD [OF assms(1)]] by simp (intro ready_update [OF assms(1)], simp_all)
  have look: "\<exists>c. lookup_contact C (session_store (sqlite_stores C)) a ?w = (Ok c, ?w) \<and> info_rdx_fingerprint c = rdx_fingerprint r"
    if "\<not> alias_taken (rdx_fingerprint r) a ?d" "a \<notin> rdx_fingerprint ` set (contacts ?d)" "a \<notin> nostr_pubkey ` set (contacts ?d)"
  proof -
    note named = renamed_named [OF assms(3) that, of _ ?t]
    have "\<exists>x \<in> set (contacts ?e). names_contact a x" using r(1)
      by (intro bexI [of _ "r\<lparr>user_alias := Some a, last_updated := ?t\<rparr>"]) (auto simp: renamed_def names_contact_def)
    with lookup_contact_finds_raw [OF ready assms(2), of a] obtain x where "x \<in> set (contacts ?e)" "names_contact a x"
      "lookup_contact C (session_store (sqlite_stores C)) a ?w = (Ok (info_of C ?e x), ?w)" by auto
    with named show ?thesis by (auto simp: info_of_def)
  qed
  show ?thesis
  proof (cases "alias_taken (rdx_fingerprint r) a ?d")
    case True
    with r run show ?thesis by auto
  next
    case False
    with r run at ready look renamed_aliases [OF assms(4)] show ?thesis
      by (intro bexI [of _ r]) (auto simp: renamed_at intro!: exI [of _ ?w])
  qed
qed

theorem assign_alias_unique_witness:
  "alias_taken (rdx_fingerprint known_contact) ''al'' (connection (store (contact_sys [known_contact]))) = False \<and>
   fst (assign_contact_alias sample_crates (session_store (sqlite_stores sample_crates)) ''bob'' ''al''
     (contact_sys [known_contact])) = Ok ()"
proof -
  have free: "\<not> alias_taken (rdx_fingerprint known_contact) ''al'' (connection (store (contact_sys [known_contact])))"
    by (simp add: alias_taken_def contact_sys_ready(3))
  have u: "aliases_unique (connection (store (contact_sys [known_contact])))"
    by (simp add: aliases_unique_def contact_sys_ready(3))
  have "\<exists>r \<in> set (contacts (connection (store (contact_sys [known_contact])))). names_contact ''bob'' r"
    by (simp add: contact_sys_ready(3) names_contact_def known_contact_def)
  from assign_alias_unique [OF contact_sys_ready(1) sample_crates_ok contact_sys_wf u contact_sys_ready(2) this, of "''al''"]
  show ?thesis using free by (auto simp: contact_sys_ready(3))
qed

end
