(* ===== verification/Memory_Storage.thy ===== *)
theory Memory_Storage
  imports Key_Rotation
begin

text \<open>
  memory_storage.rs: the five stores kept in \<open>HashMap\<close>s, method by method, and the container. A
  \<open>HashMap\<close> is the list of its entries, one per key; the order in which an iteration visits them
  is arbitrary, given by the function \<open>hash_order\<close> of the state. The futures of this module are
  ready at once (each \<open>tokio\<close> mutex is only held inside one method), so the locks never block.
  The stores are then shown to meet the contract of the theory Storage_Traits.
\<close>

section \<open>Addresses as keys\<close>

definition address_key :: "address \<Rightarrow> string" where
  "address_key addr = address_name addr @ '':'' @ show_u32 (address_device addr)"

text \<open>
  The device number holds no colon, so the text determines the address although names may.
\<close>

lemma split_at_last_colon:
  assumes "xs @ CHR '':'' # ys = xs' @ CHR '':'' # ys'" and "CHR '':'' \<notin> set ys" and "CHR '':'' \<notin> set ys'"
  shows "xs = xs' \<and> ys = ys'"
proof -
  from assms(1) obtain us where
    "xs = xs' @ us \<and> us @ CHR '':'' # ys = CHR '':'' # ys' \<or> xs @ us = xs' \<and> CHR '':'' # ys = us @ CHR '':'' # ys'"
    unfolding append_eq_append_conv2 by blast
  then show ?thesis using assms(2,3) by (cases us) auto
qed

lemma unat_u32_less: "unat (w :: u32) < 2 ^ 64"
proof -
  have "unat w < 4294967296" using unsigned_less [of w] by simp
  then show ?thesis by simp
qed

lemma address_key_inj: "address_key a = address_key b \<longleftrightarrow> a = b"
proof
  assume "address_key a = address_key b"
  then have "address_name a @ CHR '':'' # show_u32 (address_device a) =
      address_name b @ CHR '':'' # show_u32 (address_device b)"
    by (simp add: address_key_def)
  note split = split_at_last_colon [OF this]
  then have "address_name a = address_name b" "show_u32 (address_device a) = show_u32 (address_device b)"
    by (simp_all add: show_u32_def)
  moreover from this(2) have "address_device a = address_device b"
    unfolding show_u32_def using show_nat_inj [OF _ unat_u32_less unat_u32_less] by (metis word_unat_eq_iff)
  ultimately show "a = b" by (simp add: address.expand)
qed simp

section \<open>The stores\<close>

record memory_storage =
  mem_sessions :: "(string \<times> session_record) list"
  mem_identity_keys :: "(string \<times> identity_key) list"
  mem_local_identity_key_pair :: "identity_key_pair option"
  mem_local_registration_id :: "u32 option"
  mem_pre_keys :: "(u32 \<times> key_pair) list"
  mem_signed_pre_keys :: "(u32 \<times> signed_pre_key_record) list"
  mem_kyber_pre_keys :: "(u32 \<times> kyber_pre_key_record) list"
  hash_order :: "u32 \<Rightarrow> nat"

definition memory_storage_new :: "(u32 \<Rightarrow> nat) \<Rightarrow> memory_storage" where
  "memory_storage_new h = \<lparr>mem_sessions = [], mem_identity_keys = [], mem_local_identity_key_pair = None,
     mem_local_registration_id = None, mem_pre_keys = [], mem_signed_pre_keys = [],
     mem_kyber_pre_keys = [], hash_order = h\<rparr>"

definition hash_get :: "('k \<times> 'v) list \<Rightarrow> 'k \<Rightarrow> 'v option" where
  "hash_get m k = map_option snd (lookup_row fst k m)"

definition hash_keys_max :: "(u32 \<times> 'v) list \<Rightarrow> u32 option" where
  "hash_keys_max m = (case m of [] \<Rightarrow> None | _ \<Rightarrow> Some (Max (fst ` set m)))"

definition hash_iter :: "memory_storage \<Rightarrow> (u32 \<times> 'v) list \<Rightarrow> (u32 \<times> 'v) list" where
  "hash_iter s m = sort_key (\<lambda>p. hash_order s (fst p)) m"

subsection \<open>Sessions\<close>

definition mem_load_session :: "address \<Rightarrow> (memory_storage, protocol_error, session_record option) M" where
  "mem_load_session addr = gets (\<lambda>s. hash_get (mem_sessions s) (address_key addr))"

definition mem_store_session :: "address \<Rightarrow> session_record \<Rightarrow> (memory_storage, protocol_error, unit) M" where
  "mem_store_session addr r =
     modify (\<lambda>s. s\<lparr>mem_sessions := upsert fst (address_key addr, r) (mem_sessions s)\<rparr>)"

definition mem_session_count :: "(memory_storage, dyn_error, nat) M" where
  "mem_session_count = gets (\<lambda>s. length (mem_sessions s))"

definition mem_clear_all_sessions :: "(memory_storage, dyn_error, unit) M" where
  "mem_clear_all_sessions = modify (\<lambda>s. s\<lparr>mem_sessions := []\<rparr>)"

definition mem_delete_session :: "address \<Rightarrow> (memory_storage, dyn_error, unit) M" where
  "mem_delete_session addr =
     modify (\<lambda>s. s\<lparr>mem_sessions := delete_key fst (address_key addr) (mem_sessions s)\<rparr>)"

subsection \<open>Identities\<close>

definition mem_get_identity_key_pair :: "(memory_storage, protocol_error, identity_key_pair) M" where
  "mem_get_identity_key_pair = bindM (gets mem_local_identity_key_pair) (\<lambda>k. case k of
     Some identity_key_pair \<Rightarrow> ret identity_key_pair
   | None \<Rightarrow> throw (InvalidState ''storage'' [Lit ''Local identity key pair not set'']))"

definition mem_get_local_registration_id :: "(memory_storage, protocol_error, u32) M" where
  "mem_get_local_registration_id = bindM (gets mem_local_registration_id) (\<lambda>r. case r of
     Some rid \<Rightarrow> ret rid
   | None \<Rightarrow> throw (InvalidState ''storage'' [Lit ''Local registration ID not set'']))"

definition mem_get_identity :: "address \<Rightarrow> (memory_storage, protocol_error, identity_key option) M" where
  "mem_get_identity addr = gets (\<lambda>s. hash_get (mem_identity_keys s) (address_key addr))"

definition mem_save_identity :: "address \<Rightarrow> identity_key \<Rightarrow> (memory_storage, protocol_error, identity_change) M" where
  "mem_save_identity addr identity_key =
     bindM (attempt (mem_get_identity addr)) (\<lambda>r.
     let existing = (case r of Inr x \<Rightarrow> x | Inl _ \<Rightarrow> None) in
     bindM (modify (\<lambda>s. s\<lparr>mem_identity_keys :=
       upsert fst (address_key addr, identity_key) (mem_identity_keys s)\<rparr>)) (\<lambda>_.
     case existing of
       Some existing_key \<Rightarrow> ret (if existing_key \<noteq> identity_key then ReplacedExisting else NewOrUnchanged)
     | None \<Rightarrow> ret NewOrUnchanged))"

definition mem_is_trusted_identity ::
    "address \<Rightarrow> identity_key \<Rightarrow> direction \<Rightarrow> (memory_storage, protocol_error, bool) M" where
  "mem_is_trusted_identity addr identity_key direction =
     bindM (gets (\<lambda>s. hash_get (mem_identity_keys s) (address_key addr))) (\<lambda>k. case k of
       Some stored_key \<Rightarrow> ret (stored_key = identity_key)
     | None \<Rightarrow> ret True)"

definition mem_identity_count :: "(memory_storage, dyn_error, nat) M" where
  "mem_identity_count = gets (\<lambda>s. length (mem_identity_keys s))"

definition mem_set_local_identity_key_pair :: "identity_key_pair \<Rightarrow> (memory_storage, dyn_error, unit) M" where
  "mem_set_local_identity_key_pair k = modify (\<lambda>s. s\<lparr>mem_local_identity_key_pair := Some k\<rparr>)"

definition mem_set_local_registration_id :: "u32 \<Rightarrow> (memory_storage, dyn_error, unit) M" where
  "mem_set_local_registration_id rid = modify (\<lambda>s. s\<lparr>mem_local_registration_id := Some rid\<rparr>)"

definition mem_get_peer_identity :: "address \<Rightarrow> (memory_storage, dyn_error, identity_key option) M" where
  "mem_get_peer_identity addr = gets (\<lambda>s. hash_get (mem_identity_keys s) (address_key addr))"

definition mem_delete_identity :: "address \<Rightarrow> (memory_storage, dyn_error, unit) M" where
  "mem_delete_identity addr =
     modify (\<lambda>s. s\<lparr>mem_identity_keys := delete_key fst (address_key addr) (mem_identity_keys s)\<rparr>)"

definition mem_clear_all_identities :: "(memory_storage, dyn_error, unit) M" where
  "mem_clear_all_identities = modify (\<lambda>s. s\<lparr>mem_identity_keys := []\<rparr>)"

definition mem_clear_local_identity :: "(memory_storage, dyn_error, unit) M" where
  "mem_clear_local_identity =
     bindM (modify (\<lambda>s. s\<lparr>mem_local_identity_key_pair := None\<rparr>)) (\<lambda>_.
     modify (\<lambda>s. s\<lparr>mem_local_registration_id := None\<rparr>))"

subsection \<open>One-time pre-keys: only the key pair is kept\<close>

definition mem_get_pre_key ::
    "'x libsignal_scheme \<Rightarrow> u32 \<Rightarrow> (memory_storage, protocol_error, pre_key_record) M" where
  "mem_get_pre_key L prekey_id = bindM (gets (\<lambda>s. hash_get (mem_pre_keys s) prekey_id)) (\<lambda>k. case k of
     Some key_pair \<Rightarrow> ret (pre_key_record_new L prekey_id key_pair)
   | None \<Rightarrow> throw InvalidPreKeyId)"

definition mem_save_pre_key ::
    "'x libsignal_scheme \<Rightarrow> u32 \<Rightarrow> pre_key_record \<Rightarrow> (memory_storage, protocol_error, unit) M" where
  "mem_save_pre_key L prekey_id record =
     bindM (of_sum (pre_key_record_key_pair L record)) (\<lambda>key_pair.
     modify (\<lambda>s. s\<lparr>mem_pre_keys := upsert fst (prekey_id, key_pair) (mem_pre_keys s)\<rparr>))"

definition mem_remove_pre_key :: "u32 \<Rightarrow> (memory_storage, protocol_error, unit) M" where
  "mem_remove_pre_key prekey_id =
     modify (\<lambda>s. s\<lparr>mem_pre_keys := delete_key fst prekey_id (mem_pre_keys s)\<rparr>)"

definition mem_pre_key_count :: "(memory_storage, dyn_error, nat) M" where
  "mem_pre_key_count = gets (\<lambda>s. length (mem_pre_keys s))"

definition mem_clear_all_pre_keys :: "(memory_storage, dyn_error, unit) M" where
  "mem_clear_all_pre_keys = modify (\<lambda>s. s\<lparr>mem_pre_keys := []\<rparr>)"

definition mem_get_max_pre_key_id :: "(memory_storage, dyn_error, u32 option) M" where
  "mem_get_max_pre_key_id = gets (\<lambda>s. hash_keys_max (mem_pre_keys s))"

definition mem_delete_pre_key :: "u32 \<Rightarrow> (memory_storage, dyn_error, unit) M" where
  "mem_delete_pre_key i = modify (\<lambda>s. s\<lparr>mem_pre_keys := delete_key fst i (mem_pre_keys s)\<rparr>)"

subsection \<open>Signed pre-keys\<close>

definition mem_get_signed_pre_key :: "u32 \<Rightarrow> (memory_storage, protocol_error, signed_pre_key_record) M" where
  "mem_get_signed_pre_key i = bindM (gets (\<lambda>s. hash_get (mem_signed_pre_keys s) i)) (\<lambda>k. case k of
     Some record \<Rightarrow> ret record | None \<Rightarrow> throw InvalidSignedPreKeyId)"

definition mem_save_signed_pre_key ::
    "u32 \<Rightarrow> signed_pre_key_record \<Rightarrow> (memory_storage, protocol_error, unit) M" where
  "mem_save_signed_pre_key i r =
     modify (\<lambda>s. s\<lparr>mem_signed_pre_keys := upsert fst (i, r) (mem_signed_pre_keys s)\<rparr>)"

definition mem_signed_pre_key_count :: "(memory_storage, dyn_error, nat) M" where
  "mem_signed_pre_key_count = gets (\<lambda>s. length (mem_signed_pre_keys s))"

definition mem_clear_all_signed_pre_keys :: "(memory_storage, dyn_error, unit) M" where
  "mem_clear_all_signed_pre_keys = modify (\<lambda>s. s\<lparr>mem_signed_pre_keys := []\<rparr>)"

definition mem_get_max_signed_pre_key_id :: "(memory_storage, dyn_error, u32 option) M" where
  "mem_get_max_signed_pre_key_id = gets (\<lambda>s. hash_keys_max (mem_signed_pre_keys s))"

definition mem_delete_signed_pre_key :: "u32 \<Rightarrow> (memory_storage, dyn_error, unit) M" where
  "mem_delete_signed_pre_key i =
     modify (\<lambda>s. s\<lparr>mem_signed_pre_keys := delete_key fst i (mem_signed_pre_keys s)\<rparr>)"

text \<open>The loop over the entries that collects the numbers of the expired ones.\<close>

fun collect_expired :: "('r \<Rightarrow> protocol_error + u64) \<Rightarrow> u64 \<Rightarrow> (u32 \<times> 'r) list \<Rightarrow> u32 list \<Rightarrow> u32 list" where
  "collect_expired ts limit [] expired = expired"
| "collect_expired ts limit ((i, record) # rest) expired = (case ts record of
     Inr t \<Rightarrow> collect_expired ts limit rest (if t < limit then expired @ [i] else expired)
   | Inl _ \<Rightarrow> collect_expired ts limit rest expired)"

definition mem_get_signed_pre_keys_older_than ::
    "'x libsignal_scheme \<Rightarrow> u64 \<Rightarrow> (memory_storage, dyn_error, u32 list) M" where
  "mem_get_signed_pre_keys_older_than L timestamp_millis = gets (\<lambda>s.
     collect_expired (signed_pre_key_record_timestamp L) timestamp_millis
       (hash_iter s (mem_signed_pre_keys s)) [])"

subsection \<open>Kyber pre-keys\<close>

definition mem_get_kyber_pre_key :: "u32 \<Rightarrow> (memory_storage, protocol_error, kyber_pre_key_record) M" where
  "mem_get_kyber_pre_key i = bindM (gets (\<lambda>s. hash_get (mem_kyber_pre_keys s) i)) (\<lambda>k. case k of
     Some record \<Rightarrow> ret record | None \<Rightarrow> throw InvalidKyberPreKeyId)"

definition mem_save_kyber_pre_key ::
    "u32 \<Rightarrow> kyber_pre_key_record \<Rightarrow> (memory_storage, protocol_error, unit) M" where
  "mem_save_kyber_pre_key i r =
     modify (\<lambda>s. s\<lparr>mem_kyber_pre_keys := upsert fst (i, r) (mem_kyber_pre_keys s)\<rparr>)"

definition mem_mark_kyber_pre_key_used :: "u32 \<Rightarrow> (memory_storage, protocol_error, unit) M" where
  "mem_mark_kyber_pre_key_used i = ret ()"

definition mem_kyber_pre_key_count :: "(memory_storage, dyn_error, nat) M" where
  "mem_kyber_pre_key_count = gets (\<lambda>s. length (mem_kyber_pre_keys s))"

definition mem_clear_all_kyber_pre_keys :: "(memory_storage, dyn_error, unit) M" where
  "mem_clear_all_kyber_pre_keys = modify (\<lambda>s. s\<lparr>mem_kyber_pre_keys := []\<rparr>)"

definition mem_get_max_kyber_pre_key_id :: "(memory_storage, dyn_error, u32 option) M" where
  "mem_get_max_kyber_pre_key_id = gets (\<lambda>s. hash_keys_max (mem_kyber_pre_keys s))"

definition mem_delete_kyber_pre_key :: "u32 \<Rightarrow> (memory_storage, dyn_error, unit) M" where
  "mem_delete_kyber_pre_key i =
     modify (\<lambda>s. s\<lparr>mem_kyber_pre_keys := delete_key fst i (mem_kyber_pre_keys s)\<rparr>)"

definition mem_get_kyber_pre_keys_older_than ::
    "'x libsignal_scheme \<Rightarrow> u64 \<Rightarrow> (memory_storage, dyn_error, u32 list) M" where
  "mem_get_kyber_pre_keys_older_than L timestamp_millis = gets (\<lambda>s.
     collect_expired (kyber_pre_key_record_timestamp L) timestamp_millis
       (hash_iter s (mem_kyber_pre_keys s)) [])"

subsection \<open>The container\<close>

definition memory_container :: "'x libsignal_scheme \<Rightarrow> memory_storage container" where
  "memory_container L = \<lparr>
     session_store = \<lparr>load_session = mem_load_session, store_session = mem_store_session,
       session_count = mem_session_count, clear_all_sessions = mem_clear_all_sessions,
       delete_session = mem_delete_session\<rparr>,
     identity_store = \<lparr>get_identity_key_pair = mem_get_identity_key_pair,
       get_local_registration_id = mem_get_local_registration_id,
       save_identity = mem_save_identity, is_trusted_identity = mem_is_trusted_identity,
       get_identity = mem_get_identity, identity_count = mem_identity_count,
       set_local_identity_key_pair = mem_set_local_identity_key_pair,
       set_local_registration_id = mem_set_local_registration_id,
       get_peer_identity = mem_get_peer_identity, delete_identity = mem_delete_identity,
       clear_all_identities = mem_clear_all_identities,
       clear_local_identity = mem_clear_local_identity\<rparr>,
     pre_key_store = \<lparr>get_pre_key = mem_get_pre_key L, save_pre_key = mem_save_pre_key L,
       remove_pre_key = mem_remove_pre_key, pre_key_count = mem_pre_key_count,
       clear_all_pre_keys = mem_clear_all_pre_keys,
       get_max_pre_key_id = mem_get_max_pre_key_id, delete_pre_key = mem_delete_pre_key\<rparr>,
     signed_pre_key_store = \<lparr>get_signed_pre_key = mem_get_signed_pre_key,
       save_signed_pre_key = mem_save_signed_pre_key,
       signed_pre_key_count = mem_signed_pre_key_count,
       clear_all_signed_pre_keys = mem_clear_all_signed_pre_keys,
       get_max_signed_pre_key_id = mem_get_max_signed_pre_key_id,
       delete_signed_pre_key = mem_delete_signed_pre_key,
       get_signed_pre_keys_older_than = mem_get_signed_pre_keys_older_than L\<rparr>,
     kyber_pre_key_store = \<lparr>get_kyber_pre_key = mem_get_kyber_pre_key,
       save_kyber_pre_key = mem_save_kyber_pre_key,
       mark_kyber_pre_key_used = mem_mark_kyber_pre_key_used,
       kyber_pre_key_count = mem_kyber_pre_key_count,
       clear_all_kyber_pre_keys = mem_clear_all_kyber_pre_keys,
       get_max_kyber_pre_key_id = mem_get_max_kyber_pre_key_id,
       delete_kyber_pre_key = mem_delete_kyber_pre_key,
       get_kyber_pre_keys_older_than = mem_get_kyber_pre_keys_older_than L\<rparr>\<rparr>"

definition memory_initialize :: "(memory_storage, dyn_error, unit) M" where
  "memory_initialize = ret ()"

definition memory_close :: "(memory_storage, dyn_error, unit) M" where
  "memory_close = ret ()"

definition memory_storage_type :: string where
  "memory_storage_type = ''memory''"

definition memory_establish_session_from_bundle ::
    "'x libsignal_scheme \<Rightarrow> address \<Rightarrow> pre_key_bundle \<Rightarrow> (memory_storage sys, dyn_error, unit) M" where
  "memory_establish_session_from_bundle L addr bundle =
     bindM draw (\<lambda>rng.
     bindM system_time_now (\<lambda>timestamp.
     mapErr DynProtocol (in_store
       (run_peer (memory_container L) (process_prekey_bundle L addr bundle timestamp rng)))))"

definition memory_encrypt_message ::
    "'x libsignal_scheme \<Rightarrow> address \<Rightarrow> bytes \<Rightarrow> (memory_storage sys, protocol_error, ciphertext_message) M" where
  "memory_encrypt_message L remote_address plaintext =
     bindM draw (\<lambda>rng.
     bindM system_time_now (\<lambda>now.
     in_store (run_peer (memory_container L) (message_encrypt L plaintext remote_address now rng))))"

definition memory_decrypt_message ::
    "'x libsignal_scheme \<Rightarrow> address \<Rightarrow> ciphertext_message \<Rightarrow> (memory_storage sys, protocol_error, bytes) M" where
  "memory_decrypt_message L remote_address ciphertext =
     bindM draw (\<lambda>rng.
     in_store (run_store (memory_container L) (message_decrypt L ciphertext remote_address rng)))"

section \<open>The invariant: one entry per key\<close>

definition memory_wf :: "memory_storage \<Rightarrow> bool" where
  "memory_wf s \<longleftrightarrow> distinct (map fst (mem_sessions s)) \<and> distinct (map fst (mem_identity_keys s)) \<and>
     distinct (map fst (mem_pre_keys s)) \<and> distinct (map fst (mem_signed_pre_keys s)) \<and>
     distinct (map fst (mem_kyber_pre_keys s))"

lemmas mem_defs = mem_load_session_def mem_store_session_def mem_get_identity_key_pair_def
  mem_get_local_registration_id_def mem_get_identity_def mem_save_identity_def
  mem_is_trusted_identity_def mem_get_pre_key_def mem_save_pre_key_def mem_remove_pre_key_def
  mem_get_signed_pre_key_def mem_save_signed_pre_key_def mem_get_kyber_pre_key_def
  mem_save_kyber_pre_key_def mem_mark_kyber_pre_key_used_def

lemma memory_callbacks: "store_callbacks_keep memory_wf (memory_container L)"
  by (intro store_callbacks_keepI peer_callbacks_keepI)
    (auto simp: memory_container_def mem_defs Let_def memory_wf_def
      intro!: preserves_intro preserves_modify)

lemma memory_peer_callbacks: "peer_callbacks_keep memory_wf (memory_container L)"
  by (intro peer_callbacks_keepI)
    (auto simp: memory_container_def mem_defs Let_def memory_wf_def
      intro!: preserves_intro preserves_modify)

lemma memory_ops_wf:
  "preserves (in_sys memory_wf) (memory_establish_session_from_bundle L a b)"
  "preserves (in_sys memory_wf) (memory_encrypt_message L a p)"
  "preserves (in_sys memory_wf) (memory_decrypt_message L a c)"
  unfolding memory_establish_session_from_bundle_def memory_encrypt_message_def memory_decrypt_message_def
  by (intro preserves_intro run_peer_preserves run_store_preserves memory_callbacks memory_peer_callbacks)+

section \<open>The key stores implement the contract\<close>

lemma dom_hash_get: "dom (hash_get m) = fst ` set m"
proof -
  have "hash_get m k = None \<longleftrightarrow> k \<notin> fst ` set m" for k
    by (simp add: hash_get_def lookup_row_None_iff)
  then show ?thesis by (auto simp: dom_def)
qed

lemma card_dom_hash_get: "distinct (map fst m) \<Longrightarrow> card (dom (hash_get m)) = length m"
  by (simp add: dom_hash_get distinct_card flip: set_map)

lemma hash_keys_max_dom:
  "hash_keys_max m = greatest (hash_get m)"
  by (auto simp: greatest_def hash_keys_max_def dom_hash_get split: list.split)

lemma hash_get_upsert: "hash_get (upsert fst (k, v) m) = (hash_get m)(k \<mapsto> v)"
  by (auto simp: hash_get_def fun_eq_iff)

lemma hash_get_delete: "hash_get (delete_key fst k m) = (hash_get m)(k := None)"
  by (auto simp: hash_get_def fun_eq_iff)

lemma hash_get_in: "distinct (map fst m) \<Longrightarrow> (k, v) \<in> set m \<longleftrightarrow> hash_get m k = Some v"
  using lookup_row_distinct [of fst m "(k, v)"] lookup_row_SomeD [of fst k m]
  by (fastforce simp: hash_get_def)

lemma set_collect_expired:
  "set (collect_expired ts c m acc) = set acc \<union> {i. \<exists>r t. (i, r) \<in> set m \<and> ts r = Inr t \<and> t < c}"
  by (induction ts c m acc rule: collect_expired.induct) (auto split: sum.splits)

lemma collect_expired_sound:
  "distinct (map fst m) \<Longrightarrow> i \<in> set (collect_expired ts c (hash_iter s m) []) \<Longrightarrow>
   \<exists>r. hash_get m i = Some r \<and> (\<exists>t. ts r = Inr t \<and> t < c)"
  by (auto simp: set_collect_expired hash_iter_def hash_get_in)

lemma collect_expired_complete:
  "distinct (map fst m) \<Longrightarrow> hash_get m i = Some r \<Longrightarrow> ts r = Inr t \<Longrightarrow> unat t + 1000 \<le> unat c \<Longrightarrow>
   i \<in> set (collect_expired ts c (hash_iter s m) [])"
  by (auto simp: set_collect_expired hash_iter_def hash_get_in word_less_nat_alt)

definition memory_pre_keys :: "'x libsignal_scheme \<Rightarrow> memory_storage \<Rightarrow> u32 \<Rightarrow> pre_key_record option" where
  "memory_pre_keys L s i = map_option (pre_key_record_new L i) (hash_get (mem_pre_keys s) i)"

text \<open>The record that is kept under a number is the one built from its key pair and that number.\<close>

definition memory_storable :: "'x libsignal_scheme \<Rightarrow> u32 \<Rightarrow> pre_key_record \<Rightarrow> bool" where
  "memory_storable L i r \<longleftrightarrow> (\<exists>kp. pre_key_record_key_pair L r = Inr kp \<and> pre_key_record_new L i kp = r)"

lemma dom_memory_pre_keys:
  "dom (memory_pre_keys L s) = dom (hash_get (mem_pre_keys s))"
  "greatest (memory_pre_keys L s) = greatest (hash_get (mem_pre_keys s))"
proof -
  show dom: "dom (memory_pre_keys L s) = dom (hash_get (mem_pre_keys s))"
    by (auto simp: memory_pre_keys_def dom_def)
  show "greatest (memory_pre_keys L s) = greatest (hash_get (mem_pre_keys s))"
    unfolding greatest_def dom by simp
qed

interpretation memory_pk: numbered_key_store
  "pre_key_count (pre_key_store (memory_container L))"
  "get_max_pre_key_id (pre_key_store (memory_container L))"
  "get_pre_key (pre_key_store (memory_container L))"
  "save_pre_key (pre_key_store (memory_container L))"
  "delete_pre_key (pre_key_store (memory_container L))"
  "memory_pre_keys L" "\<lambda>s. s\<lparr>mem_pre_keys := []\<rparr>" memory_wf "memory_storable L" for L
  by unfold_locales
    (auto simp: memory_container_def mem_defs mem_pre_key_count_def mem_get_max_pre_key_id_def
      mem_delete_pre_key_def run_defs dom_memory_pre_keys card_dom_hash_get hash_keys_max_dom
      memory_wf_def memory_pre_keys_def memory_storable_def hash_get_upsert hash_get_delete fun_eq_iff)

interpretation memory_spk: aged_key_store
  "signed_pre_key_count (signed_pre_key_store (memory_container L))"
  "get_max_signed_pre_key_id (signed_pre_key_store (memory_container L))"
  "get_signed_pre_key (signed_pre_key_store (memory_container L))"
  "save_signed_pre_key (signed_pre_key_store (memory_container L))"
  "delete_signed_pre_key (signed_pre_key_store (memory_container L))"
  "\<lambda>s. hash_get (mem_signed_pre_keys s)" "\<lambda>s. s\<lparr>mem_signed_pre_keys := []\<rparr>" memory_wf "\<lambda>_ _. True"
  "get_signed_pre_keys_older_than (signed_pre_key_store (memory_container L))"
  "signed_pre_key_record_timestamp L" for L
  by unfold_locales
    (auto simp: memory_container_def mem_defs mem_signed_pre_key_count_def mem_get_max_signed_pre_key_id_def
      mem_delete_signed_pre_key_def mem_get_signed_pre_keys_older_than_def run_defs card_dom_hash_get
      hash_keys_max_dom memory_wf_def hash_get_upsert hash_get_delete
      intro: collect_expired_sound collect_expired_complete)

interpretation memory_kpk: aged_key_store
  "kyber_pre_key_count (kyber_pre_key_store (memory_container L))"
  "get_max_kyber_pre_key_id (kyber_pre_key_store (memory_container L))"
  "get_kyber_pre_key (kyber_pre_key_store (memory_container L))"
  "save_kyber_pre_key (kyber_pre_key_store (memory_container L))"
  "delete_kyber_pre_key (kyber_pre_key_store (memory_container L))"
  "\<lambda>s. hash_get (mem_kyber_pre_keys s)" "\<lambda>s. s\<lparr>mem_kyber_pre_keys := []\<rparr>" memory_wf "\<lambda>_ _. True"
  "get_kyber_pre_keys_older_than (kyber_pre_key_store (memory_container L))"
  "kyber_pre_key_record_timestamp L" for L
  by unfold_locales
    (auto simp: memory_container_def mem_defs mem_kyber_pre_key_count_def mem_get_max_kyber_pre_key_id_def
      mem_delete_kyber_pre_key_def mem_get_kyber_pre_keys_older_than_def run_defs card_dom_hash_get
      hash_keys_max_dom memory_wf_def hash_get_upsert hash_get_delete
      intro: collect_expired_sound collect_expired_complete)

end
