(* ===== verification/Rotation_Instances.thy ===== *)
theory Rotation_Instances
  imports Sqlite_Properties Memory_Storage
begin

text \<open>
  Both storage backends as instances of the interface that key rotation works on, and what the
  rotation does to them.
\<close>

definition sqlite_others :: "sqlite_storage \<Rightarrow> sqlite_storage" where
  "sqlite_others s =
     s\<lparr>connection := (connection s)\<lparr>pre_keys := [], signed_pre_keys := [], kyber_pre_keys := []\<rparr>\<rparr>"

lemma without_frame:
  "without_pre_keys s' = without_pre_keys s \<Longrightarrow> sqlite_others s' = sqlite_others s \<and>
     signed_pre_keys (connection s') = signed_pre_keys (connection s) \<and>
     kyber_pre_keys (connection s') = kyber_pre_keys (connection s)"
  "without_signed_pre_keys s' = without_signed_pre_keys s \<Longrightarrow> sqlite_others s' = sqlite_others s \<and>
     pre_keys (connection s') = pre_keys (connection s) \<and>
     kyber_pre_keys (connection s') = kyber_pre_keys (connection s)"
  "without_kyber_pre_keys s' = without_kyber_pre_keys s \<Longrightarrow> sqlite_others s' = sqlite_others s \<and>
     pre_keys (connection s') = pre_keys (connection s) \<and>
     signed_pre_keys (connection s') = signed_pre_keys (connection s)"
  unfolding without_pre_keys_def without_signed_pre_keys_def without_kyber_pre_keys_def sqlite_others_def
  by (cases s; cases s'; cases "connection s"; cases "connection s'"; simp)+

interpretation sqlite: key_storage L "sqlite_container L" "sqlite_ready L"
  "sqlite_pre_keys L" without_pre_keys "pre_key_storable L"
  "sqlite_signed_pre_keys L" without_signed_pre_keys "signed_pre_key_storable L"
  "sqlite_kyber_pre_keys L" without_kyber_pre_keys "kyber_pre_key_storable L"
  sqlite_others for L
  by (unfold_locales)
    (auto simp: sqlite_pre_keys_def sqlite_signed_pre_keys_def sqlite_kyber_pre_keys_def
      pre_key_storable_def signed_pre_key_storable_def kyber_pre_key_storable_def
      libsignal_records_okD dest: without_frame)

definition memory_others :: "memory_storage \<Rightarrow> memory_storage" where
  "memory_others s = s\<lparr>mem_pre_keys := [], mem_signed_pre_keys := [], mem_kyber_pre_keys := []\<rparr>"

lemma memory_frame:
  "s'\<lparr>mem_pre_keys := []\<rparr> = s\<lparr>mem_pre_keys := []\<rparr> \<Longrightarrow> memory_others s' = memory_others s \<and>
     mem_signed_pre_keys s' = mem_signed_pre_keys s \<and> mem_kyber_pre_keys s' = mem_kyber_pre_keys s"
  "s'\<lparr>mem_signed_pre_keys := []\<rparr> = s\<lparr>mem_signed_pre_keys := []\<rparr> \<Longrightarrow> memory_others s' = memory_others s \<and>
     mem_pre_keys s' = mem_pre_keys s \<and> mem_kyber_pre_keys s' = mem_kyber_pre_keys s"
  "s'\<lparr>mem_kyber_pre_keys := []\<rparr> = s\<lparr>mem_kyber_pre_keys := []\<rparr> \<Longrightarrow> memory_others s' = memory_others s \<and>
     mem_pre_keys s' = mem_pre_keys s \<and> mem_signed_pre_keys s' = mem_signed_pre_keys s"
  unfolding memory_others_def by (cases s; cases s'; simp)+

interpretation memory: key_storage L "memory_container L" memory_wf
  "memory_pre_keys L" "\<lambda>s. s\<lparr>mem_pre_keys := []\<rparr>" "memory_storable L"
  "\<lambda>s. hash_get (mem_signed_pre_keys s)" "\<lambda>s. s\<lparr>mem_signed_pre_keys := []\<rparr>" "\<lambda>_ _. True"
  "\<lambda>s. hash_get (mem_kyber_pre_keys s)" "\<lambda>s. s\<lparr>mem_kyber_pre_keys := []\<rparr>" "\<lambda>_ _. True"
  memory_others for L
  by (unfold_locales)
    (auto simp: memory_pre_keys_def memory_storable_def libsignal_records_okD fun_eq_iff dest: memory_frame)

section \<open>Signed and Kyber pre-keys\<close>

text \<open>
  C22. Rotating the signed pre-key of the SQLite storage stores one new record under the number after
  the greatest one, stamped with the current time, and changes no other key and nothing else.
\<close>

theorem rotate_signed_adds_one:
  assumes "sqlite_ready L (store w)" and "libsignal_records_ok L" and "0 \<le> clock w (ticks w)"
    and "numbers_left 1 (sqlite_signed_pre_keys L (store w))"
  shows "\<exists>kp g s'. rotate_signed_pre_key L (sqlite_container L) ikp w = (Ok (), (advance 1 2 w)\<lparr>store := s'\<rparr>) \<and>
    sqlite_ready L s' \<and>
    sqlite_signed_pre_keys L s' = (sqlite_signed_pre_keys L (store w))(
      next_number (sqlite_signed_pre_keys L (store w)) \<mapsto>
      signed_pre_key_record_new L (next_number (sqlite_signed_pre_keys L (store w)))
        (word_of_int (clock w (ticks w))) kp g) \<and>
    sqlite_pre_keys L s' = sqlite_pre_keys L (store w) \<and>
    sqlite_kyber_pre_keys L s' = sqlite_kyber_pre_keys L (store w) \<and> sqlite_others s' = sqlite_others (store w)"
  using sqlite.rotate_signed_run [OF assms] .

lemma sample_tables [simp]:
  "pre_keys (connection sample_storage) = []" "signed_pre_keys (connection sample_storage) = []"
  "kyber_pre_keys (connection sample_storage) = []" "local_identity (connection sample_storage) = None"
  "identity_keys (connection sample_storage) = []" "sessions (connection sample_storage) = []"
  "contacts (connection sample_storage) = []" "conversations (connection sample_storage) = []"
  "messages (connection sample_storage) = []"
  by (simp_all add: sample_storage_def migrated_def base_tables_def with_table_def empty_db_def)

lemma sample_keys [simp]:
  "sqlite_pre_keys L sample_storage = Map.empty" "sqlite_signed_pre_keys L sample_storage = Map.empty"
  "sqlite_kyber_pre_keys L sample_storage = Map.empty"
  by (simp_all add: sqlite_pre_keys_def sqlite_signed_pre_keys_def sqlite_kyber_pre_keys_def row_map_def fun_eq_iff)

lemma numbers_left_empty [simp]: "numbers_left n Map.empty"
  by (simp add: numbers_left_def)

theorem rotate_signed_adds_one_witness:
  "\<exists>kp g s'. rotate_signed_pre_key sample_libsignal (sqlite_container sample_libsignal) (IdentityKeyPair [1])
      (sample_sys sample_storage) = (Ok (), (advance 1 2 (sample_sys sample_storage))\<lparr>store := s'\<rparr>) \<and>
    sqlite_signed_pre_keys sample_libsignal s' =
      [1 \<mapsto> signed_pre_key_record_new sample_libsignal 1 1700000000000 kp g]"
  using rotate_signed_adds_one [of sample_libsignal "sample_sys sample_storage" "IdentityKeyPair [1]"]
  by (auto simp: next_number_def)

text \<open>Two signed pre-keys, stamped 0 and 1 ms after the epoch, both long expired.\<close>

definition sample_two_keys :: sqlite_storage where
  "sample_two_keys = sample_storage\<lparr>connection := (connection sample_storage)\<lparr>signed_pre_keys :=
     [\<lparr>signed_row_id = 1, signed_key_data = record_bytes 1 0 [] [], signed_signature = [],
       signed_created_at = 0, signed_expires_at = 2592000, signed_is_current = False\<rparr>,
      \<lparr>signed_row_id = 2, signed_key_data = record_bytes 2 1 [] [], signed_signature = [],
       signed_created_at = 0, signed_expires_at = 2592000, signed_is_current = False\<rparr>]\<rparr>\<rparr>"

lemma sample_signed [simp]:
  "signed_pre_key_record_deserialize sample_libsignal b = Inr (SignedPreKeyRecord b)"
  "signed_pre_key_record_timestamp sample_libsignal (SignedPreKeyRecord b) = Inr (record_timestamp b)"
  by (simp_all add: sample_libsignal_def)

lemma sample_two_keys_ready: "sqlite_ready sample_libsignal sample_two_keys"
  unfolding sample_two_keys_def
proof (rule ready_update [OF sample_storage_ready [OF sample_libsignal_ok]])
  note serve = servingD [OF readyD [OF sample_storage_ready [OF sample_libsignal_ok]]]
  show "db_wf sample_libsignal ((connection sample_storage)\<lparr>signed_pre_keys :=
     [\<lparr>signed_row_id = 1, signed_key_data = record_bytes 1 0 [] [], signed_signature = [],
       signed_created_at = 0, signed_expires_at = 2592000, signed_is_current = False\<rparr>,
      \<lparr>signed_row_id = 2, signed_key_data = record_bytes 2 1 [] [], signed_signature = [],
       signed_created_at = 0, signed_expires_at = 2592000, signed_is_current = False\<rparr>]\<rparr>)"
    using serve(4)
    by (simp add: db_wf_def numbered_def signed_row_ok_def created_at_secs)
qed (simp_all add: locked_serving [OF sample_storage_ready [OF sample_libsignal_ok]])

lemma sample_two_keys_map:
  "sqlite_signed_pre_keys sample_libsignal sample_two_keys =
     [1 \<mapsto> SignedPreKeyRecord (record_bytes 1 0 [] []), 2 \<mapsto> SignedPreKeyRecord (record_bytes 2 1 [] [])]"
proof
  fix i :: u32
  have "uint i = 1 \<longleftrightarrow> i = 1" "uint i = 2 \<longleftrightarrow> i = 2"
    using uint_eq_uint_iff [of i 1] uint_eq_uint_iff [of i 2] by simp_all
  then show "sqlite_signed_pre_keys sample_libsignal sample_two_keys i =
      ([1 \<mapsto> SignedPreKeyRecord (record_bytes 1 0 [] []), 2 \<mapsto> SignedPreKeyRecord (record_bytes 2 1 [] [])]) i"
    by (auto simp: sqlite_signed_pre_keys_def sample_two_keys_def row_map_def lookup_row_def)
qed

text \<open>
  C26. The age test of the signed pre-key: an empty store needs rotation; otherwise the key with the
  greatest number is due when it is more than seven days old, in whole seconds. A key stamped in
  the future makes the subtraction overflow: a build with overflow checks panics, one without
  treats the wrapped difference as the age.
\<close>

theorem signed_needs_rotation_iff:
  assumes "sqlite_ready L (store w)" and "0 \<le> clock w (ticks w)"
    and "now = (word_of_int (clock w (ticks w)) :: u64)"
  shows "(sqlite_signed_pre_keys L (store w) = Map.empty \<longrightarrow>
      signed_pre_key_needs_rotation L (sqlite_container L) w = (Ok True, w)) \<and>
    (\<forall>r t. sqlite_signed_pre_keys L (store w) (Max (dom (sqlite_signed_pre_keys L (store w)))) = Some r \<and>
      signed_pre_key_record_timestamp L r = Inr t \<longrightarrow>
      signed_pre_key_needs_rotation L (sqlite_container L) w =
        (if t \<le> now then (Ok (604800 < (unat now - unat t) div 1000), advance 1 0 w)
         else if overflow_checks w then (Panic ''attempt to subtract with overflow'', advance 1 0 w)
         else (Ok (604800 < (unat now + 2 ^ 64 - unat t) div 1000), advance 1 0 w)))"
proof -
  have age: "(604800 < (now - t) div 1000) =
      (604800 < (if t \<le> now then unat now - unat t else unat now + 2 ^ 64 - unat t) div 1000)" for t :: u64
  proof -
    have "unat (now - t) = (if t \<le> now then unat now - unat t else unat now + 2 ^ 64 - unat t)"
      using unat_sub_if' [of now t] by (simp add: word_le_nat_alt)
    then show ?thesis by (simp add: word_less_nat_alt unat_div)
  qed
  have empty: "dom m = {}" if "m = Map.empty" for m :: "u32 \<Rightarrow> signed_pre_key_record option"
    using that by simp
  show ?thesis
    using sqlite_spk.needs_rotation_empty [OF assms(1)] sqlite_spk.needs_rotation_run [OF assms(1) _ _ assms(2,3)]
    unfolding signed_pre_key_needs_rotation_def
    by (auto simp: age not_le not_less simp del: sqlite_container_signed_sel)
qed

theorem signed_needs_rotation_iff_witness:
  "signed_pre_key_needs_rotation sample_libsignal (sqlite_container sample_libsignal) (sample_sys sample_storage) =
     (Ok True, sample_sys sample_storage) \<and>
   signed_pre_key_needs_rotation sample_libsignal (sqlite_container sample_libsignal) (sample_sys sample_two_keys) =
     (Ok True, advance 1 0 (sample_sys sample_two_keys)) \<and>
   signed_pre_key_needs_rotation sample_libsignal (sqlite_container sample_libsignal)
     ((sample_sys sample_two_keys)\<lparr>clock := \<lambda>_. 604800999\<rparr>) =
     (Ok False, advance 1 0 ((sample_sys sample_two_keys)\<lparr>clock := \<lambda>_. 604800999\<rparr>))"
proof -
  note ready = sample_two_keys_ready and keys = sample_two_keys_map
  have "Max {2, 1 :: u32} = 2" by simp
  moreover have "(1 :: u64) \<le> word_of_int 1700000000000" "(1 :: u64) \<le> word_of_int 604800999"
    "604800 < (unat (word_of_int 1700000000000 :: u64) - unat (1 :: u64)) div 1000"
    "\<not> 604800 < (unat (word_of_int 604800999 :: u64) - unat (1 :: u64)) div 1000" by simp_all
  ultimately show ?thesis
    using signed_needs_rotation_iff [of sample_libsignal "sample_sys sample_storage"]
      signed_needs_rotation_iff [of sample_libsignal "sample_sys sample_two_keys"]
      signed_needs_rotation_iff [of sample_libsignal "(sample_sys sample_two_keys)\<lparr>clock := \<lambda>_. 604800999\<rparr>"]
    by (simp add: ready keys)
qed

text \<open>
  C23. A rotation settles the age test: right after rotating the signed pre-key, and for as long as
  the clock shows at most seven days (in whole seconds) past the rotation, it is not due again.
\<close>

theorem rotate_then_not_due:
  assumes "sqlite_ready L (store w)" and "libsignal_records_ok L"
    and "numbers_left 1 (sqlite_signed_pre_keys L (store w))"
    and "0 \<le> clock w (ticks w)" and "clock w (ticks w) \<le> clock w (Suc (ticks w))"
    and "clock w (Suc (ticks w)) < 2 ^ 64"
    and "(clock w (Suc (ticks w)) - clock w (ticks w)) div 1000 \<le> 604800"
  shows "\<exists>w'. bindM (rotate_signed_pre_key L (sqlite_container L) ikp)
      (\<lambda>_. signed_pre_key_needs_rotation L (sqlite_container L)) w = (Ok False, w')"
proof -
  let ?n = "next_number (sqlite_signed_pre_keys L (store w))" and ?t = "clock w (ticks w)"
    and ?u = "clock w (Suc (ticks w))"
  from sqlite.rotate_signed_run [OF assms(1,2,4,3), of ikp] obtain kp g s' where
    run: "rotate_signed_pre_key L (sqlite_container L) ikp w = (Ok (), (advance 1 2 w)\<lparr>store := s'\<rparr>)"
      "sqlite_ready L s'" "sqlite_signed_pre_keys L s' = (sqlite_signed_pre_keys L (store w))(?n \<mapsto>
        signed_pre_key_record_new L ?n (word_of_int ?t) kp g)" by blast
  let ?w = "(advance 1 2 w)\<lparr>store := s'\<rparr>" and ?r = "signed_pre_key_record_new L ?n (word_of_int ?t) kp g"
  have Max: "Max (dom (sqlite_signed_pre_keys L s')) = ?n" unfolding run(3) by (rule Max_dom_next [OF assms(3)])
  have times: "uint (word_of_int ?t :: u64) = ?t" "uint (word_of_int ?u :: u64) = ?u"
    using assms(4-6) by (simp_all add: unsigned_of_int take_bit_int_eq_self)
  have le: "(word_of_int ?t :: u64) \<le> word_of_int ?u" using times assms(5) by (simp add: word_le_def)
  have "uint (((word_of_int ?u :: u64) - word_of_int ?t) div 1000) = (?u - ?t) div 1000"
    using uint_sub_u64 [OF le] times by (simp add: uint_div)
  then have old: "\<not> 604800 < ((word_of_int ?u :: u64) - word_of_int ?t) div 1000"
    using assms(7) by (simp add: word_less_def)
  have "signed_pre_key_needs_rotation L (sqlite_container L) ?w = (Ok False, advance 1 0 ?w)"
    unfolding signed_pre_key_needs_rotation_def
    using sqlite_spk.needs_rotation_run [of L ?w ?r "word_of_int ?t" "word_of_int ?u"] run(2,3) Max assms(4,5)
      libsignal_records_okD(6) [OF assms(2)] le [THEN leD] old by (simp del: sqlite_container_signed_sel)
  then show ?thesis using run(1) by (simp add: bindM_at)
qed

theorem rotate_then_not_due_witness:
  "\<exists>w'. bindM (rotate_signed_pre_key sample_libsignal (sqlite_container sample_libsignal) (IdentityKeyPair [1]))
      (\<lambda>_. signed_pre_key_needs_rotation sample_libsignal (sqlite_container sample_libsignal))
      (sample_sys sample_storage) = (Ok False, w')"
  by (rule rotate_then_not_due) simp_all

text \<open>
  C20. Expiry of signed pre-keys in the SQLite storage: it succeeds, removes only keys whose grace
  period of seven days is over, never empties the store, removes every key at least a second past
  the grace period unless one key is left, and touches nothing else.
\<close>

theorem cleanup_signed_expired:
  assumes "sqlite_ready L (store w)" and "0 \<le> clock w (ticks w)"
    and "now = (word_of_int (clock w (ticks w)) :: u64)" and "604800000 \<le> now"
  shows "\<exists>s'. cleanup_expired_signed_pre_keys (sqlite_container L) w = (Ok (), (advance 1 0 w)\<lparr>store := s'\<rparr>) \<and>
    sqlite_ready L s' \<and> without_signed_pre_keys s' = without_signed_pre_keys (store w) \<and>
    sqlite_signed_pre_keys L s' \<subseteq>\<^sub>m sqlite_signed_pre_keys L (store w) \<and>
    (dom (sqlite_signed_pre_keys L (store w)) \<noteq> {} \<longrightarrow> dom (sqlite_signed_pre_keys L s') \<noteq> {}) \<and>
    (\<forall>i r. sqlite_signed_pre_keys L (store w) i = Some r \<and> sqlite_signed_pre_keys L s' i = None \<longrightarrow>
      (\<exists>t. signed_pre_key_record_timestamp L r = Inr t \<and> t < now - 604800000)) \<and>
    (card (dom (sqlite_signed_pre_keys L s')) \<le> 1 \<or>
     (\<forall>i r t. sqlite_signed_pre_keys L s' i = Some r \<and> signed_pre_key_record_timestamp L r = Inr t \<longrightarrow>
       \<not> unat t + 1000 \<le> unat (now - 604800000)))"
  unfolding cleanup_expired_signed_pre_keys_def by (rule sqlite_spk.cleanup_expired_run [OF assms])

theorem cleanup_signed_expired_witness:
  "\<exists>s'. cleanup_expired_signed_pre_keys (sqlite_container sample_libsignal) (sample_sys sample_two_keys) =
      (Ok (), (advance 1 0 (sample_sys sample_two_keys))\<lparr>store := s'\<rparr>) \<and>
    card (dom (sqlite_signed_pre_keys sample_libsignal s')) = 1"
proof -
  let ?old = "sqlite_signed_pre_keys sample_libsignal sample_two_keys"
  obtain s' where s': "cleanup_expired_signed_pre_keys (sqlite_container sample_libsignal) (sample_sys sample_two_keys) =
      (Ok (), (advance 1 0 (sample_sys sample_two_keys))\<lparr>store := s'\<rparr>)"
    "sqlite_signed_pre_keys sample_libsignal s' \<subseteq>\<^sub>m ?old" "dom (sqlite_signed_pre_keys sample_libsignal s') \<noteq> {}"
    "card (dom (sqlite_signed_pre_keys sample_libsignal s')) \<le> 1 \<or>
     (\<forall>i r t. sqlite_signed_pre_keys sample_libsignal s' i = Some r \<and> signed_pre_key_record_timestamp sample_libsignal r = Inr t \<longrightarrow>
       \<not> unat t + 1000 \<le> unat (word_of_int 1700000000000 - 604800000 :: u64))"
    using cleanup_signed_expired [of sample_libsignal "sample_sys sample_two_keys" "word_of_int 1700000000000"]
    by (auto simp: sample_two_keys_ready sample_two_keys_map)
  have old: "\<exists>t. signed_pre_key_record_timestamp sample_libsignal r = Inr t \<and> unat t + 1000 \<le> unat (word_of_int 1700000000000 - 604800000 :: u64)"
    if "?old i = Some r" for i r
    using that by (auto simp: sample_two_keys_map split: if_splits)
  obtain i r where "sqlite_signed_pre_keys sample_libsignal s' i = Some r" using s'(3) by fastforce
  moreover from this s'(2) have "?old i = Some r" by (metis domI map_le_def)
  ultimately have "card (dom (sqlite_signed_pre_keys sample_libsignal s')) \<le> 1" using s'(4) old by blast
  moreover have "finite (dom (sqlite_signed_pre_keys sample_libsignal s'))" by simp
  ultimately have "card (dom (sqlite_signed_pre_keys sample_libsignal s')) = 1"
    using s'(3) card_gt_0_iff [of "dom (sqlite_signed_pre_keys sample_libsignal s')"] by linarith
  with s'(1) show ?thesis by blast
qed

text \<open>
  The same for Kyber keys in the in-memory storage, whose table of expired keys comes in
  arbitrary order.
\<close>

lemma cleanup_kyber_expired_memory:
  assumes "memory_wf (store w)" and "0 \<le> clock w (ticks w)"
    and "now = (word_of_int (clock w (ticks w)) :: u64)" and "604800000 \<le> now"
  shows "\<exists>s'. cleanup_expired_kyber_pre_keys (memory_container L) w = (Ok (), (advance 1 0 w)\<lparr>store := s'\<rparr>) \<and>
    memory_wf s' \<and> s'\<lparr>mem_kyber_pre_keys := []\<rparr> = (store w)\<lparr>mem_kyber_pre_keys := []\<rparr> \<and>
    hash_get (mem_kyber_pre_keys s') \<subseteq>\<^sub>m hash_get (mem_kyber_pre_keys (store w)) \<and>
    (mem_kyber_pre_keys (store w) \<noteq> [] \<longrightarrow> mem_kyber_pre_keys s' \<noteq> []) \<and>
    (\<forall>i r. hash_get (mem_kyber_pre_keys (store w)) i = Some r \<and> hash_get (mem_kyber_pre_keys s') i = None \<longrightarrow>
      (\<exists>t. kyber_pre_key_record_timestamp L r = Inr t \<and> t < now - 604800000))"
proof -
  have empty: "dom (hash_get m) = {} \<longleftrightarrow> m = []" for m :: "(u32 \<times> kyber_pre_key_record) list"
    by (simp add: dom_hash_get)
  show ?thesis
    using memory_kpk.cleanup_expired_run [OF assms, of L]
    unfolding cleanup_expired_kyber_pre_keys_def empty by blast
qed






section \<open>One-time pre-keys\<close>

text \<open>
  C25. Replenishing the pool of one-time pre-keys adds exactly 100 keys under unused numbers, however
  many are left: 49 become 149, the pool is not filled up to 100. Every
  key that was there stays as it was, and so does the rest of the storage.
\<close>

theorem replenish_adds_hundred:
  assumes "sqlite_ready L (store w)" and "libsignal_records_ok L" and "numbers_left 100 (sqlite_pre_keys L (store w))"
  shows "\<exists>s'. replenish_pre_keys L (sqlite_container L) w = (Ok (), (advance 0 100 w)\<lparr>store := s'\<rparr>) \<and>
    sqlite_ready L s' \<and> sqlite_pre_keys L (store w) \<subseteq>\<^sub>m sqlite_pre_keys L s' \<and>
    card (dom (sqlite_pre_keys L s')) = card (dom (sqlite_pre_keys L (store w))) + 100 \<and>
    sqlite_signed_pre_keys L s' = sqlite_signed_pre_keys L (store w) \<and>
    sqlite_kyber_pre_keys L s' = sqlite_kyber_pre_keys L (store w) \<and> sqlite_others s' = sqlite_others (store w)"
  using sqlite.replenish_pool [OF assms] .

theorem replenish_adds_hundred_witness:
  "\<exists>s'. replenish_pre_keys sample_libsignal (sqlite_container sample_libsignal) (sample_sys sample_storage) =
      (Ok (), (advance 0 100 (sample_sys sample_storage))\<lparr>store := s'\<rparr>) \<and>
    card (dom (sqlite_pre_keys sample_libsignal s')) = 100"
  using replenish_adds_hundred [of sample_libsignal "sample_sys sample_storage"] by auto

text \<open>
  C24. Consuming a one-time pre-key, in either storage, removes that key and keeps every other key; when
  fewer than 50 are left, 100 newly generated keys are added under the numbers after the greatest
  remaining one, and nothing else is. So at least 50 keys are there afterwards. (The number of the
  consumed key is among the new ones when it was the greatest.)
\<close>

theorem consume_keeps_pool:
  assumes "libsignal_records_ok L"
  shows "(sqlite_ready L (store w) \<and> numbers_left 100 (sqlite_pre_keys L (store w)) \<longrightarrow>
      (\<exists>n s'. consume_pre_key L (sqlite_container L) i w = (Ok (), (advance 0 n w)\<lparr>store := s'\<rparr>) \<and> sqlite_ready L s' \<and>
        (let m = (sqlite_pre_keys L (store w))(i := None) in
          sqlite_pre_keys L s' = (if card (dom m) < 50 then m ++ map_of (new_pre_keys L w (next_number m)) else m) \<and>
          m \<subseteq>\<^sub>m sqlite_pre_keys L s' \<and> 50 \<le> card (dom (sqlite_pre_keys L s'))) \<and>
        sqlite_signed_pre_keys L s' = sqlite_signed_pre_keys L (store w) \<and>
        sqlite_kyber_pre_keys L s' = sqlite_kyber_pre_keys L (store w) \<and> sqlite_others s' = sqlite_others (store w))) \<and>
    (memory_wf (store v) \<and> numbers_left 100 (memory_pre_keys L (store v)) \<longrightarrow>
      (\<exists>n s'. consume_pre_key L (memory_container L) i v = (Ok (), (advance 0 n v)\<lparr>store := s'\<rparr>) \<and> memory_wf s' \<and>
        (let m = (memory_pre_keys L (store v))(i := None) in
          memory_pre_keys L s' = (if card (dom m) < 50 then m ++ map_of (new_pre_keys L v (next_number m)) else m) \<and>
          m \<subseteq>\<^sub>m memory_pre_keys L s' \<and> 50 \<le> card (dom (memory_pre_keys L s'))) \<and>
        memory_others s' = memory_others (store v)))"
  using sqlite.consume_run [OF _ assms _ refl, of w i] memory.consume_run [OF _ assms _ refl, of v i]
  unfolding Let_def by blast

text \<open>Two one-time pre-keys.\<close>

definition sample_pool :: sqlite_storage where
  "sample_pool = sample_storage\<lparr>connection := (connection sample_storage)\<lparr>pre_keys :=
     [\<lparr>pre_key_row_id = 1, pre_key_data = [4]\<rparr>, \<lparr>pre_key_row_id = 2, pre_key_data = [5]\<rparr>]\<rparr>\<rparr>"

lemma sample_pre_key [simp]: "pre_key_record_deserialize sample_libsignal b = Inr (PreKeyRecord b)"
  by (simp add: sample_libsignal_def)

lemma sample_pool_ready: "sqlite_ready sample_libsignal sample_pool"
  unfolding sample_pool_def
proof (rule ready_update [OF sample_storage_ready [OF sample_libsignal_ok]])
  show "db_wf sample_libsignal ((connection sample_storage)\<lparr>pre_keys :=
     [\<lparr>pre_key_row_id = 1, pre_key_data = [4]\<rparr>, \<lparr>pre_key_row_id = 2, pre_key_data = [5]\<rparr>]\<rparr>)"
    using servingD(4) [OF readyD [OF sample_storage_ready [OF sample_libsignal_ok]]] by (simp add: db_wf_def numbered_def)
qed (simp_all add: locked_serving [OF sample_storage_ready [OF sample_libsignal_ok]])

lemma sample_pool_keys: "sqlite_pre_keys sample_libsignal sample_pool = [1 \<mapsto> PreKeyRecord [4], 2 \<mapsto> PreKeyRecord [5]]"
proof
  fix i :: u32
  have "uint i = 1 \<longleftrightarrow> i = 1" "uint i = 2 \<longleftrightarrow> i = 2"
    using uint_eq_uint_iff [of i 1] uint_eq_uint_iff [of i 2] by simp_all
  then show "sqlite_pre_keys sample_libsignal sample_pool i = ([1 \<mapsto> PreKeyRecord [4], 2 \<mapsto> PreKeyRecord [5]]) i"
    by (auto simp: sqlite_pre_keys_def sample_pool_def row_map_def lookup_row_def)
qed

theorem consume_keeps_pool_witness:
  "(\<exists>n s'. consume_pre_key sample_libsignal (sqlite_container sample_libsignal) 1 (sample_sys sample_pool) =
      (Ok (), (advance 0 n (sample_sys sample_pool))\<lparr>store := s'\<rparr>) \<and>
    sqlite_pre_keys sample_libsignal s' 1 = None \<and> sqlite_pre_keys sample_libsignal s' 2 = Some (PreKeyRecord [5])) \<and>
   (\<exists>n s'. consume_pre_key sample_libsignal (memory_container sample_libsignal) 1
      (sample_sys (memory_storage_new (\<lambda>_. 0))) =
      (Ok (), (advance 0 n (sample_sys (memory_storage_new (\<lambda>_. 0))))\<lparr>store := s'\<rparr>) \<and>
    50 \<le> card (dom (memory_pre_keys sample_libsignal s')))"
proof -
  have memory: "memory_wf (memory_storage_new (\<lambda>_. 0))"
    "memory_pre_keys sample_libsignal (memory_storage_new (\<lambda>_. 0)) = Map.empty"
    by (auto simp: memory_wf_def memory_storage_new_def memory_pre_keys_def hash_get_def fun_eq_iff)
  let ?m = "[2 \<mapsto> PreKeyRecord [5]] :: u32 \<Rightarrow> pre_key_record option"
  have m: "([1 \<mapsto> PreKeyRecord [4], 2 \<mapsto> PreKeyRecord [5]] :: u32 \<Rightarrow> pre_key_record option)(1 := None) = ?m"
    by (auto simp: fun_eq_iff)
  have left: "numbers_left 100 ([1 \<mapsto> PreKeyRecord [4], 2 \<mapsto> PreKeyRecord [5]] :: u32 \<Rightarrow> pre_key_record option)"
    by (simp add: numbers_left_def)
  have gone: "map_of (new_pre_keys sample_libsignal w (next_number ?m)) 1 = None" for w :: "sqlite_storage sys"
  proof -
    have "(1 :: u32) \<notin> set (map (\<lambda>n. 3 + of_nat n) [0 ..< 100])" by code_simp
    then show ?thesis
      by (simp add: map_of_eq_None_iff next_number_def map_fst_new_pre_keys flip: set_map del: set_upt)
  qed
  note run = consume_keeps_pool [OF sample_libsignal_records_ok, of "sample_sys sample_pool" 1
      "sample_sys (memory_storage_new (\<lambda>_. 0))"]
  have "\<exists>n s'. consume_pre_key sample_libsignal (sqlite_container sample_libsignal) 1 (sample_sys sample_pool) =
      (Ok (), (advance 0 n (sample_sys sample_pool))\<lparr>store := s'\<rparr>) \<and> ?m \<subseteq>\<^sub>m sqlite_pre_keys sample_libsignal s' \<and>
      sqlite_pre_keys sample_libsignal s' = ?m ++ map_of (new_pre_keys sample_libsignal (sample_sys sample_pool) (next_number ?m))"
    using run [THEN conjunct1] left by (simp add: sample_pool_ready sample_pool_keys m Let_def del: sqlite_container_sel) blast
  then obtain n s' where s': "consume_pre_key sample_libsignal (sqlite_container sample_libsignal) 1 (sample_sys sample_pool) =
      (Ok (), (advance 0 n (sample_sys sample_pool))\<lparr>store := s'\<rparr>)" "?m \<subseteq>\<^sub>m sqlite_pre_keys sample_libsignal s'"
      "sqlite_pre_keys sample_libsignal s' = ?m ++ map_of (new_pre_keys sample_libsignal (sample_sys sample_pool) (next_number ?m))"
    by blast
  have "sqlite_pre_keys sample_libsignal s' 1 = None" by (simp add: s'(3) map_add_def gone)
  moreover have "sqlite_pre_keys sample_libsignal s' 2 = Some (PreKeyRecord [5])"
    using s'(2) by (simp add: map_le_def)
  moreover have "\<exists>n s'. consume_pre_key sample_libsignal (memory_container sample_libsignal) 1
      (sample_sys (memory_storage_new (\<lambda>_. 0))) =
      (Ok (), (advance 0 n (sample_sys (memory_storage_new (\<lambda>_. 0))))\<lparr>store := s'\<rparr>) \<and>
    50 \<le> card (dom (memory_pre_keys sample_libsignal s'))"
    using run [THEN conjunct2] memory by (simp add: Let_def) blast
  ultimately show ?thesis using s'(1) by blast
qed

text \<open>
  When the consumed key had the greatest number and the pool is refilled, its number is given to
  a new key, although a bundle that carries the old key may still be published.
\<close>

lemma consumed_number_reused:
  "\<exists>w' kp. consume_pre_key sample_libsignal (sqlite_container sample_libsignal) 2 (sample_sys sample_pool) = (Ok (), w') \<and>
    sqlite_pre_keys sample_libsignal (store w') 2 = Some (pre_key_record_new sample_libsignal 2 kp)"
proof -
  let ?m = "[1 \<mapsto> PreKeyRecord [4]] :: u32 \<Rightarrow> pre_key_record option" and ?w = "sample_sys sample_pool"
  have m: "?m = (sqlite_pre_keys sample_libsignal (store ?w))(2 := None)"
    by (auto simp: sample_pool_keys fun_eq_iff)
  have "numbers_left 100 (sqlite_pre_keys sample_libsignal (store ?w))" by (simp add: sample_pool_keys numbers_left_def)
  with sqlite.consume_run [OF _ sample_libsignal_records_ok _ m] sample_pool_ready obtain n s' where
    s': "consume_pre_key sample_libsignal (sqlite_container sample_libsignal) 2 ?w = (Ok (), (advance 0 n ?w)\<lparr>store := s'\<rparr>)"
      "sqlite_pre_keys sample_libsignal s' = ?m ++ map_of (new_pre_keys sample_libsignal ?w 2)"
    by (auto simp: next_number_def)
  have "\<exists>kp. map_of (new_pre_keys sample_libsignal ?w 2) 2 = Some (pre_key_record_new sample_libsignal 2 kp)"
    by (simp add: new_pre_keys_def pre_key_batch_def upt_conv_Cons) blast
  with s' show ?thesis by (auto simp: map_add_def)
qed

end
