(* ===== verification/Bridge_Correct.thy ===== *)
theory Bridge_Correct
  imports Ffi Contact_Correct Rotation_Instances
begin

text \<open>
  The local identity of a serving storage, and start-up: \<open>SignalBridge::new\<close> brings any readable
  database to the current schema, creates every key that is missing and keeps what is there.
\<close>

declare sqlite_container_sel [simp del] sqlite_container_signed_sel [simp del]

section \<open>The local identity\<close>

definition local_key :: "'x libsignal_scheme \<Rightarrow> db \<Rightarrow> identity_key_pair option" where
  "local_key L d = (case local_identity d of
     None \<Rightarrow> None
   | Some r \<Rightarrow> (case identity_key_pair_try_from L (private_key r) of Inl _ \<Rightarrow> None | Inr k \<Rightarrow> Some k))"

definition with_identity :: "'x libsignal_scheme \<Rightarrow> identity_key_pair \<Rightarrow> u32 \<Rightarrow> db \<Rightarrow> db" where
  "with_identity L k i d = d\<lparr>local_identity := Some \<lparr>registration_id = uint i,
     private_key = identity_key_pair_serialize L k,
     public_key = identity_key_serialize L (identity_key_pair_identity_key L k)\<rparr>\<rparr>"

lemma with_identity_sel [simp]:
  "mutex (with_identity L k i d) = mutex d" "faults (with_identity L k i d) = faults d"
  "created (with_identity L k i d) = created d" "pre_keys (with_identity L k i d) = pre_keys d"
  "signed_pre_keys (with_identity L k i d) = signed_pre_keys d"
  "kyber_pre_keys (with_identity L k i d) = kyber_pre_keys d"
  by (simp_all add: with_identity_def)

lemma with_identity_wf: "db_wf L d \<Longrightarrow> db_wf L (with_identity L k i d)"
  using uint_bounded [of i] by (simp add: db_wf_def with_identity_def)

lemma local_key_with_identity: "libsignal_ok L \<Longrightarrow> local_key L (with_identity L k i d) = Some k"
  by (simp add: local_key_def with_identity_def libsignal_okD(3))

lemma run_get_identity_key_pair:
  assumes "sqlite_ready L s"
  shows "local_key L (connection s) = Some k \<Longrightarrow>
      get_identity_key_pair (identity_store (sqlite_container L)) s = (Ok k, s)"
    "local_key L (connection s) = None \<Longrightarrow>
      \<exists>e. get_identity_key_pair (identity_store (sqlite_container L)) s = (Err e, s)"
  using servingD [OF readyD [OF assms]]
  by (auto simp: sqlite_container_def run_via [OF assms] sqlite_get_identity_key_pair_def with_lock_def run_defs
      run_statements local_key_def split: option.splits sum.splits)

lemma run_set_identity:
  assumes "sqlite_ready L s"
  shows "bindM (set_local_identity_key_pair (identity_store (sqlite_container L)) k)
      (\<lambda>_. set_local_registration_id (identity_store (sqlite_container L)) i) s =
    (Ok (), s\<lparr>connection := with_identity L k i (connection s)\<rparr>)"
  using assms servingD [OF readyD [OF assms]]
  by (simp add: sqlite_container_def via_identity_store_def open_handle_def expect_handle_def on_conn_def zoom_def
      sqlite_ready_def bindM_at sqlite_set_local_identity_key_pair_def sqlite_set_local_registration_id_def
      with_lock_def mapErr_at run_statements Let_def with_identity_def)

section \<open>Start-up\<close>

lemma others_frame_at:
  assumes "sqlite_others s' = sqlite_others s"
    and "\<And>d. f (d\<lparr>pre_keys := [], signed_pre_keys := [], kyber_pre_keys := []\<rparr>) = f d"
  shows "f (connection s') = f (connection s)"
  using arg_cong [OF assms(1), of "\<lambda>s. f (connection s)"] by (simp add: sqlite_others_def assms(2))

lemma others_frame:
  assumes "sqlite_others s' = sqlite_others s"
  shows "local_identity (connection s') = local_identity (connection s)"
    "sessions (connection s') = sessions (connection s)" "identity_keys (connection s') = identity_keys (connection s)"
    "contacts (connection s') = contacts (connection s)" "conversations (connection s') = conversations (connection s)"
    "messages (connection s') = messages (connection s)"
  by (rule others_frame_at [OF assms], simp)+

text \<open>The states a call of the bridge works on, and what start-up leaves alone.\<close>

definition others_than_identity :: "sqlite_storage \<Rightarrow> sqlite_storage" where
  "others_than_identity s = sqlite_others (s\<lparr>connection := (connection s)\<lparr>local_identity := None\<rparr>\<rparr>)"

lemma ensure_identity_run:
  assumes "sqlite_ready C (store w)"
  shows "\<exists>k n s'. ensure_identity C w = (Ok k, (advance 0 n w)\<lparr>store := s'\<rparr>) \<and> sqlite_ready C s' \<and>
    local_key C (connection s') = Some k \<and>
    (\<forall>k0. local_key C (connection (store w)) = Some k0 \<longrightarrow> k = k0 \<and> s' = store w) \<and>
    (local_key C (connection (store w)) = None \<longrightarrow> k = identity_key_pair_generate C (entropy w (draws w))) \<and>
    sqlite_pre_keys C s' = sqlite_pre_keys C (store w) \<and>
    sqlite_signed_pre_keys C s' = sqlite_signed_pre_keys C (store w) \<and>
    sqlite_kyber_pre_keys C s' = sqlite_kyber_pre_keys C (store w) \<and>
    others_than_identity s' = others_than_identity (store w)"
proof (cases "local_key C (connection (store w))")
  case (Some k)
  from run_get_identity_key_pair(1) [OF assms this] Some assms show ?thesis
    by (intro exI [of _ k] exI [of _ 0] exI [of _ "store w"])
      (simp add: ensure_identity_def bindM_at attempt_at in_store_at run_basic)
next
  case None
  let ?k = "identity_key_pair_generate C (entropy w (draws w))"
  let ?s = "(store w)\<lparr>connection := with_identity C ?k (of_nat (entropy w (Suc (draws w)))) (connection (store w))\<rparr>"
  from run_get_identity_key_pair(2) [OF assms None] obtain e where
    e: "get_identity_key_pair (identity_store (sqlite_container C)) (store w) = (Err e, store w)" by blast
  have split: "bindM (mapErr g (in_store a)) (\<lambda>_. bindM (mapErr g (in_store b)) (\<lambda>_. ret k)) v =
      bindM (mapErr g (in_store (bindM a (\<lambda>_. b)))) (\<lambda>_. ret k) v" for g a b k v
    by (simp add: bindM_at mapErr_at in_store_at split: prod.split outcome.split)
  note serve = servingD [OF readyD [OF assms]]
  have "ensure_identity C w = (Ok ?k, (advance 0 2 w)\<lparr>store := ?s\<rparr>)"
    using run_set_identity [OF assms, of ?k "of_nat (entropy w (Suc (draws w)))"]
    by (simp add: ensure_identity_def generate_identity_key_pair_def bindM_at [of "attempt _"] attempt_at in_store_at e Let_def
        bindM_at [of draw] bindM_at [of "mapErr _ (bindM draw _)"] mapErr_at [of _ "bindM draw _"] run_draw run_basic split
        bindM_at [of "mapErr _ (in_store (bindM _ _))"] mapErr_at [of _ "in_store (bindM _ _)"] advance_def)
  moreover have "sqlite_ready C ?s"
    using serve with_identity_wf [OF serve(4)] by (intro ready_update [OF assms]) simp_all
  moreover have "others_than_identity ?s = others_than_identity (store w)"
    by (simp add: others_than_identity_def with_identity_def)
  ultimately show ?thesis
    using None local_key_with_identity [OF serve(5)]
    by (intro exI [of _ ?k] exI [of _ 2] exI [of _ ?s])
      (simp add: sqlite_pre_keys_def sqlite_signed_pre_keys_def sqlite_kyber_pre_keys_def)
qed

text \<open>The first batch of one-time pre-keys, numbers 1 to 100.\<close>

definition first_batch :: "'x libsignal_scheme \<Rightarrow> 's sys \<Rightarrow> (u32 \<times> pre_key_record) list" where
  "first_batch L w = map (\<lambda>(i, kp). (i, pre_key_record_new L i kp)) (pre_key_batch L w 1 [0 ..< 100])"

lemma first_batch_numbers:
  "distinct (map fst (first_batch L w))" "length (first_batch L w) = 100"
proof -
  have room: "unat (1 :: u32) + 100 \<le> 2 ^ 32" by simp
  show "distinct (map fst (first_batch L w))"
    using distinct_pre_key_batch [OF room, of L w] by (simp add: first_batch_def comp_def case_prod_beta')
qed (simp add: first_batch_def pre_key_batch_def)

lemma card_first_batch: "card (dom (map_of (first_batch L w))) = 100"
  using first_batch_numbers [of L w] by (metis distinct_card dom_map_of_conv_image_fst length_map list.set_map)

lemma ensure_pre_keys_run:
  assumes ready: "sqlite_ready C (store w)" and C: "libsignal_records_ok C"
  shows "\<exists>n s'. ensure_pre_keys C w = (Ok (), (advance 0 n w)\<lparr>store := s'\<rparr>) \<and> sqlite_ready C s' \<and>
    (if card (dom (sqlite_pre_keys C (store w))) < 5
     then sqlite_pre_keys C s' = sqlite_pre_keys C (store w) ++ map_of (first_batch C w)
     else sqlite_pre_keys C s' = sqlite_pre_keys C (store w)) \<and>
    sqlite_signed_pre_keys C s' = sqlite_signed_pre_keys C (store w) \<and>
    sqlite_kyber_pre_keys C s' = sqlite_kyber_pre_keys C (store w) \<and> sqlite_others s' = sqlite_others (store w)"
proof (cases "card (dom (sqlite_pre_keys C (store w))) < 5")
  case False
  with sqlite_pk.count_law [OF ready] ready show ?thesis
    by (intro exI [of _ 0] exI [of _ "store w"]) (simp add: ensure_pre_keys_def run_defs in_store_at)
next
  case True
  have "\<forall>(i, r) \<in> set (first_batch C w). pre_key_storable C i r"
    by (auto simp: first_batch_def pre_key_batch_def pre_key_storable_def libsignal_records_okD [OF C])
  from sqlite_pk.save_all [OF ready this first_batch_numbers(1)] obtain s' where
    s': "forM (\<lambda>(i, r). save_pre_key (pre_key_store (sqlite_container C)) i r) (first_batch C w) (store w) = (Ok (), s')"
    "sqlite_ready C s'" "sqlite_pre_keys C s' = sqlite_pre_keys C (store w) ++ map_of (first_batch C w)"
    "without_pre_keys s' = without_pre_keys (store w)" by blast
  have gen: "generate_pre_keys C 1 100 w = (Ok (pre_key_batch C w 1 [0 ..< 100]), advance 0 100 w)"
    using run_generate_pre_keys [of 1 100 C w] by simp
  have loop: "forM (\<lambda>(key_id, key_pair). mapErr bridge_from_protocol (in_store
        (save_pre_key (pre_key_store (sqlite_container C)) key_id (pre_key_record_new C key_id key_pair))))
      (pre_key_batch C w 1 [0 ..< 100]) =
    mapErr bridge_from_protocol (in_store (forM (\<lambda>(i, r). save_pre_key (pre_key_store (sqlite_container C)) i r) (first_batch C w)))"
    by (simp add: first_batch_def forM_map case_prod_beta' flip: forM_in_store forM_mapErr)
  have "ensure_pre_keys C w = (Ok (), (advance 0 100 w)\<lparr>store := s'\<rparr>)"
    using True sqlite_pk.count_law [OF ready] s'(1)
    by (simp add: ensure_pre_keys_def run_defs in_store_at gen loop Let_def)
  with True s'(2,3) sqlite.pk_frame [OF s'(4)] show ?thesis
    by (intro exI [of _ 100] exI [of _ s']) simp
qed

lemma empty_neq_upd [simp]: "(\<lambda>x. None) \<noteq> m(k \<mapsto> r)"
  by (metis map_upd_nonempty)

lemma dom_card_0 [simp]: "card (dom (m :: u32 \<Rightarrow> 'r option)) = 0 \<longleftrightarrow> m = Map.empty"
  by (simp add: card_eq_0_iff)

lemma ensure_signed_run:
  assumes ready: "sqlite_ready C (store w)" and C: "libsignal_records_ok C" and clk: "0 \<le> clock w (ticks w)"
  shows "\<exists>t n s'. ensure_signed_pre_key C k w = (Ok (), (advance t n w)\<lparr>store := s'\<rparr>) \<and> sqlite_ready C s' \<and>
    (if sqlite_signed_pre_keys C (store w) = Map.empty
     then \<exists>r. sqlite_signed_pre_keys C s' = [1 \<mapsto> r]
     else sqlite_signed_pre_keys C s' = sqlite_signed_pre_keys C (store w)) \<and>
    sqlite_pre_keys C s' = sqlite_pre_keys C (store w) \<and>
    sqlite_kyber_pre_keys C s' = sqlite_kyber_pre_keys C (store w) \<and> sqlite_others s' = sqlite_others (store w)"
proof (cases "sqlite_signed_pre_keys C (store w) = Map.empty")
  case False
  with sqlite_spk.count_law [OF ready] ready show ?thesis
    by (intro exI [of _ 0] exI [of _ "store w"]) (simp add: ensure_signed_pre_key_def run_defs in_store_at)
next
  case True
  obtain kp g where gen: "generate_signed_pre_key C k 1 w =
      (Ok (signed_pre_key_record_new C 1 (word_of_int (clock w (ticks w))) kp g), advance 1 2 w)"
    using run_generate_signed_pre_key [OF clk C] by blast
  let ?r = "signed_pre_key_record_new C 1 (word_of_int (clock w (ticks w))) kp g"
  have "signed_pre_key_storable C 1 ?r"
    by (simp add: signed_pre_key_storable_def libsignal_records_okD [OF C])
  from sqlite_spk.save_law [OF ready this] obtain s' where
    s': "save_signed_pre_key (signed_pre_key_store (sqlite_container C)) 1 ?r (store w) = (Ok (), s')" "sqlite_ready C s'"
    "sqlite_signed_pre_keys C s' = (sqlite_signed_pre_keys C (store w))(1 \<mapsto> ?r)"
    "without_signed_pre_keys s' = without_signed_pre_keys (store w)" by blast
  have "ensure_signed_pre_key C k w = (Ok (), (advance 1 2 w)\<lparr>store := s'\<rparr>)"
    using True sqlite_spk.count_law [OF ready] s'(1)
    by (simp add: ensure_signed_pre_key_def run_defs in_store_at gen libsignal_records_okD [OF C])
  with True s'(2,3) sqlite.spk_frame [OF s'(4)] show ?thesis
    by (intro exI [of _ 1] exI [of _ 2] exI [of _ s']) auto
qed

lemma ensure_kyber_run:
  assumes ready: "sqlite_ready C (store w)" and C: "libsignal_records_ok C" and clk: "0 \<le> clock w (ticks w)"
  shows "\<exists>t n s'. ensure_kyber_pre_key C k w = (Ok (), (advance t n w)\<lparr>store := s'\<rparr>) \<and> sqlite_ready C s' \<and>
    (if sqlite_kyber_pre_keys C (store w) = Map.empty
     then \<exists>r. sqlite_kyber_pre_keys C s' = [1 \<mapsto> r]
     else sqlite_kyber_pre_keys C s' = sqlite_kyber_pre_keys C (store w)) \<and>
    sqlite_pre_keys C s' = sqlite_pre_keys C (store w) \<and>
    sqlite_signed_pre_keys C s' = sqlite_signed_pre_keys C (store w) \<and> sqlite_others s' = sqlite_others (store w)"
proof (cases "sqlite_kyber_pre_keys C (store w) = Map.empty")
  case False
  with sqlite_kpk.count_law [OF ready] ready show ?thesis
    by (intro exI [of _ 0] exI [of _ "store w"]) (simp add: ensure_kyber_pre_key_def run_defs in_store_at)
next
  case True
  let ?kp = "kem_key_pair_generate C (entropy w (draws w))"
  obtain g where sig: "calculate_signature C (identity_key_pair_private_key C k)
      (kem_public_key_serialize C (kem_key_pair_public_key C ?kp)) (entropy w (Suc (draws w))) = Inr g"
    using libsignal_records_okD(10) [OF C] by blast
  let ?r = "kyber_pre_key_record_new C 1 (word_of_int (clock w (ticks w))) ?kp g"
  have "kyber_pre_key_storable C 1 ?r"
    by (simp add: kyber_pre_key_storable_def libsignal_records_okD [OF C])
  from sqlite_kpk.save_law [OF ready this] obtain s' where
    s': "save_kyber_pre_key (kyber_pre_key_store (sqlite_container C)) 1 ?r (store w) = (Ok (), s')" "sqlite_ready C s'"
    "sqlite_kyber_pre_keys C s' = (sqlite_kyber_pre_keys C (store w))(1 \<mapsto> ?r)"
    "without_kyber_pre_keys s' = without_kyber_pre_keys (store w)" by blast
  have "ensure_kyber_pre_key C k w = (Ok (), (advance 1 2 w)\<lparr>store := s'\<rparr>)"
    using True sqlite_kpk.count_law [OF ready] s'(1) sig clk
    by (simp add: ensure_kyber_pre_key_def run_defs in_store_at run_draw run_now_millis advance_def Let_def)
  with True s'(2,3) sqlite.kpk_frame [OF s'(4)] show ?thesis
    by (intro exI [of _ 1] exI [of _ 2] exI [of _ s']) auto
qed

text \<open>What \<open>ensure_keys_exist\<close> makes of a storage with keys \<open>p\<close>, \<open>s\<close>, \<open>q\<close>.\<close>

definition keys_complete :: "'x libsignal_scheme \<Rightarrow> sqlite_storage \<Rightarrow> bool" where
  "keys_complete L s \<longleftrightarrow> (\<exists>k. local_key L (connection s) = Some k) \<and> 5 \<le> card (dom (sqlite_pre_keys L s)) \<and>
     sqlite_signed_pre_keys L s \<noteq> Map.empty \<and> sqlite_kyber_pre_keys L s \<noteq> Map.empty"

definition keys_extended :: "'x libsignal_scheme \<Rightarrow> sqlite_storage \<Rightarrow> sqlite_storage \<Rightarrow> bool" where
  "keys_extended L s s' \<longleftrightarrow>
     (\<forall>k. local_key L (connection s) = Some k \<longrightarrow> local_key L (connection s') = Some k) \<and>
     (if card (dom (sqlite_pre_keys L s)) < 5
      then \<exists>w :: sqlite_storage sys. sqlite_pre_keys L s' = sqlite_pre_keys L s ++ map_of (first_batch L w)
      else sqlite_pre_keys L s' = sqlite_pre_keys L s) \<and>
     (if sqlite_signed_pre_keys L s = Map.empty then \<exists>r. sqlite_signed_pre_keys L s' = [1 \<mapsto> r]
      else sqlite_signed_pre_keys L s' = sqlite_signed_pre_keys L s) \<and>
     (if sqlite_kyber_pre_keys L s = Map.empty then \<exists>r. sqlite_kyber_pre_keys L s' = [1 \<mapsto> r]
      else sqlite_kyber_pre_keys L s' = sqlite_kyber_pre_keys L s)"

lemma keys_extended_complete:
  assumes "keys_extended L s s'" and "local_key L (connection s') = Some k"
  shows "keys_complete L s'"
proof -
  have "5 \<le> card (dom (sqlite_pre_keys L s'))"
  proof (cases "card (dom (sqlite_pre_keys L s)) < 5")
    case True
    with assms(1) obtain w :: "sqlite_storage sys" where "sqlite_pre_keys L s' = sqlite_pre_keys L s ++ map_of (first_batch L w)"
      by (auto simp: keys_extended_def)
    then have "card (dom (map_of (first_batch L w))) \<le> card (dom (sqlite_pre_keys L s'))"
      by (intro card_mono) auto
    then show ?thesis by (simp add: card_first_batch)
  qed (use assms(1) in \<open>simp add: keys_extended_def\<close>)
  with assms show ?thesis by (auto simp: keys_extended_def keys_complete_def split: if_splits)
qed

lemma others_than_identity_cong: "sqlite_others s' = sqlite_others s \<Longrightarrow> others_than_identity s' = others_than_identity s"
proof -
  have "others_than_identity s = (sqlite_others s)\<lparr>connection := (connection (sqlite_others s))\<lparr>local_identity := None\<rparr>\<rparr>" for s
    by (simp add: others_than_identity_def sqlite_others_def)
  then show "sqlite_others s' = sqlite_others s \<Longrightarrow> ?thesis" by metis
qed

lemma local_key_cong: "sqlite_others s' = sqlite_others s \<Longrightarrow> local_key L (connection s') = local_key L (connection s)"
  by (drule others_frame(1)) (simp add: local_key_def)

lemma ensure_keys_run:
  assumes ready: "sqlite_ready C (store w)" and C: "libsignal_records_ok C" and clk: "\<And>n. 0 \<le> clock w n"
  shows "\<exists>k t n s'. ensure_keys_exist C w = (Ok k, (advance t n w)\<lparr>store := s'\<rparr>) \<and> sqlite_ready C s' \<and>
    local_key C (connection s') = Some k \<and> keys_extended C (store w) s' \<and> others_than_identity s' = others_than_identity (store w) \<and>
    (local_key C (connection (store w)) = None \<longrightarrow> k = identity_key_pair_generate C (entropy w (draws w)))"
proof -
  obtain k n1 s1 where 1: "ensure_identity C w = (Ok k, (advance 0 n1 w)\<lparr>store := s1\<rparr>)" "sqlite_ready C s1"
    "local_key C (connection s1) = Some k" "\<forall>k0. local_key C (connection (store w)) = Some k0 \<longrightarrow> k = k0 \<and> s1 = store w"
    "local_key C (connection (store w)) = None \<longrightarrow> k = identity_key_pair_generate C (entropy w (draws w))"
    "sqlite_pre_keys C s1 = sqlite_pre_keys C (store w)"
    "sqlite_signed_pre_keys C s1 = sqlite_signed_pre_keys C (store w)"
    "sqlite_kyber_pre_keys C s1 = sqlite_kyber_pre_keys C (store w)"
    "others_than_identity s1 = others_than_identity (store w)"
    using ensure_identity_run [OF ready] by metis
  let ?w1 = "(advance 0 n1 w)\<lparr>store := s1\<rparr>"
  obtain n2 s2 where 2: "ensure_pre_keys C ?w1 = (Ok (), (advance 0 n2 ?w1)\<lparr>store := s2\<rparr>)" "sqlite_ready C s2"
    "if card (dom (sqlite_pre_keys C s1)) < 5 then sqlite_pre_keys C s2 = sqlite_pre_keys C s1 ++ map_of (first_batch C ?w1)
     else sqlite_pre_keys C s2 = sqlite_pre_keys C s1"
    "sqlite_signed_pre_keys C s2 = sqlite_signed_pre_keys C s1" "sqlite_kyber_pre_keys C s2 = sqlite_kyber_pre_keys C s1"
    "sqlite_others s2 = sqlite_others s1"
    using ensure_pre_keys_run [of C ?w1] 1(2) C by auto
  let ?w2 = "(advance 0 n2 ?w1)\<lparr>store := s2\<rparr>"
  obtain t3 n3 s3 where 3: "ensure_signed_pre_key C k ?w2 = (Ok (), (advance t3 n3 ?w2)\<lparr>store := s3\<rparr>)" "sqlite_ready C s3"
    "if sqlite_signed_pre_keys C s2 = Map.empty then \<exists>r. sqlite_signed_pre_keys C s3 = [1 \<mapsto> r]
     else sqlite_signed_pre_keys C s3 = sqlite_signed_pre_keys C s2"
    "sqlite_pre_keys C s3 = sqlite_pre_keys C s2" "sqlite_kyber_pre_keys C s3 = sqlite_kyber_pre_keys C s2"
    "sqlite_others s3 = sqlite_others s2"
    using ensure_signed_run [of C ?w2 k, OF _ C] 2(2) clk by (simp del: dom_card_0 cong: if_cong) blast
  let ?w3 = "(advance t3 n3 ?w2)\<lparr>store := s3\<rparr>"
  obtain t4 n4 s4 where 4: "ensure_kyber_pre_key C k ?w3 = (Ok (), (advance t4 n4 ?w3)\<lparr>store := s4\<rparr>)" "sqlite_ready C s4"
    "if sqlite_kyber_pre_keys C s3 = Map.empty then \<exists>r. sqlite_kyber_pre_keys C s4 = [1 \<mapsto> r]
     else sqlite_kyber_pre_keys C s4 = sqlite_kyber_pre_keys C s3"
    "sqlite_pre_keys C s4 = sqlite_pre_keys C s3" "sqlite_signed_pre_keys C s4 = sqlite_signed_pre_keys C s3"
    "sqlite_others s4 = sqlite_others s3"
    using ensure_kyber_run [of C ?w3 k, OF _ C] 3(2) clk by (simp del: dom_card_0 cong: if_cong) blast
  have run: "ensure_keys_exist C w = (Ok k, (advance t4 n4 ?w3)\<lparr>store := s4\<rparr>)"
    by (simp add: ensure_keys_exist_def bindM_at 1(1) 2(1) 3(1) 4(1) run_basic)
  have others: "sqlite_others s4 = sqlite_others s1" using 2(6) 3(6) 4(6) by simp
  have "keys_extended C (store w) s4"
    unfolding keys_extended_def
    using 1(3,4,6-8) 2(3-5) 3(3-5) 4(3-5) local_key_cong [OF others, of C]
    by (intro conjI) (fastforce split: if_splits)+
  then show ?thesis
    using run 4(2) 1(3,5,9) local_key_cong [OF others, of C] others_than_identity_cong [OF others]
    by (intro exI [of _ k] exI [of _ "t3 + t4"] exI [of _ "n1 + n2 + n3 + n4"] exI [of _ s4]) (simp add: advance_def)
qed

lemma run_counts:
  assumes "sqlite_ready L s"
  shows "session_count (session_store (sqlite_container L)) s = (Ok (length (sessions (connection s))), s)"
    "identity_count (identity_store (sqlite_container L)) s = (Ok (length (identity_keys (connection s))), s)"
  using servingD [OF readyD [OF assms]]
  by (simp_all add: sqlite_container_def run_via [OF assms] sqlite_session_count_def sqlite_identity_count_def
      with_lock_def run_defs run_statements unwrapM_def)

text \<open>The data start-up has no business with.\<close>

definition user_data ::
    "db \<Rightarrow> session_row list \<times> identity_row list \<times> contact_row list \<times> conversation_row list \<times> message_row list \<times>
      (string \<times> string) list \<times> (int \<times> int \<times> int \<times> int) option" where
  "user_data d = (sessions d, identity_keys d, contacts d, conversations d, messages d, settings d, bundle_metadata d)"

lemma user_data_others: "others_than_identity s' = others_than_identity s \<Longrightarrow> user_data (connection s') = user_data (connection s)"
proof -
  have "user_data (connection s) = user_data (connection (others_than_identity s))" for s
    by (simp add: user_data_def others_than_identity_def sqlite_others_def)
  then show "others_than_identity s' = others_than_identity s \<Longrightarrow> ?thesis" by metis
qed

lemma opened_at:
  assumes "openable L d" and "\<And>d. f (contents d) = f d"
  shows "f (connection (opened d)) = f d"
  using arg_cong [OF migrated_serving(2) [OF assms(1)], of f] by (simp add: assms(2))

lemma opened_frame:
  assumes "openable L d"
  shows "user_data (connection (opened d)) = user_data d"
    "keys_extended L (opened d) s' \<Longrightarrow> keys_extended L (sqlite_storage_new d) s'"
proof -
  note at = opened_at [OF assms]
  show "user_data (connection (opened d)) = user_data d"
    by (rule at) (simp add: user_data_def contents_def)
  have "pre_keys (connection (opened d)) = pre_keys d" "signed_pre_keys (connection (opened d)) = signed_pre_keys d"
    "kyber_pre_keys (connection (opened d)) = kyber_pre_keys d" "local_identity (connection (opened d)) = local_identity d"
    by (rule at, simp add: contents_def)+
  then show "keys_extended L (opened d) s' \<Longrightarrow> keys_extended L (sqlite_storage_new d) s'"
    by (simp add: keys_extended_def local_key_def sqlite_pre_keys_def sqlite_signed_pre_keys_def sqlite_kyber_pre_keys_def
        sqlite_storage_new_def del: connection_opened cong: if_cong)
qed

text \<open>
  C8. Starting the bridge on a new database or on one left by an earlier run succeeds and leaves a
  storage that serves calls and holds an identity, at least five one-time pre-keys, a signed and a
  Kyber pre-key. The identity, a pool of five or more, the signed and the Kyber
  pre-keys that were there stay, and so do all sessions, peers, contacts, conversations, messages and
  settings. A pool of fewer than five is not kept: the keys 1 to 100 are written over it, so that of
  its keys only those with greater numbers are the same afterwards.
\<close>

theorem bridge_starts:
  assumes "openable C d" and "libsignal_records_ok C" and "\<And>n. 0 \<le> clock w n" and "store w = sqlite_storage_new d"
  shows "\<exists>t n s. start_bridge C w = (Ok (), (advance t n w)\<lparr>store := s\<rparr>) \<and> sqlite_ready C s \<and>
    keys_complete C s \<and> keys_extended C (sqlite_storage_new d) s \<and> user_data (connection s) = user_data d"
proof -
  let ?w = "w\<lparr>store := opened d\<rparr>"
  have "sqlite_ready C (store ?w)" using opened_ready [OF assms(1)] by simp
  from ensure_keys_run [OF this assms(2), of] assms(3) obtain k t n s where
    s: "ensure_keys_exist C ?w = (Ok k, (advance t n ?w)\<lparr>store := s\<rparr>)" "sqlite_ready C s"
    "local_key C (connection s) = Some k" "keys_extended C (opened d) s"
    "others_than_identity s = others_than_identity (opened d)" by auto
  have version: "\<not> current_version d < 1" by (simp add: current_version_def split: list.split)
  have "start_bridge C w = (Ok (), (advance t n w)\<lparr>store := s\<rparr>)"
    using s(1) version run_counts [OF s(2)] sqlite_pk.count_law [OF s(2)] sqlite_spk.count_law [OF s(2)] sqlite_kpk.count_law [OF s(2)]
    by (simp add: start_bridge_def run_defs in_store_at assms(4) run_initialize [OF assms(1)]
        run_get_schema_version [OF assms(1)] advance_def)
  moreover have "user_data (connection s) = user_data d"
    using user_data_others [OF s(5)] opened_frame(1) [OF assms(1)] by simp
  ultimately show ?thesis
    using s(2) keys_extended_complete [OF s(4,3)] opened_frame(2) [OF assms(1) s(4)] by blast
qed

theorem bridge_starts_witness:
  "\<exists>t n s. start_bridge sample_crates (sample_sys (sqlite_storage_new (empty_db True))) =
      (Ok (), (advance t n (sample_sys (sqlite_storage_new (empty_db True))))\<lparr>store := s\<rparr>) \<and>
    keys_complete sample_crates s \<and> user_data (connection s) = user_data (empty_db True)"
proof -
  have "openable sample_crates (empty_db True)" by (rule openable_empty) (rule crates_okD(1) [OF sample_crates_ok])
  then show ?thesis
    using bridge_starts [of sample_crates "empty_db True" "sample_sys (sqlite_storage_new (empty_db True))"]
    by (auto simp: sample_sys_def)
qed

end
