(* ===== verification/Bridge_Bundle.thy ===== *)
theory Bridge_Bundle
  imports Bridge_Correct
begin

text \<open>
  Pre-key bundles: the bundle a node announces carries its newest keys and is read back by a peer
  as the same bundle, a node never adds itself as a contact, and what a malformed bundle does.
\<close>

section \<open>The announced bundle\<close>

lemma run_get_local_registration_id:
  assumes "sqlite_ready L s" and "local_key L (connection s) = Some k"
  shows "\<exists>reg. get_local_registration_id (identity_store (sqlite_container L)) s = (Ok reg, s)"
proof -
  obtain r where "local_identity (connection s) = Some r" using assms(2) by (auto simp: local_key_def split: option.splits)
  moreover have "\<exists>reg. get_u32 (registration_id r) = Inr reg"
    using servingD(4) [OF readyD [OF assms(1)]] calculation by (auto simp: db_wf_def get_u32_def)
  ultimately show ?thesis
    using servingD [OF readyD [OF assms(1)]]
    by (auto simp: sqlite_container_def run_via [OF assms(1)] sqlite_get_local_registration_id_def with_lock_def run_defs
        run_statements)
qed

lemma bundles_okE:
  assumes "bundles_ok C"
  obtains b where "pre_key_bundle_new C r d p i k g j q h y = Inr b"
    "pre_key_bundle_registration_id C b = Inr r" "pre_key_bundle_device_id C b = Inr d"
    "pre_key_bundle_pre_key_id C b = Inr (map_option fst p)" "pre_key_bundle_pre_key_public C b = Inr (map_option snd p)"
    "pre_key_bundle_signed_pre_key_id C b = Inr i" "pre_key_bundle_signed_pre_key_public C b = Inr k"
    "pre_key_bundle_signed_pre_key_signature C b = Inr g" "pre_key_bundle_kyber_pre_key_id C b = Inr j"
    "pre_key_bundle_kyber_pre_key_public C b = Inr q" "pre_key_bundle_kyber_pre_key_signature C b = Inr h"
    "pre_key_bundle_identity_key C b = Inr y"
  using assms unfolding bundles_ok_def by metis

lemma codecs_okD:
  assumes "codecs_ok C"
  shows "bincode_serialize C v = Inr b \<Longrightarrow> bincode_deserialize C b = Inr v"
    "base64_decode C (base64_encode C b) = Inr b"
    "json_exact j \<Longrightarrow> json_to_string C j = Inr t \<Longrightarrow> json_from_str C t = Inr j"
    "public_key_deserialize C (public_key_serialize C k) = Inr k"
    "kem_public_key_deserialize C (kem_public_key_serialize C q) = Inr q"
  using assms by (simp_all add: codecs_ok_def)

text \<open>A bundle written as \<open>SerializablePreKeyBundle\<close> is parsed as the bundle it came from.\<close>

lemma written_bundle_parses:
  assumes "libsignal_ok C" and "codecs_ok C" and "bundles_ok C"
    and "pre_key_bundle_new C r 1 (Some (p, pk)) i k g j q h y = Inr bundle"
  shows "\<exists>b. (\<forall>w. serializable_of_bundle C bundle w = (Ok b, w)) \<and> (\<forall>v. parse_bundle C b v = (Ok bundle, v)) \<and>
    bundle_identity_key b = identity_key_serialize C y"
proof -
  obtain b where "pre_key_bundle_new C r 1 (Some (p, pk)) i k g j q h y = Inr b"
    "pre_key_bundle_registration_id C b = Inr r" "pre_key_bundle_device_id C b = Inr 1"
    "pre_key_bundle_pre_key_id C b = Inr (Some p)" "pre_key_bundle_pre_key_public C b = Inr (Some pk)"
    "pre_key_bundle_signed_pre_key_id C b = Inr i" "pre_key_bundle_signed_pre_key_public C b = Inr k"
    "pre_key_bundle_signed_pre_key_signature C b = Inr g" "pre_key_bundle_kyber_pre_key_id C b = Inr j"
    "pre_key_bundle_kyber_pre_key_public C b = Inr q" "pre_key_bundle_kyber_pre_key_signature C b = Inr h"
    "pre_key_bundle_identity_key C b = Inr y"
    using bundles_okE [OF assms(3), of r 1 "Some (p, pk)" i k g j q h y] by auto
  with assms(4) show ?thesis
    by (simp add: serializable_of_bundle_def parse_bundle_def run_defs u32_to_u8_def
        libsignal_okD [OF assms(1)] codecs_okD [OF assms(2)])
qed

text \<open>The key of each kind with the greatest number, and what a bundle says about it.\<close>

definition newest_pre_key :: "'x crates_scheme \<Rightarrow> sqlite_storage \<Rightarrow> u32 \<Rightarrow> public_key \<Rightarrow> bool" where
  "newest_pre_key C s p pk \<longleftrightarrow> greatest (sqlite_pre_keys C s) = Some p \<and>
     (\<exists>r kp. sqlite_pre_keys C s p = Some r \<and> pre_key_record_key_pair C r = Inr kp \<and> pk = key_pair_public_key C kp)"

definition newest_signed_pre_key ::
    "'x crates_scheme \<Rightarrow> sqlite_storage \<Rightarrow> u32 \<Rightarrow> u32 \<Rightarrow> public_key \<Rightarrow> bytes \<Rightarrow> bool" where
  "newest_signed_pre_key C s n i k g \<longleftrightarrow> greatest (sqlite_signed_pre_keys C s) = Some n \<and>
     (\<exists>r. sqlite_signed_pre_keys C s n = Some r \<and> signed_pre_key_record_id C r = Inr i \<and>
       signed_pre_key_record_public_key C r = Inr k \<and> signed_pre_key_record_signature C r = Inr g)"

definition newest_kyber_pre_key ::
    "'x crates_scheme \<Rightarrow> sqlite_storage \<Rightarrow> u32 \<Rightarrow> kem_public_key \<Rightarrow> bytes \<Rightarrow> bool" where
  "newest_kyber_pre_key C s n q h \<longleftrightarrow> greatest (sqlite_kyber_pre_keys C s) = Some n \<and>
     (\<exists>r kp. sqlite_kyber_pre_keys C s n = Some r \<and> kyber_pre_key_record_key_pair C r = Inr kp \<and>
       q = kem_key_pair_public_key C kp \<and> kyber_pre_key_record_signature C r = Inr h)"

lemma run_generate_pre_key_bundle:
  assumes ready: "sqlite_ready C (store w)" and key: "local_key C (connection (store w)) = Some k"
    and newest: "newest_pre_key C (store w) p pk" "newest_signed_pre_key C (store w) n i sk g"
      "newest_kyber_pre_key C (store w) m q h"
    and C: "codecs_ok C" "bundles_ok C" and wrote: "\<And>b. \<exists>x. bincode_serialize C b = Inr x"
  shows "\<exists>reg bundle b bytes. bridge_generate_pre_key_bundle C w = (Ok (bytes, p, n, m), w) \<and>
    pre_key_bundle_new C reg 1 (Some (p, pk)) i sk g m q h (identity_key_pair_identity_key C k) = Inr bundle \<and>
    bincode_serialize C b = Inr bytes \<and> bincode_deserialize C bytes = Inr b \<and>
    (\<forall>v. parse_bundle C b v = (Ok bundle, v)) \<and>
    bundle_identity_key b = identity_key_serialize C (identity_key_pair_identity_key C k)"
proof -
  note L = servingD(5) [OF readyD [OF ready]]
  obtain reg where reg: "get_local_registration_id (identity_store (sqlite_container C)) (store w) = (Ok reg, store w)"
    using run_get_local_registration_id [OF ready key] by blast
  obtain pkb where b: "pre_key_bundle_new C reg 1 (Some (p, pk)) i sk g m q h (identity_key_pair_identity_key C k) = Inr pkb"
    using bundles_okE [OF C(2)] by metis
  obtain b where s: "\<forall>v. serializable_of_bundle C pkb v = (Ok b, v)" "\<forall>v. parse_bundle C b v = (Ok pkb, v)"
    "bundle_identity_key b = identity_key_serialize C (identity_key_pair_identity_key C k)"
    using written_bundle_parses [OF L C b] by blast
  obtain x where x: "bincode_serialize C b = Inr x" using wrote by blast
  obtain r kp sr kr kkp where keys: "greatest (sqlite_pre_keys C (store w)) = Some p"
    "get_pre_key (pre_key_store (sqlite_container C)) p (store w) = (Ok r, store w)"
    "pre_key_record_key_pair C r = Inr kp" "pk = key_pair_public_key C kp"
    "greatest (sqlite_signed_pre_keys C (store w)) = Some n"
    "get_signed_pre_key (signed_pre_key_store (sqlite_container C)) n (store w) = (Ok sr, store w)"
    "signed_pre_key_record_id C sr = Inr i" "signed_pre_key_record_public_key C sr = Inr sk"
    "signed_pre_key_record_signature C sr = Inr g" "greatest (sqlite_kyber_pre_keys C (store w)) = Some m"
    "get_kyber_pre_key (kyber_pre_key_store (sqlite_container C)) m (store w) = (Ok kr, store w)"
    "kyber_pre_key_record_key_pair C kr = Inr kkp" "q = kem_key_pair_public_key C kkp" "kyber_pre_key_record_signature C kr = Inr h"
    using newest sqlite_pk.get_law [OF ready] sqlite_spk.get_law [OF ready] sqlite_kpk.get_law [OF ready]
    unfolding newest_pre_key_def newest_signed_pre_key_def newest_kyber_pre_key_def by blast
  have "bridge_generate_pre_key_bundle C w = (Ok (x, p, n, m), w)"
    using keys s x b reg
    by (simp add: bridge_generate_pre_key_bundle_def bundle_of_records_def available_def device_one_def Let_def
        libsignal_okD [OF L] run_get_identity_key_pair(1) [OF ready key] sqlite_pk.max_law [OF ready]
        sqlite_spk.max_law [OF ready] sqlite_kpk.max_law [OF ready] in_store_at run_defs)
  with b s(2,3) x codecs_okD(1) [OF C(1) x] show ?thesis by blast
qed

text \<open>
  C10. The bundle a node generates carries the keys with the greatest numbers, and a peer that
  decodes and parses the bytes gets exactly the bundle of these public keys, signatures and numbers
  and of the node's identity. Generating it changes nothing.
\<close>

theorem announced_bundle_roundtrip:
  assumes "sqlite_ready C (store w)" and "local_key C (connection (store w)) = Some k"
    and "newest_pre_key C (store w) p pk" and "newest_signed_pre_key C (store w) n i sk g"
    and "newest_kyber_pre_key C (store w) m q h"
    and "codecs_ok C" and "bundles_ok C" and "\<And>b. \<exists>x. bincode_serialize C b = Inr x"
  shows "\<exists>reg bundle b bytes. bridge_generate_pre_key_bundle C w = (Ok (bytes, p, n, m), w) \<and>
    bincode_deserialize C bytes = Inr b \<and> parse_bundle C b v = (Ok bundle, v) \<and>
    pre_key_bundle_new C reg 1 (Some (p, pk)) i sk g m q h (identity_key_pair_identity_key C k) = Inr bundle"
  using run_generate_pre_key_bundle [OF assms] by blast

text \<open>
  C17. A node that receives its own bundle, as it does from every relay it published to, rejects it
  and changes nothing.
\<close>

theorem own_bundle_rejected:
  assumes "sqlite_ready C (store w)" and "local_key C (connection (store w)) = Some k"
    and "newest_pre_key C (store w) p pk" and "newest_signed_pre_key C (store w) n i sk g"
    and "newest_kyber_pre_key C (store w) m q h"
    and "codecs_ok C" and "bundles_ok C" and "\<And>b. \<exists>x. bincode_serialize C b = Inr x"
  shows "\<exists>bytes. bridge_generate_pre_key_bundle C w = (Ok (bytes, p, n, m), w) \<and>
    bridge_add_contact_and_establish_session C bytes alias w =
      (Err (InvalidInput [Lit ''Ignoring bundle from self'']), w)"
proof -
  obtain b bytes where b: "bridge_generate_pre_key_bundle C w = (Ok (bytes, p, n, m), w)" "bincode_deserialize C bytes = Inr b"
    "bundle_identity_key b = identity_key_serialize C (identity_key_pair_identity_key C k)"
    using run_generate_pre_key_bundle [OF assms] by blast
  have "bridge_add_contact_and_establish_session C bytes alias w =
      (Err (InvalidInput [Lit ''Ignoring bundle from self'']), w)"
    using b(2,3) libsignal_okD(2) [OF servingD(5) [OF readyD [OF assms(1)]]]
    by (simp add: bridge_add_contact_and_establish_session_def run_defs in_store_at
        run_get_identity_key_pair(1) [OF assms(1,2)])
  with b(1) show ?thesis by blast
qed

section \<open>A bundle without its one-time pre-key\<close>

lemma run_checked_session_store: "sqlite_ready C (store w) \<Longrightarrow> checked_session_store C f w = f (session_store (sqlite_stores C)) w"
  by (simp add: checked_session_store_def open_handle_def expect_handle_def sqlite_ready_def bindM_at in_store_at run_defs)

lemma fingerprint_not_Nil [simp]: "generate_identity_fingerprint_from_key C k \<noteq> []"
  by (simp add: generate_identity_fingerprint_from_key_def)

text \<open>
  C19. A bundle that names a one-time pre-key but does not carry it stops the program: the contact is
  written, then unwrapping the missing key panics.
\<close>

theorem incomplete_bundle_panics:
  assumes "sqlite_ready C (store w)" and "local_key C (connection (store w)) = Some own"
    and "readable_bundle C bytes b k npub" and "clock_sane w" and "bytes \<noteq> []"
    and "identity_key_public_key C k \<noteq> identity_key_public_key C (identity_key_pair_identity_key C own)"
    and "bundle_device_id b = 1" and "bundle_pre_key_id b = Some i" and "bundle_pre_key_public b = None"
  shows "bridge_add_contact_and_establish_session C bytes alias w =
    (Panic ''called `Option::unwrap()` on a `None` value'',
     snd (add_contact_from_bundle C bytes alias w))"
proof -
  note add = run_add_contact_from_bundle [OF assms(1,3,4), of "alias"]
  note L = servingD(5) [OF readyD [OF assms(1)]]
  have b: "bincode_deserialize C bytes = Inr b" "identity_key_decode C (bundle_identity_key b) = Inr k"
    using assms(3) by (simp_all add: readable_bundle_def)
  show ?thesis
    using assms(5-9) b
    by (simp add: bridge_add_contact_and_establish_session_def bridge_add_contact_from_bundle_def
        run_checked_session_store [OF assms(1)] add bridge_establish_session_def specify_peer_def parse_bundle_def
        u32_to_u8_def libsignal_okD [OF L] run_defs in_store_at run_get_identity_key_pair(1) [OF assms(1,2)])
qed

section \<open>A storage with one key of each kind, used by the witnesses\<close>

definition sample_row :: "bytes \<Rightarrow> signed_key_row" where
  "sample_row b = \<lparr>signed_row_id = 1, signed_key_data = b, signed_signature = [], signed_created_at = 1700000000,
     signed_expires_at = 1702592000, signed_is_current = False\<rparr>"

definition keyed_storage :: sqlite_storage where
  "keyed_storage = sample_storage\<lparr>connection := with_identity sample_crates (IdentityKeyPair [7]) 9 ((connection sample_storage)\<lparr>
     pre_keys := [\<lparr>pre_key_row_id = 1, pre_key_data = record_bytes 1 0 [8] []\<rparr>],
     signed_pre_keys := [sample_row (record_bytes 1 1700000000000 [9] [10])],
     kyber_pre_keys := [sample_row (record_bytes 1 1700000000000 [11] [12])]\<rparr>)\<rparr>"

lemma keyed_storage_ready: "sqlite_ready sample_crates keyed_storage"
proof -
  have ready: "sqlite_ready sample_crates sample_storage" by (simp add: crates_okD(1) [OF sample_crates_ok])
  note serve = servingD [OF readyD [OF ready]]
  have "db_wf sample_crates (connection keyed_storage)"
    unfolding keyed_storage_def using serve(4)
    by (simp add: with_identity_def db_wf_def sample_row_def signed_row_ok_def numbered_def u64_as_i64_def sample_crates_defs sample_libsignal_def)
  then show ?thesis
    using serve unfolding keyed_storage_def by (intro ready_update [OF ready]) simp_all
qed

lemma keyed_storage_key: "local_key sample_crates (connection keyed_storage) = Some (IdentityKeyPair [7])"
  using local_key_with_identity [OF crates_okD(1) [OF sample_crates_ok]] by (simp add: keyed_storage_def)

lemma uint_is_1: "uint (x :: u32) = 1 \<longleftrightarrow> x = 1"
  using uint_eq_uint_iff [of x 1] by simp

lemma keyed_storage_keys:
  "sqlite_pre_keys sample_crates keyed_storage = [1 \<mapsto> PreKeyRecord (record_bytes 1 0 [8] [])]"
  "sqlite_signed_pre_keys sample_crates keyed_storage = [1 \<mapsto> SignedPreKeyRecord (record_bytes 1 1700000000000 [9] [10])]"
  "sqlite_kyber_pre_keys sample_crates keyed_storage = [1 \<mapsto> KyberPreKeyRecord (record_bytes 1 1700000000000 [11] [12])]"
  by (auto simp: keyed_storage_def sqlite_pre_keys_def sqlite_signed_pre_keys_def sqlite_kyber_pre_keys_def row_map_def
      sample_row_def fun_eq_iff sample_crates_defs sample_libsignal_def lookup_row_def uint_is_1)

lemma greatest_single [simp]: "greatest [i \<mapsto> r] = Some i"
  by (simp add: greatest_def)

lemma sample_readers:
  "pre_key_record_key_pair sample_crates (PreKeyRecord b) = Inr (KeyPair (record_key b))"
  "key_pair_public_key sample_crates (KeyPair b) = PublicKey b"
  "signed_pre_key_record_id sample_crates (SignedPreKeyRecord b) = Inr (record_number b)"
  "signed_pre_key_record_public_key sample_crates (SignedPreKeyRecord b) = Inr (PublicKey (record_key b))"
  "signed_pre_key_record_signature sample_crates (SignedPreKeyRecord b) = Inr (record_signature b)"
  "kyber_pre_key_record_key_pair sample_crates (KyberPreKeyRecord b) = Inr (KemKeyPair (record_key b))"
  "kem_key_pair_public_key sample_crates (KemKeyPair b) = KemPublicKey b"
  "kyber_pre_key_record_signature sample_crates (KyberPreKeyRecord b) = Inr (record_signature b)"
  "identity_key_public_key sample_crates (IdentityKey b) = PublicKey b"
  "identity_key_pair_identity_key sample_crates (IdentityKeyPair b) = IdentityKey b"
  by (simp_all add: sample_crates_defs sample_libsignal_def)

lemma keyed_storage_newest:
  "newest_pre_key sample_crates keyed_storage 1 (PublicKey [8])"
  "newest_signed_pre_key sample_crates keyed_storage 1 1 (PublicKey [9]) [10]"
  "newest_kyber_pre_key sample_crates keyed_storage 1 (KemPublicKey [11]) [12]"
  by (simp_all add: newest_pre_key_def newest_signed_pre_key_def newest_kyber_pre_key_def keyed_storage_keys sample_readers)

lemma sample_bincode_total: "\<exists>x. bincode_serialize sample_crates b = Inr x"
  by (simp add: sample_crates_defs)

theorem announced_bundle_roundtrip_witness:
  "\<exists>reg bundle b bytes. bridge_generate_pre_key_bundle sample_crates (sample_sys keyed_storage) =
      (Ok (bytes, 1, 1, 1), sample_sys keyed_storage) \<and>
    bincode_deserialize sample_crates bytes = Inr b \<and> parse_bundle sample_crates b (contact_sys []) = (Ok bundle, contact_sys []) \<and>
    pre_key_bundle_new sample_crates reg 1 (Some (1, PublicKey [8])) 1 (PublicKey [9]) [10] 1 (KemPublicKey [11]) [12]
      (identity_key_pair_identity_key sample_crates (IdentityKeyPair [7])) = Inr bundle"
  by (rule announced_bundle_roundtrip)
    (simp_all add: keyed_storage_ready keyed_storage_key keyed_storage_newest sample_bincode_total)

theorem own_bundle_rejected_witness:
  "\<exists>bytes. bridge_generate_pre_key_bundle sample_crates (sample_sys keyed_storage) =
      (Ok (bytes, 1, 1, 1), sample_sys keyed_storage) \<and>
    bridge_add_contact_and_establish_session sample_crates bytes None (sample_sys keyed_storage) =
      (Err (InvalidInput [Lit ''Ignoring bundle from self'']), sample_sys keyed_storage)"
  by (rule own_bundle_rejected [where k = "IdentityKeyPair [7]" and pk = "PublicKey [8]" and i = 1 and sk = "PublicKey [9]"
      and g = "[10]" and q = "KemPublicKey [11]" and h = "[12]"])
    (simp_all add: keyed_storage_ready keyed_storage_key keyed_storage_newest sample_bincode_total)

theorem incomplete_bundle_panics_witness:
  "bridge_add_contact_and_establish_session sample_crates (bundle_bytes (sample_bundle\<lparr>bundle_pre_key_public := None\<rparr>)) None
      (sample_sys keyed_storage) =
    (Panic ''called `Option::unwrap()` on a `None` value'',
     snd (add_contact_from_bundle sample_crates (bundle_bytes (sample_bundle\<lparr>bundle_pre_key_public := None\<rparr>)) None
       (sample_sys keyed_storage)))"
proof -
  let ?b = "sample_bundle\<lparr>bundle_pre_key_public := None\<rparr>"
  have "readable_bundle sample_crates (bundle_bytes ?b) ?b sample_key sample_npub"
    using sample_readable by (simp add: readable_bundle_def sample_crates_defs)
  moreover have "bundle_bytes ?b \<noteq> []" by (simp add: bundle_bytes_def put_u32_def put_field_def)
  ultimately show ?thesis
    by (intro incomplete_bundle_panics [where own = "IdentityKeyPair [7]" and k = sample_key and npub = sample_npub and b = ?b and i = 3])
      (simp_all add: keyed_storage_ready keyed_storage_key clock_sane_def sample_sys_def sample_bundle_def
        sample_key_def sample_readers)
qed

end
