(* ===== verification/Bridge_Keys.thy ===== *)
theory Bridge_Keys
  imports Bridge_Bundle
begin

text \<open>
  The life of the keys: resetting the identity replaces the identity and every key and forgets every
  session and peer but keeps contacts and history, and a round of key maintenance rotates what is
  due, removes what has expired and fills the pool of one-time pre-keys.
\<close>

section \<open>Resetting the identity\<close>

lemma run_clears:
  assumes "sqlite_ready L s"
  shows "clear_all_sessions (session_store (sqlite_container L)) s = (Ok (), s\<lparr>connection := (connection s)\<lparr>sessions := []\<rparr>\<rparr>)"
    "clear_all_identities (identity_store (sqlite_container L)) s = (Ok (), s\<lparr>connection := (connection s)\<lparr>identity_keys := []\<rparr>\<rparr>)"
    "clear_all_pre_keys (pre_key_store (sqlite_container L)) s = (Ok (), s\<lparr>connection := (connection s)\<lparr>pre_keys := []\<rparr>\<rparr>)"
    "clear_all_signed_pre_keys (signed_pre_key_store (sqlite_container L)) s =
      (Ok (), s\<lparr>connection := (connection s)\<lparr>signed_pre_keys := []\<rparr>\<rparr>)"
    "clear_all_kyber_pre_keys (kyber_pre_key_store (sqlite_container L)) s =
      (Ok (), s\<lparr>connection := (connection s)\<lparr>kyber_pre_keys := []\<rparr>\<rparr>)"
    "clear_local_identity (identity_store (sqlite_container L)) s = (Ok (), s\<lparr>connection := (connection s)\<lparr>local_identity := None\<rparr>\<rparr>)"
  using servingD [OF readyD [OF assms]]
  by (simp_all add: sqlite_container_def run_via [OF assms] sqlite_clear_all_sessions_def sqlite_clear_all_identities_def
      sqlite_clear_all_pre_keys_def sqlite_clear_all_signed_pre_keys_def sqlite_clear_all_kyber_pre_keys_def
      sqlite_clear_local_identity_def with_lock_def mapErr_at run_statements)

lemma ready_clears:
  assumes "sqlite_ready L s"
  shows "sqlite_ready L (s\<lparr>connection := (connection s)\<lparr>sessions := []\<rparr>\<rparr>)"
    "sqlite_ready L (s\<lparr>connection := (connection s)\<lparr>identity_keys := []\<rparr>\<rparr>)"
    "sqlite_ready L (s\<lparr>connection := (connection s)\<lparr>pre_keys := []\<rparr>\<rparr>)"
    "sqlite_ready L (s\<lparr>connection := (connection s)\<lparr>signed_pre_keys := []\<rparr>\<rparr>)"
    "sqlite_ready L (s\<lparr>connection := (connection s)\<lparr>kyber_pre_keys := []\<rparr>\<rparr>)"
    "sqlite_ready L (s\<lparr>connection := (connection s)\<lparr>local_identity := None\<rparr>\<rparr>)"
  using servingD [OF readyD [OF assms]]
  by (auto intro!: ready_update [OF assms] simp: db_wf_def numbered_def)

definition without_peers :: "sqlite_storage \<Rightarrow> sqlite_storage" where
  "without_peers s = s\<lparr>connection := (connection s)\<lparr>sessions := [], identity_keys := []\<rparr>\<rparr>"

lemma run_clear_all_sessions:
  assumes "sqlite_ready C (store w)"
  shows "bridge_clear_all_sessions C w = (Ok (), w\<lparr>store := without_peers (store w)\<rparr>)"
    "sqlite_ready C (without_peers (store w))"
proof -
  let ?s = "store w"
  have 1: "sqlite_ready C (?s\<lparr>connection := (connection ?s)\<lparr>sessions := []\<rparr>\<rparr>)" using ready_clears(1) [OF assms] .
  from ready_clears(2) [OF this] show "sqlite_ready C (without_peers ?s)" by (simp add: without_peers_def)
  show "bridge_clear_all_sessions C w = (Ok (), w\<lparr>store := without_peers ?s\<rparr>)"
    using run_clears(2) [OF 1]
    by (auto simp: bridge_clear_all_sessions_def run_defs in_store_at run_counts [OF assms] run_clears(1) [OF assms]
        without_peers_def)
qed

definition without_keys :: "sqlite_storage \<Rightarrow> sqlite_storage" where
  "without_keys s = s\<lparr>connection := (connection s)\<lparr>pre_keys := [], signed_pre_keys := [], kyber_pre_keys := [],
     local_identity := None\<rparr>\<rparr>"

lemma run_clear_keys:
  assumes "sqlite_ready C s"
  shows "bindM (clear_all_pre_keys (pre_key_store (sqlite_container C))) (\<lambda>_.
     bindM (clear_all_signed_pre_keys (signed_pre_key_store (sqlite_container C))) (\<lambda>_.
     bindM (clear_all_kyber_pre_keys (kyber_pre_key_store (sqlite_container C))) (\<lambda>_.
     clear_local_identity (identity_store (sqlite_container C))))) s = (Ok (), without_keys s)"
    "sqlite_ready C (without_keys s)"
proof -
  note 1 = ready_clears(3) [OF assms]
  note 2 = ready_clears(4) [OF 1]
  note 3 = ready_clears(5) [OF 2]
  from ready_clears(6) [OF 3] show "sqlite_ready C (without_keys s)" by (simp add: without_keys_def)
  show "bindM (clear_all_pre_keys (pre_key_store (sqlite_container C))) (\<lambda>_.
     bindM (clear_all_signed_pre_keys (signed_pre_key_store (sqlite_container C))) (\<lambda>_.
     bindM (clear_all_kyber_pre_keys (kyber_pre_key_store (sqlite_container C))) (\<lambda>_.
     clear_local_identity (identity_store (sqlite_container C))))) s = (Ok (), without_keys s)"
    using run_clears(4) [OF 1] run_clears(5) [OF 2] run_clears(6) [OF 3]
    by (simp add: bindM_at run_clears(3) [OF assms] without_keys_def)
qed

lemma without_keys_empty:
  "sqlite_pre_keys L (without_keys s) = Map.empty" "sqlite_signed_pre_keys L (without_keys s) = Map.empty"
  "sqlite_kyber_pre_keys L (without_keys s) = Map.empty" "local_key L (connection (without_keys s)) = None"
  by (simp_all add: without_keys_def sqlite_pre_keys_def sqlite_signed_pre_keys_def sqlite_kyber_pre_keys_def row_map_def
      local_key_def fun_eq_iff lookup_row_def)

text \<open>
  C11. Resetting the identity succeeds on a serving storage. It leaves no session and no peer
  identity, a newly generated identity, the one-time pre-keys 1 to 100 and one signed and one Kyber
  pre-key; contacts, conversations and messages are kept.
\<close>

theorem identity_reset:
  assumes "sqlite_ready C (store w)" and "libsignal_records_ok C" and "\<And>n. 0 \<le> clock w n"
  shows "\<exists>t n s w' r q. bridge_reset_identity C w = (Ok (), (advance t n w)\<lparr>store := s\<rparr>) \<and> sqlite_ready C s \<and>
    sessions (connection s) = [] \<and> identity_keys (connection s) = [] \<and>
    local_key C (connection s) = Some (identity_key_pair_generate C (entropy w (draws w))) \<and>
    sqlite_pre_keys C s = map_of (first_batch C (w' :: sqlite_storage sys)) \<and>
    sqlite_signed_pre_keys C s = [1 \<mapsto> r] \<and> sqlite_kyber_pre_keys C s = [1 \<mapsto> q] \<and>
    contacts (connection s) = contacts (connection (store w)) \<and>
    conversations (connection s) = conversations (connection (store w)) \<and>
    messages (connection s) = messages (connection (store w))"
proof -
  let ?s0 = "without_keys (without_peers (store w))" let ?w0 = "w\<lparr>store := ?s0\<rparr>"
  note peers = run_clear_all_sessions [OF assms(1)]
  note cleared = run_clear_keys [OF peers(2)]
  have "sqlite_ready C (store ?w0)" using cleared(2) by simp
  from ensure_keys_run [OF this assms(2)] assms(3) obtain k t n s where
    s: "ensure_keys_exist C ?w0 = (Ok k, (advance t n ?w0)\<lparr>store := s\<rparr>)" "sqlite_ready C s"
    "local_key C (connection s) = Some k" "keys_extended C ?s0 s" "others_than_identity s = others_than_identity ?s0"
    "k = identity_key_pair_generate C (entropy w (draws w))" by (auto simp: without_keys_empty)
  have "bridge_reset_identity C w = (Ok (), (advance t n w)\<lparr>store := s\<rparr>)"
    using s(1) cleared(1)
    by (simp add: bridge_reset_identity_def bindM_at [of "bridge_clear_all_sessions C"] peers(1) mapErr_at
        bindM_at [of "mapErr _ _"] bindM_at [of "ensure_keys_exist C"] run_basic in_store_at advance_def flip: in_store_bindM)
  moreover have "\<exists>w' r q. sqlite_pre_keys C s = map_of (first_batch C (w' :: sqlite_storage sys)) \<and>
    sqlite_signed_pre_keys C s = [1 \<mapsto> r] \<and> sqlite_kyber_pre_keys C s = [1 \<mapsto> q]"
    using s(4) by (auto simp: keys_extended_def without_keys_empty)
  moreover have "user_data (connection s) = user_data (connection ?s0)" using user_data_others [OF s(5)] .
  ultimately show ?thesis
    using s(2,3,6) by (auto simp: user_data_def without_keys_def without_peers_def)
qed

theorem identity_reset_witness:
  "\<exists>t n s. bridge_reset_identity sample_crates (sample_sys keyed_storage) =
     (Ok (), (advance t n (sample_sys keyed_storage))\<lparr>store := s\<rparr>) \<and>
   local_key sample_crates (connection s) = Some (identity_key_pair_generate sample_crates 0)"
  using identity_reset [of sample_crates "sample_sys keyed_storage"]
  by (auto simp: keyed_storage_ready sample_sys_def)

section \<open>Key maintenance\<close>

text \<open>
  What one round does to the keys of one kind, with \<open>r\<close> the record that rotation makes and \<open>T\<close> the
  time of the clean-up: the new key if rotation was due, stored under the next number and still
  there afterwards; of these keys only some that were more than seven days old are removed, and not
  the last one; and unless one key is left, every key a second past seven days is removed.
\<close>

definition with_next :: "bool \<Rightarrow> 'r \<Rightarrow> (u32 \<Rightarrow> 'r option) \<Rightarrow> u32 \<Rightarrow> 'r option" where
  "with_next due r m = (if due then m(next_number m \<mapsto> r) else m)"

definition maintained ::
    "('r \<Rightarrow> protocol_error + u64) \<Rightarrow> int \<Rightarrow> bool \<Rightarrow> 'r \<Rightarrow> (u32 \<Rightarrow> 'r option) \<Rightarrow> (u32 \<Rightarrow> 'r option) \<Rightarrow> bool" where
  "maintained ts T due r m m' \<longleftrightarrow> m' \<subseteq>\<^sub>m with_next due r m \<and> m' \<noteq> Map.empty \<and>
     (due \<longrightarrow> m' (next_number m) = Some r) \<and>
     (\<forall>i x. with_next due r m i = Some x \<and> m' i = None \<longrightarrow> (\<exists>t. ts x = Inr t \<and> uint t < T - 604800000)) \<and>
     (card (dom m') \<le> 1 \<or> (\<forall>i x t. m' i = Some x \<and> ts x = Inr t \<longrightarrow> T - 604800000 < uint t + 1000))"

lemma uint_of_millis: "0 \<le> T \<Longrightarrow> T < 2 ^ 64 \<Longrightarrow> uint (word_of_int T :: u64) = T"
  by (simp add: unsigned_of_int take_bit_int_eq_self)

lemma age_in_seconds:
  fixes t :: u64
  assumes "uint t \<le> T" and "T < 2 ^ 64"
  shows "\<not> word_of_int T < t" "(604800 < (word_of_int T - t) div 1000) = (604800 < (T - uint t) div 1000)"
proof -
  have T: "uint (word_of_int T :: u64) = T"
    using order_trans [OF uint_ge_0 assms(1)] assms(2) by (rule uint_of_millis)
  then have le: "t \<le> word_of_int T" using assms(1) by (simp add: word_le_def)
  then show "\<not> word_of_int T < t" by simp
  show "(604800 < (word_of_int T - t) div 1000) = (604800 < (T - uint t) div 1000)"
    using uint_sub_u64 [OF le] T by (simp add: word_less_def uint_div)
qed

lemma run_needs_rotation:
  assumes "sqlite_ready C (store w)" and "uint t \<le> clock w (ticks w)" and "clock w (ticks w) < 2 ^ 64"
  shows "greatest (sqlite_signed_pre_keys C (store w)) = Some i \<Longrightarrow> sqlite_signed_pre_keys C (store w) i = Some r \<Longrightarrow>
      signed_pre_key_record_timestamp C r = Inr t \<Longrightarrow> signed_pre_key_needs_rotation C (sqlite_container C) w =
        (Ok (604800 < (clock w (ticks w) - uint t) div 1000), advance 1 0 w)"
    "greatest (sqlite_kyber_pre_keys C (store w)) = Some j \<Longrightarrow> sqlite_kyber_pre_keys C (store w) j = Some q \<Longrightarrow>
      kyber_pre_key_record_timestamp C q = Inr t \<Longrightarrow> kyber_pre_key_needs_rotation C (sqlite_container C) w =
        (Ok (604800 < (clock w (ticks w) - uint t) div 1000), advance 1 0 w)"
  using sqlite_spk.needs_rotation_run [OF assms(1), of r t "word_of_int (clock w (ticks w))"]
    sqlite_kpk.needs_rotation_run [OF assms(1), of q t "word_of_int (clock w (ticks w))"]
    age_in_seconds [OF assms(2,3)] order_trans [OF uint_ge_0 assms(2)]
  by (auto simp: greatest_def signed_pre_key_needs_rotation_def kyber_pre_key_needs_rotation_def split: if_splits)

lemma run_signed_rotation_if:
  assumes "sqlite_ready C (store w)" and "libsignal_records_ok C" and "0 \<le> clock w (ticks w)"
    and "numbers_left 1 (sqlite_signed_pre_keys C (store w))"
  shows "\<exists>n s' kp g. whenM due (rotate_signed_pre_key C (sqlite_container C) k) w =
      (Ok (), (advance (of_bool due) n w)\<lparr>store := s'\<rparr>) \<and> sqlite_ready C s' \<and>
      sqlite_signed_pre_keys C s' = with_next due (signed_pre_key_record_new C (next_number (sqlite_signed_pre_keys C (store w)))
        (word_of_int (clock w (ticks w))) kp g) (sqlite_signed_pre_keys C (store w)) \<and>
      sqlite_pre_keys C s' = sqlite_pre_keys C (store w) \<and> sqlite_kyber_pre_keys C s' = sqlite_kyber_pre_keys C (store w) \<and>
      sqlite_others s' = sqlite_others (store w)"
proof (cases due)
  case True
  then show ?thesis using sqlite.rotate_signed_run [OF assms, of k] by (simp add: whenM_at with_next_def) blast
next
  case False
  then show ?thesis using assms(1) by (intro exI [of _ 0] exI [of _ "store w"]) (simp add: whenM_at with_next_def)
qed

lemma run_kyber_rotation_if:
  assumes "sqlite_ready C (store w)" and "libsignal_records_ok C" and "0 \<le> clock w (ticks w)"
    and "numbers_left 1 (sqlite_kyber_pre_keys C (store w))"
  shows "\<exists>n s' kp g. whenM due (rotate_kyber_pre_key C (sqlite_container C) k) w =
      (Ok (), (advance (of_bool due) n w)\<lparr>store := s'\<rparr>) \<and> sqlite_ready C s' \<and>
      sqlite_kyber_pre_keys C s' = with_next due (kyber_pre_key_record_new C (next_number (sqlite_kyber_pre_keys C (store w)))
        (word_of_int (clock w (ticks w))) kp g) (sqlite_kyber_pre_keys C (store w)) \<and>
      sqlite_pre_keys C s' = sqlite_pre_keys C (store w) \<and> sqlite_signed_pre_keys C s' = sqlite_signed_pre_keys C (store w) \<and>
      sqlite_others s' = sqlite_others (store w)"
proof (cases due)
  case True
  then show ?thesis using sqlite.rotate_kyber_run [OF assms, of k] by (simp add: whenM_at with_next_def) blast
next
  case False
  then show ?thesis using assms(1) by (intro exI [of _ 0] exI [of _ "store w"]) (simp add: whenM_at with_next_def)
qed

lemma seven_days_before:
  assumes "604800000 \<le> T" and "T < 2 ^ 64"
  shows "0 \<le> T" "604800000 \<le> (word_of_int T :: u64)"
    "t < word_of_int T - 604800000 \<longleftrightarrow> uint (t :: u64) < T - 604800000"
    "unat t + 1000 \<le> unat (word_of_int T - 604800000 :: u64) \<longleftrightarrow> uint t + 1000 \<le> T - 604800000"
proof -
  have T: "uint (word_of_int T :: u64) = T"
    using assms by (intro uint_of_millis) simp_all
  with assms(1) show le: "604800000 \<le> (word_of_int T :: u64)" by (simp add: word_le_def)
  have cut: "uint (word_of_int T - 604800000 :: u64) = T - 604800000" using uint_sub_u64 [OF le] T by simp
  then show "t < word_of_int T - 604800000 \<longleftrightarrow> uint t < T - 604800000" by (simp add: word_less_def)
  have "unat t + 1000 \<le> unat (word_of_int T - 604800000 :: u64) \<longleftrightarrow>
      int (unat t + 1000) \<le> int (unat (word_of_int T - 604800000 :: u64))" by (simp only: of_nat_le_iff)
  also have "\<dots> \<longleftrightarrow> uint t + 1000 \<le> T - 604800000" by (simp only: int_plus uint_nat [symmetric] cut) simp
  finally show "unat t + 1000 \<le> unat (word_of_int T - 604800000 :: u64) \<longleftrightarrow> uint t + 1000 \<le> T - 604800000" .
qed (use assms in simp)

text \<open>The key that rotation has just made is not expired, so the clean-up keeps it.\<close>

lemma maintainedI:
  assumes T: "604800000 \<le> T" "T < 2 ^ 64" and le: "m' \<subseteq>\<^sub>m with_next due r m" and "dom m' \<noteq> {}"
    and removed: "\<forall>i x. with_next due r m i = Some x \<and> m' i = None \<longrightarrow> (\<exists>t. ts x = Inr t \<and> t < word_of_int T - 604800000)"
    and kept: "card (dom m') \<le> 1 \<or> (\<forall>i x t. m' i = Some x \<and> ts x = Inr t \<longrightarrow>
      \<not> unat t + 1000 \<le> unat (word_of_int T - 604800000 :: u64))"
    and fresh: "due \<Longrightarrow> ts r = Inr (word_of_int S) \<and> 0 \<le> S \<and> S < 2 ^ 64 \<and> T \<le> S + 604800000"
  shows "maintained ts T due r m m'"
  unfolding maintained_def
proof (intro conjI impI le)
  note past = seven_days_before [OF T]
  show "m' \<noteq> Map.empty" using assms(4) by auto
  show "\<forall>i x. with_next due r m i = Some x \<and> m' i = None \<longrightarrow> (\<exists>t. ts x = Inr t \<and> uint t < T - 604800000)"
    using removed by (simp add: past(3))
  show "card (dom m') \<le> 1 \<or> (\<forall>i x t. m' i = Some x \<and> ts x = Inr t \<longrightarrow> T - 604800000 < uint t + 1000)"
    using kept by (simp add: past(4) not_le)
  assume due
  then have r: "with_next due r m (next_number m) = Some r" by (simp add: with_next_def)
  have "m' (next_number m) \<noteq> None"
  proof
    assume "m' (next_number m) = None"
    with removed r obtain t where "ts r = Inr t" "t < word_of_int T - 604800000" by blast
    with fresh [OF \<open>due\<close>] past(3) [of t] have "uint (word_of_int S :: u64) < T - 604800000" by simp
    then show False using fresh [OF \<open>due\<close>] uint_of_millis [of S] by simp
  qed
  then show "m' (next_number m) = Some r" using le r by (metis domI map_le_def option.exhaust)
qed

lemma run_signed_cleanup:
  assumes "sqlite_ready C (store w)" and T: "604800000 \<le> clock w (ticks w)" "clock w (ticks w) < 2 ^ 64"
    and keys: "sqlite_signed_pre_keys C (store w) = with_next due r m" "m i = Some x"
    and fresh: "due \<Longrightarrow> signed_pre_key_record_timestamp C r = Inr (word_of_int S) \<and> 0 \<le> S \<and> S < 2 ^ 64 \<and> clock w (ticks w) \<le> S + 604800000"
  shows "\<exists>s'. cleanup_expired_signed_pre_keys (sqlite_container C) w = (Ok (), (advance 1 0 w)\<lparr>store := s'\<rparr>) \<and>
      sqlite_ready C s' \<and>
      maintained (signed_pre_key_record_timestamp C) (clock w (ticks w)) due r m (sqlite_signed_pre_keys C s') \<and>
      sqlite_pre_keys C s' = sqlite_pre_keys C (store w) \<and> sqlite_kyber_pre_keys C s' = sqlite_kyber_pre_keys C (store w) \<and>
      sqlite_others s' = sqlite_others (store w)"
proof -
  note past = seven_days_before [OF T]
  have "with_next due r m \<noteq> Map.empty" using keys(2) by (auto simp: with_next_def)
  then have "dom (sqlite_signed_pre_keys C (store w)) \<noteq> {}" by (simp add: keys(1))
  then obtain s' where s': "cleanup_expired_signed_pre_keys (sqlite_container C) w = (Ok (), (advance 1 0 w)\<lparr>store := s'\<rparr>)"
      "sqlite_ready C s'" "without_signed_pre_keys s' = without_signed_pre_keys (store w)"
      "sqlite_signed_pre_keys C s' \<subseteq>\<^sub>m with_next due r m" "dom (sqlite_signed_pre_keys C s') \<noteq> {}"
      "\<forall>i x. with_next due r m i = Some x \<and> sqlite_signed_pre_keys C s' i = None \<longrightarrow>
        (\<exists>t. signed_pre_key_record_timestamp C x = Inr t \<and> t < word_of_int (clock w (ticks w)) - 604800000)"
      "card (dom (sqlite_signed_pre_keys C s')) \<le> 1 \<or> (\<forall>i x t. sqlite_signed_pre_keys C s' i = Some x \<and>
        signed_pre_key_record_timestamp C x = Inr t \<longrightarrow> \<not> unat t + 1000 \<le> unat (word_of_int (clock w (ticks w)) - 604800000 :: u64))"
    using sqlite_spk.cleanup_expired_run [OF assms(1) past(1) refl past(2)]
    unfolding cleanup_expired_signed_pre_keys_def keys(1) by auto
  with sqlite.spk_frame [OF s'(3)] maintainedI [OF T s'(4-7) fresh] show ?thesis by blast
qed

lemma run_kyber_cleanup:
  assumes "sqlite_ready C (store w)" and T: "604800000 \<le> clock w (ticks w)" "clock w (ticks w) < 2 ^ 64"
    and keys: "sqlite_kyber_pre_keys C (store w) = with_next due r m" "m i = Some x"
    and fresh: "due \<Longrightarrow> kyber_pre_key_record_timestamp C r = Inr (word_of_int S) \<and> 0 \<le> S \<and> S < 2 ^ 64 \<and> clock w (ticks w) \<le> S + 604800000"
  shows "\<exists>s'. cleanup_expired_kyber_pre_keys (sqlite_container C) w = (Ok (), (advance 1 0 w)\<lparr>store := s'\<rparr>) \<and>
      sqlite_ready C s' \<and>
      maintained (kyber_pre_key_record_timestamp C) (clock w (ticks w)) due r m (sqlite_kyber_pre_keys C s') \<and>
      sqlite_pre_keys C s' = sqlite_pre_keys C (store w) \<and> sqlite_signed_pre_keys C s' = sqlite_signed_pre_keys C (store w) \<and>
      sqlite_others s' = sqlite_others (store w)"
proof -
  note past = seven_days_before [OF T]
  have "with_next due r m \<noteq> Map.empty" using keys(2) by (auto simp: with_next_def)
  then have "dom (sqlite_kyber_pre_keys C (store w)) \<noteq> {}" by (simp add: keys(1))
  then obtain s' where s': "cleanup_expired_kyber_pre_keys (sqlite_container C) w = (Ok (), (advance 1 0 w)\<lparr>store := s'\<rparr>)"
      "sqlite_ready C s'" "without_kyber_pre_keys s' = without_kyber_pre_keys (store w)"
      "sqlite_kyber_pre_keys C s' \<subseteq>\<^sub>m with_next due r m" "dom (sqlite_kyber_pre_keys C s') \<noteq> {}"
      "\<forall>i x. with_next due r m i = Some x \<and> sqlite_kyber_pre_keys C s' i = None \<longrightarrow>
        (\<exists>t. kyber_pre_key_record_timestamp C x = Inr t \<and> t < word_of_int (clock w (ticks w)) - 604800000)"
      "card (dom (sqlite_kyber_pre_keys C s')) \<le> 1 \<or> (\<forall>i x t. sqlite_kyber_pre_keys C s' i = Some x \<and>
        kyber_pre_key_record_timestamp C x = Inr t \<longrightarrow> \<not> unat t + 1000 \<le> unat (word_of_int (clock w (ticks w)) - 604800000 :: u64))"
    using sqlite_kpk.cleanup_expired_run [OF assms(1) past(1) refl past(2)]
    unfolding cleanup_expired_kyber_pre_keys_def keys(1) by auto
  with sqlite.kpk_frame [OF s'(3)] maintainedI [OF T s'(4-7) fresh] show ?thesis by blast
qed

text \<open>
  The grace period is counted from the creation of a key and is as long as the rotation interval:
  the clean-up after a rotation deletes the key that was due, although bundles with it are still
  published.
\<close>

lemma rotated_key_deleted_at_once:
  assumes ready: "sqlite_ready C (store w)" and C: "libsignal_records_ok C"
    and left: "numbers_left 1 (sqlite_signed_pre_keys C (store w))"
    and old: "sqlite_signed_pre_keys C (store w) i = Some r" "signed_pre_key_record_timestamp C r = Inr t"
      "uint t + 604801000 \<le> clock w (ticks w)"
    and clk: "clock w (ticks w) \<le> clock w (Suc (ticks w))" "clock w (Suc (ticks w)) < 2 ^ 64"
      "clock w (Suc (ticks w)) - clock w (ticks w) \<le> 604800000"
  shows "\<exists>w'. bindM (rotate_signed_pre_key C (sqlite_container C) k)
      (\<lambda>_. cleanup_expired_signed_pre_keys (sqlite_container C)) w = (Ok (), w') \<and> sqlite_signed_pre_keys C (store w') i = None"
proof -
  let ?m = "sqlite_signed_pre_keys C (store w)" let ?T = "clock w (ticks w)" let ?U = "clock w (Suc (ticks w))"
  have T: "0 \<le> ?T" "604800000 \<le> ?U" using old(3) clk(1) uint_ge_0 [of t] by linarith+
  obtain kp g s1 where 1: "rotate_signed_pre_key C (sqlite_container C) k w = (Ok (), (advance 1 2 w)\<lparr>store := s1\<rparr>)"
    "sqlite_ready C s1" "sqlite_signed_pre_keys C s1 = ?m(next_number ?m \<mapsto>
      signed_pre_key_record_new C (next_number ?m) (word_of_int ?T) kp g)"
    using sqlite.rotate_signed_run [OF ready C T(1) left, of k] by blast
  let ?w1 = "(advance 1 2 w)\<lparr>store := s1\<rparr>"
  note past = seven_days_before [OF T(2) clk(2)]
  have "sqlite_ready C (store ?w1)" "0 \<le> clock ?w1 (ticks ?w1)" "word_of_int ?U = (word_of_int (clock ?w1 (ticks ?w1)) :: u64)"
    using 1(2) past(1) by simp_all
  from sqlite_spk.cleanup_expired_run [OF this past(2)] obtain s2 where
    2: "cleanup_expired_signed_pre_keys (sqlite_container C) ?w1 = (Ok (), (advance 1 0 ?w1)\<lparr>store := s2\<rparr>)"
    "sqlite_signed_pre_keys C s2 \<subseteq>\<^sub>m sqlite_signed_pre_keys C s1"
    "\<forall>i x. sqlite_signed_pre_keys C s1 i = Some x \<and> sqlite_signed_pre_keys C s2 i = None \<longrightarrow>
      (\<exists>t. signed_pre_key_record_timestamp C x = Inr t \<and> t < word_of_int ?U - 604800000)"
    "card (dom (sqlite_signed_pre_keys C s2)) \<le> 1 \<or> (\<forall>i x t. sqlite_signed_pre_keys C s2 i = Some x \<and>
      signed_pre_key_record_timestamp C x = Inr t \<longrightarrow> \<not> unat t + 1000 \<le> unat (word_of_int ?U - 604800000 :: u64))"
    unfolding cleanup_expired_signed_pre_keys_def by auto
  have "?T < 2 ^ 64" using clk(1,2) by (rule order.strict_trans1)
  then have stamp: "uint (word_of_int ?T :: u64) = ?T" using T(1) by (intro uint_of_millis)
  have "sqlite_signed_pre_keys C s1 (next_number ?m) =
      Some (signed_pre_key_record_new C (next_number ?m) (word_of_int ?T) kp g)" unfolding 1(3) by simp
  note removed = 2(3) [rule_format, OF conjI, OF this]
  have new: "next_number ?m \<in> dom (sqlite_signed_pre_keys C s2)"
  proof (rule ccontr)
    assume "next_number ?m \<notin> dom (sqlite_signed_pre_keys C s2)"
    then have "(word_of_int ?T :: u64) < word_of_int ?U - 604800000"
      using removed unfolding libsignal_records_okD(6) [OF C] by auto
    then show False using past(3) [of "word_of_int ?T"] stamp clk(3) by simp
  qed
  have due: "unat t + 1000 \<le> unat (word_of_int ?U - 604800000 :: u64)" using old(3) clk(1) by (simp add: past(4))
  have fresh: "i \<noteq> next_number ?m" using next_number_fresh [OF left] old(1) by auto
  have "sqlite_signed_pre_keys C s2 i = None"
  proof (rule ccontr)
    assume "sqlite_signed_pre_keys C s2 i \<noteq> None"
    then have "sqlite_signed_pre_keys C s2 i = Some r"
      using 2(2) 1(3) fresh old(1) by (auto simp: map_le_def dom_def)
    with 2(4) due old(2) have "card (dom (sqlite_signed_pre_keys C s2)) \<le> 1" by blast
    moreover have "card {i, next_number ?m} \<le> card (dom (sqlite_signed_pre_keys C s2))"
      using new \<open>sqlite_signed_pre_keys C s2 i = Some r\<close> by (intro card_mono) auto
    ultimately show False using fresh by simp
  qed
  then show ?thesis using 1(1) 2(1) by (simp add: bindM_at)
qed

text \<open>A pool of fewer than 50 one-time pre-keys keeps its keys and gets 100 more; any other stays as it is.\<close>

definition filled :: "(u32 \<Rightarrow> 'r option) \<Rightarrow> (u32 \<Rightarrow> 'r option) \<Rightarrow> bool" where
  "filled m m' \<longleftrightarrow> (if card (dom m) < 50 then m \<subseteq>\<^sub>m m' \<and> card (dom m') = card (dom m) + 100 else m' = m)"

lemma run_replenish_if:
  assumes "sqlite_ready C (store w)" and "libsignal_records_ok C" and "numbers_left 100 (sqlite_pre_keys C (store w))"
  shows "\<exists>n s'. whenM (card (dom (sqlite_pre_keys C (store w))) < 50) (replenish_pre_keys C (sqlite_container C)) w =
      (Ok (), (advance 0 n w)\<lparr>store := s'\<rparr>) \<and> sqlite_ready C s' \<and>
      filled (sqlite_pre_keys C (store w)) (sqlite_pre_keys C s') \<and>
      sqlite_signed_pre_keys C s' = sqlite_signed_pre_keys C (store w) \<and>
      sqlite_kyber_pre_keys C s' = sqlite_kyber_pre_keys C (store w) \<and> sqlite_others s' = sqlite_others (store w)"
proof (cases "card (dom (sqlite_pre_keys C (store w))) < 50")
  case True
  then show ?thesis using sqlite.replenish_pool [OF assms] by (simp add: whenM_at filled_def) blast
next
  case False
  then show ?thesis using assms(1) by (intro exI [of _ 0] exI [of _ "store w"]) (simp add: whenM_at filled_def)
qed

text \<open>The round as its steps.\<close>

lemma maintenance_steps:
  assumes "in_store (get_identity_key_pair (identity_store (sqlite_container C))) w = (Ok k, w)"
    and "signed_pre_key_needs_rotation C (sqlite_container C) w = (Ok sd, w0)"
    and "whenM sd (rotate_signed_pre_key C (sqlite_container C) k) w0 = (Ok (), w1)"
    and "kyber_pre_key_needs_rotation C (sqlite_container C) w1 = (Ok kd, v1)"
    and "whenM kd (rotate_kyber_pre_key C (sqlite_container C) k) v1 = (Ok (), w2)"
    and "cleanup_expired_signed_pre_keys (sqlite_container C) w2 = (Ok (), w3)"
    and "cleanup_expired_kyber_pre_keys (sqlite_container C) w3 = (Ok (), w4)"
    and "in_store (pre_key_count (pre_key_store (sqlite_container C))) w4 = (Ok n, w4)"
    and "whenM (n < 50) (replenish_pre_keys C (sqlite_container C)) w4 = (Ok (), w5)"
  shows "bridge_perform_key_maintenance C w = (Ok \<lparr>signed_pre_key_rotated = sd, kyber_pre_key_rotated = kd,
    pre_keys_replenished = n < 50\<rparr>, w5)"
  using assms by (simp add: bridge_perform_key_maintenance_def bindM_at mapErr_at MIN_PRE_KEY_COUNT_def Let_def run_basic)

text \<open>The two rotations, with the test of the Kyber key in between, and the two clean-ups.\<close>

lemma rotation_steps:
  assumes ready: "sqlite_ready C (store w)" and C: "libsignal_records_ok C" and clk: "\<And>n. 0 \<le> clock w n" "\<And>n. clock w n < 2 ^ 64"
    and newest: "greatest (sqlite_kyber_pre_keys C (store w)) = Some j" "sqlite_kyber_pre_keys C (store w) j = Some q"
      "kyber_pre_key_record_timestamp C q = Inr u" "\<And>n. uint u \<le> clock w n"
    and left: "numbers_left 1 (sqlite_signed_pre_keys C (store w))" "numbers_left 1 (sqlite_kyber_pre_keys C (store w))"
    and kd: "kd = (604800 < (clock w (ticks w + of_bool sd) - uint u) div 1000)"
  shows "\<exists>n1 s1 n2 s2 kp g kp' g'. whenM sd (rotate_signed_pre_key C (sqlite_container C) k) w =
      (Ok (), (advance (of_bool sd) n1 w)\<lparr>store := s1\<rparr>) \<and>
    kyber_pre_key_needs_rotation C (sqlite_container C) ((advance (of_bool sd) n1 w)\<lparr>store := s1\<rparr>) =
      (Ok kd, (advance (of_bool sd + 1) n1 w)\<lparr>store := s1\<rparr>) \<and>
    whenM kd (rotate_kyber_pre_key C (sqlite_container C) k) ((advance (of_bool sd + 1) n1 w)\<lparr>store := s1\<rparr>) =
      (Ok (), (advance (of_bool sd + 1 + of_bool kd) n2 w)\<lparr>store := s2\<rparr>) \<and> sqlite_ready C s2 \<and>
    sqlite_signed_pre_keys C s2 = with_next sd (signed_pre_key_record_new C (next_number (sqlite_signed_pre_keys C (store w)))
      (word_of_int (clock w (ticks w))) kp g) (sqlite_signed_pre_keys C (store w)) \<and>
    sqlite_kyber_pre_keys C s2 = with_next kd (kyber_pre_key_record_new C (next_number (sqlite_kyber_pre_keys C (store w)))
      (word_of_int (clock w (ticks w + (of_bool sd + 1)))) kp' g') (sqlite_kyber_pre_keys C (store w)) \<and>
    sqlite_pre_keys C s2 = sqlite_pre_keys C (store w) \<and> sqlite_others s2 = sqlite_others (store w)"
proof -
  obtain n1 s1 kp g where 1: "whenM sd (rotate_signed_pre_key C (sqlite_container C) k) w =
      (Ok (), (advance (of_bool sd) n1 w)\<lparr>store := s1\<rparr>)" "sqlite_ready C s1"
      "sqlite_signed_pre_keys C s1 = with_next sd (signed_pre_key_record_new C (next_number (sqlite_signed_pre_keys C (store w)))
        (word_of_int (clock w (ticks w))) kp g) (sqlite_signed_pre_keys C (store w))"
      "sqlite_pre_keys C s1 = sqlite_pre_keys C (store w)" "sqlite_kyber_pre_keys C s1 = sqlite_kyber_pre_keys C (store w)"
      "sqlite_others s1 = sqlite_others (store w)"
    using run_signed_rotation_if [OF ready C clk(1) left(1), of sd k] by blast
  let ?w1 = "(advance (of_bool sd) n1 w)\<lparr>store := s1\<rparr>" let ?v1 = "(advance (of_bool sd + 1) n1 w)\<lparr>store := s1\<rparr>"
  have kyber: "kyber_pre_key_needs_rotation C (sqlite_container C) ?w1 = (Ok kd, ?v1)"
    using run_needs_rotation(2) [of C ?w1 u j q] 1(2,5) newest clk(2) kd by (simp add: advance_def)
  have v1: "ticks ?v1 = ticks w + (of_bool sd + 1)" "clock ?v1 = clock w" "store ?v1 = s1" by (simp_all add: advance_def)
  obtain n2 s2 kp' g' where 2: "whenM kd (rotate_kyber_pre_key C (sqlite_container C) k) ?v1 =
      (Ok (), (advance (of_bool kd) n2 ?v1)\<lparr>store := s2\<rparr>)" "sqlite_ready C s2"
      "sqlite_kyber_pre_keys C s2 = with_next kd (kyber_pre_key_record_new C (next_number (sqlite_kyber_pre_keys C (store w)))
        (word_of_int (clock w (ticks w + (of_bool sd + 1)))) kp' g') (sqlite_kyber_pre_keys C (store w))"
      "sqlite_pre_keys C s2 = sqlite_pre_keys C s1" "sqlite_signed_pre_keys C s2 = sqlite_signed_pre_keys C s1"
      "sqlite_others s2 = sqlite_others s1"
    using run_kyber_rotation_if [of C ?v1 kd k] 1(2,5) C clk(1) left(2) unfolding v1 by auto
  have "(advance (of_bool kd) n2 ?v1)\<lparr>store := s2\<rparr> = (advance (of_bool sd + 1 + of_bool kd) (n1 + n2) w)\<lparr>store := s2\<rparr>"
    by (simp add: advance_def)
  then show ?thesis using 1 kyber 2 by (metis (no_types, lifting))
qed

lemma cleanup_steps:
  assumes ready: "sqlite_ready C (store w)" and clk: "\<And>n. 604800000 \<le> clock w n" "\<And>n. clock w n < 2 ^ 64"
    and signed: "sqlite_signed_pre_keys C (store w) = with_next sd r1 m" "m i = Some x"
      "signed_pre_key_record_timestamp C r1 = Inr (word_of_int (clock w n1))"
    and kyber: "sqlite_kyber_pre_keys C (store w) = with_next kd r2 m'" "m' i' = Some x'"
      "kyber_pre_key_record_timestamp C r2 = Inr (word_of_int (clock w n2))"
    and brief: "\<And>a b. clock w a \<le> clock w b + 604800000"
  shows "\<exists>s1 s2. cleanup_expired_signed_pre_keys (sqlite_container C) w = (Ok (), (advance 1 0 w)\<lparr>store := s1\<rparr>) \<and>
    cleanup_expired_kyber_pre_keys (sqlite_container C) ((advance 1 0 w)\<lparr>store := s1\<rparr>) = (Ok (), (advance 2 0 w)\<lparr>store := s2\<rparr>) \<and>
    sqlite_ready C s2 \<and>
    maintained (signed_pre_key_record_timestamp C) (clock w (ticks w)) sd r1 m (sqlite_signed_pre_keys C s2) \<and>
    maintained (kyber_pre_key_record_timestamp C) (clock w (Suc (ticks w))) kd r2 m' (sqlite_kyber_pre_keys C s2) \<and>
    sqlite_pre_keys C s2 = sqlite_pre_keys C (store w) \<and> sqlite_others s2 = sqlite_others (store w)"
proof -
  have fresh: "0 \<le> clock w n" "clock w n < 2 ^ 64" for n using clk(1) [of n] clk(2) by simp_all
  obtain s1 where 1: "cleanup_expired_signed_pre_keys (sqlite_container C) w = (Ok (), (advance 1 0 w)\<lparr>store := s1\<rparr>)" "sqlite_ready C s1"
      "maintained (signed_pre_key_record_timestamp C) (clock w (ticks w)) sd r1 m (sqlite_signed_pre_keys C s1)"
      "sqlite_pre_keys C s1 = sqlite_pre_keys C (store w)" "sqlite_kyber_pre_keys C s1 = sqlite_kyber_pre_keys C (store w)"
      "sqlite_others s1 = sqlite_others (store w)"
    using run_signed_cleanup [OF ready clk signed(1,2), of "clock w n1"] signed(3) fresh brief by blast
  let ?w1 = "(advance 1 0 w)\<lparr>store := s1\<rparr>"
  have w1: "ticks ?w1 = Suc (ticks w)" "clock ?w1 = clock w" "store ?w1 = s1" by (simp_all add: advance_def)
  obtain s2 where 2: "cleanup_expired_kyber_pre_keys (sqlite_container C) ?w1 = (Ok (), (advance 1 0 ?w1)\<lparr>store := s2\<rparr>)" "sqlite_ready C s2"
      "maintained (kyber_pre_key_record_timestamp C) (clock w (Suc (ticks w))) kd r2 m' (sqlite_kyber_pre_keys C s2)"
      "sqlite_pre_keys C s2 = sqlite_pre_keys C s1" "sqlite_signed_pre_keys C s2 = sqlite_signed_pre_keys C s1"
      "sqlite_others s2 = sqlite_others s1"
    using run_kyber_cleanup [of C ?w1 kd r2 m' i' x' "clock w n2", unfolded w1] 1(2,5) clk kyber fresh brief by auto
  have "(advance 1 0 ?w1)\<lparr>store := s2\<rparr> = (advance 2 0 w)\<lparr>store := s2\<rparr>" by (simp add: advance_def)
  then show ?thesis using 1 2 by (metis (no_types, lifting))
qed

text \<open>
  C9. A round of key maintenance on a serving storage succeeds and reports what it did. The signed and
  the Kyber pre-key are rotated exactly when the newest one is more than seven days old in whole
  seconds: then a new record, stamped with the time of the rotation, is stored under the next
  number and is there after the round. Of the signed and the Kyber pre-keys only expired ones are
  gone, all that are a second past seven days unless one is left, never the last one. Exactly when
  fewer than 50 one-time pre-keys are there, 100 are added; all old ones stay. Nothing else
  changed. The clock is assumed to move by at most seven days during the round.
\<close>

theorem key_maintenance:
  assumes ready: "sqlite_ready C (store w)" and key: "local_key C (connection (store w)) = Some k"
    and C: "libsignal_records_ok C" and clk: "\<And>n. 604800000 \<le> clock w n" "\<And>n. clock w n < 2 ^ 64"
      "\<And>a b. clock w a \<le> clock w b + 604800000"
    and newest: "greatest (sqlite_signed_pre_keys C (store w)) = Some i" "sqlite_signed_pre_keys C (store w) i = Some r"
      "signed_pre_key_record_timestamp C r = Inr t" "\<And>n. uint t \<le> clock w n"
      "greatest (sqlite_kyber_pre_keys C (store w)) = Some j" "sqlite_kyber_pre_keys C (store w) j = Some q"
      "kyber_pre_key_record_timestamp C q = Inr u" "\<And>n. uint u \<le> clock w n"
    and left: "numbers_left 1 (sqlite_signed_pre_keys C (store w))" "numbers_left 1 (sqlite_kyber_pre_keys C (store w))"
      "numbers_left 100 (sqlite_pre_keys C (store w))"
    and due: "sd = (604800 < (clock w (ticks w) - uint t) div 1000)"
      "kd = (604800 < (clock w (ticks w + 1 + of_bool sd) - uint u) div 1000)"
  shows "\<exists>n s kp g kp' g'. bridge_perform_key_maintenance C w =
      (Ok \<lparr>signed_pre_key_rotated = sd, kyber_pre_key_rotated = kd,
        pre_keys_replenished = card (dom (sqlite_pre_keys C (store w))) < 50\<rparr>,
       (advance (4 + of_bool sd + of_bool kd) n w)\<lparr>store := s\<rparr>) \<and> sqlite_ready C s \<and>
    maintained (signed_pre_key_record_timestamp C) (clock w (ticks w + 2 + of_bool sd + of_bool kd)) sd
      (signed_pre_key_record_new C (next_number (sqlite_signed_pre_keys C (store w))) (word_of_int (clock w (ticks w + 1))) kp g)
      (sqlite_signed_pre_keys C (store w)) (sqlite_signed_pre_keys C s) \<and>
    maintained (kyber_pre_key_record_timestamp C) (clock w (ticks w + 3 + of_bool sd + of_bool kd)) kd
      (kyber_pre_key_record_new C (next_number (sqlite_kyber_pre_keys C (store w))) (word_of_int (clock w (ticks w + 2 + of_bool sd))) kp' g')
      (sqlite_kyber_pre_keys C (store w)) (sqlite_kyber_pre_keys C s) \<and>
    filled (sqlite_pre_keys C (store w)) (sqlite_pre_keys C s) \<and> sqlite_others s = sqlite_others (store w)"
proof -
  have pos: "0 \<le> clock w n" for n using clk(1) [of n] by linarith
  let ?w0 = "advance 1 0 w"
  let ?r1 = "\<lambda>kp g. signed_pre_key_record_new C (next_number (sqlite_signed_pre_keys C (store w))) (word_of_int (clock w (ticks w + 1))) kp g"
  let ?r2 = "\<lambda>kp g. kyber_pre_key_record_new C (next_number (sqlite_kyber_pre_keys C (store w))) (word_of_int (clock w (ticks w + 2 + of_bool sd))) kp g"
  have signed: "signed_pre_key_needs_rotation C (sqlite_container C) w = (Ok sd, ?w0)"
    using run_needs_rotation(1) [OF ready newest(4) clk(2) newest(1-3)] due(1) by simp
  have w0: "ticks ?w0 = ticks w + 1" "clock ?w0 = clock w" "store ?w0 = store w" by (simp_all add: advance_def)
  obtain n1 s1 n2 s2 kp g kp' g' where
    1: "whenM sd (rotate_signed_pre_key C (sqlite_container C) k) ?w0 = (Ok (), (advance (of_bool sd) n1 ?w0)\<lparr>store := s1\<rparr>)"
      "kyber_pre_key_needs_rotation C (sqlite_container C) ((advance (of_bool sd) n1 ?w0)\<lparr>store := s1\<rparr>) =
        (Ok kd, (advance (of_bool sd + 1) n1 ?w0)\<lparr>store := s1\<rparr>)"
      "whenM kd (rotate_kyber_pre_key C (sqlite_container C) k) ((advance (of_bool sd + 1) n1 ?w0)\<lparr>store := s1\<rparr>) =
        (Ok (), (advance (of_bool sd + 1 + of_bool kd) n2 ?w0)\<lparr>store := s2\<rparr>)" "sqlite_ready C s2"
      "sqlite_signed_pre_keys C s2 = with_next sd (?r1 kp g) (sqlite_signed_pre_keys C (store w))"
      "sqlite_kyber_pre_keys C s2 = with_next kd (?r2 kp' g') (sqlite_kyber_pre_keys C (store w))"
      "sqlite_pre_keys C s2 = sqlite_pre_keys C (store w)" "sqlite_others s2 = sqlite_others (store w)"
    using rotation_steps [of C ?w0 j q u kd sd k, unfolded w0, OF ready C pos clk(2) newest(5-8) left(1,2) due(2)]
    by (simp only: add.assoc one_add_one [symmetric] add.commute [of "of_bool sd" 1]) blast
  let ?w2 = "(advance (of_bool sd + 1 + of_bool kd) n2 ?w0)\<lparr>store := s2\<rparr>"
  have w2: "ticks ?w2 = ticks w + 2 + of_bool sd + of_bool kd" "clock ?w2 = clock w" "store ?w2 = s2" by (simp_all add: advance_def)
  have later: "Suc (ticks w + 2 + of_bool sd + of_bool kd) = ticks w + 3 + of_bool sd + of_bool kd" by simp
  have stamps: "signed_pre_key_record_timestamp C (?r1 kp g) = Inr (word_of_int (clock w (ticks w + 1)))"
    "kyber_pre_key_record_timestamp C (?r2 kp' g') = Inr (word_of_int (clock w (ticks w + 2 + of_bool sd)))"
    by (rule libsignal_records_okD(6,8) [OF C])+
  obtain s3 s4 where
    2: "cleanup_expired_signed_pre_keys (sqlite_container C) ?w2 = (Ok (), (advance 1 0 ?w2)\<lparr>store := s3\<rparr>)"
      "cleanup_expired_kyber_pre_keys (sqlite_container C) ((advance 1 0 ?w2)\<lparr>store := s3\<rparr>) =
        (Ok (), (advance 2 0 ?w2)\<lparr>store := s4\<rparr>)" "sqlite_ready C s4"
      "maintained (signed_pre_key_record_timestamp C) (clock w (ticks w + 2 + of_bool sd + of_bool kd)) sd (?r1 kp g)
        (sqlite_signed_pre_keys C (store w)) (sqlite_signed_pre_keys C s4)"
      "maintained (kyber_pre_key_record_timestamp C) (clock w (ticks w + 3 + of_bool sd + of_bool kd)) kd (?r2 kp' g')
        (sqlite_kyber_pre_keys C (store w)) (sqlite_kyber_pre_keys C s4)"
      "sqlite_pre_keys C s4 = sqlite_pre_keys C (store w)" "sqlite_others s4 = sqlite_others (store w)"
    using cleanup_steps [of C ?w2 sd _ _ i r "ticks w + 1" kd _ _ j q "ticks w + 2 + of_bool sd", unfolded w2 later,
        OF 1(4) clk(1,2) 1(5) newest(2) stamps(1) 1(6) newest(6) stamps(2) clk(3)]
    unfolding 1(7,8) by blast
  let ?w4 = "(advance 2 0 ?w2)\<lparr>store := s4\<rparr>"
  obtain n5 s5 where 3: "whenM (card (dom (sqlite_pre_keys C (store w))) < 50) (replenish_pre_keys C (sqlite_container C)) ?w4 =
      (Ok (), (advance 0 n5 ?w4)\<lparr>store := s5\<rparr>)" "sqlite_ready C s5"
      "filled (sqlite_pre_keys C (store w)) (sqlite_pre_keys C s5)"
      "sqlite_signed_pre_keys C s5 = sqlite_signed_pre_keys C s4" "sqlite_kyber_pre_keys C s5 = sqlite_kyber_pre_keys C s4"
      "sqlite_others s5 = sqlite_others (store w)"
    using run_replenish_if [of C ?w4] 2(3,6,7) C left(3) by auto
  have run: "bridge_perform_key_maintenance C w = (Ok \<lparr>signed_pre_key_rotated = sd, kyber_pre_key_rotated = kd,
        pre_keys_replenished = card (dom (sqlite_pre_keys C (store w))) < 50\<rparr>, (advance 0 n5 ?w4)\<lparr>store := s5\<rparr>)"
    using sqlite_pk.count_law [OF 2(3)] 2(6) run_get_identity_key_pair(1) [OF ready key]
    by (intro maintenance_steps [OF _ signed 1(1-3) 2(1,2) _ 3(1)]) (simp_all add: in_store_at)
  have "(advance 0 n5 ?w4)\<lparr>store := s5\<rparr> = (advance (4 + of_bool sd + of_bool kd) (n2 + n5) w)\<lparr>store := s5\<rparr>" by (simp add: advance_def)
  then show ?thesis using run 3(2-6) 2(4,5) by metis
qed

text \<open>Seven days and a second after the keys of the sample storage were made.\<close>

theorem key_maintenance_witness:
  "\<exists>n s kp g. bridge_perform_key_maintenance sample_crates ((sample_sys keyed_storage)\<lparr>clock := \<lambda>_. 1700604801000\<rparr>) =
      (Ok \<lparr>signed_pre_key_rotated = True, kyber_pre_key_rotated = True, pre_keys_replenished = True\<rparr>,
       (advance 6 n ((sample_sys keyed_storage)\<lparr>clock := \<lambda>_. 1700604801000\<rparr>))\<lparr>store := s\<rparr>) \<and>
    sqlite_signed_pre_keys sample_crates s 2 = Some (signed_pre_key_record_new sample_crates 2 1700604801000 kp g) \<and>
    card (dom (sqlite_pre_keys sample_crates s)) = 101"
proof -
  have ts: "signed_pre_key_record_timestamp sample_crates (SignedPreKeyRecord b) = Inr (record_timestamp b)"
    "kyber_pre_key_record_timestamp sample_crates (KyberPreKeyRecord b) = Inr (record_timestamp b)" for b
    by (simp_all add: sample_crates_defs sample_libsignal_def)
  let ?w = "(sample_sys keyed_storage)\<lparr>clock := \<lambda>_. 1700604801000\<rparr>"
  show ?thesis
    using key_maintenance [of sample_crates ?w "IdentityKeyPair [7]" 1
        "SignedPreKeyRecord (record_bytes 1 1700000000000 [9] [10])" 1700000000000 1
        "KyberPreKeyRecord (record_bytes 1 1700000000000 [11] [12])" 1700000000000 True True]
    by (auto simp: keyed_storage_ready keyed_storage_key keyed_storage_keys ts sample_sys_def numbers_left_def maintained_def filled_def
        next_number_def)
qed

end
