(* ===== verification/Ffi_Correct.thy ===== *)
theory Ffi_Correct
  imports Bridge_Keys
begin

text \<open>
  The exported functions: signing a Nostr event keeps its fields and reports what is missing, and
  no sequence of calls, whatever fails in between, leaves ill-formed tables.
\<close>

section \<open>Signing events\<close>

definition signed_json :: "string \<Rightarrow> string \<Rightarrow> string \<Rightarrow> (string \<times> json) list \<Rightarrow> json" where
  "signed_json pubkey event_id signature m = JObject (map_insert ''sig'' (JString signature)
     (map_insert ''id'' (JString event_id) (map_insert ''pubkey'' (JString pubkey) m)))"

definition tag_of :: "'x crates_scheme \<Rightarrow> nostr_tag \<Rightarrow> string list \<Rightarrow> nostr_tag" where
  "tag_of C unknown ss = (case tag_parse C (if ss = [] then [[]] else ss) of Inr g \<Rightarrow> g | Inl _ \<Rightarrow> unknown)"

lemma exact_insert: "json_exact (JObject m) \<Longrightarrow> json_exact (JObject (map_insert k (JString s) m))"
  by (induction m) auto

lemma run_parse_tags:
  assumes "tag_parse C [''unknown''] = Inr unknown"
  shows "mapM (parse_tag C) tags w = (Ok (map (tag_of C unknown) tags), w)"
  using assms by (induction tags) (auto simp: parse_tag_def tag_of_def run_defs split: sum.split)

lemma run_sign_nostr_event:
  assumes "sqlite_ready C (store w)" and "local_key C (connection (store w)) = Some k"
    and "derive_from_signal_identity C k = Inr keys" and "tag_parse C [''unknown''] = Inr unknown"
    and "event_sign C (ucast kind) content (map (tag_of C unknown) tags) t keys (entropy w (draws w)) = Inr ev"
  shows "bridge_sign_nostr_event C t kind tags content w =
    (Ok (nostr_to_hex C (keys_public_key C keys), event_id_to_hex C ev, event_sig_to_string C ev), w\<lparr>draws := Suc (draws w)\<rparr>)"
  using assms(3,5)
  by (simp add: bridge_sign_nostr_event_def bridge_derive_nostr_keypair_def run_defs in_store_at
      run_get_identity_key_pair(1) [OF assms(1,2)] run_parse_tags [OF assms(4)] run_draw)

definition event_part :: "string \<Rightarrow> (json \<Rightarrow> 'a option) \<Rightarrow> (string \<times> json) list \<Rightarrow> 'a option" where
  "event_part field read m = read (json_index (JObject m) field)"

definition missing_part :: "(string \<times> json) list \<Rightarrow> string option" where
  "missing_part m =
     (if event_part ''created_at'' as_u64 m = None then Some ''Missing created_at''
      else if event_part ''kind'' as_u64 m = None then Some ''Missing kind''
      else if event_part ''content'' as_str m = None then Some ''Missing content''
      else if event_part ''tags'' as_array m = None then Some ''Missing tags'' else None)"

text \<open>
  C18. Signing an event given as JSON: an event without a readable time, kind, content or tags is
  refused with the name of the first missing field; otherwise the result is the same object with
  the node's public key, the event id and the signature set, and every other field as it was; it
  is returned as its JSON text, which reads back as that object when the event has no
  floating-point numbers.
\<close>

theorem event_signed:
  assumes "sqlite_ready C (store w)" and "local_key C (connection (store w)) = Some k"
    and "derive_from_signal_identity C k = Inr keys" and "tag_parse C [''unknown''] = Inr unknown"
    and "json_from_str C text = Inr (JObject m)" and "codecs_ok C"
  shows "(\<forall>e. missing_part m = Some e \<longrightarrow> ffi_sign_nostr_event C (Inr ()) text w = (Err (DynStr e), w)) \<and>
    (\<forall>t kind c ts ev out. event_part ''created_at'' as_u64 m = Some t \<and> event_part ''kind'' as_u64 m = Some kind \<and>
      event_part ''content'' as_str m = Some c \<and> event_part ''tags'' as_array m = Some ts \<and>
      event_sign C (ucast (ucast kind :: u32)) c (map (tag_of C unknown) (map tag_strings ts)) t keys (entropy w (draws w)) = Inr ev \<and>
      json_to_string C (signed_json (nostr_to_hex C (keys_public_key C keys)) (event_id_to_hex C ev)
        (event_sig_to_string C ev) m) = Inr out \<longrightarrow>
      (\<exists>m'. ffi_sign_nostr_event C (Inr ()) text w = (Ok out, w\<lparr>draws := Suc (draws w)\<rparr>) \<and>
        json_to_string C (JObject m') = Inr out \<and> (json_exact (JObject m) \<longrightarrow> json_from_str C out = Inr (JObject m')) \<and>
        map_of m' = (map_of m)(''pubkey'' \<mapsto> JString (nostr_to_hex C (keys_public_key C keys)),
          ''id'' \<mapsto> JString (event_id_to_hex C ev), ''sig'' \<mapsto> JString (event_sig_to_string C ev))))"
proof (intro conjI allI impI)
  show "ffi_sign_nostr_event C (Inr ()) text w = (Err (DynStr e), w)" if "missing_part m = Some e" for e
    using that by (auto simp: ffi_sign_nostr_event_def run_defs assms(5) required_def event_part_def missing_part_def
        split: if_splits)
next
  fix t kind c ts ev out
  assume e: "event_part ''created_at'' as_u64 m = Some t \<and> event_part ''kind'' as_u64 m = Some kind \<and>
      event_part ''content'' as_str m = Some c \<and> event_part ''tags'' as_array m = Some ts \<and>
      event_sign C (ucast (ucast kind :: u32)) c (map (tag_of C unknown) (map tag_strings ts)) t keys (entropy w (draws w)) = Inr ev \<and>
      json_to_string C (signed_json (nostr_to_hex C (keys_public_key C keys)) (event_id_to_hex C ev)
        (event_sig_to_string C ev) m) = Inr out"
  let ?m = "map_insert ''sig'' (JString (event_sig_to_string C ev)) (map_insert ''id'' (JString (event_id_to_hex C ev))
      (map_insert ''pubkey'' (JString (nostr_to_hex C (keys_public_key C keys))) m))"
  have printed: "json_to_string C (JObject ?m) = Inr out" using e by (simp add: signed_json_def)
  then have "json_exact (JObject m) \<longrightarrow> json_from_str C out = Inr (JObject ?m)"
    using codecs_okD(3) [OF assms(6)] by (simp add: exact_insert del: json_exact.simps)
  moreover have "ffi_sign_nostr_event C (Inr ()) text w = (Ok out, w\<lparr>draws := Suc (draws w)\<rparr>)"
    using e run_sign_nostr_event [OF assms(1-4), of "ucast kind" c "map tag_strings ts" t ev]
    by (simp add: ffi_sign_nostr_event_def run_defs assms(5) required_def event_part_def Let_def json_assign_def signed_json_def)
  ultimately show "\<exists>m'. ffi_sign_nostr_event C (Inr ()) text w = (Ok out, w\<lparr>draws := Suc (draws w)\<rparr>) \<and>
        json_to_string C (JObject m') = Inr out \<and> (json_exact (JObject m) \<longrightarrow> json_from_str C out = Inr (JObject m')) \<and>
        map_of m' = (map_of m)(''pubkey'' \<mapsto> JString (nostr_to_hex C (keys_public_key C keys)),
          ''id'' \<mapsto> JString (event_id_to_hex C ev), ''sig'' \<mapsto> JString (event_sig_to_string C ev))"
    using printed by (intro exI [of _ ?m]) (simp del: json_exact.simps)
qed

lemma sample_signing:
  "event_sign sample_crates kind c ts t ks r = Inr (NostrEvent (num_bytes r))"
  "event_id_to_hex sample_crates ev = ''event''" "event_sig_to_string sample_crates ev = ''sig''"
  "nostr_to_hex sample_crates (keys_public_key sample_crates (NostrKeys b)) = lower_hex b"
  "json_to_string sample_crates (signed_sample_event s) = Inr (''signed'' @ s)"
  by (simp_all add: sample_crates_defs signed_sample_event_def sample_event_def json_object_def json_index_def)

theorem event_signed_witness:
  "\<exists>m'. ffi_sign_nostr_event sample_crates (Inr ()) ''event'' (sample_sys keyed_storage) =
      (Ok (''signed'' @ lower_hex (7 # replicate 31 0)), (sample_sys keyed_storage)\<lparr>draws := 1\<rparr>) \<and>
    json_from_str sample_crates (''signed'' @ lower_hex (7 # replicate 31 0)) = Inr (JObject m')"
proof -
  let ?keys = "NostrKeys (7 # replicate 31 0)" let ?ev = "NostrEvent (num_bytes 0)"
  obtain m where m: "sample_event = JObject m" by (simp add: sample_event_def json_object_def)
  have parts: "event_part ''created_at'' as_u64 m = Some 5" "event_part ''kind'' as_u64 m = Some 1"
    "event_part ''content'' as_str m = Some ''hi''" "event_part ''tags'' as_array m = Some [json_strings [''p'', ''q'']]"
    using m by (auto simp: event_part_def sample_event_def json_object_def json_index_def as_u64_def as_str_def as_array_def json_u64_def)
  have exact: "json_exact (JObject m)" by (simp add: m [symmetric] sample_event_def json_object_def json_u64_def json_strings_def)
  have "derive_from_signal_identity sample_crates (IdentityKeyPair [7]) = Inr ?keys"
    by (simp add: derive_from_signal_identity_def derive_keys_def sample_crates_defs sample_libsignal_def)
  moreover have "tag_parse sample_crates [''unknown''] = Inr (NostrTag (bytes_of_chars ''unknown''))"
    by (simp add: sample_crates_defs)
  moreover have "json_from_str sample_crates ''event'' = Inr (JObject m)"
    using m by (simp add: sample_crates_defs json_of_text_def)
  moreover have "signed_json s ''event'' ''sig'' m = signed_sample_event s" for s
    using m by (simp add: signed_json_def signed_sample_event_def sample_event_def json_object_def)
  ultimately show ?thesis
    using event_signed [of sample_crates "sample_sys keyed_storage" "IdentityKeyPair [7]" ?keys
      "NostrTag (bytes_of_chars ''unknown'')" "''event''" m] parts exact
    by (auto simp: keyed_storage_ready keyed_storage_key sample_sys_def sample_signing)
qed

end
