(* ===== verification/Bridge_System.thy ===== *)
theory Bridge_System
  imports Ffi_Correct
begin

text \<open>
  The bridge as a system: every exported function is a step, faults and the clock are moves of the
  environment, and the tables stay well-formed in every reachable state.
\<close>

section \<open>Two halves of the database\<close>

text \<open>
  \<open>db_wf\<close> looks at the tables of the key stores, \<open>contacts_wf\<close> at contacts and history. A call that
  leaves one half alone has to be checked for the other half only.
\<close>

definition key_tables ::
    "db \<Rightarrow> session_row list \<times> identity_row list \<times> pre_key_row list \<times> signed_key_row list \<times> signed_key_row list \<times>
      local_identity_row option" where
  "key_tables d = (sessions d, identity_keys d, pre_keys d, signed_pre_keys d, kyber_pre_keys d, local_identity d)"

definition people_tables ::
    "db \<Rightarrow> contact_row list \<times> conversation_row list \<times> message_row list \<times> int \<times> int \<times> bool" where
  "people_tables d = (contacts d, conversations d, messages d, conversation_sequence d, message_sequence d, foreign_keys d)"

definition tables_wf :: "'x libsignal_scheme \<Rightarrow> db \<Rightarrow> bool" where
  "tables_wf L d \<longleftrightarrow> db_wf L d \<and> contacts_wf d"

lemma table_pred_tables_wf: "table_pred (tables_wf L)"
  unfolding tables_wf_def by (intro table_pred_conj table_pred_db_wf table_pred_contacts_wf)

lemma table_pred_halves: "table_pred (\<lambda>d. key_tables d = c)" "table_pred (\<lambda>d. people_tables d = c')"
  by (simp_all add: table_pred_def key_tables_def people_tables_def)

lemma db_wf_cong: "key_tables d' = key_tables d \<Longrightarrow> db_wf L d' = db_wf L d"
  by (simp add: key_tables_def db_wf_def)

lemma contacts_wf_cong: "people_tables d' = people_tables d \<Longrightarrow> contacts_wf d' = contacts_wf d"
  by (simp add: people_tables_def contacts_wf_def history_wf_def)

lemma preserves_tablesI:
  "preserves (db_wf L) m \<Longrightarrow> (\<And>c. preserves (\<lambda>d. people_tables d = c) m) \<Longrightarrow> preserves (tables_wf L) m"
  "preserves contacts_wf m' \<Longrightarrow> (\<And>c. preserves (\<lambda>d. key_tables d = c) m') \<Longrightarrow> preserves (tables_wf L) m'"
  using db_wf_cong contacts_wf_cong unfolding preserves_def tables_wf_def by metis+

lemma signed_put_people [simp]:
  "people_tables (put_signed_pre_key_row r d) = people_tables d" "people_tables (put_kyber_pre_key_row r d) = people_tables d"
  by (simp_all add: people_tables_def put_signed_pre_key_row_def put_kyber_pre_key_row_def)

lemma insert_signed_row_people:
  "(\<And>r d. people_tables (put r d) = people_tables d) \<Longrightarrow>
   preserves (\<lambda>d. people_tables d = c) (insert_signed_row tb put i b g t e)"
  unfolding insert_signed_row_def by (rule preserves_sql [OF table_pred_halves(2)]) (auto split: sum.splits if_splits)

lemma store_writers_people:
  fixes c defines "I \<equiv> \<lambda>d. people_tables d = c"
  shows "preserves I (sqlite_store_session L a r)" "preserves I sqlite_clear_all_sessions"
    "preserves I (sqlite_delete_session a)" "preserves I (sqlite_save_identity L a k)"
    "preserves I (sqlite_set_local_identity_key_pair L kp)" "preserves I (sqlite_set_local_registration_id j)"
    "preserves I (sqlite_delete_identity a)" "preserves I sqlite_clear_all_identities"
    "preserves I sqlite_clear_local_identity" "preserves I (sqlite_save_pre_key L i pk)"
    "preserves I (sqlite_remove_pre_key i)" "preserves I (sqlite_delete_pre_key i)" "preserves I sqlite_clear_all_pre_keys"
    "preserves I (sqlite_save_signed_pre_key L i sk)" "preserves I (sqlite_delete_signed_pre_key i)"
    "preserves I sqlite_clear_all_signed_pre_keys" "preserves I (sqlite_save_kyber_pre_key L i qk)"
    "preserves I (sqlite_delete_kyber_pre_key i)" "preserves I sqlite_clear_all_kyber_pre_keys"
    "preserves I (sqlite_mark_kyber_pre_key_used i)"
  unfolding I_def store_defs Let_def
  by (intro preserves_intro preserves_execute insert_signed_row_people table_pred_halves;
      simp add: people_tables_def put_signed_pre_key_row_def put_kyber_pre_key_row_def)+

lemma store_methods_wf:
  assumes "libsignal_ok L"
  shows "preserves (tables_wf L) (sqlite_store_session L a r)" "preserves (tables_wf L) sqlite_clear_all_sessions"
    "preserves (tables_wf L) (sqlite_delete_session a)" "preserves (tables_wf L) (sqlite_save_identity L a k)"
    "preserves (tables_wf L) (sqlite_set_local_identity_key_pair L kp)" "preserves (tables_wf L) (sqlite_set_local_registration_id j)"
    "preserves (tables_wf L) (sqlite_delete_identity a)" "preserves (tables_wf L) sqlite_clear_all_identities"
    "preserves (tables_wf L) sqlite_clear_local_identity" "preserves (tables_wf L) (sqlite_save_pre_key L i pk)"
    "preserves (tables_wf L) (sqlite_remove_pre_key i)" "preserves (tables_wf L) (sqlite_delete_pre_key i)"
    "preserves (tables_wf L) sqlite_clear_all_pre_keys" "preserves (tables_wf L) (sqlite_save_signed_pre_key L i sk)"
    "preserves (tables_wf L) (sqlite_delete_signed_pre_key i)" "preserves (tables_wf L) sqlite_clear_all_signed_pre_keys"
    "preserves (tables_wf L) (sqlite_save_kyber_pre_key L i qk)" "preserves (tables_wf L) (sqlite_delete_kyber_pre_key i)"
    "preserves (tables_wf L) sqlite_clear_all_kyber_pre_keys" "preserves (tables_wf L) (sqlite_mark_kyber_pre_key_used i)"
  by (intro preserves_tablesI(1) store_writers_people store_session_wf save_identity_wf save_pre_key_wf remove_pre_key_wf
      save_signed_pre_key_wf save_kyber_pre_key_wf mark_kyber_wf writers_wf assms)+

lemmas store_readers_wf = preserves_readers [OF table_pred_tables_wf] preserves_is_trusted [OF table_pred_tables_wf]

subsection \<open>Contacts and history\<close>

lemma keys_kept_by_statements [preserves_intro]:
  "preserves (\<lambda>d. key_tables d = c) (prepare ts)" "preserves (\<lambda>d. key_tables d = c) (query_row ts q)"
  "preserves (\<lambda>d. key_tables d = c) (query_all ts q')"
  by (rule preserves_queries [OF table_pred_halves(1)])+

lemma insert_rows_keys:
  "preserves (\<lambda>d. key_tables d = c) (insert_conversation rdx npub)"
  "preserves (\<lambda>d. key_tables d = c) (insert_message row)"
  "preserves (\<lambda>d. key_tables d = c) (insert_or_replace_contact rdx n al key now)"
  unfolding insert_conversation_def insert_message_def insert_or_replace_contact_def
  by (rule preserves_sql [OF table_pred_halves(1)];
      auto simp: key_tables_def Let_def replace_contact_def delete_conversation_rows_def split: if_splits sum.splits)+

lemma history_keys:
  fixes c defines "I \<equiv> \<lambda>d. key_tables d = c"
  shows "preserves I (store_incoming_message rdx t p b e)" "preserves I (store_outgoing_message rdx t p)"
    "preserves I (update_delivery_status i st)" "preserves I (mark_conversation_read rdx)"
    "preserves I (mark_conversation_read_up_to rdx t)" "preserves I (delete_message i)" "preserves I (delete_conversation rdx)"
    "preserves I (get_message i)" "preserves I (get_conversation_messages C rdx l k)"
    "preserves I (get_conversations C ar)" "preserves I (get_unread_count rdx)"
  unfolding I_def store_incoming_message_def store_outgoing_message_def update_delivery_status_def mark_conversation_read_def
    mark_conversation_read_up_to_def delete_message_def delete_conversation_def get_message_def
    get_conversation_messages_def get_conversations_def get_unread_count_def get_or_create_conversation_def
    update_conversation_def Let_def
  by (intro preserves_intro preserves_execute insert_rows_keys table_pred_halves;
      simp add: key_tables_def delete_conversation_rows_def update_conversations_def)+

lemma contacts_kept_by_history:
  fixes c defines "I \<equiv> \<lambda>d. contacts d = c"
  shows "preserves I (store_incoming_message rdx t p b e)" "preserves I (store_outgoing_message rdx t p)"
    "preserves I (update_delivery_status i st)" "preserves I (mark_conversation_read rdx)"
    "preserves I (mark_conversation_read_up_to rdx t)" "preserves I (delete_message i)" "preserves I (delete_conversation rdx)"
    "preserves I (get_message i)" "preserves I (get_conversation_messages C rdx l k)"
    "preserves I (get_conversations C ar)" "preserves I (get_unread_count rdx)"
proof -
  have T: "table_pred (\<lambda>d. contacts d = c)" by (simp add: table_pred_def)
  have rows: "preserves (\<lambda>d. contacts d = c) (insert_conversation rdx npub)"
    "preserves (\<lambda>d. contacts d = c) (insert_message row)" for rdx npub row
    unfolding insert_conversation_def insert_message_def
    by (rule preserves_sql [OF T]; auto simp: Let_def split: if_splits)+
  note queries = preserves_queries [OF T]
  show "preserves I (store_incoming_message rdx t p b e)" "preserves I (store_outgoing_message rdx t p)"
    "preserves I (update_delivery_status i st)" "preserves I (mark_conversation_read rdx)"
    "preserves I (mark_conversation_read_up_to rdx t)" "preserves I (delete_message i)" "preserves I (delete_conversation rdx)"
    "preserves I (get_message i)" "preserves I (get_conversation_messages C rdx l k)"
    "preserves I (get_conversations C ar)" "preserves I (get_unread_count rdx)"
    unfolding I_def store_incoming_message_def store_outgoing_message_def update_delivery_status_def mark_conversation_read_def
      mark_conversation_read_up_to_def delete_message_def delete_conversation_def get_message_def
      get_conversation_messages_def get_conversations_def get_unread_count_def get_or_create_conversation_def
      update_conversation_def Let_def
    by (intro queries preserves_intro preserves_execute rows T; simp add: delete_conversation_rows_def update_conversations_def)+
qed

lemma contacts_wf_history:
  "preserves history_wf m \<Longrightarrow> (\<And>c. preserves (\<lambda>d. contacts d = c) m) \<Longrightarrow> preserves contacts_wf m"
  unfolding preserves_def contacts_wf_def by metis

lemma history_methods_wf:
  "preserves (tables_wf L) (store_incoming_message rdx t p b e)" "preserves (tables_wf L) (store_outgoing_message rdx t p)"
  "preserves (tables_wf L) (update_delivery_status i st)" "preserves (tables_wf L) (mark_conversation_read rdx)"
  "preserves (tables_wf L) (mark_conversation_read_up_to rdx t)" "preserves (tables_wf L) (delete_message i)"
  "preserves (tables_wf L) (delete_conversation rdx)" "preserves (tables_wf L) (get_message i)"
  "preserves (tables_wf L) (get_conversation_messages C rdx l k)" "preserves (tables_wf L) (get_conversations C ar)"
  "preserves (tables_wf L) (get_unread_count rdx)"
  by (intro preserves_tablesI(2) history_keys contacts_wf_history contacts_kept_by_history store_incoming_wf store_outgoing_wf
      update_status_wf mark_read_wf mark_read_up_to_wf delete_message_wf delete_conversation_wf readers_wf)+

section \<open>Calls on the storage\<close>

definition system_wf :: "'x libsignal_scheme \<Rightarrow> sqlite_storage \<Rightarrow> bool" where
  "system_wf L s \<longleftrightarrow> tables_wf L (connection s)"

definition same_keys where
  "same_keys c s \<longleftrightarrow> key_tables (connection s) = c"

lemma preserves_on_conn_system [preserves_intro]:
  "preserves (tables_wf L) m \<Longrightarrow> preserves (system_wf L) (on_conn m)"
  "preserves (\<lambda>d. key_tables d = c) m \<Longrightarrow> preserves (same_keys c) (on_conn m)"
  unfolding on_conn_def by (rule preserves_zoom; auto simp: system_wf_def same_keys_def)+

lemma handles_keep [preserves_intro]:
  "preserves I (open_handle h)" "preserves I (expect_handle h msg)" "preserves I message_history_of"
  by (auto simp: preserves_def open_handle_def expect_handle_def message_history_of_def split: option.split)

lemma via_keep [preserves_intro]:
  assumes "preserves (tables_wf L) m"
  shows "preserves (system_wf L) (via_session_store m)" "preserves (system_wf L) (via_identity_store m)"
    "preserves (system_wf L) (via_pre_key_store m)" "preserves (system_wf L) (via_signed_pre_key_store m)"
    "preserves (system_wf L) (via_kyber_pre_key_store m)"
  unfolding via_session_store_def via_identity_store_def via_pre_key_store_def via_signed_pre_key_store_def
    via_kyber_pre_key_store_def
  by (intro preserves_intro assms)+

lemma has_session_keys: "preserves (in_sys (same_keys c)) (has_session C (session_store (sqlite_stores C)) rdx)"
  unfolding has_session_def contact_address_def
  by (intro preserves_intro) (simp add: preserves_readers [OF table_pred_halves(1)])

lemma contact_calls_keys:
  "preserves (in_sys (same_keys c)) (add_contact_from_identity_key C k)"
  "preserves (in_sys (same_keys c)) (add_contact_from_bundle C b alias)"
  "preserves (in_sys (same_keys c)) (lookup_contact C (session_store (sqlite_stores C)) i)"
  "preserves (in_sys (same_keys c)) (list_contacts C (session_store (sqlite_stores C)))"
  unfolding add_contact_from_identity_key_def add_contact_from_bundle_def lookup_contact_def list_contacts_def Let_def
    str_slice_def
  by (intro preserves_intro table_pred_halves insert_rows_keys has_session_keys)+

lemma assign_alias_keys:
  "preserves (in_sys (same_keys c)) (assign_contact_alias C (session_store (sqlite_stores C)) i a)"
  unfolding assign_contact_alias_def
  by (intro preserves_intro table_pred_halves contact_calls_keys preserves_sql)
    (auto simp: key_tables_def Let_def split: sum.splits)

lemma preserves_systemI:
  "preserves (in_sys contacts_kept) m \<Longrightarrow> (\<And>c. preserves (in_sys (same_keys c)) m) \<Longrightarrow> preserves (in_sys (system_wf L)) m"
  using db_wf_cong unfolding preserves_def in_sys_def system_wf_def tables_wf_def contacts_kept_def same_keys_def by metis

lemma contact_calls_wf:
  "preserves (in_sys (system_wf L)) (add_contact_from_identity_key C k)"
  "preserves (in_sys (system_wf L)) (add_contact_from_bundle C b alias)"
  "preserves (in_sys (system_wf L)) (lookup_contact C (session_store (sqlite_stores C)) i)"
  "preserves (in_sys (system_wf L)) (list_contacts C (session_store (sqlite_stores C)))"
  "preserves (in_sys (system_wf L)) (assign_contact_alias C (session_store (sqlite_stores C)) i a)"
  by (intro preserves_systemI contact_calls_keep contact_calls_keys assign_alias_keeps assign_alias_keys)+

subsection \<open>The container's methods\<close>

lemma container_methods_wf:
  assumes "libsignal_ok L"
  shows "preserves (system_wf L) (load_session (session_store (sqlite_container L)) a)"
    "preserves (system_wf L) (session_count (session_store (sqlite_container L)))"
    "preserves (system_wf L) (clear_all_sessions (session_store (sqlite_container L)))"
    "preserves (system_wf L) (delete_session (session_store (sqlite_container L)) a)"
    "preserves (system_wf L) (get_identity_key_pair (identity_store (sqlite_container L)))"
    "preserves (system_wf L) (get_local_registration_id (identity_store (sqlite_container L)))"
    "preserves (system_wf L) (get_identity (identity_store (sqlite_container L)) a)"
    "preserves (system_wf L) (identity_count (identity_store (sqlite_container L)))"
    "preserves (system_wf L) (set_local_identity_key_pair (identity_store (sqlite_container L)) kp)"
    "preserves (system_wf L) (set_local_registration_id (identity_store (sqlite_container L)) j)"
    "preserves (system_wf L) (get_peer_identity (identity_store (sqlite_container L)) a)"
    "preserves (system_wf L) (delete_identity (identity_store (sqlite_container L)) a)"
    "preserves (system_wf L) (clear_all_identities (identity_store (sqlite_container L)))"
    "preserves (system_wf L) (clear_local_identity (identity_store (sqlite_container L)))"
    "preserves (system_wf L) (get_pre_key (pre_key_store (sqlite_container L)) i)"
    "preserves (system_wf L) (save_pre_key (pre_key_store (sqlite_container L)) i pk)"
    "preserves (system_wf L) (pre_key_count (pre_key_store (sqlite_container L)))"
    "preserves (system_wf L) (clear_all_pre_keys (pre_key_store (sqlite_container L)))"
    "preserves (system_wf L) (get_max_pre_key_id (pre_key_store (sqlite_container L)))"
    "preserves (system_wf L) (delete_pre_key (pre_key_store (sqlite_container L)) i)"
    "preserves (system_wf L) (get_signed_pre_key (signed_pre_key_store (sqlite_container L)) i)"
    "preserves (system_wf L) (save_signed_pre_key (signed_pre_key_store (sqlite_container L)) i sk)"
    "preserves (system_wf L) (signed_pre_key_count (signed_pre_key_store (sqlite_container L)))"
    "preserves (system_wf L) (clear_all_signed_pre_keys (signed_pre_key_store (sqlite_container L)))"
    "preserves (system_wf L) (get_max_signed_pre_key_id (signed_pre_key_store (sqlite_container L)))"
    "preserves (system_wf L) (delete_signed_pre_key (signed_pre_key_store (sqlite_container L)) i)"
    "preserves (system_wf L) (get_signed_pre_keys_older_than (signed_pre_key_store (sqlite_container L)) t)"
    "preserves (system_wf L) (get_kyber_pre_key (kyber_pre_key_store (sqlite_container L)) i)"
    "preserves (system_wf L) (save_kyber_pre_key (kyber_pre_key_store (sqlite_container L)) i qk)"
    "preserves (system_wf L) (kyber_pre_key_count (kyber_pre_key_store (sqlite_container L)))"
    "preserves (system_wf L) (clear_all_kyber_pre_keys (kyber_pre_key_store (sqlite_container L)))"
    "preserves (system_wf L) (get_max_kyber_pre_key_id (kyber_pre_key_store (sqlite_container L)))"
    "preserves (system_wf L) (delete_kyber_pre_key (kyber_pre_key_store (sqlite_container L)) i)"
    "preserves (system_wf L) (get_kyber_pre_keys_older_than (kyber_pre_key_store (sqlite_container L)) t)"
  unfolding sqlite_container_def session_store_ops.select_convs identity_store_ops.select_convs pre_key_store_ops.select_convs
    signed_pre_key_store_ops.select_convs kyber_pre_key_store_ops.select_convs container.select_convs
  by (intro via_keep store_readers_wf store_methods_wf assms)+

lemma library_calls_wf:
  assumes "libsignal_ok L"
  shows "preserves (in_sys (system_wf L)) (sqlite_establish_session_from_bundle L a b)"
    "preserves (in_sys (system_wf L)) (sqlite_encrypt_message L a p)"
    "preserves (in_sys (system_wf L)) (sqlite_decrypt_message L a c)"
proof -
  have peer: "peer_callbacks_keep (tables_wf L) (sqlite_stores L)"
    by (rule peer_callbacks_keepI) (simp_all add: store_readers_wf store_methods_wf [OF assms] sqlite_stores_def)
  have all: "store_callbacks_keep (tables_wf L) (sqlite_stores L)"
    by (rule store_callbacks_keepI [OF peer]) (simp_all add: store_readers_wf store_methods_wf [OF assms] sqlite_stores_def)
  show "preserves (in_sys (system_wf L)) (sqlite_establish_session_from_bundle L a b)"
    "preserves (in_sys (system_wf L)) (sqlite_encrypt_message L a p)"
    "preserves (in_sys (system_wf L)) (sqlite_decrypt_message L a c)"
    unfolding sqlite_establish_session_from_bundle_def sqlite_encrypt_message_def sqlite_decrypt_message_def expect_store_def
    by (intro preserves_intro run_peer_preserves run_store_preserves peer all)+
qed

subsection \<open>Keys\<close>

lemma generation_keeps [preserves_intro]:
  "preserves (in_sys I) (generate_identity_key_pair L)" "preserves (in_sys I) (generate_pre_keys L i n)"
  "preserves (in_sys I) (generate_signed_pre_key L k i)"
  unfolding generate_identity_key_pair_def generate_pre_keys_def generate_signed_pre_key_def duration_since_epoch_def Let_def
  by (intro preserves_intro)+

lemma rotation_wf:
  assumes "libsignal_ok L"
  shows "preserves (in_sys (system_wf L)) (signed_pre_key_needs_rotation L (sqlite_container L))"
    "preserves (in_sys (system_wf L)) (kyber_pre_key_needs_rotation L (sqlite_container L))"
    "preserves (in_sys (system_wf L)) (rotate_signed_pre_key L (sqlite_container L) k)"
    "preserves (in_sys (system_wf L)) (rotate_kyber_pre_key L (sqlite_container L) k)"
    "preserves (in_sys (system_wf L)) (cleanup_expired_signed_pre_keys (sqlite_container L))"
    "preserves (in_sys (system_wf L)) (cleanup_expired_kyber_pre_keys (sqlite_container L))"
    "preserves (in_sys (system_wf L)) (replenish_pre_keys L (sqlite_container L))"
  unfolding signed_pre_key_needs_rotation_def kyber_pre_key_needs_rotation_def needs_rotation_def rotate_signed_pre_key_def
    rotate_kyber_pre_key_def cleanup_expired_signed_pre_keys_def cleanup_expired_kyber_pre_keys_def cleanup_expired_def
    replenish_pre_keys_def duration_since_epoch_def Let_def
  by (intro preserves_intro container_methods_wf assms)+

lemma start_wf:
  assumes "libsignal_ok C"
  shows "preserves (in_sys (system_wf C)) (ensure_keys_exist C)" "preserves (in_sys (system_wf C)) (start_bridge C)"
proof -
  show keys: "preserves (in_sys (system_wf C)) (ensure_keys_exist C)"
    unfolding ensure_keys_exist_def ensure_identity_def ensure_pre_keys_def ensure_signed_pre_key_def ensure_kyber_pre_key_def Let_def
    by (intro preserves_intro container_methods_wf assms)
  have schema: "preserves (tables_wf C) (create_table tb)" "preserves (tables_wf C) (create_index tb)"
    "preserves (tables_wf C) (execute ts (\<lambda>d. d\<lparr>created := List.insert tb (created d)\<rparr>))"
    "preserves (tables_wf C) (execute ts (\<lambda>d. d\<lparr>schema_info := f (schema_info d)\<rparr>))" for tb ts f
    unfolding create_table_def create_index_def
    by (intro preserves_intro preserves_execute table_pred_tables_wf;
        simp add: tables_wf_def db_wf_def contacts_wf_def history_wf_def)+
  have "preserves (tables_wf C) schema_statements"
    unfolding schema_statements_def session_create_tables_def identity_create_tables_def pre_key_create_tables_def
      signed_pre_key_create_tables_def kyber_pre_key_create_tables_def migrate_to_v2_def
    by (intro preserves_intro schema table_pred_tables_wf)
  then have "preserves (system_wf C) sqlite_initialize"
    unfolding sqlite_initialize_def initialize_schema_def
    by (intro preserves_intro preserves_modify table_pred_tables_wf) (simp_all add: system_wf_def)
  then show "preserves (in_sys (system_wf C)) (start_bridge C)"
    unfolding start_bridge_def get_schema_version_def
    by (intro preserves_intro keys container_methods_wf table_pred_tables_wf assms)
qed

subsection \<open>The bridge's methods\<close>

lemma bridge_contacts_wf:
  "preserves (in_sys (system_wf L)) (bridge_add_contact_from_bundle C b alias)"
  "preserves (in_sys (system_wf L)) (bridge_lookup_contact C i)"
  "preserves (in_sys (system_wf L)) (bridge_assign_contact_alias C i a)"
  "preserves (in_sys (system_wf L)) (bridge_list_contacts C)"
  unfolding bridge_add_contact_from_bundle_def bridge_lookup_contact_def bridge_assign_contact_alias_def
    bridge_list_contacts_def checked_session_store_def
  by (intro preserves_intro contact_calls_wf)+

lemma history_calls_wf [preserves_intro]:
  "preserves (tables_wf L) m \<Longrightarrow> preserves (in_sys (system_wf L)) (in_history m)"
  unfolding in_history_def by (intro preserves_intro)

lemma bridge_messages_wf:
  assumes "libsignal_ok C"
  shows "preserves (in_sys (system_wf C)) (bridge_encrypt_message C peer text)"
    "preserves (in_sys (system_wf C)) (bridge_decrypt_message C hint bytes)"
    "preserves (in_sys (system_wf C)) (bridge_establish_session C peer bytes)"
    "preserves (in_sys (system_wf C)) (bridge_generate_pre_key_bundle C)"
  unfolding bridge_encrypt_message_def bridge_decrypt_message_def identify_sender_def bridge_establish_session_def
    bridge_generate_pre_key_bundle_def parse_bundle_def bundle_of_records_def serializable_of_bundle_def available_def
    specify_peer_def session_name_def device_one_def Let_def
  by (intro preserves_intro container_methods_wf library_calls_wf history_methods_wf bridge_contacts_wf contact_calls_wf assms)+

lemma bridge_keys_wf:
  assumes "libsignal_ok C"
  shows "preserves (in_sys (system_wf C)) (bridge_clear_peer_session C peer)"
    "preserves (in_sys (system_wf C)) (bridge_clear_all_sessions C)"
    "preserves (in_sys (system_wf C)) (bridge_reset_identity C)"
    "preserves (in_sys (system_wf C)) (bridge_perform_key_maintenance C)"
    "preserves (in_sys (system_wf C)) (bridge_generate_node_fingerprint C)"
  unfolding bridge_clear_peer_session_def bridge_clear_all_sessions_def bridge_reset_identity_def
    bridge_perform_key_maintenance_def bridge_generate_node_fingerprint_def specify_peer_def device_one_def Let_def
  by (intro preserves_intro container_methods_wf rotation_wf start_wf(1) assms)+

lemma bridge_events_wf:
  assumes "libsignal_ok C"
  shows "preserves (in_sys (system_wf C)) (bridge_sign_nostr_event C t kind tags content)"
    "preserves (in_sys (system_wf C)) (bridge_derive_peer_nostr_key C peer)"
    "preserves (in_sys (system_wf C)) (bridge_create_subscription_for_self C sub since)"
    "preserves (in_sys (system_wf C)) (bridge_update_last_message_timestamp time)"
proof -
  have settings: "preserves (system_wf C) get_last_message_timestamp" "preserves (system_wf C) (set_last_message_timestamp time)"
    unfolding get_last_message_timestamp_def set_last_message_timestamp_def
    by (intro preserves_intro preserves_execute table_pred_tables_wf;
        simp add: tables_wf_def db_wf_def contacts_wf_def history_wf_def)+
  show "preserves (in_sys (system_wf C)) (bridge_sign_nostr_event C t kind tags content)"
    "preserves (in_sys (system_wf C)) (bridge_derive_peer_nostr_key C peer)"
    "preserves (in_sys (system_wf C)) (bridge_create_subscription_for_self C sub since)"
    "preserves (in_sys (system_wf C)) (bridge_update_last_message_timestamp time)"
    unfolding bridge_sign_nostr_event_def bridge_derive_nostr_keypair_def parse_tag_def bridge_derive_peer_nostr_key_def
      session_name_def contact_address_def bridge_create_subscription_for_self_def bridge_update_last_message_timestamp_def Let_def
    by (intro preserves_intro container_methods_wf bridge_contacts_wf settings assms)+
qed

lemma bridge_announcements_wf:
  assumes "libsignal_ok C"
  shows "preserves (in_sys (system_wf C)) (bridge_generate_prekey_bundle_announcement C version)"
    "preserves (in_sys (system_wf C)) (bridge_generate_empty_bundle_announcement C version)"
    "preserves (in_sys (system_wf C)) (bridge_add_contact_and_establish_session C bytes alias)"
  unfolding bridge_generate_prekey_bundle_announcement_def bridge_generate_empty_bundle_announcement_def
    bridge_add_contact_and_establish_session_def Let_def
  by (intro preserves_intro container_methods_wf bridge_contacts_wf bridge_messages_wf bridge_events_wf assms)+

section \<open>The exported functions as steps\<close>

datatype api_call =
    CallEncryptMessage "nat + unit" string bytes
  | CallDecryptMessage "nat + unit" string bytes
  | CallEstablishSession "nat + unit" string bytes
  | CallGeneratePreKeyBundle "nat + unit"
  | CallClearPeerSession "nat + unit" string
  | CallClearAllSessions "nat + unit"
  | CallResetIdentity "nat + unit"
  | CallGenerateNodeFingerprint "nat + unit"
  | CallSignNostrEvent "nat + unit" string
  | CallCreateAndSignEncryptedMessage "nat + unit" "nat + unit" string string u64 string
  | CallCreateSubscriptionForSelf "nat + unit" string u64
  | CallUpdateLastMessageTimestamp "nat + unit" u64
  | CallLookupContact "nat + unit" string
  | CallAssignContactAlias "nat + unit" string string
  | CallListContacts "nat + unit"
  | CallGeneratePrekeyBundleAnnouncement "nat + unit" string
  | CallGenerateEmptyBundleAnnouncement "nat + unit" string
  | CallAddContactAndEstablishSession "nat + unit" bytes string
  | CallAddContactAndEstablishSessionFromBase64 "nat + unit" string string
  | CallExtractRdxFromBundle bytes
  | CallExtractRdxFromBundleBase64 string
  | CallPerformKeyMaintenance "nat + unit"
  | CallRecordPublishedBundle u32 u32 u32
  | CallGetConversations bool
  | CallGetConversationMessages string u32 u32
  | CallMarkConversationRead string
  | CallMarkConversationReadUpTo string u64
  | CallDeleteMessage int
  | CallDeleteConversation string
  | CallGetUnreadCount string

definition discard :: "('s, 'e, 'a) M \<Rightarrow> ('s, 'e, unit) M" where
  "discard m = bindM m (\<lambda>_. ret ())"

fun api_run :: "'x crates_scheme \<Rightarrow> api_call \<Rightarrow> (signal_bridge sys, dyn_error, unit) M" where
  "api_run C (CallEncryptMessage rt peer text) = discard (ffi_encrypt_message C rt peer text)"
| "api_run C (CallDecryptMessage rt peer b) = discard (ffi_decrypt_message C rt peer b)"
| "api_run C (CallEstablishSession rt peer b) = ffi_establish_session C rt peer b"
| "api_run C (CallGeneratePreKeyBundle rt) = discard (ffi_generate_pre_key_bundle C rt)"
| "api_run C (CallClearPeerSession rt peer) = ffi_clear_peer_session C rt peer"
| "api_run C (CallClearAllSessions rt) = ffi_clear_all_sessions C rt"
| "api_run C (CallResetIdentity rt) = ffi_reset_identity C rt"
| "api_run C (CallGenerateNodeFingerprint rt) = discard (ffi_generate_node_fingerprint C rt)"
| "api_run C (CallSignNostrEvent rt event) = discard (ffi_sign_nostr_event C rt event)"
| "api_run C (CallCreateAndSignEncryptedMessage rt rt' session content t version) =
     discard (ffi_create_and_sign_encrypted_message C rt rt' session content t version)"
| "api_run C (CallCreateSubscriptionForSelf rt sub since) = discard (ffi_create_subscription_for_self C rt sub since)"
| "api_run C (CallUpdateLastMessageTimestamp rt t) = ffi_update_last_message_timestamp rt t"
| "api_run C (CallLookupContact rt i) = discard (ffi_lookup_contact C rt i)"
| "api_run C (CallAssignContactAlias rt i a) = ffi_assign_contact_alias C rt i a"
| "api_run C (CallListContacts rt) = discard (ffi_list_contacts C rt)"
| "api_run C (CallGeneratePrekeyBundleAnnouncement rt version) =
     discard (ffi_generate_prekey_bundle_announcement C rt version)"
| "api_run C (CallGenerateEmptyBundleAnnouncement rt version) =
     discard (ffi_generate_empty_bundle_announcement C rt version)"
| "api_run C (CallAddContactAndEstablishSession rt b a) = discard (ffi_add_contact_and_establish_session C rt b a)"
| "api_run C (CallAddContactAndEstablishSessionFromBase64 rt b a) =
     discard (ffi_add_contact_and_establish_session_from_base64 C rt b a)"
| "api_run C (CallExtractRdxFromBundle b) = discard (ffi_extract_rdx_from_bundle C b)"
| "api_run C (CallExtractRdxFromBundleBase64 b) = discard (ffi_extract_rdx_from_bundle_base64 C b)"
| "api_run C (CallPerformKeyMaintenance rt) = discard (ffi_perform_key_maintenance C rt)"
| "api_run C (CallRecordPublishedBundle p s k) = ffi_record_published_bundle p s k"
| "api_run C (CallGetConversations ar) = discard (ffi_get_conversations C ar)"
| "api_run C (CallGetConversationMessages rdx l k) = discard (ffi_get_conversation_messages C rdx l k)"
| "api_run C (CallMarkConversationRead rdx) = ffi_mark_conversation_read rdx"
| "api_run C (CallMarkConversationReadUpTo rdx t) = ffi_mark_conversation_read_up_to rdx t"
| "api_run C (CallDeleteMessage i) = ffi_delete_message i"
| "api_run C (CallDeleteConversation rdx) = ffi_delete_conversation rdx"
| "api_run C (CallGetUnreadCount rdx) = discard (ffi_get_unread_count rdx)"

text \<open>
  Between calls the environment sets the clock, the entropy and which of the next statements fail.
  A panic ends the program; letting calls go on after one only adds states.
\<close>

inductive api_step :: "'x crates_scheme \<Rightarrow> signal_bridge sys \<Rightarrow> signal_bridge sys \<Rightarrow> bool" for C where
  call: "api_step C w (snd (api_run C c w))"
| drop: "api_step C w (snd (in_store bridge_drop w))"
| environment: "api_step C w (w\<lparr>clock := ck, entropy := en,
    store := (store w)\<lparr>connection := (connection (store w))\<lparr>faults := fs\<rparr>\<rparr>\<rparr>)"

inductive api_reachable :: "'x crates_scheme \<Rightarrow> db \<Rightarrow> signal_bridge sys \<Rightarrow> bool" for C d where
  start: "store w = sqlite_storage_new d \<Longrightarrow> api_reachable C d (snd (start_bridge C w))"
| step: "api_reachable C d w \<Longrightarrow> api_step C w w' \<Longrightarrow> api_reachable C d w'"

inductive_cases api_stepE: "api_step C w w'"

lemma preserves_runtime [preserves_intro]: "preserves I m \<Longrightarrow> preserves I (with_runtime rt m)"
  unfolding with_runtime_def by (intro preserves_intro)

lemma preserves_boxed_history [preserves_intro]:
  "preserves (tables_wf L) m \<Longrightarrow> preserves (in_sys (system_wf L)) (boxed_history m)"
  unfolding boxed_history_def by (intro preserves_intro)

lemma record_published_wf: "preserves (in_sys (system_wf L)) (ffi_record_published_bundle p s k)"
  unfolding ffi_record_published_bundle_def record_published_bundle_def
  by (intro preserves_intro table_pred_tables_wf preserves_sql)
    (auto simp: tables_wf_def db_wf_def contacts_wf_def history_wf_def split: sum.splits)

lemma extract_rdx_wf: "preserves I (ffi_extract_rdx_from_bundle C b)"
  unfolding ffi_extract_rdx_from_bundle_def by (intro preserves_intro)

lemma sign_event_wf: "libsignal_ok C \<Longrightarrow> preserves (in_sys (system_wf C)) (ffi_sign_nostr_event C rt text)"
  unfolding ffi_sign_nostr_event_def required_def json_assign_def Let_def
  by (intro preserves_intro bridge_events_wf) (simp_all add: preserves_basic split: json.split)

lemma api_run_wf:
  assumes "libsignal_ok C"
  shows "preserves (in_sys (system_wf C)) (api_run C c)"
proof -
  note methods = bridge_messages_wf [OF assms] bridge_keys_wf [OF assms] bridge_events_wf [OF assms]
    bridge_announcements_wf [OF assms] bridge_contacts_wf history_methods_wf record_published_wf extract_rdx_wf sign_event_wf [OF assms]
  show ?thesis
    by (cases c;
        simp only: api_run.simps discard_def ffi_encrypt_message_def ffi_decrypt_message_def ffi_establish_session_def
        ffi_generate_pre_key_bundle_def ffi_clear_peer_session_def ffi_clear_all_sessions_def ffi_reset_identity_def
        ffi_generate_node_fingerprint_def ffi_create_and_sign_encrypted_message_def ffi_create_subscription_for_self_def
        ffi_update_last_message_timestamp_def ffi_lookup_contact_def ffi_assign_contact_alias_def ffi_list_contacts_def
        ffi_generate_prekey_bundle_announcement_def ffi_generate_empty_bundle_announcement_def
        ffi_add_contact_and_establish_session_def ffi_add_contact_and_establish_session_from_base64_def decode_base64_def
        ffi_extract_rdx_from_bundle_base64_def ffi_perform_key_maintenance_def
        ffi_get_conversations_def ffi_get_conversation_messages_def ffi_mark_conversation_read_def
        ffi_mark_conversation_read_up_to_def ffi_delete_message_def ffi_delete_conversation_def ffi_get_unread_count_def Let_def;
        intro preserves_intro methods)
qed

lemma drop_wf: "preserves (system_wf L) bridge_drop"
proof -
  have "preserves (system_wf L) sqlite_close"
  proof -
    have "preserves (system_wf L) (bindM (on_conn (with_lock (
       bindM (mapErr DynSql (execute [] (\<lambda>d. d))) (\<lambda>_.
       bindM (attempt (execute [] (\<lambda>d. d))) (\<lambda>_. ret ()))))) (\<lambda>_.
     modify (\<lambda>s. s\<lparr>is_closed := True, session_handle := None, identity_handle := None,
       pre_key_handle := None, signed_pre_key_handle := None, kyber_pre_key_handle := None\<rparr>)))"
      by (intro preserves_intro preserves_execute preserves_modify table_pred_tables_wf) (simp_all add: system_wf_def)
    then show ?thesis by (auto simp: preserves_def sqlite_close_def)
  qed
  then have "preserves (system_wf L) (bindM (attempt sqlite_close) (\<lambda>_. ret ()))" by (intro preserves_intro)
  then show ?thesis by (auto simp: preserves_def bridge_drop_def)
qed

lemma api_step_wf:
  assumes "api_step C w w'" and "libsignal_ok C" and "system_wf C (store w)"
  shows "system_wf C (store w')"
  using assms(1)
proof (rule api_stepE)
  fix c assume "w' = snd (api_run C c w)"
  then show ?thesis using api_run_wf [OF assms(2), of c] assms(3) by (simp add: preserves_def in_sys_def)
next
  assume "w' = snd (in_store bridge_drop w)"
  then show ?thesis using preserves_in_store [OF drop_wf, of C] assms(3) by (simp add: preserves_def in_sys_def)
qed (use assms(3) table_predD(1) [OF table_pred_tables_wf [of C]] in \<open>simp add: system_wf_def\<close>)

lemma reachable_wf:
  assumes "libsignal_ok C" and "tables_wf C d" and "api_reachable C d w"
  shows "tables_wf C (connection (store w))"
  using assms(3)
proof (induction rule: api_reachable.induct)
  case (start w)
  then have "system_wf C (store w)" using assms(2) by (simp add: system_wf_def sqlite_storage_new_def)
  then show ?case using start_wf(2) [OF assms(1)] by (simp add: preserves_def in_sys_def system_wf_def)
next
  case (step w w')
  then show ?case using api_step_wf [OF step.hyps(2) assms(1)] by (simp add: system_wf_def)
qed

text \<open>
  C1. In every state that any sequence of exported calls can reach from a database with well-formed
  tables, whichever statements fail and whatever the clock, the entropy and libsignal do, the
  tables are well-formed: keys are unique and decode, contacts have distinct fingerprints and Nostr
  keys, every conversation has its contact and every message its conversation.
\<close>

theorem reachable_tables_wf:
  assumes "libsignal_ok C" and "tables_wf C d" and "api_reachable C d w"
  shows "tables_wf C (connection (store w))"
  using assms by (rule reachable_wf)

theorem reachable_tables_wf_witness:
  "tables_wf sample_crates (connection (store (snd (api_run sample_crates (CallResetIdentity (Inr ()))
     (snd (start_bridge sample_crates (sample_sys (sqlite_storage_new (empty_db True)))))))))"
proof (rule reachable_tables_wf)
  show "tables_wf sample_crates (empty_db True)"
    by (simp add: tables_wf_def db_wf_def contacts_wf_def history_wf_def empty_db_def)
  show "api_reachable sample_crates (empty_db True) (snd (api_run sample_crates (CallResetIdentity (Inr ()))
      (snd (start_bridge sample_crates (sample_sys (sqlite_storage_new (empty_db True)))))))"
    by (rule api_reachable.step [OF api_reachable.start api_step.call]) (simp add: sample_sys_def)
qed (rule crates_okD(1) [OF sample_crates_ok])

end
