(* ===== verification/Bridge_Calm.thy ===== *)
theory Bridge_Calm
  imports Bridge_System
begin

text \<open>
  Which calls return: on a working database no exported function panics or deadlocks, except on a
  bundle that names a one-time pre-key without carrying it, and the bridge serves the next call.
  The proofs follow the text of the operations, one rule per combinator.
\<close>

section \<open>Calls that do not panic\<close>

text \<open>\<open>calm I m\<close>: from a state in \<open>I\<close> the call returns a value or an error and stays in \<open>I\<close>.\<close>

named_theorems calm_intro \<open>compositional rules for calls that do not panic\<close>

definition calm :: "('s \<Rightarrow> bool) \<Rightarrow> ('s, 'e, 'a) M \<Rightarrow> bool" where
  "calm I m \<longleftrightarrow> (\<forall>s. I s \<longrightarrow> I (snd (m s)) \<and> (\<forall>p. fst (m s) \<noteq> Panic p))"

lemma calm_basic [calm_intro]: "calm I (ret a)" "calm I (throw e)" "calm I (of_sum r)"
  by (auto simp: calm_def run_basic of_sum_at split: sum.split)

lemma calm_bindM [calm_intro]: "calm I m \<Longrightarrow> (\<And>a. calm I (f a)) \<Longrightarrow> calm I (bindM m f)"
  by (fastforce simp: calm_def bindM_at split: prod.splits outcome.splits)

lemma calm_mapErr [calm_intro]: "calm I m \<Longrightarrow> calm I (mapErr g m)"
  by (fastforce simp: calm_def mapErr_at split: prod.splits outcome.splits)

lemma calm_attempt [calm_intro]: "calm I m \<Longrightarrow> calm I (attempt m)"
  by (fastforce simp: calm_def attempt_at split: prod.splits outcome.splits)

lemma calm_cases [calm_intro]:
  "calm I m \<Longrightarrow> calm I n \<Longrightarrow> calm I (if b then m else n)"
  "calm I m \<Longrightarrow> (\<And>a. calm I (f a)) \<Longrightarrow> calm I (case x of None \<Rightarrow> m | Some a \<Rightarrow> f a)"
  "(\<And>e. calm I (g e)) \<Longrightarrow> (\<And>a. calm I (f a)) \<Longrightarrow> calm I (case y of Inl e \<Rightarrow> g e | Inr a \<Rightarrow> f a)"
  "(\<And>a c. calm I (h a c)) \<Longrightarrow> calm I (case z of (a, c) \<Rightarrow> h a c)"
  by (auto split: option.split sum.split prod.split)

text \<open>A database whose statements do not fail, with its mutex in a given state.\<close>

definition quiet_at :: "mutex \<Rightarrow> table list \<Rightarrow> db \<Rightarrow> bool" where
  "quiet_at m c d \<longleftrightarrow> mutex d = m \<and> faults d = [] \<and> created d = c"

lemma calm_sql:
  assumes "\<And>d a d'. quiet_at m c d \<Longrightarrow> f d = Inr (a, d') \<Longrightarrow> quiet_at m c d'"
  shows "calm (quiet_at m c) (sql ts f)"
  unfolding calm_def
proof (intro allI impI)
  fix d assume d: "quiet_at m c d"
  then have "faults d = []" by (simp add: quiet_at_def)
  then show "quiet_at m c (snd (sql ts f d)) \<and> (\<forall>p. fst (sql ts f d) \<noteq> Panic p)"
    using d assms [OF d] by (auto simp: sql_def Let_def split: sum.splits)
qed

lemma calm_statements [calm_intro]:
  "calm (quiet_at m c) (prepare ts)" "calm (quiet_at m c) (query_row ts q)" "calm (quiet_at m c) (query_all ts q')"
  unfolding prepare_def query_row_def query_all_def by (rule calm_sql; auto split: list.splits)+

lemma calm_execute: "(\<And>d. quiet_at m c d \<Longrightarrow> quiet_at m c (f d)) \<Longrightarrow> calm (quiet_at m c) (execute ts f)"
  unfolding execute_def by (rule calm_sql) auto

lemma calm_with_lock [calm_intro]:
  assumes "calm (quiet_at Locked c) m"
  shows "calm (quiet_at Unlocked c) (with_lock m)"
  unfolding calm_def
proof (intro allI impI)
  fix d assume d: "quiet_at Unlocked c d"
  obtain r d' where m: "m (d\<lparr>mutex := Locked\<rparr>) = (r, d')" by fastforce
  have "quiet_at Locked c (d\<lparr>mutex := Locked\<rparr>)" using d by (simp add: quiet_at_def)
  then have "quiet_at Locked c d'" "\<forall>p. r \<noteq> Panic p" using assms m unfolding calm_def by (metis fst_conv snd_conv)+
  then show "quiet_at Unlocked c (snd (with_lock m d)) \<and> (\<forall>p. fst (with_lock m d) \<noteq> Panic p)"
    using d m by (cases r) (simp_all add: with_lock_def quiet_at_def)
qed

lemma calm_insert_signed_row [calm_intro]:
  "(\<And>r d. quiet_at m c (put r d) = quiet_at m c d) \<Longrightarrow> calm (quiet_at m c) (insert_signed_row tb put i b g t e)"
  unfolding insert_signed_row_def by (rule calm_sql) (auto split: sum.splits if_splits)

lemma store_callbacks_calm:
  fixes c defines "Q \<equiv> quiet_at Unlocked c"
  shows "calm Q (sqlite_load_session L a)" "calm Q (sqlite_store_session L a r)" "calm Q (sqlite_get_identity_key_pair L)"
    "calm Q sqlite_get_local_registration_id" "calm Q (sqlite_save_identity L a k)"
    "calm Q (sqlite_is_trusted_identity L a k dir)" "calm Q (sqlite_get_identity L a)"
    "calm Q (sqlite_get_pre_key L i)" "calm Q (sqlite_save_pre_key L i pk)" "calm Q (sqlite_remove_pre_key i)"
    "calm Q (sqlite_get_signed_pre_key L i)" "calm Q (sqlite_save_signed_pre_key L i sk)"
    "calm Q (sqlite_get_kyber_pre_key L i)" "calm Q (sqlite_save_kyber_pre_key L i qk)"
    "calm Q (sqlite_mark_kyber_pre_key_used i)"
  unfolding Q_def store_defs Let_def
  by (intro calm_intro calm_execute;
      simp add: quiet_at_def put_signed_pre_key_row_def put_kyber_pre_key_row_def)+

lemma answers_calm: "calm (quiet_at Unlocked c) (answer_peer (sqlite_stores L) q)"
  "calm (quiet_at Unlocked c) (answer_store (sqlite_stores L) r)"
proof -
  show peer: "calm (quiet_at Unlocked c) (answer_peer (sqlite_stores L) q)" for q
    by (cases q) (simp_all add: answer_peer_def calm_intro store_callbacks_calm)
  show "calm (quiet_at Unlocked c) (answer_store (sqlite_stores L) r)"
    by (cases r) (simp_all add: answer_store_def calm_intro store_callbacks_calm peer)
qed

lemma library_calm:
  "calm (quiet_at Unlocked c) (run_peer (sqlite_stores L) p)" "calm (quiet_at Unlocked c) (run_store (sqlite_stores L) q)"
  by (induction p; simp add: calm_intro answers_calm) (induction q; simp add: calm_intro answers_calm)

subsection \<open>The methods of the stores and of the history\<close>

lemma calm_more [calm_intro]:
  "calm I m \<Longrightarrow> calm I (whenM b m)" "(\<And>x. calm I (f x)) \<Longrightarrow> calm I (forM f xs)"
  "(\<And>x. calm I (g x)) \<Longrightarrow> calm I (mapM g xs)" "calm I (gets h)"
proof -
  show "calm I m \<Longrightarrow> calm I (whenM b m)" "calm I (gets h)" by (simp_all add: calm_def whenM_def run_basic)
  show "(\<And>x. calm I (f x)) \<Longrightarrow> calm I (forM f xs)" by (induction xs) (simp_all add: calm_intro)
  show "(\<And>x. calm I (g x)) \<Longrightarrow> calm I (mapM g xs)" by (induction xs) (simp_all add: calm_intro)
qed

lemma calm_unwrap_prepare [calm_intro]:
  "set ts \<subseteq> set c \<Longrightarrow> calm (quiet_at m c) (unwrapM msg (prepare ts))"
  by (auto simp: calm_def quiet_at_def unwrapM_def run_prepare_quiet)

lemma calm_max_id_row [calm_intro]: "calm (quiet_at m c) (max_id_row t ids)"
  unfolding max_id_row_def by (rule calm_sql) (auto split: list.splits sum.splits)

lemma store_methods_calm:
  fixes c defines "Q \<equiv> quiet_at Unlocked c"
  assumes "set all_tables \<subseteq> set c"
  shows "calm Q sqlite_session_count" "calm Q sqlite_clear_all_sessions" "calm Q (sqlite_delete_session a)"
    "calm Q sqlite_identity_count" "calm Q (sqlite_set_local_identity_key_pair L kp)" "calm Q (sqlite_set_local_registration_id j)"
    "calm Q (sqlite_get_peer_identity L a)" "calm Q (sqlite_delete_identity a)" "calm Q sqlite_clear_all_identities"
    "calm Q sqlite_clear_local_identity" "calm Q sqlite_pre_key_count" "calm Q sqlite_clear_all_pre_keys"
    "calm Q sqlite_get_max_pre_key_id" "calm Q (sqlite_delete_pre_key i)" "calm Q sqlite_signed_pre_key_count"
    "calm Q sqlite_clear_all_signed_pre_keys" "calm Q sqlite_get_max_signed_pre_key_id"
    "calm Q (sqlite_delete_signed_pre_key i)" "calm Q (sqlite_get_signed_pre_keys_older_than t)"
    "calm Q sqlite_kyber_pre_key_count" "calm Q sqlite_clear_all_kyber_pre_keys" "calm Q sqlite_get_max_kyber_pre_key_id"
    "calm Q (sqlite_delete_kyber_pre_key i)" "calm Q (sqlite_get_kyber_pre_keys_older_than t)"
  using assms(2) unfolding Q_def store_defs Let_def
  by (intro calm_intro calm_execute; simp add: quiet_at_def all_tables_def)+

lemma calm_insert_rows [calm_intro]:
  "calm (quiet_at m c) (insert_conversation rdx npub)" "calm (quiet_at m c) (insert_message row)"
  "calm (quiet_at m c) (insert_or_replace_contact rdx n al key now)"
  unfolding insert_conversation_def insert_message_def insert_or_replace_contact_def
  by (rule calm_sql; auto simp: quiet_at_def Let_def replace_contact_def delete_conversation_rows_def split: if_splits sum.splits)+

lemma history_calm:
  fixes c defines "Q \<equiv> quiet_at Unlocked c"
  shows "calm Q (store_incoming_message rdx t p b e)" "calm Q (store_outgoing_message rdx t p)"
    "calm Q (mark_conversation_read rdx)" "calm Q (mark_conversation_read_up_to rdx t)" "calm Q (delete_message i)"
    "calm Q (delete_conversation rdx)" "calm Q (get_conversation_messages C rdx l k)" "calm Q (get_conversations C ar)"
    "calm Q (get_unread_count rdx)"
  unfolding Q_def store_incoming_message_def store_outgoing_message_def mark_conversation_read_def
    mark_conversation_read_up_to_def delete_message_def delete_conversation_def get_conversation_messages_def
    get_conversations_def get_unread_count_def get_or_create_conversation_def update_conversation_def Let_def
  by (intro calm_intro calm_execute; simp add: quiet_at_def delete_conversation_rows_def update_conversations_def)+

section \<open>The storage and the run\<close>

text \<open>A storage that is open on such a database, in a build without overflow checks.\<close>

definition up :: "table list \<Rightarrow> sqlite_storage \<Rightarrow> bool" where
  "up c s \<longleftrightarrow> quiet_at Unlocked c (connection s) \<and> set all_tables \<subseteq> set c \<and> \<not> is_closed s \<and>
     session_handle s = Some () \<and> identity_handle s = Some () \<and> pre_key_handle s = Some () \<and>
     signed_pre_key_handle s = Some () \<and> kyber_pre_key_handle s = Some () \<and> message_history_handle s = Some ()"

definition running :: "table list \<Rightarrow> sqlite_storage sys \<Rightarrow> bool" where
  "running c w \<longleftrightarrow> up c (store w) \<and> \<not> overflow_checks w"

lemma calm_zoom:
  assumes "calm J m" and "\<And>s. I s \<Longrightarrow> J (g s)" and "\<And>s t. I s \<Longrightarrow> J t \<Longrightarrow> I (p t s)"
  shows "calm I (zoom g p m)"
  using assms by (simp add: calm_def fst_zoom snd_zoom)

lemma calm_handles [calm_intro]:
  "calm (up c) (open_handle session_handle)" "calm (up c) (open_handle identity_handle)"
  "calm (up c) (open_handle pre_key_handle)" "calm (up c) (open_handle signed_pre_key_handle)"
  "calm (up c) (open_handle kyber_pre_key_handle)" "calm (up c) message_history_of"
  by (simp_all add: calm_def up_def message_history_of_def open_handle_def expect_handle_def)

lemma calm_up [calm_intro]:
  assumes "set all_tables \<subseteq> set c \<Longrightarrow> calm (quiet_at Unlocked c) m"
  shows "calm (up c) (on_conn m)" "calm (up c) (via_session_store m)" "calm (up c) (via_identity_store m)"
    "calm (up c) (via_pre_key_store m)" "calm (up c) (via_signed_pre_key_store m)" "calm (up c) (via_kyber_pre_key_store m)"
proof -
  show conn: "calm (up c) (on_conn m)"
  proof (cases "set all_tables \<subseteq> set c")
    case True
    show ?thesis unfolding on_conn_def by (rule calm_zoom [OF assms [OF True]]) (simp_all add: up_def)
  qed (simp add: calm_def up_def)
  show "calm (up c) (via_session_store m)" "calm (up c) (via_identity_store m)"
    "calm (up c) (via_pre_key_store m)" "calm (up c) (via_signed_pre_key_store m)" "calm (up c) (via_kyber_pre_key_store m)"
    unfolding via_session_store_def via_identity_store_def via_pre_key_store_def via_signed_pre_key_store_def
      via_kyber_pre_key_store_def
    by (intro calm_intro conn)+
qed

lemma calm_running [calm_intro]:
  "calm (up c) m \<Longrightarrow> calm (running c) (in_store m)" "calm (running c) draw" "calm (running c) system_time_now"
proof -
  show "calm (up c) m \<Longrightarrow> calm (running c) (in_store m)"
    unfolding in_store_def by (rule calm_zoom) (simp_all add: running_def)
qed (simp_all add: calm_def running_def draw_def system_time_now_def)

lemma calm_expect [calm_intro]:
  "calm (running c) (expect_store session_handle)" "calm (running c) (expect_store identity_handle)"
  "calm (running c) (expect_store pre_key_handle)" "calm (running c) (expect_store signed_pre_key_handle)"
  "calm (running c) (expect_store kyber_pre_key_handle)"
  by (simp_all add: calm_def running_def up_def expect_store_def expect_handle_def in_store_at)

lemma calm_checks: "calm (running c) (f False) \<Longrightarrow> calm (running c) (bindM (gets overflow_checks) f)"
  by (auto simp: calm_def running_def bindM_at run_basic)

lemma calm_wrapping [calm_intro]:
  "calm I (sub_u64 False a b)" "calm I (add_u64 False a b)" "calm I (add_u32 False x y)" "calm I (duration_since_epoch t)"
  by (simp_all add: sub_u64_def add_u64_def add_u32_def duration_since_epoch_def calm_basic)

lemma calm_clock [calm_intro]: "calm (running c) now_millis" "calm (running c) now_secs"
  unfolding now_millis_def now_secs_def by (intro calm_intro)+

lemma container_calm:
  "calm (up c) (load_session (session_store (sqlite_container L)) a)"
  "calm (up c) (session_count (session_store (sqlite_container L)))"
  "calm (up c) (clear_all_sessions (session_store (sqlite_container L)))"
  "calm (up c) (delete_session (session_store (sqlite_container L)) a)"
  "calm (up c) (get_identity_key_pair (identity_store (sqlite_container L)))"
  "calm (up c) (get_local_registration_id (identity_store (sqlite_container L)))"
  "calm (up c) (get_identity (identity_store (sqlite_container L)) a)"
  "calm (up c) (identity_count (identity_store (sqlite_container L)))"
  "calm (up c) (set_local_identity_key_pair (identity_store (sqlite_container L)) kp)"
  "calm (up c) (set_local_registration_id (identity_store (sqlite_container L)) j)"
  "calm (up c) (get_peer_identity (identity_store (sqlite_container L)) a)"
  "calm (up c) (delete_identity (identity_store (sqlite_container L)) a)"
  "calm (up c) (clear_all_identities (identity_store (sqlite_container L)))"
  "calm (up c) (clear_local_identity (identity_store (sqlite_container L)))"
  "calm (up c) (get_pre_key (pre_key_store (sqlite_container L)) i)"
  "calm (up c) (save_pre_key (pre_key_store (sqlite_container L)) i pk)"
  "calm (up c) (pre_key_count (pre_key_store (sqlite_container L)))"
  "calm (up c) (clear_all_pre_keys (pre_key_store (sqlite_container L)))"
  "calm (up c) (get_max_pre_key_id (pre_key_store (sqlite_container L)))"
  "calm (up c) (get_signed_pre_key (signed_pre_key_store (sqlite_container L)) i)"
  "calm (up c) (save_signed_pre_key (signed_pre_key_store (sqlite_container L)) i sk)"
  "calm (up c) (signed_pre_key_count (signed_pre_key_store (sqlite_container L)))"
  "calm (up c) (clear_all_signed_pre_keys (signed_pre_key_store (sqlite_container L)))"
  "calm (up c) (get_max_signed_pre_key_id (signed_pre_key_store (sqlite_container L)))"
  "calm (up c) (delete_signed_pre_key (signed_pre_key_store (sqlite_container L)) i)"
  "calm (up c) (get_signed_pre_keys_older_than (signed_pre_key_store (sqlite_container L)) t)"
  "calm (up c) (get_kyber_pre_key (kyber_pre_key_store (sqlite_container L)) i)"
  "calm (up c) (save_kyber_pre_key (kyber_pre_key_store (sqlite_container L)) i qk)"
  "calm (up c) (kyber_pre_key_count (kyber_pre_key_store (sqlite_container L)))"
  "calm (up c) (clear_all_kyber_pre_keys (kyber_pre_key_store (sqlite_container L)))"
  "calm (up c) (get_max_kyber_pre_key_id (kyber_pre_key_store (sqlite_container L)))"
  "calm (up c) (delete_kyber_pre_key (kyber_pre_key_store (sqlite_container L)) i)"
  "calm (up c) (get_kyber_pre_keys_older_than (kyber_pre_key_store (sqlite_container L)) t)"
  unfolding sqlite_container_def session_store_ops.select_convs identity_store_ops.select_convs pre_key_store_ops.select_convs
    signed_pre_key_store_ops.select_convs kyber_pre_key_store_ops.select_convs container.select_convs
  by (intro calm_up store_callbacks_calm store_methods_calm; assumption)+

section \<open>The methods of the bridge\<close>

lemma generation_calm [calm_intro]:
  "calm (running c) (generate_identity_key_pair L)" "calm (running c) (generate_pre_keys L i n)"
  "calm (running c) (generate_signed_pre_key L k i)"
  unfolding generate_identity_key_pair_def generate_pre_keys_def generate_signed_pre_key_def Let_def
  by (intro calm_checks calm_intro)+

lemma rotation_calm [calm_intro]:
  "calm (running c) (signed_pre_key_needs_rotation L (sqlite_container L))"
  "calm (running c) (kyber_pre_key_needs_rotation L (sqlite_container L))"
  "calm (running c) (rotate_signed_pre_key L (sqlite_container L) k)"
  "calm (running c) (rotate_kyber_pre_key L (sqlite_container L) k)"
  "calm (running c) (cleanup_expired_signed_pre_keys (sqlite_container L))"
  "calm (running c) (cleanup_expired_kyber_pre_keys (sqlite_container L))"
  "calm (running c) (replenish_pre_keys L (sqlite_container L))"
  unfolding signed_pre_key_needs_rotation_def kyber_pre_key_needs_rotation_def needs_rotation_def rotate_signed_pre_key_def
    rotate_kyber_pre_key_def cleanup_expired_signed_pre_keys_def cleanup_expired_kyber_pre_keys_def cleanup_expired_def
    replenish_pre_keys_def Let_def
  by (intro calm_checks calm_intro container_calm)+

lemma ensure_keys_calm [calm_intro]: "calm (running c) (ensure_keys_exist C)"
  unfolding ensure_keys_exist_def ensure_identity_def ensure_pre_keys_def ensure_signed_pre_key_def ensure_kyber_pre_key_def Let_def
  by (intro calm_intro container_calm)

lemma library_calls_calm [calm_intro]:
  "calm (running c) (sqlite_establish_session_from_bundle L a b)" "calm (running c) (sqlite_encrypt_message L a p)"
  "calm (running c) (sqlite_decrypt_message L a m)"
  unfolding sqlite_establish_session_from_bundle_def sqlite_encrypt_message_def sqlite_decrypt_message_def
  by (intro calm_intro library_calm)+

subsection \<open>Contacts\<close>

lemma contact_address_calm: "libsignal_ok C \<Longrightarrow> calm I (contact_address C name)"
  by (simp add: contact_address_def libsignal_okD calm_basic)

lemma has_session_calm:
  "libsignal_ok C \<Longrightarrow> calm (running c) (has_session C (session_store (sqlite_stores C)) rdx)"
  unfolding has_session_def by (intro calm_intro contact_address_calm) (simp_all add: store_callbacks_calm)

lemma short_alias_calm:
  assumes "crates_ok C"
  shows "calm I (str_slice 4 12 (generate_identity_fingerprint_from_key C k))"
  by (simp add: str_slice_def generate_identity_fingerprint_from_key_def crates_okD(2) [OF assms] calm_basic)

lemma contact_calls_calm:
  assumes "crates_ok C"
  shows "calm (running c) (add_contact_from_identity_key C k)" "calm (running c) (bridge_add_contact_from_bundle C b alias)"
    "calm (running c) (bridge_lookup_contact C i)" "calm (running c) (bridge_assign_contact_alias C i a)"
    "calm (running c) (bridge_list_contacts C)"
proof -
  note L = crates_okD(1) [OF assms]
  have lookup: "calm (running c) (lookup_contact C (session_store (sqlite_stores C)) i)" for i
    unfolding lookup_contact_def by (intro calm_intro has_session_calm L)
  show "calm (running c) (bridge_lookup_contact C i)"
    unfolding bridge_lookup_contact_def checked_session_store_def by (intro calm_intro lookup)
  show "calm (running c) (add_contact_from_identity_key C k)" "calm (running c) (bridge_add_contact_from_bundle C b alias)"
    unfolding add_contact_from_identity_key_def bridge_add_contact_from_bundle_def checked_session_store_def
      add_contact_from_bundle_def Let_def
    by (intro calm_intro short_alias_calm assms)+
  show "calm (running c) (bridge_list_contacts C)"
    unfolding bridge_list_contacts_def checked_session_store_def list_contacts_def by (intro calm_intro has_session_calm L)
  have "calm (quiet_at Locked c) (sql [Contacts] (\<lambda>d. case u64_to_sql now of Inl e \<Rightarrow> Inl e
      | Inr t \<Rightarrow> let sel = (\<lambda>r. rdx_fingerprint r = info_rdx_fingerprint contact) in
          Inr (length (filter sel (contacts d)),
            d\<lparr>contacts := map (\<lambda>r. if sel r then r\<lparr>user_alias := Some a, last_updated := t\<rparr> else r) (contacts d)\<rparr>)))" for now contact
    by (rule calm_sql) (auto simp: quiet_at_def Let_def split: sum.splits)
  then show "calm (running c) (bridge_assign_contact_alias C i a)"
    unfolding bridge_assign_contact_alias_def checked_session_store_def assign_contact_alias_def by (intro calm_intro lookup)
qed

subsection \<open>Messages, sessions and bundles\<close>

lemma calm_in_history [calm_intro]: "calm (quiet_at Unlocked c) m \<Longrightarrow> calm (running c) (in_history m)"
  unfolding in_history_def by (intro calm_intro)

lemma calm_small [calm_intro]:
  "calm I (specify_peer peer)" "calm I (device_one C)" "calm I (available msg x)"
  unfolding specify_peer_def device_one_def available_def by (intro calm_intro)+

text \<open>A bundle that carries the one-time pre-key it names.\<close>

definition bundle_complete :: "serializable_pre_key_bundle \<Rightarrow> bool" where
  "bundle_complete b \<longleftrightarrow> (bundle_pre_key_id b \<noteq> None \<longrightarrow> bundle_pre_key_public b \<noteq> None)"

definition complete_bytes :: "'x crates_scheme \<Rightarrow> bytes \<Rightarrow> bool" where
  "complete_bytes C bytes \<longleftrightarrow> (case bincode_deserialize C bytes of Inl _ \<Rightarrow> True | Inr b \<Rightarrow> bundle_complete b)"

lemma calm_bind_sum:
  "(\<And>a. r = Inr a \<Longrightarrow> calm I (f a)) \<Longrightarrow> calm I (bindM (mapErr g (of_sum r)) f)"
  by (cases r) (auto simp: calm_def run_defs)

lemma parse_bundle_calm: "bundle_complete b \<Longrightarrow> calm I (parse_bundle C b)"
  by (cases "bundle_pre_key_id b"; cases "bundle_pre_key_public b")
    (simp_all add: parse_bundle_def bundle_complete_def calm_intro)

lemma establish_calm: "complete_bytes C bytes \<Longrightarrow> calm (running c) (bridge_establish_session C peer bytes)"
  unfolding bridge_establish_session_def
  by (intro calm_bind_sum calm_intro parse_bundle_calm) (simp add: complete_bytes_def)

lemma messages_calm:
  assumes "crates_ok C"
  shows "calm (running c) (bridge_encrypt_message C peer body)" "calm (running c) (bridge_decrypt_message C hint bytes)"
    "calm (running c) (bridge_generate_pre_key_bundle C)"
  unfolding bridge_encrypt_message_def bridge_decrypt_message_def identify_sender_def session_name_def
    bridge_generate_pre_key_bundle_def bundle_of_records_def serializable_of_bundle_def Let_def
  by (intro calm_intro container_calm history_calm contact_calls_calm assms)+

lemma clearing_calm:
  "calm (running c) (bridge_clear_peer_session C peer)" "calm (running c) (bridge_clear_all_sessions C)"
  "calm (running c) (bridge_reset_identity C)" "calm (running c) (bridge_perform_key_maintenance C)"
  "calm (running c) (bridge_generate_node_fingerprint C)"
  unfolding bridge_clear_peer_session_def bridge_reset_identity_def bridge_clear_all_sessions_def
    bridge_perform_key_maintenance_def bridge_generate_node_fingerprint_def Let_def
  by (intro calm_intro container_calm)+

subsection \<open>Events\<close>

text \<open>\<open>Tag::parse(["unknown"])\<close>, which the source unwraps, succeeds.\<close>

definition tags_ok :: "'x crates_scheme \<Rightarrow> bool" where
  "tags_ok C \<longleftrightarrow> (case tag_parse C [''unknown''] of Inl _ \<Rightarrow> False | Inr _ \<Rightarrow> True)"

lemma parse_tag_calm: "tags_ok C \<Longrightarrow> calm I (parse_tag C tag)"
  by (auto simp: parse_tag_def tags_ok_def calm_basic split: sum.splits)

lemma events_calm:
  assumes "crates_ok C" and "tags_ok C"
  shows "calm (running c) (bridge_sign_nostr_event C t kind tags content)"
    "calm (running c) (bridge_derive_peer_nostr_key C peer)"
    "calm (running c) (bridge_create_subscription_for_self C sub since)"
    "calm (running c) (bridge_update_last_message_timestamp time)"
proof -
  have settings: "calm (up c) get_last_message_timestamp" "calm (up c) (set_last_message_timestamp time)"
    unfolding get_last_message_timestamp_def set_last_message_timestamp_def
    by (intro calm_intro calm_execute; simp add: quiet_at_def)+
  show "calm (running c) (bridge_sign_nostr_event C t kind tags content)"
    "calm (running c) (bridge_derive_peer_nostr_key C peer)"
    "calm (running c) (bridge_create_subscription_for_self C sub since)"
    "calm (running c) (bridge_update_last_message_timestamp time)"
    unfolding bridge_sign_nostr_event_def bridge_derive_nostr_keypair_def bridge_derive_peer_nostr_key_def session_name_def
      bridge_create_subscription_for_self_def bridge_update_last_message_timestamp_def Let_def
    by (intro calm_intro container_calm contact_calls_calm contact_address_calm parse_tag_calm settings assms
        crates_okD(1) [OF assms(1)])+
qed

lemma announcements_calm:
  assumes "crates_ok C" and "tags_ok C"
  shows "calm (running c) (bridge_generate_prekey_bundle_announcement C version)"
    "calm (running c) (bridge_generate_empty_bundle_announcement C version)"
    "complete_bytes C bytes \<Longrightarrow> calm (running c) (bridge_add_contact_and_establish_session C bytes alias)"
  unfolding bridge_generate_prekey_bundle_announcement_def bridge_generate_empty_bundle_announcement_def
    bridge_add_contact_and_establish_session_def Let_def
  by (intro calm_intro container_calm contact_calls_calm messages_calm events_calm establish_calm assms; assumption?)+

text \<open>
  A field can only be read from an object, so the fields that signing adds are written into an
  object: indexing anything else gives \<open>Null\<close>, and the required fields are then missing.
\<close>

lemma bindM_ret [simp]: "bindM (ret a) f = f a"
  by (simp add: fun_eq_iff bindM_at run_basic)

lemma calm_required:
  assumes "\<And>m n. v = JObject m \<Longrightarrow> calm I (f n)"
  shows "calm I (bindM (required msg (as_u64 (json_index v k))) f)"
proof (cases v)
  case (JObject m)
  then show ?thesis using assms by (auto simp: required_def intro!: calm_intro)
qed (simp_all add: required_def as_u64_def json_index_def bindM_def throw_def calm_def)

lemma required_calm: "calm I (required msg x)"
  by (simp add: required_def calm_intro)

lemma sign_event_calm:
  assumes "crates_ok C" and "tags_ok C"
  shows "calm (running c) (ffi_sign_nostr_event C rt event)"
  unfolding ffi_sign_nostr_event_def
  by (intro calm_bind_sum calm_required)
    (simp add: json_assign_def Let_def, intro calm_intro required_calm events_calm assms)

section \<open>The exported functions\<close>

lemma calm_runtime [calm_intro]: "calm I m \<Longrightarrow> calm I (with_runtime rt m)"
  unfolding with_runtime_def by (intro calm_intro)

lemma calm_boxed_history [calm_intro]: "calm (quiet_at Unlocked c) m \<Longrightarrow> calm (running c) (boxed_history m)"
  unfolding boxed_history_def by (intro calm_intro)

text \<open>The bundle that a call is given, when it is given one, carries the pre-key it names.\<close>

fun call_complete :: "'x crates_scheme \<Rightarrow> api_call \<Rightarrow> bool" where
  "call_complete C (CallEstablishSession rt peer b) = complete_bytes C b"
| "call_complete C (CallAddContactAndEstablishSession rt b a) = complete_bytes C b"
| "call_complete C (CallAddContactAndEstablishSessionFromBase64 rt b a) =
     (case base64_decode C b of Inl _ \<Rightarrow> True | Inr bytes \<Rightarrow> complete_bytes C bytes)"
| "call_complete C c = True"

lemma base64_calm:
  assumes "crates_ok C" and "tags_ok C" and "call_complete C (CallAddContactAndEstablishSessionFromBase64 rt b a)"
  shows "calm (running c) (ffi_add_contact_and_establish_session_from_base64 C rt b a)"
  unfolding ffi_add_contact_and_establish_session_from_base64_def decode_base64_def ffi_add_contact_and_establish_session_def
  using assms by (intro calm_bind_sum calm_intro announcements_calm) simp_all

lemma record_published_calm: "calm (running c) (ffi_record_published_bundle p s k)"
  unfolding ffi_record_published_bundle_def record_published_bundle_def
  by (intro calm_intro calm_sql) (auto simp: quiet_at_def split: sum.splits)

lemma extract_rdx_calm: "calm I (ffi_extract_rdx_from_bundle C b)"
  unfolding ffi_extract_rdx_from_bundle_def by (intro calm_intro)

lemma api_run_calm:
  assumes "crates_ok C" and "tags_ok C" and "call_complete C c"
  shows "calm (running ts) (api_run C c)"
proof -
  note methods = messages_calm [OF assms(1)] clearing_calm events_calm [OF assms(1,2)] announcements_calm [OF assms(1,2)]
    contact_calls_calm [OF assms(1)] history_calm record_published_calm sign_event_calm [OF assms(1,2)]
    base64_calm [OF assms(1,2)] establish_calm extract_rdx_calm
  show ?thesis
    using assms(3)
    by (cases c;
        simp only: api_run.simps call_complete.simps discard_def ffi_encrypt_message_def ffi_decrypt_message_def ffi_establish_session_def
        ffi_generate_pre_key_bundle_def ffi_clear_peer_session_def ffi_clear_all_sessions_def ffi_reset_identity_def
        ffi_generate_node_fingerprint_def ffi_create_and_sign_encrypted_message_def ffi_create_subscription_for_self_def
        ffi_update_last_message_timestamp_def ffi_lookup_contact_def ffi_assign_contact_alias_def ffi_list_contacts_def
        ffi_generate_prekey_bundle_announcement_def ffi_generate_empty_bundle_announcement_def
        ffi_add_contact_and_establish_session_def decode_base64_def
        ffi_extract_rdx_from_bundle_base64_def ffi_perform_key_maintenance_def
        ffi_get_conversations_def ffi_get_conversation_messages_def ffi_mark_conversation_read_def
        ffi_mark_conversation_read_up_to_def ffi_delete_message_def ffi_delete_conversation_def ffi_get_unread_count_def Let_def;
        intro calm_intro methods; (assumption | simp))
qed

subsection \<open>Progress\<close>

text \<open>A bridge in working order, in a build without overflow checks.\<close>

definition in_order :: "'x crates_scheme \<Rightarrow> signal_bridge sys \<Rightarrow> bool" where
  "in_order C w \<longleftrightarrow> sqlite_ready C (store w) \<and> contacts_wf (connection (store w)) \<and> \<not> overflow_checks w"

lemma in_order_iff:
  "in_order C w \<longleftrightarrow> running (created (connection (store w))) w \<and> system_wf C (store w) \<and> libsignal_ok C"
  unfolding in_order_def running_def up_def sqlite_ready_def serving_def quiet_at_def system_wf_def tables_wf_def by blast

lemma running_created: "running c w \<Longrightarrow> created (connection (store w)) = c"
  by (simp add: running_def up_def quiet_at_def)

lemma calm_in_order:
  assumes "\<And>c. calm (running c) m" and "preserves (in_sys (system_wf C)) m"
  shows "calm (in_order C) m"
  unfolding calm_def
proof (intro allI impI)
  fix w assume "in_order C w"
  then have w: "running (created (connection (store w))) w" "system_wf C (store w)" "libsignal_ok C"
    by (simp_all add: in_order_iff)
  have out: "running (created (connection (store w))) (snd (m w))" "\<forall>p. fst (m w) \<noteq> Panic p"
    using assms(1) [of "created (connection (store w))"] w(1) by (simp_all add: calm_def)
  moreover have "system_wf C (store (snd (m w)))" using assms(2) w(2) by (simp add: preserves_def in_sys_def)
  ultimately show "in_order C (snd (m w)) \<and> (\<forall>p. fst (m w) \<noteq> Panic p)"
    using w(3) by (simp add: in_order_iff running_created [OF out(1)])
qed

lemma api_run_in_order:
  "crates_ok C \<Longrightarrow> tags_ok C \<Longrightarrow> call_complete C c \<Longrightarrow> calm (in_order C) (api_run C c)"
  by (rule calm_in_order) (simp_all add: api_run_calm api_run_wf crates_okD(1))

lemma exported_call_returns:
  assumes "crates_ok C" and "tags_ok C" and "in_order C w" and "call_complete C c"
  shows "\<exists>w'. in_order C w' \<and> ((\<exists>a. api_run C c w = (Ok a, w')) \<or> (\<exists>e. api_run C c w = (Err e, w')))"
proof -
  have "in_order C (snd (api_run C c w)) \<and> (\<forall>p. fst (api_run C c w) \<noteq> Panic p)"
    using api_run_in_order [OF assms(1,2,4)] assms(3) by (simp add: calm_def)
  then show ?thesis by (cases "api_run C c w"; cases "fst (api_run C c w)") auto
qed

text \<open>What can happen to a bridge whose database works: complete calls, and time passing.\<close>

inductive served :: "'x crates_scheme \<Rightarrow> signal_bridge sys \<Rightarrow> signal_bridge sys \<Rightarrow> bool" for C w where
  start: "served C w w"
| call: "served C w v \<Longrightarrow> call_complete C c \<Longrightarrow> served C w (snd (api_run C c v))"
| time: "served C w v \<Longrightarrow> served C w (v\<lparr>clock := ck, entropy := en\<rparr>)"

lemma served_in_order:
  assumes "served C w v" and "crates_ok C" and "tags_ok C" and "in_order C w"
  shows "in_order C v"
  using assms(1)
proof (induction rule: served.induct)
  case (call v c)
  then show ?case using api_run_in_order [OF assms(2,3)] by (simp add: calm_def)
qed (use assms(4) in \<open>simp_all add: in_order_def\<close>)

lemma start_in_order:
  assumes "openable C d" and "contacts_wf d" and "store w = sqlite_storage_new d" and "\<not> overflow_checks w"
  shows "in_order C (snd (start_bridge C w)) \<and> (\<forall>p. fst (start_bridge C w) \<noteq> Panic p)"
proof -
  let ?w = "w\<lparr>store := opened d\<rparr>"
  have version: "\<not> current_version d < 1" by (simp add: current_version_def split: list.split)
  define rest where "rest = bindM (ensure_keys_exist C) (\<lambda>_. mapErr bridge_from_dyn (
     bindM (in_store (session_count (session_store (sqlite_container C)))) (\<lambda>_.
     bindM (in_store (identity_count (identity_store (sqlite_container C)))) (\<lambda>_.
     bindM (in_store (pre_key_count (pre_key_store (sqlite_container C)))) (\<lambda>_.
     bindM (in_store (signed_pre_key_count (signed_pre_key_store (sqlite_container C)))) (\<lambda>_.
     bindM (in_store (kyber_pre_key_count (kyber_pre_key_store (sqlite_container C)))) (\<lambda>_. ret ())))))))"
  have "start_bridge C w = rest ?w"
    using version by (simp add: start_bridge_def rest_def bindM_at [of "mapErr _ (in_store sqlite_initialize)"]
        bindM_at [of "mapErr _ (in_store get_schema_version)"] mapErr_at in_store_at assms(3) run_initialize [OF assms(1)]
        run_get_schema_version [OF assms(1)] del: connection_opened)
  moreover have "calm (running c) rest" for c unfolding rest_def by (intro calm_intro container_calm)
  moreover have L: "libsignal_ok C" using assms(1) by (simp add: openable_def)
  moreover have "preserves (in_sys (system_wf C)) rest"
    unfolding rest_def by (intro preserves_intro start_wf(1) container_methods_wf L)
  moreover have "in_order C ?w"
  proof -
    have "people_tables (connection (opened d)) = people_tables d"
      by (rule opened_at [OF assms(1)]) (simp add: people_tables_def contents_def)
    then have "contacts_wf (connection (opened d))" using contacts_wf_cong assms(2) by blast
    then show ?thesis
      using opened_ready [OF assms(1)] assms(4) by (simp add: in_order_def del: connection_opened)
  qed
  ultimately show ?thesis using calm_in_order [of rest C] by (simp add: calm_def)
qed

text \<open>
  C2. In a build without overflow checks (the default of release builds) a bridge stays up: started on any
  readable database that keeps working, it does not panic, and
  in every state that calls with complete bundles can lead to, in any order, at any time and
  whatever libsignal does, it is in working order and the next such call returns, with a value or
  an error: it neither panics nor waits for a lock it holds. A bundle is complete unless it names a
  one-time pre-key without carrying it. With overflow checks, key maintenance panics when a key is
  stamped in the future, see the theorem on the age test in \<open>Rotation_Instances\<close>.
\<close>

theorem bridge_stays_up:
  assumes "crates_ok C" and "tags_ok C" and "openable C d" and "contacts_wf d" and "store w = sqlite_storage_new d"
    and "\<not> overflow_checks w" and "served C (snd (start_bridge C w)) v" and "call_complete C c"
  shows "(\<forall>p. fst (start_bridge C w) \<noteq> Panic p) \<and> in_order C v \<and>
    (\<exists>v'. in_order C v' \<and> ((\<exists>a. api_run C c v = (Ok a, v')) \<or> (\<exists>e. api_run C c v = (Err e, v'))))"
proof -
  have start: "in_order C (snd (start_bridge C w))" "\<forall>p. fst (start_bridge C w) \<noteq> Panic p"
    using start_in_order [OF assms(3-6)] by simp_all
  have v: "in_order C v" by (rule served_in_order [OF assms(7,1,2) start(1)])
  show ?thesis using start(2) v exported_call_returns [OF assms(1,2) v assms(8)] by blast
qed

lemma sample_tags_ok: "tags_ok sample_crates"
  by (simp add: tags_ok_def sample_crates_defs)

lemma empty_contacts_wf: "contacts_wf (empty_db b)"
  by (simp add: contacts_wf_def history_wf_def empty_db_def)

definition sample_run :: "signal_bridge sys" where
  "sample_run = (sample_sys (sqlite_storage_new (empty_db True)))\<lparr>overflow_checks := False\<rparr>"

lemma sample_run_sel:
  "store sample_run = sqlite_storage_new (empty_db True)" "\<not> overflow_checks sample_run"
  by (simp_all add: sample_run_def sample_sys_def)

theorem bridge_stays_up_witness:
  "(\<forall>p. fst (start_bridge sample_crates sample_run) \<noteq> Panic p) \<and>
   in_order sample_crates (snd (api_run sample_crates (CallResetIdentity (Inr ())) (snd (start_bridge sample_crates sample_run)))) \<and>
   (\<exists>v'. in_order sample_crates v' \<and>
     ((\<exists>a. api_run sample_crates (CallListContacts (Inr ())) (snd (api_run sample_crates (CallResetIdentity (Inr ()))
        (snd (start_bridge sample_crates sample_run)))) = (Ok a, v')) \<or>
      (\<exists>e. api_run sample_crates (CallListContacts (Inr ())) (snd (api_run sample_crates (CallResetIdentity (Inr ()))
        (snd (start_bridge sample_crates sample_run)))) = (Err e, v'))))"
proof (rule bridge_stays_up [OF sample_crates_ok sample_tags_ok _ empty_contacts_wf sample_run_sel])
  show "openable sample_crates (empty_db True)" by (rule openable_empty) (rule crates_okD(1) [OF sample_crates_ok])
  show "served sample_crates (snd (start_bridge sample_crates sample_run))
      (snd (api_run sample_crates (CallResetIdentity (Inr ())) (snd (start_bridge sample_crates sample_run))))"
    by (rule served.call [OF served.start]) simp
qed simp

end
