(* ===== verification/Bridge_Messages.thy ===== *)
theory Bridge_Messages
  imports Bridge_Calm
begin

text \<open>
  Sending and receiving: on a serving storage no call of libsignal can panic or touch contacts and
  history, whatever the library does with its callbacks; so an encrypted message is what the
  library made of the text and the text is in the contact's thread, and a received message is
  returned, filed under its sender and counted as unread.
\<close>

section \<open>Calls of libsignal\<close>

text \<open>What the bridge knows after a call of libsignal, however the library used the stores.\<close>

lemma library_people:
  "preserves (\<lambda>d. people_tables d = c) (run_peer (sqlite_stores L) p)"
  "preserves (\<lambda>d. people_tables d = c) (run_store (sqlite_stores L) q)"
proof -
  have peer: "peer_callbacks_keep (\<lambda>d. people_tables d = c) (sqlite_stores L)"
    by (rule peer_callbacks_keepI)
      (simp_all add: store_writers_people preserves_readers [OF table_pred_halves(2)] preserves_is_trusted [OF table_pred_halves(2)])
  moreover from this have "store_callbacks_keep (\<lambda>d. people_tables d = c) (sqlite_stores L)"
    by (rule store_callbacks_keepI) (simp_all add: store_writers_people preserves_readers [OF table_pred_halves(2)])
  ultimately show "preserves (\<lambda>d. people_tables d = c) (run_peer (sqlite_stores L) p)"
    "preserves (\<lambda>d. people_tables d = c) (run_store (sqlite_stores L) q)"
    by (simp_all add: run_peer_preserves run_store_preserves)
qed

lemma calm_serving:
  assumes "\<And>c. calm (quiet_at Unlocked c) m" and "preserves (db_wf L) m" and "\<And>c. preserves (\<lambda>d. people_tables d = c) m"
    and "serving L d"
  shows "serving L (snd (m d)) \<and> people_tables (snd (m d)) = people_tables d \<and> created (snd (m d)) = created d \<and>
    (\<forall>p. fst (m d) \<noteq> Panic p)"
  using assms by (simp add: calm_def preserves_def serving_def quiet_at_def)

lemma library_serves:
  assumes "serving L d"
  shows "serving L (snd (run_peer (sqlite_stores L) p d)) \<and>
      people_tables (snd (run_peer (sqlite_stores L) p d)) = people_tables d \<and>
      created (snd (run_peer (sqlite_stores L) p d)) = created d \<and> (\<forall>e. fst (run_peer (sqlite_stores L) p d) \<noteq> Panic e)"
    "serving L (snd (run_store (sqlite_stores L) q d)) \<and>
      people_tables (snd (run_store (sqlite_stores L) q d)) = people_tables d \<and>
      created (snd (run_store (sqlite_stores L) q d)) = created d \<and> (\<forall>e. fst (run_store (sqlite_stores L) q d) \<noteq> Panic e)"
proof -
  note L = servingD(5) [OF assms]
  show "serving L (snd (run_peer (sqlite_stores L) p d)) \<and>
      people_tables (snd (run_peer (sqlite_stores L) p d)) = people_tables d \<and>
      created (snd (run_peer (sqlite_stores L) p d)) = created d \<and> (\<forall>e. fst (run_peer (sqlite_stores L) p d) \<noteq> Panic e)"
    by (rule calm_serving [OF library_calm(1) run_peer_preserves [OF sqlite_peer_callbacks [OF L]] library_people(1) assms])
  show "serving L (snd (run_store (sqlite_stores L) q d)) \<and>
      people_tables (snd (run_store (sqlite_stores L) q d)) = people_tables d \<and>
      created (snd (run_store (sqlite_stores L) q d)) = created d \<and> (\<forall>e. fst (run_store (sqlite_stores L) q d) \<noteq> Panic e)"
    by (rule calm_serving [OF library_calm(2) run_store_preserves [OF sqlite_store_callbacks [OF L]] library_people(2) assms])
qed

section \<open>Filing a message\<close>

text \<open>A thread that gained one message and some unread count, all other threads as before.\<close>

definition filed :: "string \<Rightarrow> message_row \<Rightarrow> int \<Rightarrow> db \<Rightarrow> db \<Rightarrow> bool" where
  "filed rdx row n d d' \<longleftrightarrow> thread_of rdx d' = thread_of rdx d @ [row] \<and> unread_of rdx d' = unread_of rdx d + n \<and>
     (\<forall>rdx'. rdx' \<noteq> rdx \<longrightarrow> thread_of rdx' d' = thread_of rdx' d \<and> unread_of rdx' d' = unread_of rdx' d)"

lemma people_views:
  assumes "people_tables d' = people_tables d"
  shows "conversation_at rdx d' = conversation_at rdx d" "thread_of rdx d' = thread_of rdx d" "unread_of rdx d' = unread_of rdx d"
    "can_store rdx d' = can_store rdx d" "contact_at rdx d' = contact_at rdx d" "history_wf d' = history_wf d"
    "foreign_keys d' = foreign_keys d" "contacts d' = contacts d"
  using assms by (simp_all add: people_tables_def conversation_at_def thread_of_def unread_of_def can_store_def contact_at_def
      history_wf_def split: option.split)

lemma db_wf_append [simp]: "db_wf L (append_message rdx t inc row d) = db_wf L d"
  by (simp add: append_message_def update_conversations_def open_thread_def db_wf_def split: option.split)

lemma append_filed:
  assumes "history_serving d" and "can_store rdx d" and "message_conversation_id row = thread_id rdx d"
  shows "filed rdx row (if inc then 1 else 0) d (append_message rdx t inc row d)"
  using append_message_views [OF assms] by (simp add: filed_def)

lemma filed_people:
  assumes "people_tables d' = people_tables d"
  shows "filed rdx row n d' d'' \<longleftrightarrow> filed rdx row n d d''"
  by (simp only: filed_def people_views [OF assms])

lemma run_in_history:
  "sqlite_ready C (store w) \<Longrightarrow> in_history m w = (case m (connection (store w)) of (r, d) \<Rightarrow>
     (r, w\<lparr>store := (store w)\<lparr>connection := d\<rparr>\<rparr>))"
  by (simp add: in_history_def message_history_of_def expect_handle_def sqlite_ready_def in_store_at bindM_at on_conn_def zoom_def
      split: prod.split)

lemma serving_history:
  "serving L d \<Longrightarrow> foreign_keys d \<Longrightarrow> history_wf d \<Longrightarrow> history_serving d"
  using servingD [of L d] by (simp add: history_serving_def)

lemma file_message:
  assumes "sqlite_ready C (store w)" and "people_tables (connection (store w)) = people_tables d"
    and "history_serving d" and "can_store rdx d" and "preserves history_wf m"
    and run: "\<And>d. history_serving d \<Longrightarrow> can_store rdx d \<Longrightarrow>
      m d = (Ok (message_sequence d + 1), append_message rdx t inc (row (thread_id rdx d) (message_sequence d + 1)) d)"
    and row: "\<And>c i. message_conversation_id (row c i) = c"
  shows "\<exists>s c i. in_history m w = (Ok i, w\<lparr>store := s\<rparr>) \<and> sqlite_ready C s \<and> history_serving (connection s) \<and>
    filed rdx (row c i) (if inc then 1 else 0) d (connection s) \<and> contacts (connection s) = contacts d"
proof -
  let ?d = "connection (store w)" let ?row = "row (thread_id rdx ?d) (message_sequence ?d + 1)"
  note people = people_views [OF assms(2)]
  have h: "history_serving ?d" "can_store rdx ?d"
    using serving_history [OF readyD [OF assms(1)]] history_servingD(3,4) [OF assms(3)] assms(4) people by simp_all
  note run = run [OF h]
  have "sqlite_ready C ((store w)\<lparr>connection := append_message rdx t inc ?row ?d\<rparr>)"
    using servingD [OF readyD [OF assms(1)]] by (intro ready_update [OF assms(1)]) simp_all
  moreover have "filed rdx ?row (if inc then 1 else 0) d (append_message rdx t inc ?row ?d)"
    using append_filed [OF h row] filed_people [OF assms(2)] by simp
  ultimately show ?thesis
    using run append_serving [OF h(1) run assms(5)] people(8)
    by (intro exI [of _ "(store w)\<lparr>connection := append_message rdx t inc ?row ?d\<rparr>"] exI [of _ "thread_id rdx ?d"]
        exI [of _ "message_sequence ?d + 1"]) (simp add: run_in_history [OF assms(1)])
qed

lemmas file_outgoing = file_message [where inc = False, OF _ _ _ _ store_outgoing_wf run_store_outgoing, unfolded outgoing_row_def, simplified]
lemmas file_incoming = file_message [where inc = True, OF _ _ _ _ store_incoming_wf run_store_incoming, unfolded incoming_row_def, simplified]

section \<open>Sending\<close>

lemma run_named_contact:
  assumes "sqlite_ready C (store w)" and "crates_ok C" and "filter (names_contact i) (contacts (connection (store w))) = [r]"
  shows "bridge_lookup_contact C i w = (Ok (info_of C (connection (store w)) r), w)"
    "session_name C i w = (Ok (rdx_fingerprint r), w)"
  using assms by (simp_all add: session_name_def bridge_lookup_contact_def run_checked_session_store run_lookup_contact
      scanned_single info_of_def run_defs del: sqlite_stores_sel)

lemma run_encrypt:
  assumes "sqlite_ready C (store w)"
  shows "sqlite_encrypt_message C a body w =
    (case run_peer (sqlite_stores C) (message_encrypt C body a (clock w (ticks w)) (entropy w (draws w))) (connection (store w)) of
       (r, d) \<Rightarrow> (r, w\<lparr>ticks := Suc (ticks w), draws := Suc (draws w), store := (store w)\<lparr>connection := d\<rparr>\<rparr>))"
  using assms
  by (simp add: sqlite_encrypt_message_def expect_store_def expect_handle_def sqlite_ready_def bindM_at in_store_at run_draw
      run_system_time_now on_conn_def zoom_def split: prod.split)

lemma library_ready:
  assumes "sqlite_ready C s"
  shows "run_peer (sqlite_stores C) p (connection s) = (x, d) \<Longrightarrow>
      sqlite_ready C (s\<lparr>connection := d\<rparr>) \<and> people_tables d = people_tables (connection s) \<and> (\<forall>e. x \<noteq> Panic e)"
    "run_store (sqlite_stores C) q (connection s) = (x', d) \<Longrightarrow>
      sqlite_ready C (s\<lparr>connection := d\<rparr>) \<and> people_tables d = people_tables (connection s) \<and> (\<forall>e. x' \<noteq> Panic e)"
  using library_serves(1) [OF readyD [OF assms], of p] library_serves(2) [OF readyD [OF assms], of q] ready_update [OF assms, of d]
    servingD [of C d] by auto

lemma people_history:
  "sqlite_ready C s \<Longrightarrow> people_tables (connection s) = people_tables d \<Longrightarrow> history_serving d \<Longrightarrow> history_serving (connection s)"
  using serving_history [OF readyD, of C s] people_views(6,7) [of "connection s" d] history_servingD(3,4) [of d] by simp

text \<open>The steps before the library is called.\<close>

lemma encrypt_prefix:
  assumes "sqlite_ready C (store w)" and "crates_ok C" and "filter (names_contact peer) (contacts (connection (store w))) = [r]"
    and "peer \<noteq> []"
  shows "bridge_encrypt_message C peer body w =
    (if session_at C (connection (store w)) (Address (rdx_fingerprint r) 1) = None
     then (Err (SessionNotFound [Lit ''Establish a session with '', Lit peer, Lit '' before sending messages'']), w)
     else bindM (mapErr bridge_from_protocol (sqlite_encrypt_message C (Address (rdx_fingerprint r) 1) body)) (\<lambda>ciphertext.
       bindM (mapErr bridge_from_time now_millis) (\<lambda>timestamp.
       bindM (attempt (in_history (store_outgoing_message (rdx_fingerprint r) timestamp body))) (\<lambda>_.
       ret (ciphertext_serialize C ciphertext)))) w)"
proof -
  note serve = readyD [OF assms(1)]
  have load: "in_store (load_session (session_store (sqlite_container C)) a) w = (Ok (session_at C (connection (store w)) a), w)" for a
    by (simp add: in_store_at sqlite_container_def run_via [OF assms(1)] run_load_session [OF serve])
  show ?thesis
    using assms(4)
    by (simp add: bridge_encrypt_message_def specify_peer_def run_named_contact(2) [OF assms(1-3)] device_one_def
        libsignal_okD(4) [OF servingD(5) [OF serve]] load run_defs Let_def cong: if_cong)
qed

lemma encrypt_files:
  fixes C w r body defines "d \<equiv> connection (store w)" and "a \<equiv> Address (rdx_fingerprint r) 1"
  assumes "sqlite_ready C (store w)" and "history_serving d" and "can_store (rdx_fingerprint r) d"
    and "\<forall>n. 0 \<le> clock w n"
    and lib: "run_peer (sqlite_stores C) (message_encrypt C body a (clock w (ticks w)) (entropy w (draws w))) d = (Ok c, d1)"
  shows "\<exists>w' k i. bindM (mapErr bridge_from_protocol (sqlite_encrypt_message C a body)) (\<lambda>ciphertext.
       bindM (mapErr bridge_from_time now_millis) (\<lambda>timestamp.
       bindM (attempt (in_history (store_outgoing_message (rdx_fingerprint r) timestamp body))) (\<lambda>_.
       ret (ciphertext_serialize C ciphertext)))) w = (Ok (ciphertext_serialize C c), w') \<and>
     sqlite_ready C (store w') \<and> history_serving (connection (store w')) \<and>
     filed (rdx_fingerprint r) (outgoing_row k (word_of_int (clock w (Suc (ticks w)))) body i) 0 d (connection (store w'))"
proof -
  let ?w1 = "w\<lparr>ticks := Suc (ticks w), draws := Suc (draws w), store := (store w)\<lparr>connection := d1\<rparr>\<rparr>"
  let ?w2 = "?w1\<lparr>ticks := Suc (Suc (ticks w))\<rparr>" and ?t = "word_of_int (clock w (Suc (ticks w))) :: u64"
  have clk: "now_millis ?w1 = (Ok ?t, ?w2)" using assms(6) by (simp add: run_now_millis)
  have enc: "sqlite_encrypt_message C a body w = (Ok c, ?w1)" using lib by (simp add: run_encrypt [OF assms(3)] d_def)
  have "sqlite_ready C (store ?w2)" "people_tables (connection (store ?w2)) = people_tables d"
    using library_ready(1) [OF assms(3) lib [unfolded d_def]] by (simp_all add: d_def)
  from file_outgoing [OF this assms(4,5), of ?t body]
  obtain s k i where "in_history (store_outgoing_message (rdx_fingerprint r) ?t body) ?w2 = (Ok i, ?w2\<lparr>store := s\<rparr>)"
    "sqlite_ready C s" "history_serving (connection s)"
    "filed (rdx_fingerprint r) (outgoing_row k ?t body i) 0 d (connection s)"
    unfolding outgoing_row_def by blast
  then show ?thesis
    using clk enc by (intro exI [of _ "?w2\<lparr>store := s\<rparr>"] exI [of _ k] exI [of _ i]) (simp add: run_defs)
qed

lemma outgoing_row_sel [simp]:
  "message_content (outgoing_row k t p i) = p" "i64_as_u64 (message_timestamp (outgoing_row k t p i)) = t"
  "direction_from_i64 (message_direction (outgoing_row k t p i)) = Outgoing"
  "status_from_i64 (message_delivery_status (outgoing_row k t p i)) = Pending"
  by (simp_all add: outgoing_row_def direction_from_i64_def status_from_i64_def)

text \<open>
  C4. Sending to a contact: an empty name is refused, and without a session nothing happens but an
  error that asks for one. With a session, whatever libsignal does through the stores, the call
  does not panic; an error of the library leaves contacts and threads as they were, and a
  ciphertext is returned together with the text filed at the end of exactly that contact's thread,
  outgoing and pending.
\<close>

theorem message_sent:
  fixes C w r body defines "d \<equiv> connection (store w)" and "a \<equiv> Address (rdx_fingerprint r) 1"
  assumes "sqlite_ready C (store w)" and "crates_ok C" and "history_serving d" and "can_store (rdx_fingerprint r) d"
    and "filter (names_contact peer) (contacts d) = [r]" and "\<forall>n. 0 \<le> clock w n"
  shows "bridge_encrypt_message C [] body w = (Err (InvalidInput [Lit ''Specify a peer name'']), w) \<and>
    (peer \<noteq> [] \<longrightarrow> session_at C d a = None \<longrightarrow> bridge_encrypt_message C peer body w =
      (Err (SessionNotFound [Lit ''Establish a session with '', Lit peer, Lit '' before sending messages'']), w)) \<and>
    (peer \<noteq> [] \<longrightarrow> session_at C d a \<noteq> None \<longrightarrow> (\<exists>w'. sqlite_ready C (store w') \<and> history_serving (connection (store w')) \<and>
      (case fst (run_peer (sqlite_stores C) (message_encrypt C body a (clock w (ticks w)) (entropy w (draws w))) d) of
         Ok c \<Rightarrow> bridge_encrypt_message C peer body w = (Ok (ciphertext_serialize C c), w') \<and>
           (\<exists>row. filed (rdx_fingerprint r) row 0 d (connection (store w')) \<and> message_content row = body \<and>
             i64_as_u64 (message_timestamp row) = word_of_int (clock w (Suc (ticks w))) \<and>
             direction_from_i64 (message_direction row) = Outgoing \<and>
             status_from_i64 (message_delivery_status row) = Pending)
       | Err e \<Rightarrow> bridge_encrypt_message C peer body w = (Err (bridge_from_protocol e), w') \<and>
           people_tables (connection (store w')) = people_tables d
       | Panic p \<Rightarrow> False)))" (is "_ \<and> _ \<and> (_ \<longrightarrow> _ \<longrightarrow> ?sent)")
proof (intro conjI impI)
  note ready = assms(3)
  note steps = encrypt_prefix [OF ready assms(4), of peer r body, folded d_def a_def, OF assms(7)]
  show "bridge_encrypt_message C [] body w = (Err (InvalidInput [Lit ''Specify a peer name'']), w)"
    by (simp add: bridge_encrypt_message_def specify_peer_def run_defs)
  assume peer: "peer \<noteq> []"
  show "bridge_encrypt_message C peer body w =
      (Err (SessionNotFound [Lit ''Establish a session with '', Lit peer, Lit '' before sending messages'']), w)"
    if "session_at C d a = None"
    using steps [OF peer] that by simp
  assume session: "session_at C d a \<noteq> None"
  obtain x d1 where lib: "run_peer (sqlite_stores C) (message_encrypt C body a (clock w (ticks w)) (entropy w (draws w))) d =
      (x, d1)" by fastforce
  note kept = library_ready(1) [OF ready lib [unfolded d_def], folded d_def]
  show ?sent
  proof (cases x)
    case (Ok c)
    note send = encrypt_files [OF ready assms(5,6) [unfolded d_def] assms(8) lib [unfolded Ok d_def a_def], folded d_def a_def]
    show ?thesis
      using send session by (simp add: lib Ok steps [OF peer]) (metis outgoing_row_sel)
  next
    case (Err e)
    let ?w = "w\<lparr>ticks := Suc (ticks w), draws := Suc (draws w), store := (store w)\<lparr>connection := d1\<rparr>\<rparr>"
    have "bridge_encrypt_message C peer body w = (Err (bridge_from_protocol e), ?w)"
      using session lib Err by (auto simp: steps [OF peer] run_defs run_encrypt [OF ready] d_def)
    then show ?thesis
      using kept people_history [OF _ _ assms(5), of C "store ?w"] by (intro exI [of _ ?w]) (simp add: lib Err)
  qed (use kept in simp)
qed

section \<open>Receiving\<close>

text \<open>
  What a message says of its sender when the sender is a known contact: the fingerprint, whether
  a one-time pre-key was used, and the parsed message.
\<close>

definition known_sender ::
    "'x crates_scheme \<Rightarrow> string \<Rightarrow> bytes \<Rightarrow> db \<Rightarrow> (string \<times> bool \<times> ciphertext_message) option" where
  "known_sender C hint bytes d = (case pre_key_signal_message_try_from C bytes of
     Inr m \<Rightarrow>
       let rdx = generate_identity_fingerprint_from_key C (pre_key_signal_message_identity_key C m) in
       if contact_at rdx d = None then None
       else Some (rdx, pre_key_signal_message_pre_key_id C m \<noteq> None, PreKeySignalMessage m)
   | Inl _ \<Rightarrow> (case signal_message_try_from C bytes of
       Inr m \<Rightarrow> (case filter (names_contact hint) (contacts d) of
           [r] \<Rightarrow> if hint = [] then None else Some (rdx_fingerprint r, False, SignalMessage m)
         | _ \<Rightarrow> None)
     | Inl _ \<Rightarrow> None))"

lemma run_decrypt:
  assumes "sqlite_ready C (store w)"
  shows "sqlite_decrypt_message C a m w =
    (case run_store (sqlite_stores C) (message_decrypt C m a (entropy w (draws w))) (connection (store w)) of
       (r, d) \<Rightarrow> (r, w\<lparr>draws := Suc (draws w), store := (store w)\<lparr>connection := d\<rparr>\<rparr>))"
  using assms
  by (simp add: sqlite_decrypt_message_def expect_store_def expect_handle_def sqlite_ready_def bindM_at in_store_at run_draw
      on_conn_def zoom_def split: prod.split)

lemma run_lookup_known:
  assumes "sqlite_ready C (store w)" and "crates_ok C" and "contact_at rdx (connection (store w)) \<noteq> None"
  shows "\<exists>info. bridge_lookup_contact C rdx w = (Ok info, w)"
proof -
  obtain r where "r \<in> set (contacts (connection (store w)))" "rdx_fingerprint r = rdx"
    using assms(3) by (auto simp: contact_at_def dest: lookup_row_SomeD)
  then have "\<exists>r \<in> set (contacts (connection (store w))). names_contact rdx r" by (auto simp: names_contact_def)
  then show ?thesis
    using lookup_contact_finds_raw [OF assms(1,2), of rdx]
    by (auto simp: bridge_lookup_contact_def run_checked_session_store [OF assms(1)] simp del: sqlite_stores_sel)
qed

lemma run_identify_known:
  assumes "sqlite_ready C (store w)" and "crates_ok C" and "known_sender C hint bytes (connection (store w)) = Some x"
  shows "identify_sender C hint bytes w = (Ok x, w)"
proof (cases "pre_key_signal_message_try_from C bytes")
  case (Inr m)
  then have "contact_at (generate_identity_fingerprint_from_key C (pre_key_signal_message_identity_key C m)) (connection (store w)) \<noteq> None"
    using assms(3) by (auto simp: known_sender_def Let_def split: if_splits)
  from run_lookup_known [OF assms(1,2) this] show ?thesis
    using Inr assms(3) by (auto simp: known_sender_def identify_sender_def Let_def run_defs split: if_splits)
next
  case (Inl e)
  then obtain m r where m: "signal_message_try_from C bytes = Inr m" "hint \<noteq> []" "x = (rdx_fingerprint r, False, SignalMessage m)"
    "filter (names_contact hint) (contacts (connection (store w))) = [r]"
    using assms(3) by (auto simp: known_sender_def split: sum.splits list.splits if_splits)
  then show ?thesis
    using Inl by (simp add: identify_sender_def run_defs run_named_contact(1) [OF assms(1,2)] info_of_def)
qed

text \<open>The steps after the sender is known.\<close>

definition decrypt_from ::
    "'x crates_scheme \<Rightarrow> string \<Rightarrow> bool \<Rightarrow> ciphertext_message \<Rightarrow> (sqlite_storage sys, bridge_error, decryption_result) M" where
  "decrypt_from C rdx consumed m =
     bindM (mapErr bridge_from_protocol (sqlite_decrypt_message C (Address rdx 1) m)) (\<lambda>body.
     bindM (mapErr bridge_from_time now_millis) (\<lambda>timestamp.
     bindM (attempt (in_history (store_incoming_message rdx timestamp body consumed consumed))) (\<lambda>_.
     ret \<lparr>plaintext = body, should_republish_bundle = consumed\<rparr>)))"

lemma decrypt_prefix:
  assumes "libsignal_ok C" and "bytes \<noteq> []" and "identify_sender C hint bytes w = (Ok (rdx, consumed, m), w1)"
  shows "bridge_decrypt_message C hint bytes w = decrypt_from C rdx consumed m w1"
  using assms(2,3)
  by (simp add: bridge_decrypt_message_def decrypt_from_def device_one_def libsignal_okD(4) [OF assms(1)] run_defs Let_def)

lemma incoming_row_sel [simp]:
  "message_content (incoming_row k t p b e i) = p" "i64_as_u64 (message_timestamp (incoming_row k t p b e i)) = t"
  "direction_from_i64 (message_direction (incoming_row k t p b e i)) = Incoming"
  "message_was_prekey (incoming_row k t p b e i) = b"
  by (simp_all add: incoming_row_def direction_from_i64_def)

text \<open>A received message, as a relation between the run before and after the library is called.\<close>

definition received ::
    "'x crates_scheme \<Rightarrow> string \<Rightarrow> bool \<Rightarrow> ciphertext_message \<Rightarrow> sqlite_storage sys \<Rightarrow>
     (bridge_error, decryption_result) outcome \<times> sqlite_storage sys \<Rightarrow> bool" where
  "received C rdx consumed m w result \<longleftrightarrow>
     sqlite_ready C (store (snd result)) \<and> history_serving (connection (store (snd result))) \<and>
     contacts (connection (store (snd result))) = contacts (connection (store w)) \<and>
     (case fst (run_store (sqlite_stores C) (message_decrypt C m (Address rdx 1) (entropy w (draws w))) (connection (store w))) of
        Ok p \<Rightarrow> fst result = Ok \<lparr>plaintext = p, should_republish_bundle = consumed\<rparr> \<and>
          (\<exists>row. filed rdx row 1 (connection (store w)) (connection (store (snd result))) \<and> message_content row = p \<and>
            i64_as_u64 (message_timestamp row) = word_of_int (clock w (ticks w)) \<and>
            direction_from_i64 (message_direction row) = Incoming \<and> message_was_prekey row = consumed)
      | Err e \<Rightarrow> fst result = Err (bridge_from_protocol e) \<and>
          people_tables (connection (store (snd result))) = people_tables (connection (store w))
      | Panic q \<Rightarrow> False)"

lemma decrypt_files:
  assumes "sqlite_ready C (store w)" and "history_serving (connection (store w))" and "can_store rdx (connection (store w))"
    and "0 \<le> clock w (ticks w)"
  shows "received C rdx consumed m w (decrypt_from C rdx consumed m w)"
proof -
  obtain x d where lib: "run_store (sqlite_stores C) (message_decrypt C m (Address rdx 1) (entropy w (draws w)))
      (connection (store w)) = (x, d)" by fastforce
  let ?w1 = "w\<lparr>draws := Suc (draws w), store := (store w)\<lparr>connection := d\<rparr>\<rparr>"
  let ?w2 = "?w1\<lparr>ticks := Suc (ticks w)\<rparr>" and ?t = "word_of_int (clock w (ticks w)) :: u64"
  note kept = library_ready(2) [OF assms(1) lib]
  note run = decrypt_from_def run_decrypt [OF assms(1)] lib run_defs
  show ?thesis
  proof (cases x)
    case (Ok p)
    have clk: "now_millis ?w1 = (Ok ?t, ?w2)" using assms(4) by (simp add: run_now_millis)
    have "sqlite_ready C (store ?w2)" "people_tables (connection (store ?w2)) = people_tables (connection (store w))"
      using kept by simp_all
    from file_incoming [OF this assms(2,3), of ?t p consumed consumed]
    obtain s k i where s: "in_history (store_incoming_message rdx ?t p consumed consumed) ?w2 = (Ok i, ?w2\<lparr>store := s\<rparr>)"
      "sqlite_ready C s" "history_serving (connection s)" "contacts (connection s) = contacts (connection (store w))"
      "filed rdx (incoming_row k ?t p consumed consumed i) 1 (connection (store w)) (connection s)"
      unfolding incoming_row_def by blast
    have "decrypt_from C rdx consumed m w = (Ok \<lparr>plaintext = p, should_republish_bundle = consumed\<rparr>, ?w2\<lparr>store := s\<rparr>)"
      using clk s(1) by (simp add: run Ok)
    then show ?thesis
      using s(2-4) lib Ok
      by (auto simp: received_def intro!: exI [of _ "incoming_row k ?t p consumed consumed i"] s(5))
  next
    case (Err e)
    then show ?thesis
      using kept people_history [OF _ _ assms(2), of C "store ?w1"] people_views(8) [of d "connection (store w)"]
      by (simp add: received_def run)
  qed (use kept in simp)
qed

text \<open>
  C5. Receiving from a known contact, by the identity inside a pre-key message or by the Nostr key that
  carried a session message: whatever libsignal does through the stores, the call does not panic;
  an error of the library leaves contacts and threads as they were, and otherwise the decrypted
  text is returned, filed as incoming at the end of exactly the sender's thread and counted as
  unread, and the bundle is to be republished exactly when a one-time pre-key was used.
\<close>

theorem message_received:
  assumes "sqlite_ready C (store w)" and "crates_ok C" and "history_serving (connection (store w))"
    and "known_sender C hint bytes (connection (store w)) = Some (rdx, consumed, m)" and "bytes \<noteq> []"
    and "can_store rdx (connection (store w))" and "0 \<le> clock w (ticks w)"
  shows "received C rdx consumed m w (bridge_decrypt_message C hint bytes w)"
  using decrypt_files [OF assms(1,3,6,7)]
    decrypt_prefix [OF crates_okD(1) [OF assms(2)] assms(5) run_identify_known [OF assms(1,2,4)]] by simp

section \<open>The first message of a stranger\<close>

definition unknown_contact :: "'x crates_scheme \<Rightarrow> identity_key \<Rightarrow> nostr_public_key \<Rightarrow> int \<Rightarrow> contact_row" where
  "unknown_contact C k npub now = (let rdx = generate_identity_fingerprint_from_key C k in
     \<lparr>rdx_fingerprint = rdx, nostr_pubkey = nostr_to_hex C npub, user_alias = Some (''Unknown-'' @ take 8 (drop 4 rdx)),
       signal_identity_key = identity_key_serialize C k, first_seen = now, last_updated = now\<rparr>)"

definition with_contact :: "contact_row \<Rightarrow> db \<Rightarrow> db" where
  "with_contact r d = d\<lparr>contacts := contacts d @ [r]\<rparr>"

lemma with_contact_sel [simp]:
  "mutex (with_contact r d) = mutex d" "faults (with_contact r d) = faults d" "created (with_contact r d) = created d"
  "foreign_keys (with_contact r d) = foreign_keys d" "contacts (with_contact r d) = contacts d @ [r]"
  "db_wf L (with_contact r d) = db_wf L d"
  by (simp_all add: with_contact_def db_wf_def)

lemma history_with_contact: "history_serving d \<Longrightarrow> history_serving (with_contact r d)"
  by (auto simp: history_serving_def history_wf_def with_contact_def)

lemma replace_new_contact:
  assumes "\<forall>x \<in> set (contacts d). \<not> conflicting r x"
  shows "replace_contact r d = with_contact r d"
proof -
  have "filter (conflicting r) (contacts d) = []" "filter (\<lambda>x. \<not> conflicting r x) (contacts d) = contacts d"
    using assms by (simp_all add: filter_empty_conv filter_id_conv)
  then show ?thesis by (simp add: replace_contact_def with_contact_def delete_conversation_rows_def Let_def)
qed

lemma run_add_unknown:
  fixes C w k npub
  defines "d \<equiv> connection (store w)" and "r \<equiv> unknown_contact C k npub (clock w (ticks w) div 1000)"
  assumes "sqlite_ready C (store w)" and "crates_ok C" and "derive_public_key_from_peer_identity C k = Inr npub"
    and "clock_sane w" and new: "\<forall>x \<in> set (contacts d). \<not> conflicting r x"
  shows "add_contact_from_identity_key C k w = (Ok (generate_identity_fingerprint_from_key C k),
    w\<lparr>ticks := Suc (ticks w), store := (store w)\<lparr>connection := with_contact r d\<rparr>\<rparr>)"
proof -
  let ?rdx = "generate_identity_fingerprint_from_key C k" and ?t = "clock w (ticks w) div 1000"
  note serve = servingD [OF readyD [OF assms(3)]]
  have unseen: "filter (\<lambda>x. rdx_fingerprint x = ?rdx) (contacts d) = []"
    using new by (auto simp: filter_empty_conv conflicting_def r_def unknown_contact_def Let_def)
  have "length ?rdx = 68" by (simp add: generate_identity_fingerprint_from_key_def crates_okD(2) [OF assms(4)])
  moreover have "with_lock (mapErr bridge_from_sql (insert_or_replace_contact ?rdx (nostr_to_hex C npub)
      (Some (''Unknown-'' @ take 8 (drop 4 ?rdx))) (identity_key_serialize C k) (word_of_int ?t))) d = (Ok (), with_contact r d)"
    using serve unseen replace_contact_mutex [where new = r and d = d and m = Locked and n = Unlocked] replace_new_contact [OF new]
    by (simp add: with_lock_def mapErr_at insert_or_replace_contact_def run_statements d_def [symmetric]
        run_sane_secs(2) [OF assms(6)] r_def unknown_contact_def Let_def)
  ultimately show ?thesis
    using assms(5) by (simp add: add_contact_from_identity_key_def str_slice_def run_defs run_sane_secs(1) [OF assms(6)]
        in_store_at on_conn_def zoom_def d_def Let_def)
qed

text \<open>
  C6. The first message of a stranger, a pre-key message: its sender becomes a contact under the
  fingerprint of the identity in the message, with the derived Nostr key and an alias made of the
  first eight digits, and then the message is received like any other. The contact stays when the
  decryption fails.
\<close>

theorem stranger_received:
  fixes C w m npub
  defines "d \<equiv> connection (store w)" and "k \<equiv> pre_key_signal_message_identity_key C m"
    and "r \<equiv> unknown_contact C (pre_key_signal_message_identity_key C m) npub (clock w (ticks w) div 1000)"
  assumes "sqlite_ready C (store w)" and "crates_ok C" and "history_serving d"
    and "conversation_sequence d < max_rowid" and "message_sequence d < max_rowid"
    and "bytes \<noteq> []" and "pre_key_signal_message_try_from C bytes = Inr m"
    and "derive_public_key_from_peer_identity C k = Inr npub" and "clock_sane w" and "0 \<le> clock w (Suc (ticks w))"
    and "\<forall>x \<in> set (contacts d). \<not> names_contact (rdx_fingerprint r) x \<and> nostr_pubkey x \<noteq> nostr_pubkey r"
  shows "received C (rdx_fingerprint r) (pre_key_signal_message_pre_key_id C m \<noteq> None) (PreKeySignalMessage m)
    (w\<lparr>ticks := Suc (ticks w), store := (store w)\<lparr>connection := with_contact r d\<rparr>\<rparr>)
    (bridge_decrypt_message C hint bytes w)"
proof -
  let ?w = "w\<lparr>ticks := Suc (ticks w), store := (store w)\<lparr>connection := with_contact r d\<rparr>\<rparr>"
  let ?rdx = "generate_identity_fingerprint_from_key C k"
  have rdx: "rdx_fingerprint r = ?rdx" by (simp add: r_def k_def unknown_contact_def Let_def)
  have "\<forall>x \<in> set (contacts d). \<not> conflicting r x" using assms(14) by (auto simp: conflicting_def names_contact_def)
  note add = run_add_unknown [OF assms(4,5,11,12), folded d_def k_def, folded r_def [folded k_def], OF this]
  have "\<not> (\<exists>x \<in> set (contacts d). names_contact ?rdx x)" using assms(14) rdx by auto
  then have "bridge_lookup_contact C ?rdx w = (Err (Storage [Lit ''Contact not found: '', ShowSql QueryReturnedNoRows]), w)"
    using lookup_contact_finds_raw [OF assms(4,5), of ?rdx, folded d_def]
    by (auto simp: bridge_lookup_contact_def run_checked_session_store [OF assms(4)] simp del: sqlite_stores_sel)
  then have "identify_sender C hint bytes w =
      (Ok (?rdx, pre_key_signal_message_pre_key_id C m \<noteq> None, PreKeySignalMessage m), ?w)"
    using add by (simp add: identify_sender_def assms(10) k_def [symmetric] run_defs Let_def)
  note run = decrypt_prefix [OF crates_okD(1) [OF assms(5)] assms(9) this]
  have "sqlite_ready C (store ?w)"
    using servingD [OF readyD [OF assms(4)]] ready_update [OF assms(4), of "with_contact r d"] by (simp add: d_def)
  moreover have "can_store ?rdx (connection (store ?w))"
    using assms(7,8) rdx by (simp add: can_store_def) (simp add: with_contact_def)
  ultimately show ?thesis
    using decrypt_files [of C ?w ?rdx] history_with_contact [OF assms(6)] assms(13) by (simp add: run rdx)
qed

section \<open>A contact with a session, used by the witnesses\<close>

definition chat_sys :: "sqlite_storage sys" where
  "chat_sys = (let w = contact_sys [known_contact] in w\<lparr>store := (store w)\<lparr>connection := (connection (store w))\<lparr>
     sessions := [\<lparr>session_address = rdx_fingerprint known_contact, session_device = 1, session_data = [1]\<rparr>]\<rparr>\<rparr>\<rparr>)"

lemma chat_sys_sel [simp]:
  "clock chat_sys = (\<lambda>n. 9000)" "ticks chat_sys = 0" "entropy chat_sys = (\<lambda>n. n)" "draws chat_sys = 0"
  "contacts (connection (store chat_sys)) = [known_contact]"
  "sessions (connection (store chat_sys)) =
     [\<lparr>session_address = rdx_fingerprint known_contact, session_device = 1, session_data = [1]\<rparr>]"
  by (simp_all add: chat_sys_def Let_def contact_sys_ready) (simp_all add: contact_sys_def)

lemma chat_sys_ready: "sqlite_ready sample_crates (store chat_sys)"
proof -
  note ready = contact_sys_ready(1) [of "[known_contact]"] and serve = servingD [OF readyD [OF contact_sys_ready(1) [of "[known_contact]"]]]
  show ?thesis
    unfolding chat_sys_def Let_def using serve
    by (simp, intro ready_update [OF ready]) (simp_all add: db_wf_def sample_crates_defs sample_libsignal_def)
qed

lemma chat_sys_history:
  "history_serving (connection (store chat_sys))" "can_store (rdx_fingerprint known_contact) (connection (store chat_sys))"
proof -
  let ?d = "connection (store chat_sys)"
  have "history_wf ?d"
    using contact_sys_wf [of "[known_contact]"] by (simp add: chat_sys_def Let_def contacts_wf_def history_wf_def)
  moreover have "foreign_keys ?d" "conversation_sequence ?d = 0" "message_sequence ?d = 0"
    by (simp_all add: chat_sys_def Let_def contact_sys_def migrated_def base_tables_def with_table_def empty_db_def)
  ultimately show "history_serving ?d" "can_store (rdx_fingerprint known_contact) ?d"
    using serving_history [OF readyD [OF chat_sys_ready]] by (simp_all add: can_store_def max_rowid_def)
qed

theorem message_sent_witness:
  "\<exists>w' row. bridge_encrypt_message sample_crates ''bob'' [104, 105] chat_sys = (Ok [2, 104, 105], w') \<and>
     filed (rdx_fingerprint known_contact) row 0 (connection (store chat_sys)) (connection (store w')) \<and>
     message_content row = [104, 105]"
proof -
  let ?a = "Address (rdx_fingerprint known_contact) 1"
  have session: "session_at sample_crates (connection (store chat_sys)) ?a = Some (SessionRecord [1])"
    by (simp add: session_at_def lookup_row_def session_key_def address_columns_def sample_crates_defs sample_libsignal_def)
  have lib: "run_peer (sqlite_stores sample_crates) (message_encrypt sample_crates [104, 105] ?a 9000 0) (connection (store chat_sys)) =
      (Ok (SignalMessage (SignalMessageV [104, 105])), connection (store chat_sys))"
    using run_load_session [OF readyD [OF chat_sys_ready], of ?a] session
    by (simp add: sample_crates_defs sample_libsignal_def sample_encrypt_def answer_peer_def run_defs)
  have named: "filter (names_contact ''bob'') (contacts (connection (store chat_sys))) = [known_contact]"
    by (simp add: names_contact_def known_contact_def)
  show ?thesis
    using message_sent [OF chat_sys_ready sample_crates_ok chat_sys_history named, of "[104, 105]"] lib session
    by (auto simp: sample_crates_defs)
qed

theorem message_received_witness:
  "received sample_crates (rdx_fingerprint known_contact) False (SignalMessage (SignalMessageV [104])) chat_sys
     (bridge_decrypt_message sample_crates ''bob'' [2, 104] chat_sys)"
  by (rule message_received [OF chat_sys_ready sample_crates_ok chat_sys_history(1) _ _ chat_sys_history(2)])
    (simp_all add: known_sender_def names_contact_def known_contact_def sample_crates_defs)

theorem stranger_received_witness:
  "received sample_crates (generate_identity_fingerprint_from_key sample_crates (IdentityKey [7])) True
     (PreKeySignalMessage (PreKeySignalMessageV [7]))
     (chat_sys\<lparr>ticks := 1, store := (store chat_sys)\<lparr>connection := with_contact
       (unknown_contact sample_crates (IdentityKey [7]) (NostrPublicKey (7 # replicate 31 0)) 9) (connection (store chat_sys))\<rparr>\<rparr>)
     (bridge_decrypt_message sample_crates [] [3, 7] chat_sys)"
proof -
  let ?d = "connection (store chat_sys)" let ?m = "PreKeySignalMessageV [7]"
  let ?r = "unknown_contact sample_crates (IdentityKey [7]) (NostrPublicKey (7 # replicate 31 0)) 9"
  have m: "pre_key_signal_message_try_from sample_crates [3, 7] = Inr ?m"
    "pre_key_signal_message_identity_key sample_crates ?m = IdentityKey [7]"
    "pre_key_signal_message_pre_key_id sample_crates ?m = Some 1"
    "derive_public_key_from_peer_identity sample_crates (IdentityKey [7]) = Inr (NostrPublicKey (7 # replicate 31 0))"
    by (simp_all add: sample_crates_defs sample_libsignal_def derive_public_key_from_peer_identity_def derive_keys_def)
  have "\<not> names_contact (rdx_fingerprint ?r) known_contact \<and> nostr_pubkey known_contact \<noteq> nostr_pubkey ?r"
    by (auto simp: names_contact_def unknown_contact_def known_contact_def Let_def generate_identity_fingerprint_from_key_def
        lower_hex_inj sample_key_def sample_crates_defs sample_libsignal_def take_Cons' dest: arg_cong [where f = length])
  moreover have "conversation_sequence ?d < max_rowid" "message_sequence ?d < max_rowid"
    using chat_sys_history(2) by (simp_all add: can_store_def)
  ultimately show ?thesis
    using stranger_received [of sample_crates chat_sys "[3, 7]" ?m "NostrPublicKey (7 # replicate 31 0)" "[]"] m
      chat_sys_ready chat_sys_history(1)
    by (simp add: clock_sane_def unknown_contact_def Let_def)
qed

end
