(* ===== verification/Bridge_Sessions.thy ===== *)
theory Bridge_Sessions
  imports Bridge_Messages
begin

text \<open>
  What the parts do together: a bundle that one node announces and another takes in, a received
  message as the exported calls show it, and the subscription that resumes at the last message.
\<close>

section \<open>Two nodes\<close>

lemma run_establish:
  assumes "sqlite_ready C (store w)"
  shows "sqlite_establish_session_from_bundle C a bundle w =
    (case run_peer (sqlite_stores C) (process_prekey_bundle C a bundle (clock w (ticks w)) (entropy w (draws w))) (connection (store w)) of
       (r, d) \<Rightarrow> ((case r of Ok _ \<Rightarrow> Ok () | Err e \<Rightarrow> Err (DynProtocol e) | Panic p \<Rightarrow> Panic p),
         w\<lparr>ticks := Suc (ticks w), draws := Suc (draws w), store := (store w)\<lparr>connection := d\<rparr>\<rparr>))"
  using assms
  by (simp add: sqlite_establish_session_from_bundle_def expect_store_def expect_handle_def sqlite_ready_def bindM_at in_store_at
      run_draw run_system_time_now on_conn_def zoom_def mapErr_at split: prod.split outcome.split)

text \<open>The state after the contact of a readable bundle was written.\<close>

definition contact_written ::
    "'x crates_scheme \<Rightarrow> serializable_pre_key_bundle \<Rightarrow> identity_key \<Rightarrow> nostr_public_key \<Rightarrow> string option \<Rightarrow>
     sqlite_storage sys \<Rightarrow> sqlite_storage sys" where
  "contact_written C b k npub alias w = w\<lparr>ticks := Suc (ticks w), store := (store w)\<lparr>connection := replace_contact
     (new_contact C b k npub alias (clock w (ticks w) div 1000) (connection (store w))) (connection (store w))\<rparr>\<rparr>"

lemma contact_written_sel [simp]:
  "clock (contact_written C b k npub x w) = clock w" "ticks (contact_written C b k npub x w) = Suc (ticks w)"
  "entropy (contact_written C b k npub x w) = entropy w" "draws (contact_written C b k npub x w) = draws w"
  "connection (store (contact_written C b k npub x w)) = replace_contact
     (new_contact C b k npub x (clock w (ticks w) div 1000) (connection (store w))) (connection (store w))"
  by (simp_all add: contact_written_def)

lemma contact_written_ready:
  "sqlite_ready C (store w) \<Longrightarrow> sqlite_ready C (store (contact_written C b k npub x w))"
  using servingD [OF readyD, of C "store w"] unfolding contact_written_def by (auto intro!: ready_update)

lemma run_add_and_establish:
  assumes "sqlite_ready C (store w)" and "local_key C (connection (store w)) = Some own"
    and "readable_bundle C bytes b k npub" and "clock_sane w" and "bytes \<noteq> []"
    and "identity_key_public_key C k \<noteq> identity_key_public_key C (identity_key_pair_identity_key C own)"
    and "\<And>v. parse_bundle C b v = (Ok pkb, v)"
  shows "bridge_add_contact_and_establish_session C bytes x w =
    bindM (mapErr bridge_from_dyn (sqlite_establish_session_from_bundle C
      (Address (generate_identity_fingerprint_from_key C k) 1) pkb))
      (\<lambda>_. ret (generate_identity_fingerprint_from_key C k)) (contact_written C b k npub x w)"
proof -
  note add = run_add_contact_from_bundle [OF assms(1,3,4), of x, folded contact_written_def]
  note L = servingD(5) [OF readyD [OF assms(1)]]
  have b: "bincode_deserialize C bytes = Inr b" "identity_key_decode C (bundle_identity_key b) = Inr k"
    using assms(3) by (simp_all add: readable_bundle_def)
  show ?thesis
    using assms(5,6) b
    by (simp add: bridge_add_contact_and_establish_session_def bridge_add_contact_from_bundle_def
        run_checked_session_store [OF assms(1)] add bridge_establish_session_def specify_peer_def assms(7) device_one_def
        libsignal_okD [OF L] run_defs in_store_at run_get_identity_key_pair(1) [OF assms(1,2)])
qed

text \<open>
  A contact taken in: it is written, the library works on its bundle through the stores, and the
  call ends the way the library does, with the contact in place.
\<close>

definition taken_in ::
    "'x crates_scheme \<Rightarrow> pre_key_bundle \<Rightarrow> contact_row \<Rightarrow> sqlite_storage sys \<Rightarrow>
     (bridge_error, string) outcome \<times> sqlite_storage sys \<Rightarrow> bool" where
  "taken_in C pkb row w result \<longleftrightarrow>
     sqlite_ready C (store (snd result)) \<and> contacts_wf (connection (store (snd result))) \<and>
     people_tables (connection (store (snd result))) = people_tables (replace_contact row (connection (store w))) \<and>
     contact_at (rdx_fingerprint row) (connection (store (snd result))) = Some row \<and>
     (case run_peer (sqlite_stores C) (process_prekey_bundle C (Address (rdx_fingerprint row) 1) pkb
         (clock w (Suc (ticks w))) (entropy w (draws w))) (replace_contact row (connection (store w))) of
        (Ok _, d) \<Rightarrow> fst result = Ok (rdx_fingerprint row) \<and> connection (store (snd result)) = d
      | (Err e, d) \<Rightarrow> fst result = Err (bridge_from_dyn (DynProtocol e)) \<and> connection (store (snd result)) = d
      | (Panic _, _) \<Rightarrow> False)"

lemma add_and_establish_taken_in:
  assumes "sqlite_ready C (store w)" and "local_key C (connection (store w)) = Some own" and "contacts_wf (connection (store w))"
    and "readable_bundle C bytes b k npub" and "clock_sane w" and "bytes \<noteq> []"
    and "identity_key_public_key C k \<noteq> identity_key_public_key C (identity_key_pair_identity_key C own)"
    and "\<And>v. parse_bundle C b v = (Ok pkb, v)"
  shows "taken_in C pkb (new_contact C b k npub x (clock w (ticks w) div 1000) (connection (store w))) w
    (bridge_add_contact_and_establish_session C bytes x w)"
proof -
  let ?row = "new_contact C b k npub x (clock w (ticks w) div 1000) (connection (store w))" let ?w = "contact_written C b k npub x w"
  let ?d = "replace_contact ?row (connection (store w))"
  obtain r d where lib: "run_peer (sqlite_stores C) (process_prekey_bundle C (Address (rdx_fingerprint ?row) 1) pkb
      (clock w (Suc (ticks w))) (entropy w (draws w))) ?d = (r, d)" by fastforce
  note ready = contact_written_ready [OF assms(1), of b k npub x]
  have kept: "sqlite_ready C ((store ?w)\<lparr>connection := d\<rparr>)" "people_tables d = people_tables ?d" "\<forall>e. r \<noteq> Panic e"
    using library_ready(1) [OF ready, unfolded contact_written_sel, OF lib] by simp_all
  have "contact_at (rdx_fingerprint ?row) d = Some ?row"
    using people_views(5) [OF kept(2)] contact_at_replace [OF assms(3)] by simp
  moreover have "contacts_wf d" using contacts_wf_cong [OF kept(2)] replace_contact_wf [OF assms(3)] by simp
  ultimately show ?thesis
    using kept lib
    by (cases r) (simp_all add: taken_in_def run_add_and_establish [OF assms(1,2,4-8)] run_establish [OF ready] bindM_at mapErr_at run_basic)
qed

lemma run_node_fingerprint:
  assumes "sqlite_ready C (store w)" and "local_key C (connection (store w)) = Some k"
  shows "bridge_generate_node_fingerprint C w =
    (Ok (generate_identity_fingerprint_from_key C (identity_key_pair_identity_key C k)), w)"
  by (simp add: bridge_generate_node_fingerprint_def run_defs in_store_at run_get_identity_key_pair(1) [OF assms])

text \<open>
  C3. Two nodes: the bundle that a node generates, taken in by another node, adds a contact under the
  fingerprint that the first node reports of itself and that is read from the bundle in base64, with
  the Nostr key under which the first node signs. The library is given the bundle of exactly the
  announcer's newest keys, for device 1 of that contact; when it succeeds the fingerprint is
  returned, when it fails its error, and the contact is in place either way.
\<close>

theorem bundle_exchange:
  fixes C u k defines "key \<equiv> identity_key_pair_identity_key C k"
  assumes "sqlite_ready C (store u)" and "local_key C (connection (store u)) = Some k"
    and "newest_pre_key C (store u) p pk" and "newest_signed_pre_key C (store u) n i sk g"
    and "newest_kyber_pre_key C (store u) m q h" and "derive_from_signal_identity C k = Inr keys"
    and "codecs_ok C" and "bundles_ok C" and "\<And>b. \<exists>y ys. bincode_serialize C b = Inr (y # ys)"
    and "sqlite_ready C (store w)" and "local_key C (connection (store w)) = Some own" and "contacts_wf (connection (store w))"
    and "identity_key_public_key C key \<noteq> identity_key_public_key C (identity_key_pair_identity_key C own)" and "clock_sane w"
  shows "\<exists>bytes reg pkb row. bridge_generate_pre_key_bundle C u = (Ok (bytes, p, n, m), u) \<and>
    pre_key_bundle_new C reg 1 (Some (p, pk)) i sk g m q h key = Inr pkb \<and>
    taken_in C pkb row w (bridge_add_contact_and_establish_session C bytes x w) \<and>
    bridge_generate_node_fingerprint C u = (Ok (rdx_fingerprint row), u) \<and>
    ffi_extract_rdx_from_bundle_base64 C (base64_encode C bytes) w = (Ok (rdx_fingerprint row), w) \<and>
    nostr_pubkey row = nostr_to_hex C (keys_public_key C keys) \<and> user_alias row = x \<and>
    signal_identity_key row = identity_key_serialize C key"
proof -
  obtain reg pkb b bytes where gen: "bridge_generate_pre_key_bundle C u = (Ok (bytes, p, n, m), u)"
    "pre_key_bundle_new C reg 1 (Some (p, pk)) i sk g m q h key = Inr pkb"
    "bincode_deserialize C bytes = Inr b" "\<And>v. parse_bundle C b v = (Ok pkb, v)"
    "bundle_identity_key b = identity_key_serialize C key" "bincode_serialize C b = Inr bytes"
    using run_generate_pre_key_bundle [OF assms(2-6,8,9)] assms(10) unfolding key_def by metis
  then have "bytes \<noteq> []" using assms(10) [of b] by auto
  have decoded: "identity_key_decode C (bundle_identity_key b) = Inr key"
    using libsignal_okD(2) [OF servingD(5) [OF readyD [OF assms(2)]]] gen(5) by simp
  then have "readable_bundle C bytes b key (keys_public_key C keys)"
    using gen(3) assms(7) by (simp add: readable_bundle_def derive_public_key_from_peer_identity_def derive_from_signal_identity_def key_def)
  note taken = add_and_establish_taken_in [OF assms(11-13) this assms(15) \<open>bytes \<noteq> []\<close> assms(14) gen(4), of x]
  have "ffi_extract_rdx_from_bundle_base64 C (base64_encode C bytes) w = (Ok (generate_identity_fingerprint_from_key C key), w)"
    using gen(3) decoded by (simp add: ffi_extract_rdx_from_bundle_base64_def decode_base64_def ffi_extract_rdx_from_bundle_def
        codecs_okD(2) [OF assms(8)] run_defs)
  with taken gen(1,2,5) run_node_fingerprint [OF assms(2,3)] show ?thesis
    by (intro exI conjI) (assumption, assumption, rule taken, simp_all add: key_def new_contact_def Let_def)
qed

section \<open>Messages as the exported calls show them\<close>

text \<open>The messages of a contact, and the list of which the call for a page returns a slice.\<close>

definition shown_messages :: "string \<Rightarrow> db \<Rightarrow> ffi_stored_message multiset" where
  "shown_messages rdx d = image_mset (\<lambda>row. ffi_of_message (message_of_row row)) (mset (thread_of rdx d))"

definition shown_list :: "'x crates_scheme \<Rightarrow> u32 \<Rightarrow> u32 \<Rightarrow> string \<Rightarrow> db \<Rightarrow> ffi_stored_message list" where
  "shown_list C l k rdx d = map (\<lambda>row. ffi_of_message (message_of_row row)) (newest_first C l k (thread_of rdx d))"

lemma mset_shown_list: "crates_ok C \<Longrightarrow> mset (shown_list C l k rdx d) = shown_messages rdx d"
  by (simp add: shown_list_def shown_messages_def newest_first_props(1))

lemma run_shown:
  assumes "sqlite_ready C (store w)" and "history_serving (connection (store w))" and "crates_ok C"
  shows "ffi_get_conversation_messages C rdx l k w =
      (Ok (take (unat l) (drop (unat k) (shown_list C l k rdx (connection (store w))))), w)"
    "ffi_get_unread_count rdx w = (Ok (word_of_int (unread_of rdx (connection (store w)))), w)"
  by (simp_all add: ffi_get_conversation_messages_def ffi_get_unread_count_def boxed_history_def run_in_history [OF assms(1)]
      run_get_conversation_messages [OF assms(2,3)] run_get_unread_count [OF assms(2)] bindM_at mapErr_at run_basic shown_list_def
      take_map drop_map)

lemma read_all:
  assumes "sqlite_ready C (store w)" and "history_serving (connection (store w))" and "crates_ok C"
    and "size (shown_messages rdx (connection (store w))) \<le> unat l"
  shows "\<exists>xs. ffi_get_conversation_messages C rdx l 0 w = (Ok xs, w) \<and> mset xs = shown_messages rdx (connection (store w))"
proof -
  note mset = mset_shown_list [OF assms(3), of l 0 rdx "connection (store w)"]
  have "length (shown_list C l 0 rdx (connection (store w))) \<le> unat l" using assms(4) by (simp flip: mset)
  then show ?thesis using mset by (simp add: run_shown(1) [OF assms(1-3)])
qed

lemma filed_shown:
  assumes "filed rdx row n d d'"
  shows "shown_messages rdx d' = add_mset (ffi_of_message (message_of_row row)) (shown_messages rdx d)"
    "unread_of rdx d' = unread_of rdx d + n"
    "rdx' \<noteq> rdx \<Longrightarrow> shown_list C l k rdx' d' = shown_list C l k rdx' d \<and> unread_of rdx' d' = unread_of rdx' d"
  using assms by (simp_all add: filed_def shown_messages_def shown_list_def)

lemma shown_sel:
  "ffi_direction (ffi_of_message (message_of_row row)) =
    (case direction_from_i64 (Database.message_direction row) of Incoming \<Rightarrow> FfiIncoming | Outgoing \<Rightarrow> FfiOutgoing)"
  "ffi_content (ffi_of_message (message_of_row row)) = (case from_utf8 (message_content row) of None \<Rightarrow> [] | Some s \<Rightarrow> s)"
  "ffi_timestamp (ffi_of_message (message_of_row row)) = i64_as_u64 (message_timestamp row)"
  "ffi_was_prekey_message (ffi_of_message (message_of_row row)) = message_was_prekey row"
  by (simp_all add: ffi_of_message_def message_of_row_def)

text \<open>
  C7. A message that was decrypted is shown: reading the sender's whole conversation through the
  exported call gives the messages it gave before and one more, incoming, with the time of the call,
  the decrypted text (or no text when it is not UTF-8) and the flag that asks for a new bundle; the
  unread count is one higher, and every page of every other conversation reads as before.
\<close>

theorem message_shown:
  assumes "sqlite_ready C (store w)" and "crates_ok C" and "history_serving (connection (store w))"
    and "known_sender C hint bytes (connection (store w)) = Some (rdx, consumed, m)" and "bytes \<noteq> []"
    and "can_store rdx (connection (store w))" and "0 \<le> clock w (ticks w)"
    and "ffi_decrypt_message C (Inr ()) hint bytes w = (Ok r, w')"
  shows "\<exists>x old n. ffi_direction x = FfiIncoming \<and> ffi_timestamp x = word_of_int (clock w (ticks w)) \<and>
    ffi_content x = (case from_utf8 (ffi_plaintext r) of None \<Rightarrow> [] | Some s \<Rightarrow> s) \<and>
    ffi_was_prekey_message x = ffi_should_republish_bundle r \<and>
    (\<forall>l. size old \<le> unat l \<longrightarrow> (\<exists>xs. ffi_get_conversation_messages C rdx l 0 w = (Ok xs, w) \<and> mset xs = old)) \<and>
    (\<forall>l. size old < unat l \<longrightarrow>
      (\<exists>xs. ffi_get_conversation_messages C rdx l 0 w' = (Ok xs, w') \<and> mset xs = add_mset x old)) \<and>
    ffi_get_unread_count rdx w = (Ok n, w) \<and> ffi_get_unread_count rdx w' = (Ok (n + 1), w') \<and>
    (\<forall>rdx' l k. rdx' \<noteq> rdx \<longrightarrow>
      fst (ffi_get_conversation_messages C rdx' l k w') = fst (ffi_get_conversation_messages C rdx' l k w) \<and>
      fst (ffi_get_unread_count rdx' w') = fst (ffi_get_unread_count rdx' w))"
proof -
  let ?d = "connection (store w)" and ?d' = "connection (store w')"
  obtain r0 where r0: "bridge_decrypt_message C hint bytes w = (Ok r0, w')" "r = \<lparr>ffi_plaintext = plaintext r0, ffi_should_republish_bundle = should_republish_bundle r0\<rparr>"
    using assms(8) by (auto simp: ffi_decrypt_message_def with_runtime_def bindM_at mapErr_at run_basic split: prod.splits outcome.splits)
  have "received C rdx consumed m w (Ok r0, w')"
    using decrypt_files [OF assms(1,3,6,7)]
      decrypt_prefix [OF crates_okD(1) [OF assms(2)] assms(5) run_identify_known [OF assms(1,2,4)]] r0(1) by simp
  then obtain row where after: "sqlite_ready C (store w')" "history_serving ?d'" and row: "filed rdx row 1 ?d ?d'"
    "message_content row = ffi_plaintext r" "i64_as_u64 (message_timestamp row) = word_of_int (clock w (ticks w))"
    "direction_from_i64 (Database.message_direction row) = Incoming" "message_was_prekey row = ffi_should_republish_bundle r"
    using r0(2) by (auto simp: received_def split: outcome.splits)
  note shown = filed_shown [OF row(1)] and views = run_shown [OF assms(1,3,2)] run_shown [OF after assms(2)]
  have whole: "\<forall>l. size (shown_messages rdx ?d) \<le> unat l \<longrightarrow>
      (\<exists>xs. ffi_get_conversation_messages C rdx l 0 w = (Ok xs, w) \<and> mset xs = shown_messages rdx ?d)"
    "\<forall>l. size (shown_messages rdx ?d) < unat l \<longrightarrow>
      (\<exists>xs. ffi_get_conversation_messages C rdx l 0 w' = (Ok xs, w') \<and> mset xs = shown_messages rdx ?d')"
    using read_all [OF assms(1,3,2)] read_all [OF after assms(2), of rdx] by (simp_all add: shown(1) Suc_le_eq)
  show ?thesis
    using shown(2) filed_shown(3) [OF row(1), where C = C] row(2-5) whole [unfolded shown(1)]
    by (intro exI [of _ "ffi_of_message (message_of_row row)"] exI [of _ "shown_messages rdx ?d"]
        exI [of _ "word_of_int (unread_of rdx ?d)"] conjI) (simp_all add: views shown_sel)
qed

section \<open>Resuming the subscription\<close>

text \<open>The request for the encrypted messages to a Nostr key.\<close>

definition subscription :: "string \<Rightarrow> string \<Rightarrow> u64 option \<Rightarrow> json" where
  "subscription name pubkey since = JArray [JString ''REQ'', JString name, json_object
     ([(''kinds'', JArray [json_u64 40001]), (''#p'', json_strings [pubkey])] @
      (case since of None \<Rightarrow> [] | Some t \<Rightarrow> [(''since'', json_u64 t)]))]"

lemma run_subscription:
  assumes "sqlite_ready C (store w)" and "local_key C (connection (store w)) = Some k" and "derive_from_signal_identity C k = Inr keys"
    and "get_last_message_timestamp (store w) = (Ok t0, store w)"
  shows "bridge_create_subscription_for_self C name t w = (Ok (value_to_string C (subscription name
    (nostr_to_hex C (keys_public_key C keys)) (if 0 < t then Some t else if 0 < t0 then Some t0 else None))), w)"
  using assms(3,4)
  by (simp add: bridge_create_subscription_for_self_def bridge_derive_nostr_keypair_def run_defs in_store_at Let_def subscription_def
      run_get_identity_key_pair(1) [OF assms(1,2)])

text \<open>
  C30. After the time of the last message was recorded, a subscription asked for without a time is the
  request for the encrypted messages to the node's own Nostr key since exactly that moment, for
  every 64-bit value but 0; before any was recorded, or after 0, it asks for all of them.
\<close>

theorem subscription_resumes:
  assumes "sqlite_ready C (store w)" and "local_key C (connection (store w)) = Some k" and "derive_from_signal_identity C k = Inr keys"
  shows "\<exists>w'. bridge_update_last_message_timestamp t w = (Ok (), w') \<and>
    bridge_create_subscription_for_self C name 0 w' = (Ok (value_to_string C (subscription name
      (nostr_to_hex C (keys_public_key C keys)) (if 0 < t then Some t else None))), w') \<and>
    (last_message_timestamp_key \<notin> fst ` set (settings (connection (store w))) \<longrightarrow>
      bridge_create_subscription_for_self C name 0 w = (Ok (value_to_string C (subscription name
        (nostr_to_hex C (keys_public_key C keys)) None)), w))"
proof -
  obtain s where s: "set_last_message_timestamp t (store w) = (Ok (), s)" "sqlite_ready C s" "get_last_message_timestamp s = (Ok t, s)"
    "local_identity (connection s) = local_identity (connection (store w))"
    and unset: "last_message_timestamp_key \<notin> fst ` set (settings (connection (store w))) \<Longrightarrow>
      get_last_message_timestamp (store w) = (Ok 0, store w)"
    using last_message_timestamp_roundtrip [OF assms(1), of t] by blast
  have "local_key C (connection s) = Some k" using s(4) assms(2) by (simp add: local_key_def)
  then have "bridge_create_subscription_for_self C name 0 (w\<lparr>store := s\<rparr>) = (Ok (value_to_string C (subscription name
      (nostr_to_hex C (keys_public_key C keys)) (if 0 < t then Some t else None))), w\<lparr>store := s\<rparr>)"
    using run_subscription [of C "w\<lparr>store := s\<rparr>" k keys t name 0] s(2,3) assms(3) by simp
  moreover have "bridge_update_last_message_timestamp t w = (Ok (), w\<lparr>store := s\<rparr>)"
    using s(1) by (simp add: bridge_update_last_message_timestamp_def mapErr_at in_store_at)
  moreover have "bridge_create_subscription_for_self C name 0 w = (Ok (value_to_string C (subscription name
        (nostr_to_hex C (keys_public_key C keys)) None)), w)"
    if "last_message_timestamp_key \<notin> fst ` set (settings (connection (store w)))"
    using run_subscription [OF assms unset [OF that], of name 0] by simp
  ultimately show ?thesis by blast
qed

section \<open>Witnesses\<close>

text \<open>A second node, with another identity and no contacts.\<close>

definition other_storage :: sqlite_storage where
  "other_storage = sample_storage\<lparr>connection := with_identity sample_crates (IdentityKeyPair [20]) 5 (connection sample_storage)\<rparr>"

lemma other_storage_ready: "sqlite_ready sample_crates other_storage"
proof -
  have ready: "sqlite_ready sample_crates sample_storage" by (simp add: crates_okD(1) [OF sample_crates_ok])
  note serve = servingD [OF readyD [OF ready]]
  have "db_wf sample_crates (connection other_storage)"
    unfolding other_storage_def using serve(4)
    by (simp add: with_identity_def db_wf_def sample_crates_defs sample_libsignal_def)
  then show ?thesis
    using serve unfolding other_storage_def by (intro ready_update [OF ready]) simp_all
qed

lemma other_storage_sel:
  "local_key sample_crates (connection other_storage) = Some (IdentityKeyPair [20])" "contacts_wf (connection other_storage)"
proof -
  show "local_key sample_crates (connection other_storage) = Some (IdentityKeyPair [20])"
    using local_key_with_identity [OF crates_okD(1) [OF sample_crates_ok]] by (simp add: other_storage_def)
  have "contacts (connection sample_storage) = []" "conversations (connection sample_storage) = []"
    "messages (connection sample_storage) = []" by code_simp+
  then show "contacts_wf (connection other_storage)"
    by (simp add: other_storage_def with_identity_def contacts_wf_def history_wf_def)
qed

lemma sample_bincode_bytes: "\<exists>y ys. bincode_serialize sample_crates b = Inr (y # ys)"
  by (cases "bundle_bytes b") (simp_all add: sample_crates_defs, simp add: bundle_bytes_def put_u32_def put_field_def)

lemma sample_nostr:
  "derive_from_signal_identity sample_crates (IdentityKeyPair [7]) = Inr (NostrKeys (7 # replicate 31 0))"
  by (simp add: derive_from_signal_identity_def derive_keys_def sample_crates_defs sample_libsignal_def)

theorem bundle_exchange_witness:
  "\<exists>bytes reg pkb row. bridge_generate_pre_key_bundle sample_crates (sample_sys keyed_storage) =
      (Ok (bytes, 1, 1, 1), sample_sys keyed_storage) \<and>
    pre_key_bundle_new sample_crates reg 1 (Some (1, PublicKey [8])) 1 (PublicKey [9]) [10] 1 (KemPublicKey [11]) [12]
      (identity_key_pair_identity_key sample_crates (IdentityKeyPair [7])) = Inr pkb \<and>
    taken_in sample_crates pkb row (sample_sys other_storage)
      (bridge_add_contact_and_establish_session sample_crates bytes (Some ''bob'') (sample_sys other_storage)) \<and>
    bridge_generate_node_fingerprint sample_crates (sample_sys keyed_storage) = (Ok (rdx_fingerprint row), sample_sys keyed_storage) \<and>
    ffi_extract_rdx_from_bundle_base64 sample_crates (base64_encode sample_crates bytes) (sample_sys other_storage) =
      (Ok (rdx_fingerprint row), sample_sys other_storage) \<and>
    nostr_pubkey row = nostr_to_hex sample_crates (keys_public_key sample_crates (NostrKeys (7 # replicate 31 0))) \<and>
    user_alias row = Some ''bob'' \<and>
    signal_identity_key row = identity_key_serialize sample_crates (identity_key_pair_identity_key sample_crates (IdentityKeyPair [7]))"
  by (rule bundle_exchange [where own = "IdentityKeyPair [20]"])
    (simp_all add: keyed_storage_ready keyed_storage_key keyed_storage_newest sample_nostr sample_bincode_bytes other_storage_ready
      other_storage_sel sample_readers clock_sane_def)

theorem message_shown_witness:
  "\<exists>r w' x old. ffi_decrypt_message sample_crates (Inr ()) ''bob'' [2, 104] chat_sys = (Ok r, w') \<and>
     ffi_direction x = FfiIncoming \<and> ffi_content x = ''h'' \<and>
     (\<forall>l. size old < unat l \<longrightarrow>
       (\<exists>xs. ffi_get_conversation_messages sample_crates (rdx_fingerprint known_contact) l 0 w' = (Ok xs, w') \<and>
         mset xs = add_mset x old))"
proof -
  let ?rdx = "rdx_fingerprint known_contact" let ?m = "SignalMessage (SignalMessageV [104])"
  have known: "known_sender sample_crates ''bob'' [2, 104] (connection (store chat_sys)) = Some (?rdx, False, ?m)"
    by (simp add: known_sender_def names_contact_def known_contact_def sample_crates_defs)
  have "received sample_crates ?rdx False ?m chat_sys (bridge_decrypt_message sample_crates ''bob'' [2, 104] chat_sys)"
    using decrypt_files [OF chat_sys_ready chat_sys_history, of False ?m]
      decrypt_prefix [OF crates_okD(1) [OF sample_crates_ok] _ run_identify_known [OF chat_sys_ready sample_crates_ok known]] by simp
  moreover have "run_store (sqlite_stores sample_crates) (message_decrypt sample_crates ?m a n) d = (Ok [104], d)" for a n d
    by (simp add: sample_crates_defs sample_libsignal_def sample_decrypt_def run_defs)
  ultimately obtain w' where "bridge_decrypt_message sample_crates ''bob'' [2, 104] chat_sys =
      (Ok \<lparr>plaintext = [104], should_republish_bundle = False\<rparr>, w')"
    by (cases "bridge_decrypt_message sample_crates ''bob'' [2, 104] chat_sys")
      (auto simp: received_def)
  then have run: "ffi_decrypt_message sample_crates (Inr ()) ''bob'' [2, 104] chat_sys =
      (Ok \<lparr>ffi_plaintext = [104], ffi_should_republish_bundle = False\<rparr>, w')"
    by (simp add: ffi_decrypt_message_def with_runtime_def run_defs)
  have "from_utf8 [104] = Some ''h''" by code_simp
  with run message_shown [OF chat_sys_ready sample_crates_ok chat_sys_history(1) known _ chat_sys_history(2) _ run] show ?thesis
    by (auto simp: chat_sys_sel)
qed

theorem subscription_resumes_witness:
  "\<exists>w'. bridge_update_last_message_timestamp 1700000000 (sample_sys keyed_storage) = (Ok (), w') \<and>
    bridge_create_subscription_for_self sample_crates ''s'' 0 w' = (Ok (value_to_string sample_crates (subscription ''s''
      (nostr_to_hex sample_crates (keys_public_key sample_crates (NostrKeys (7 # replicate 31 0)))) (Some 1700000000))), w')"
  using subscription_resumes [of sample_crates "sample_sys keyed_storage" "IdentityKeyPair [7]" "NostrKeys (7 # replicate 31 0)" 1700000000 "''s''"]
  by (auto simp: keyed_storage_ready keyed_storage_key sample_nostr)

end
