(* ===== verification/Backend_Equivalence.thy ===== *)
theory Backend_Equivalence
  imports Rotation_Instances
begin

text \<open>
  A key store as an abstract data type: a finite map from numbers to records with five operations.
  Every store that keeps the contract implements it, run by run, so the SQLite and the in-memory
  backend cannot be told apart by the answers they give.
\<close>

section \<open>The abstract key store\<close>

datatype 'r key_op = SaveKey u32 'r | DeleteKey u32 | GetKey u32 | CountKeys | GreatestKey

datatype 'r key_answer = Done | Key 'r | Number nat | Greatest "u32 option" | Failed

fun spec_key_op :: "'r key_op \<Rightarrow> (u32 \<Rightarrow> 'r option) \<Rightarrow> 'r key_answer \<times> (u32 \<Rightarrow> 'r option)" where
  "spec_key_op (SaveKey i r) m = (Done, m(i \<mapsto> r))"
| "spec_key_op (DeleteKey i) m = (Done, m(i := None))"
| "spec_key_op (GetKey i) m = ((case m i of None \<Rightarrow> Failed | Some r \<Rightarrow> Key r), m)"
| "spec_key_op CountKeys m = (Number (card (dom m)), m)"
| "spec_key_op GreatestKey m = (Greatest (greatest m), m)"

fun spec_key_ops :: "'r key_op list \<Rightarrow> (u32 \<Rightarrow> 'r option) \<Rightarrow> 'r key_answer list \<times> (u32 \<Rightarrow> 'r option)" where
  "spec_key_ops [] m = ([], m)"
| "spec_key_ops (c # cs) m = (let (a, m1) = spec_key_op c m; (as, m2) = spec_key_ops cs m1 in (a # as, m2))"

section \<open>Running the operations of a store\<close>

definition answered :: "('a \<Rightarrow> 'r key_answer) \<Rightarrow> ('e, 'a) outcome \<times> 's \<Rightarrow> 'r key_answer \<times> 's" where
  "answered f p = ((case fst p of Ok a \<Rightarrow> f a | _ \<Rightarrow> Failed), snd p)"

fun run_key_op ::
    "('s, dyn_error, nat) M \<Rightarrow> ('s, dyn_error, u32 option) M \<Rightarrow> (u32 \<Rightarrow> ('s, protocol_error, 'r) M) \<Rightarrow>
     (u32 \<Rightarrow> 'r \<Rightarrow> ('s, protocol_error, unit) M) \<Rightarrow> (u32 \<Rightarrow> ('s, dyn_error, unit) M) \<Rightarrow>
     'r key_op \<Rightarrow> 's \<Rightarrow> 'r key_answer \<times> 's" where
  "run_key_op cnt mx ld sv dl (SaveKey i r) s = answered (\<lambda>_. Done) (sv i r s)"
| "run_key_op cnt mx ld sv dl (DeleteKey i) s = answered (\<lambda>_. Done) (dl i s)"
| "run_key_op cnt mx ld sv dl (GetKey i) s = answered Key (ld i s)"
| "run_key_op cnt mx ld sv dl CountKeys s = answered Number (cnt s)"
| "run_key_op cnt mx ld sv dl GreatestKey s = answered Greatest (mx s)"

fun run_key_ops ::
    "('r key_op \<Rightarrow> 's \<Rightarrow> 'r key_answer \<times> 's) \<Rightarrow> 'r key_op list \<Rightarrow> 's \<Rightarrow> 'r key_answer list \<times> 's" where
  "run_key_ops f [] s = ([], s)"
| "run_key_ops f (c # cs) s = (let (a, s1) = f c s; (as, s2) = run_key_ops f cs s1 in (a # as, s2))"

fun op_storable :: "(u32 \<Rightarrow> 'r \<Rightarrow> bool) \<Rightarrow> 'r key_op \<Rightarrow> bool" where
  "op_storable P (SaveKey i r) = P i r"
| "op_storable P _ = True"

lemma op_storable_mono: "op_storable P c \<Longrightarrow> (\<And>i r. P i r \<Longrightarrow> Q i r) \<Longrightarrow> op_storable Q c"
  by (cases c) simp_all

context numbered_key_store
begin

lemma key_op_refines:
  assumes "ready s" and "op_storable storable c"
  shows "\<exists>s'. run_key_op count_op max_op get_op save_op delete_op c s = (fst (spec_key_op c (keys s)), s') \<and>
    ready s' \<and> keys s' = snd (spec_key_op c (keys s)) \<and> rest s' = rest s"
proof (cases c)
  case (SaveKey i r)
  with assms save_law [OF assms(1), of i r] show ?thesis by (auto simp: answered_def)
next
  case (DeleteKey i)
  with delete_law [OF assms(1), of i] show ?thesis by (auto simp: answered_def)
next
  case (GetKey i)
  with assms(1) get_law [OF assms(1)] get_missing_law [OF assms(1), of i] show ?thesis
    by (cases "keys s i") (auto simp: answered_def)
qed (use assms(1) count_law max_law in \<open>simp_all add: answered_def\<close>)

lemma key_ops_refine:
  assumes "ready s" and "list_all (op_storable storable) cs"
  shows "\<exists>s'. run_key_ops (run_key_op count_op max_op get_op save_op delete_op) cs s =
      (fst (spec_key_ops cs (keys s)), s') \<and> ready s' \<and> keys s' = snd (spec_key_ops cs (keys s)) \<and> rest s' = rest s"
  using assms
proof (induction cs arbitrary: s)
  case (Cons c cs)
  from key_op_refines [of s c] Cons.prems obtain s1 where
    s1: "run_key_op count_op max_op get_op save_op delete_op c s = (fst (spec_key_op c (keys s)), s1)" "ready s1"
    "keys s1 = snd (spec_key_op c (keys s))" "rest s1 = rest s" by auto
  from Cons.IH [OF s1(2)] Cons.prems(2) s1 show ?case
    by (auto simp: Let_def case_prod_beta)
qed simp

end

section \<open>The two backends\<close>

abbreviation signed_key_op :: "'s container \<Rightarrow> signed_pre_key_record key_op \<Rightarrow> 's \<Rightarrow> signed_pre_key_record key_answer \<times> 's" where
  "signed_key_op C \<equiv> run_key_op (signed_pre_key_count (signed_pre_key_store C))
     (get_max_signed_pre_key_id (signed_pre_key_store C)) (get_signed_pre_key (signed_pre_key_store C))
     (save_signed_pre_key (signed_pre_key_store C)) (delete_signed_pre_key (signed_pre_key_store C))"

abbreviation pre_key_op :: "'s container \<Rightarrow> pre_key_record key_op \<Rightarrow> 's \<Rightarrow> pre_key_record key_answer \<times> 's" where
  "pre_key_op C \<equiv> run_key_op (pre_key_count (pre_key_store C))
     (get_max_pre_key_id (pre_key_store C)) (get_pre_key (pre_key_store C))
     (save_pre_key (pre_key_store C)) (delete_pre_key (pre_key_store C))"

text \<open>
  C16. The signed pre-key store of the SQLite storage refines the abstract key store: for every
  sequence of operations it gives the abstract answers, ends in a state that stands for the
  abstract map, and leaves the rest of the storage as it was.
\<close>

theorem signed_key_store_refines:
  assumes "sqlite_ready L s" and "list_all (op_storable (signed_pre_key_storable L)) cs"
  shows "\<exists>s'. run_key_ops (signed_key_op (sqlite_container L)) cs s =
      (fst (spec_key_ops cs (sqlite_signed_pre_keys L s)), s') \<and> sqlite_ready L s' \<and>
    sqlite_signed_pre_keys L s' = snd (spec_key_ops cs (sqlite_signed_pre_keys L s)) \<and>
    without_signed_pre_keys s' = without_signed_pre_keys s"
  using sqlite_spk.key_ops_refine [OF assms] .

definition sample_signed_ops :: "signed_pre_key_record key_op list" where
  "sample_signed_ops = [SaveKey 3 (SignedPreKeyRecord (record_bytes 3 0 [1] [2])), CountKeys, GreatestKey, DeleteKey 3, GetKey 3]"

theorem signed_key_store_refines_witness:
  "fst (run_key_ops (signed_key_op (sqlite_container sample_libsignal)) sample_signed_ops sample_storage) =
     [Done, Number 1, Greatest (Some 3), Done, Failed]"
proof -
  have "list_all (op_storable (signed_pre_key_storable sample_libsignal)) sample_signed_ops"
    by (simp add: sample_signed_ops_def signed_pre_key_storable_def sample_libsignal_def)
  from signed_key_store_refines [OF sample_storage_ready [OF sample_libsignal_ok] this] show ?thesis
    by (auto simp: sample_signed_ops_def greatest_def)
qed

text \<open>
  C14. The one-time pre-key stores of the SQLite and of the in-memory storage are interchangeable:
  from states with the same keys, every sequence of operations gets the same answers from both and
  leaves the same keys, as long as the records saved are built for the number they are saved under
  (the in-memory store keeps only the key pair).
\<close>

theorem pre_key_backends_agree:
  assumes "sqlite_ready L s" and "memory_wf m" and "memory_pre_keys L m = sqlite_pre_keys L s"
    and "list_all (op_storable (\<lambda>i r. pre_key_storable L i r \<and> memory_storable L i r)) cs"
  shows "fst (run_key_ops (pre_key_op (memory_container L)) cs m) = fst (run_key_ops (pre_key_op (sqlite_container L)) cs s) \<and>
    memory_pre_keys L (snd (run_key_ops (pre_key_op (memory_container L)) cs m)) =
    sqlite_pre_keys L (snd (run_key_ops (pre_key_op (sqlite_container L)) cs s))"
proof -
  have "list_all (op_storable (pre_key_storable L)) cs" "list_all (op_storable (memory_storable L)) cs"
    using assms(4) by (auto elim!: list.pred_mono_strong op_storable_mono)
  then show ?thesis
    using sqlite_pk.key_ops_refine [OF assms(1), of cs] memory_pk.key_ops_refine [OF assms(2), of L cs] assms(3) by auto
qed

theorem pre_key_backends_agree_witness:
  "fst (run_key_ops (pre_key_op (memory_container sample_libsignal))
      [SaveKey 7 (pre_key_record_new sample_libsignal 7 (KeyPair [1])), GetKey 7, GetKey 8] (memory_storage_new (\<lambda>_. 0))) =
   fst (run_key_ops (pre_key_op (sqlite_container sample_libsignal))
      [SaveKey 7 (pre_key_record_new sample_libsignal 7 (KeyPair [1])), GetKey 7, GetKey 8] sample_storage)"
proof -
  have "memory_wf (memory_storage_new (\<lambda>_. 0))"
    "memory_pre_keys sample_libsignal (memory_storage_new (\<lambda>_. 0)) = sqlite_pre_keys sample_libsignal sample_storage"
    by (auto simp: memory_wf_def memory_storage_new_def memory_pre_keys_def hash_get_def fun_eq_iff)
  then show ?thesis
    by (intro conjunct1 [OF pre_key_backends_agree])
      (simp_all add: pre_key_storable_def memory_storable_def libsignal_records_okD [OF sample_libsignal_records_ok])
qed

end
