(* ===== verification/Library_Stores.thy ===== *)
theory Library_Stores
  imports Backend_Equivalence
begin

text \<open>
  What libsignal sees of a storage. A call of the library is a tree of requests on the stores; the
  contract \<open>library_stores\<close> says how a storage answers each of them in terms of an abstract vault of
  sessions, identities and keys. Every library call then behaves as on the vault, so the SQLite and
  the in-memory storage cannot be told apart by any of them.
\<close>

section \<open>The vault\<close>

text \<open>The local identity is kept as the answers its two methods give.\<close>

record vault =
  vault_sessions :: "address \<Rightarrow> session_record option"
  vault_identities :: "address \<Rightarrow> identity_key option"
  vault_key_pair :: "protocol_error + identity_key_pair"
  vault_registration :: "protocol_error + u32"
  vault_pre_keys :: "u32 \<Rightarrow> pre_key_record option"
  vault_signed_pre_keys :: "u32 \<Rightarrow> signed_pre_key_record option"
  vault_kyber_pre_keys :: "u32 \<Rightarrow> kyber_pre_key_record option"

definition found :: "protocol_error \<Rightarrow> 'r option \<Rightarrow> protocol_error + 'r" where
  "found e x = (case x of None \<Rightarrow> Inl e | Some r \<Rightarrow> Inr r)"

definition change_of :: "identity_key option \<Rightarrow> identity_key \<Rightarrow> identity_change" where
  "change_of old k = (case old of None \<Rightarrow> NewOrUnchanged
     | Some k' \<Rightarrow> if k' = k then NewOrUnchanged else ReplacedExisting)"

fun vault_peer :: "peer_request \<Rightarrow> vault \<Rightarrow> peer_answer \<times> vault" where
  "vault_peer (LoadSession a) v = (SessionAnswer (Inr (vault_sessions v a)), v)"
| "vault_peer (StoreSession a r) v = (DoneAnswer (Inr ()), v\<lparr>vault_sessions := (vault_sessions v)(a \<mapsto> r)\<rparr>)"
| "vault_peer GetIdentityKeyPair v = (KeyPairAnswer (vault_key_pair v), v)"
| "vault_peer GetLocalRegistrationId v = (RegistrationAnswer (vault_registration v), v)"
| "vault_peer (SaveIdentity a k) v = (ChangeAnswer (Inr (change_of (vault_identities v a) k)),
     v\<lparr>vault_identities := (vault_identities v)(a \<mapsto> k)\<rparr>)"
| "vault_peer (IsTrustedIdentity a k dir) v =
     (TrustAnswer (Inr (case vault_identities v a of None \<Rightarrow> True | Some k' \<Rightarrow> k' = k)), v)"
| "vault_peer (GetIdentity a) v = (IdentityAnswer (Inr (vault_identities v a)), v)"

fun vault_store :: "store_request \<Rightarrow> vault \<Rightarrow> store_answer \<times> vault" where
  "vault_store (PeerRequest q) v = (case vault_peer q v of (x, v') \<Rightarrow> (PeerAnswer x, v'))"
| "vault_store (GetPreKey i) v = (PreKeyAnswer (found InvalidPreKeyId (vault_pre_keys v i)), v)"
| "vault_store (SavePreKey i r) v = (StoreDoneAnswer (Inr ()), v\<lparr>vault_pre_keys := (vault_pre_keys v)(i \<mapsto> r)\<rparr>)"
| "vault_store (RemovePreKey i) v = (StoreDoneAnswer (Inr ()), v\<lparr>vault_pre_keys := (vault_pre_keys v)(i := None)\<rparr>)"
| "vault_store (GetSignedPreKey i) v =
     (SignedPreKeyAnswer (found InvalidSignedPreKeyId (vault_signed_pre_keys v i)), v)"
| "vault_store (SaveSignedPreKey i r) v =
     (StoreDoneAnswer (Inr ()), v\<lparr>vault_signed_pre_keys := (vault_signed_pre_keys v)(i \<mapsto> r)\<rparr>)"
| "vault_store (GetKyberPreKey i) v =
     (KyberPreKeyAnswer (found InvalidKyberPreKeyId (vault_kyber_pre_keys v i)), v)"
| "vault_store (SaveKyberPreKey i r) v =
     (StoreDoneAnswer (Inr ()), v\<lparr>vault_kyber_pre_keys := (vault_kyber_pre_keys v)(i \<mapsto> r)\<rparr>)"
| "vault_store (MarkKyberPreKeyUsed i) v = (StoreDoneAnswer (Inr ()), v)"

text \<open>A library call on the vault.\<close>

primrec vault_run_peer :: "'a peer_prog \<Rightarrow> vault \<Rightarrow> (protocol_error + 'a) \<times> vault" where
  "vault_run_peer (PeerDone r) = (\<lambda>v. (r, v))"
| "vault_run_peer (PeerCall q k) = (\<lambda>v. case vault_peer q v of (x, v') \<Rightarrow> vault_run_peer (k x) v')"

primrec vault_run_store :: "'a store_prog \<Rightarrow> vault \<Rightarrow> (protocol_error + 'a) \<times> vault" where
  "vault_run_store (StoreDone r) = (\<lambda>v. (r, v))"
| "vault_run_store (StoreCall q k) = (\<lambda>v. case vault_store q v of (x, v') \<Rightarrow> vault_run_store (k x) v')"

text \<open>All requests a library call can make satisfy a predicate.\<close>

primrec peer_requests :: "(peer_request \<Rightarrow> bool) \<Rightarrow> 'a peer_prog \<Rightarrow> bool" where
  "peer_requests P (PeerDone r) = True"
| "peer_requests P (PeerCall q k) = (P q \<and> (\<forall>x. peer_requests P (k x)))"

primrec store_requests :: "(store_request \<Rightarrow> bool) \<Rightarrow> 'a store_prog \<Rightarrow> bool" where
  "store_requests P (StoreDone r) = True"
| "store_requests P (StoreCall q k) = (P q \<and> (\<forall>x. store_requests P (k x)))"

lemma peer_requests_mono: "peer_requests P p \<Longrightarrow> (\<And>q. P q \<Longrightarrow> Q q) \<Longrightarrow> peer_requests Q p"
  by (induction p) auto

lemma store_requests_mono: "store_requests P p \<Longrightarrow> (\<And>q. P q \<Longrightarrow> Q q) \<Longrightarrow> store_requests Q p"
  by (induction p) auto

definition outcome_of :: "'e + 'a \<Rightarrow> ('e, 'a) outcome" where
  "outcome_of r = (case r of Inl e \<Rightarrow> Err e | Inr a \<Rightarrow> Ok a)"

lemma outcome_of_simps [simp]: "outcome_of (Inl e) = Err e" "outcome_of (Inr a) = Ok a"
  by (simp_all add: outcome_of_def)

lemma outcome_of_inject [simp]: "outcome_of r = outcome_of r' \<longleftrightarrow> r = r'"
  by (auto simp: outcome_of_def split: sum.splits)

text \<open>A computation that does on a storage what the vault does.\<close>

definition follows ::
    "('s \<Rightarrow> vault) \<Rightarrow> ('s \<Rightarrow> bool) \<Rightarrow> ('s, protocol_error, 'a) M \<Rightarrow> 's \<Rightarrow> (protocol_error + 'a) \<times> vault \<Rightarrow> bool" where
  "follows view ready m s p \<longleftrightarrow> (\<exists>s'. m s = (outcome_of (fst p), s') \<and> ready s' \<and> view s' = snd p)"

section \<open>The contract of the stores\<close>

locale library_stores =
  fixes stores :: "'s container"
    and view :: "'s \<Rightarrow> vault"
    and ready :: "'s \<Rightarrow> bool"
    and storable :: "store_request \<Rightarrow> bool"
  assumes load_session_law: "ready s \<Longrightarrow> load_session (session_store stores) a s = (Ok (vault_sessions (view s) a), s)"
    and store_session_law: "ready s \<Longrightarrow> storable (PeerRequest (StoreSession a r)) \<Longrightarrow>
      \<exists>s'. store_session (session_store stores) a r s = (Ok (), s') \<and> ready s' \<and>
        view s' = (view s)\<lparr>vault_sessions := (vault_sessions (view s))(a \<mapsto> r)\<rparr>"
    and key_pair_law: "ready s \<Longrightarrow>
      get_identity_key_pair (identity_store stores) s = (outcome_of (vault_key_pair (view s)), s)"
    and registration_law: "ready s \<Longrightarrow>
      get_local_registration_id (identity_store stores) s = (outcome_of (vault_registration (view s)), s)"
    and save_identity_law: "ready s \<Longrightarrow> \<exists>s'. save_identity (identity_store stores) a k s =
        (Ok (change_of (vault_identities (view s) a) k), s') \<and> ready s' \<and>
        view s' = (view s)\<lparr>vault_identities := (vault_identities (view s))(a \<mapsto> k)\<rparr>"
    and trust_law: "ready s \<Longrightarrow> is_trusted_identity (identity_store stores) a k dir s =
      (Ok (case vault_identities (view s) a of None \<Rightarrow> True | Some k' \<Rightarrow> k' = k), s)"
    and identity_law: "ready s \<Longrightarrow> get_identity (identity_store stores) a s = (Ok (vault_identities (view s) a), s)"
    and pre_key_law: "ready s \<Longrightarrow>
      get_pre_key (pre_key_store stores) i s = (outcome_of (found InvalidPreKeyId (vault_pre_keys (view s) i)), s)"
    and save_pre_key_law: "ready s \<Longrightarrow> storable (SavePreKey i pr) \<Longrightarrow>
      \<exists>s'. save_pre_key (pre_key_store stores) i pr s = (Ok (), s') \<and> ready s' \<and>
        view s' = (view s)\<lparr>vault_pre_keys := (vault_pre_keys (view s))(i \<mapsto> pr)\<rparr>"
    and remove_pre_key_law: "ready s \<Longrightarrow> \<exists>s'. remove_pre_key (pre_key_store stores) i s = (Ok (), s') \<and> ready s' \<and>
        view s' = (view s)\<lparr>vault_pre_keys := (vault_pre_keys (view s))(i := None)\<rparr>"
    and signed_law: "ready s \<Longrightarrow> get_signed_pre_key (signed_pre_key_store stores) i s =
      (outcome_of (found InvalidSignedPreKeyId (vault_signed_pre_keys (view s) i)), s)"
    and save_signed_law: "ready s \<Longrightarrow> storable (SaveSignedPreKey i sr) \<Longrightarrow>
      \<exists>s'. save_signed_pre_key (signed_pre_key_store stores) i sr s = (Ok (), s') \<and> ready s' \<and>
        view s' = (view s)\<lparr>vault_signed_pre_keys := (vault_signed_pre_keys (view s))(i \<mapsto> sr)\<rparr>"
    and kyber_law: "ready s \<Longrightarrow> get_kyber_pre_key (kyber_pre_key_store stores) i s =
      (outcome_of (found InvalidKyberPreKeyId (vault_kyber_pre_keys (view s) i)), s)"
    and save_kyber_law: "ready s \<Longrightarrow> storable (SaveKyberPreKey i kr) \<Longrightarrow>
      \<exists>s'. save_kyber_pre_key (kyber_pre_key_store stores) i kr s = (Ok (), s') \<and> ready s' \<and>
        view s' = (view s)\<lparr>vault_kyber_pre_keys := (vault_kyber_pre_keys (view s))(i \<mapsto> kr)\<rparr>"
    and mark_kyber_law: "ready s \<Longrightarrow>
      \<exists>s'. mark_kyber_pre_key_used (kyber_pre_key_store stores) i s = (Ok (), s') \<and> ready s' \<and> view s' = view s"
begin

lemma follows_bind:
  assumes "follows view ready m s (Inr x, v)" and "\<And>s'. ready s' \<Longrightarrow> view s' = v \<Longrightarrow> follows view ready (f x) s' p"
  shows "follows view ready (bindM m f) s p"
  using assms by (auto simp: follows_def bindM_at)

lemma follows_attempt:
  assumes "m s = (outcome_of r, s')" and "ready s'" and "view s' = v"
  shows "follows view ready (bindM (attempt m) (\<lambda>x. ret (g x))) s (Inr (g r), v)"
  using assms by (cases r) (simp_all add: follows_def bindM_at attempt_at run_basic)

lemma answer_peer_follows:
  assumes "ready s" and "storable (PeerRequest q)"
  shows "follows view ready (answer_peer stores q) s (Inr (fst (vault_peer q (view s))), snd (vault_peer q (view s)))"
proof (cases q)
  case (StoreSession a r)
  with assms obtain s' where "store_session (session_store stores) a r s = (outcome_of (Inr ()), s')" "ready s'"
    "view s' = (view s)\<lparr>vault_sessions := (vault_sessions (view s))(a \<mapsto> r)\<rparr>"
    using store_session_law by (metis outcome_of_simps(2))
  then show ?thesis by (simp add: StoreSession answer_peer_def follows_attempt)
next
  case (SaveIdentity a k)
  obtain s' where "save_identity (identity_store stores) a k s = (outcome_of (Inr (change_of (vault_identities (view s) a) k)), s')"
    "ready s'" "view s' = (view s)\<lparr>vault_identities := (vault_identities (view s))(a \<mapsto> k)\<rparr>"
    using save_identity_law [OF assms(1), of a k] by auto
  then show ?thesis by (simp add: SaveIdentity answer_peer_def follows_attempt)
qed (use assms(1) load_session_law key_pair_law registration_law trust_law identity_law in
    \<open>simp_all add: answer_peer_def follows_attempt [where r = "Inr _"] follows_attempt\<close>)

lemma answer_store_follows:
  assumes "ready s" and "storable q"
  shows "follows view ready (answer_store stores q) s (Inr (fst (vault_store q (view s))), snd (vault_store q (view s)))"
proof (cases q)
  case (PeerRequest p)
  have "follows view ready (answer_peer stores p) s (Inr (fst (vault_peer p (view s))), snd (vault_peer p (view s)))"
    using answer_peer_follows assms PeerRequest by blast
  then show ?thesis
    unfolding PeerRequest answer_store_def by (auto simp: follows_def bindM_at run_basic split: prod.split)
next
  case (SavePreKey i r)
  with assms obtain s' where "save_pre_key (pre_key_store stores) i r s = (outcome_of (Inr ()), s')" "ready s'"
    "view s' = (view s)\<lparr>vault_pre_keys := (vault_pre_keys (view s))(i \<mapsto> r)\<rparr>"
    using save_pre_key_law by (metis outcome_of_simps(2))
  then show ?thesis by (simp add: SavePreKey answer_store_def follows_attempt)
next
  case (RemovePreKey i)
  obtain s' where "remove_pre_key (pre_key_store stores) i s = (outcome_of (Inr ()), s')" "ready s'"
    "view s' = (view s)\<lparr>vault_pre_keys := (vault_pre_keys (view s))(i := None)\<rparr>"
    using remove_pre_key_law [OF assms(1), of i] by auto
  then show ?thesis by (simp add: RemovePreKey answer_store_def follows_attempt)
next
  case (SaveSignedPreKey i r)
  with assms obtain s' where "save_signed_pre_key (signed_pre_key_store stores) i r s = (outcome_of (Inr ()), s')" "ready s'"
    "view s' = (view s)\<lparr>vault_signed_pre_keys := (vault_signed_pre_keys (view s))(i \<mapsto> r)\<rparr>"
    using save_signed_law by (metis outcome_of_simps(2))
  then show ?thesis by (simp add: SaveSignedPreKey answer_store_def follows_attempt)
next
  case (SaveKyberPreKey i r)
  with assms obtain s' where "save_kyber_pre_key (kyber_pre_key_store stores) i r s = (outcome_of (Inr ()), s')" "ready s'"
    "view s' = (view s)\<lparr>vault_kyber_pre_keys := (vault_kyber_pre_keys (view s))(i \<mapsto> r)\<rparr>"
    using save_kyber_law by (metis outcome_of_simps(2))
  then show ?thesis by (simp add: SaveKyberPreKey answer_store_def follows_attempt)
next
  case (MarkKyberPreKeyUsed i)
  obtain s' where "mark_kyber_pre_key_used (kyber_pre_key_store stores) i s = (outcome_of (Inr ()), s')" "ready s'" "view s' = view s"
    using mark_kyber_law [OF assms(1), of i] by auto
  then show ?thesis by (simp add: MarkKyberPreKeyUsed answer_store_def follows_attempt)
qed (use assms(1) pre_key_law signed_law kyber_law in \<open>simp_all add: answer_store_def follows_attempt\<close>)

lemma run_peer_follows:
  assumes "ready s" and "peer_requests (\<lambda>q. storable (PeerRequest q)) p"
  shows "follows view ready (run_peer stores p) s (vault_run_peer p (view s))"
  using assms
proof (induction p arbitrary: s)
  case (PeerCall q k)
  then have "follows view ready (answer_peer stores q) s (Inr (fst (vault_peer q (view s))), snd (vault_peer q (view s)))"
    by (simp add: answer_peer_follows)
  then have "follows view ready (bindM (answer_peer stores q) (\<lambda>x. run_peer stores (k x))) s
      (vault_run_peer (k (fst (vault_peer q (view s)))) (snd (vault_peer q (view s))))"
  proof (rule follows_bind)
    fix s' assume "ready s'" and "view s' = snd (vault_peer q (view s))"
    with PeerCall.IH [OF rangeI, of s' "fst (vault_peer q (view s))"] PeerCall.prems(2)
    show "follows view ready (run_peer stores (k (fst (vault_peer q (view s))))) s'
        (vault_run_peer (k (fst (vault_peer q (view s)))) (snd (vault_peer q (view s))))" by simp
  qed
  then show ?case by (simp add: case_prod_beta)
qed (auto simp: follows_def of_sum_def run_basic split: sum.split)

lemma run_store_follows:
  assumes "ready s" and "store_requests storable p"
  shows "follows view ready (run_store stores p) s (vault_run_store p (view s))"
  using assms
proof (induction p arbitrary: s)
  case (StoreCall q k)
  then have "follows view ready (answer_store stores q) s (Inr (fst (vault_store q (view s))), snd (vault_store q (view s)))"
    by (simp add: answer_store_follows)
  then have "follows view ready (bindM (answer_store stores q) (\<lambda>x. run_store stores (k x))) s
      (vault_run_store (k (fst (vault_store q (view s)))) (snd (vault_store q (view s))))"
  proof (rule follows_bind)
    fix s' assume "ready s'" and "view s' = snd (vault_store q (view s))"
    with StoreCall.IH [OF rangeI, of s' "fst (vault_store q (view s))"] StoreCall.prems(2)
    show "follows view ready (run_store stores (k (fst (vault_store q (view s))))) s'
        (vault_run_store (k (fst (vault_store q (view s)))) (snd (vault_store q (view s))))" by simp
  qed
  then show ?case by (simp add: case_prod_beta)
qed (auto simp: follows_def of_sum_def run_basic split: sum.split)

end

section \<open>The two storages\<close>

text \<open>
  Records that a storage can keep: in SQLite those that serialize and give the columns of their
  row, in memory pre-keys that are built for their number.
\<close>

fun storable_in_sqlite :: "'x libsignal_scheme \<Rightarrow> store_request \<Rightarrow> bool" where
  "storable_in_sqlite L (PeerRequest (StoreSession a r)) = (\<exists>b. session_record_serialize L r = Inr b)"
| "storable_in_sqlite L (SavePreKey i r) = pre_key_storable L i r"
| "storable_in_sqlite L (SaveSignedPreKey i r) = signed_pre_key_storable L i r"
| "storable_in_sqlite L (SaveKyberPreKey i r) = kyber_pre_key_storable L i r"
| "storable_in_sqlite L _ = True"

fun storable_in_memory :: "'x libsignal_scheme \<Rightarrow> store_request \<Rightarrow> bool" where
  "storable_in_memory L (SavePreKey i r) = memory_storable L i r"
| "storable_in_memory L _ = True"

definition memory_view :: "'x libsignal_scheme \<Rightarrow> memory_storage \<Rightarrow> vault" where
  "memory_view L s = \<lparr>vault_sessions = (\<lambda>a. hash_get (mem_sessions s) (address_key a)),
     vault_identities = (\<lambda>a. hash_get (mem_identity_keys s) (address_key a)),
     vault_key_pair = found (InvalidState ''storage'' [Lit ''Local identity key pair not set'']) (mem_local_identity_key_pair s),
     vault_registration = found (InvalidState ''storage'' [Lit ''Local registration ID not set'']) (mem_local_registration_id s),
     vault_pre_keys = memory_pre_keys L s, vault_signed_pre_keys = hash_get (mem_signed_pre_keys s),
     vault_kyber_pre_keys = hash_get (mem_kyber_pre_keys s)\<rparr>"

lemma outcome_of_found: "outcome_of (found e x) = (case x of None \<Rightarrow> Err e | Some r \<Rightarrow> Ok r)"
  by (simp add: found_def split: option.split)

lemma memory_answers:
  assumes "memory_wf s"
  shows "mem_get_identity_key_pair s = (outcome_of (vault_key_pair (memory_view L s)), s)"
    "mem_get_local_registration_id s = (outcome_of (vault_registration (memory_view L s)), s)"
    "mem_get_pre_key L i s = (outcome_of (found InvalidPreKeyId (vault_pre_keys (memory_view L s) i)), s)"
    "mem_get_signed_pre_key i s = (outcome_of (found InvalidSignedPreKeyId (vault_signed_pre_keys (memory_view L s) i)), s)"
    "mem_get_kyber_pre_key i s = (outcome_of (found InvalidKyberPreKeyId (vault_kyber_pre_keys (memory_view L s) i)), s)"
    "mem_is_trusted_identity a k dir s =
      (Ok (case vault_identities (memory_view L s) a of None \<Rightarrow> True | Some k' \<Rightarrow> k' = k), s)"
    "mem_save_identity a k s = (Ok (change_of (vault_identities (memory_view L s) a) k),
      s\<lparr>mem_identity_keys := upsert fst (address_key a, k) (mem_identity_keys s)\<rparr>)"
  by (auto simp: mem_defs run_defs memory_view_def outcome_of_found memory_pre_keys_def change_of_def Let_def split: option.split)

interpretation memory_lib: library_stores "memory_container L" "memory_view L" memory_wf "storable_in_memory L" for L
  by unfold_locales
    (auto simp: memory_container_def memory_answers [where L = L],
     auto simp: mem_load_session_def mem_store_session_def mem_get_identity_def mem_save_pre_key_def mem_remove_pre_key_def
       mem_save_signed_pre_key_def mem_save_kyber_pre_key_def mem_mark_kyber_pre_key_used_def run_defs memory_view_def
       memory_wf_def memory_pre_keys_def memory_storable_def hash_get_upsert hash_get_delete address_key_inj fun_eq_iff)

definition sqlite_view :: "'x libsignal_scheme \<Rightarrow> db \<Rightarrow> vault" where
  "sqlite_view L d = \<lparr>vault_sessions = session_at L d, vault_identities = identity_at L d,
     vault_key_pair = (case local_identity d of
        None \<Rightarrow> Inl (InvalidState ''storage'' [Lit ''Local identity key pair not set''])
      | Some r \<Rightarrow> (case identity_key_pair_try_from L (private_key r) of
          Inl e \<Rightarrow> Inl (storage_state_protocol ''Failed to deserialize identity key pair: '' e) | Inr k \<Rightarrow> Inr k)),
     vault_registration = found (InvalidState ''storage'' [Lit ''Local registration ID not set''])
       (map_option (\<lambda>r. word_of_int (registration_id r)) (local_identity d)),
     vault_pre_keys = row_map pre_key_row_id (\<lambda>r. pre_key_record_deserialize L (pre_key_data r)) (pre_keys d),
     vault_signed_pre_keys = row_map signed_row_id (\<lambda>r. signed_pre_key_record_deserialize L (signed_key_data r)) (signed_pre_keys d),
     vault_kyber_pre_keys = row_map signed_row_id (\<lambda>r. kyber_pre_key_record_deserialize L (signed_key_data r)) (kyber_pre_keys d)\<rparr>"

lemma sqlite_answers:
  assumes "serving L d"
  shows "sqlite_get_identity_key_pair L d = (outcome_of (vault_key_pair (sqlite_view L d)), d)"
    "sqlite_get_local_registration_id d = (outcome_of (vault_registration (sqlite_view L d)), d)"
    "sqlite_get_pre_key L i d = (outcome_of (found InvalidPreKeyId (vault_pre_keys (sqlite_view L d) i)), d)"
    "sqlite_get_signed_pre_key L i d = (outcome_of (found InvalidSignedPreKeyId (vault_signed_pre_keys (sqlite_view L d) i)), d)"
    "sqlite_get_kyber_pre_key L i d = (outcome_of (found InvalidKyberPreKeyId (vault_kyber_pre_keys (sqlite_view L d) i)), d)"
proof -
  note serve = servingD [OF assms]
  show "sqlite_get_identity_key_pair L d = (outcome_of (vault_key_pair (sqlite_view L d)), d)"
    by (auto simp: sqlite_get_identity_key_pair_def with_lock_def run_defs run_statements serve sqlite_view_def
        split: option.split sum.split)
  have "\<exists>reg. get_u32 (registration_id r) = Inr reg \<and> reg = word_of_int (registration_id r)" if "local_identity d = Some r" for r
    using serve(4) that by (auto simp: db_wf_def get_u32_def)
  then show "sqlite_get_local_registration_id d = (outcome_of (vault_registration (sqlite_view L d)), d)"
    by (cases "local_identity d")
      (auto simp: sqlite_get_local_registration_id_def with_lock_def run_defs run_statements serve sqlite_view_def found_def)
  have rows: "\<forall>r \<in> set (pre_keys d). \<exists>x. pre_key_record_deserialize L (pre_key_data r) = Inr x"
    "\<forall>r \<in> set (signed_pre_keys d). \<exists>x. signed_pre_key_record_deserialize L (signed_key_data r) = Inr x"
    "\<forall>r \<in> set (kyber_pre_keys d). \<exists>x. kyber_pre_key_record_deserialize L (signed_key_data r) = Inr x"
    using serve(4) by (auto simp: db_wf_def signed_row_ok_def)
  show "sqlite_get_pre_key L i d = (outcome_of (found InvalidPreKeyId (vault_pre_keys (sqlite_view L d) i)), d)"
    using row_map_None [OF rows(1)] run_pre_key_ops(4,5) [OF assms]
    by (auto simp: sqlite_view_def outcome_of_found row_map_Some split: option.split)
  show "sqlite_get_signed_pre_key L i d = (outcome_of (found InvalidSignedPreKeyId (vault_signed_pre_keys (sqlite_view L d) i)), d)"
    using row_map_None [OF rows(2)] run_signed_pre_key_ops(4,5) [OF assms]
    by (auto simp: sqlite_view_def outcome_of_found row_map_Some split: option.split)
  show "sqlite_get_kyber_pre_key L i d = (outcome_of (found InvalidKyberPreKeyId (vault_kyber_pre_keys (sqlite_view L d) i)), d)"
    using row_map_None [OF rows(3)] run_kyber_pre_key_ops(4,5) [OF assms]
    by (auto simp: sqlite_view_def outcome_of_found row_map_Some split: option.split)
qed

text \<open>A write that changed only tables, seen through the view.\<close>

lemma wrote:
  assumes "serving L d" and "m d = (Ok x, d')" and "preserves (db_wf L) m"
    and "mutex d' = mutex d" and "faults d' = faults d" and "created d' = created d" and "sqlite_view L d' = v"
  shows "\<exists>d'. m d = (Ok x, d') \<and> serving L d' \<and> sqlite_view L d' = v"
  using assms preservesD [OF assms(3) servingD(4) [OF assms(1)] assms(2)] by (simp add: serving_def)

lemma run_remove_pre_key:
  "serving L d \<Longrightarrow> sqlite_remove_pre_key i d = (Ok (), d\<lparr>pre_keys := delete_key pre_key_row_id (uint i) (pre_keys d)\<rparr>)"
  by (simp add: sqlite_remove_pre_key_def with_lock_def run_defs run_statements servingD)

lemma run_mark_kyber_pre_key_used:
  assumes "serving L d"
  shows "sqlite_mark_kyber_pre_key_used i d = (Ok (), d)"
proof -
  have "\<forall>r \<in> set (kyber_pre_keys d). \<not> signed_is_current r"
    using servingD(4) [OF assms] by (auto simp: db_wf_def signed_row_ok_def)
  then show ?thesis
    by (simp add: sqlite_mark_kyber_pre_key_used_def with_lock_def run_defs run_statements servingD [OF assms] mark_used_rows)
qed

lemma session_at_store:
  assumes "libsignal_ok L" and "session_record_serialize L r = Inr b"
  shows "session_at L (d\<lparr>sessions := upsert session_key \<lparr>session_address = address_name a,
    session_device = uint (address_device a), session_data = b\<rparr> (sessions d)\<rparr>) = (session_at L d)(a \<mapsto> r)"
  using libsignal_okD(1) [OF assms] by (auto simp: session_at_def fun_eq_iff)

lemma identity_at_put:
  "libsignal_ok L \<Longrightarrow> identity_at L (put_identity a (identity_key_serialize L k) d) = (identity_at L d)(a \<mapsto> k)"
  by (auto simp: identity_at_def identity_bytes_put libsignal_okD(2) fun_eq_iff)

lemma view_parts:
  "session_at L (d\<lparr>pre_keys := p\<rparr>) = session_at L d" "identity_at L (d\<lparr>pre_keys := p\<rparr>) = identity_at L d"
  "session_at L (put_signed_pre_key_row r d) = session_at L d" "identity_at L (put_signed_pre_key_row r d) = identity_at L d"
  "session_at L (put_kyber_pre_key_row r d) = session_at L d" "identity_at L (put_kyber_pre_key_row r d) = identity_at L d"
  "session_at L (put_identity a b d) = session_at L d" "identity_at L (d\<lparr>sessions := s\<rparr>) = identity_at L d"
  by (simp_all add: fun_eq_iff session_at_def identity_at_def identity_bytes_at_def put_identity_def put_signed_pre_key_row_def
      put_kyber_pre_key_row_def)

lemma store_session_view:
  assumes "serving L d" and "storable_in_sqlite L (PeerRequest (StoreSession a r))"
  shows "\<exists>d'. sqlite_store_session L a r d = (Ok (), d') \<and> serving L d' \<and>
    sqlite_view L d' = (sqlite_view L d)\<lparr>vault_sessions := (vault_sessions (sqlite_view L d))(a \<mapsto> r)\<rparr>"
proof -
  note L = servingD(5) [OF assms(1)]
  from assms(2) obtain b where b: "session_record_serialize L r = Inr b" by auto
  show ?thesis
    using wrote [OF assms(1) run_store_session [OF assms(1) b] store_session_wf [OF L]]
    by (simp add: sqlite_view_def session_at_store [OF L b] view_parts)
qed

lemma save_identity_view:
  assumes "serving L d"
  shows "\<exists>d'. sqlite_save_identity L a k d = (Ok (change_of (vault_identities (sqlite_view L d) a) k), d') \<and> serving L d' \<and>
    sqlite_view L d' = (sqlite_view L d)\<lparr>vault_identities := (vault_identities (sqlite_view L d))(a \<mapsto> k)\<rparr>"
proof -
  note L = servingD(5) [OF assms]
  show ?thesis
    using wrote [OF assms run_save_identity [OF assms] save_identity_wf [OF L]]
    by (simp add: sqlite_view_def identity_at_put [OF L] view_parts identity_change_at [OF assms] change_of_def)
      (simp add: put_identity_def)
qed

lemma pre_key_views:
  assumes "serving L d"
  shows "storable_in_sqlite L (SavePreKey i r) \<Longrightarrow> \<exists>d'. sqlite_save_pre_key L i r d = (Ok (), d') \<and> serving L d' \<and>
      sqlite_view L d' = (sqlite_view L d)\<lparr>vault_pre_keys := (vault_pre_keys (sqlite_view L d))(i \<mapsto> r)\<rparr>"
    "\<exists>d'. sqlite_remove_pre_key i d = (Ok (), d') \<and> serving L d' \<and>
      sqlite_view L d' = (sqlite_view L d)\<lparr>vault_pre_keys := (vault_pre_keys (sqlite_view L d))(i := None)\<rparr>"
proof -
  note L = servingD(5) [OF assms]
  show "\<exists>d'. sqlite_save_pre_key L i r d = (Ok (), d') \<and> serving L d' \<and>
      sqlite_view L d' = (sqlite_view L d)\<lparr>vault_pre_keys := (vault_pre_keys (sqlite_view L d))(i \<mapsto> r)\<rparr>"
    if "storable_in_sqlite L (SavePreKey i r)"
  proof -
    from that obtain b where b: "pre_key_record_serialize L r = Inr b" by (auto simp: pre_key_storable_def)
    then have "pre_key_record_deserialize L b = Inr r" using L by (auto simp: libsignal_ok_def)
    then show ?thesis
      using wrote [OF assms run_pre_key_ops(6) [OF assms b] save_pre_key_wf [OF L]]
      by (simp add: sqlite_view_def view_parts row_map_upsert)
  qed
  show "\<exists>d'. sqlite_remove_pre_key i d = (Ok (), d') \<and> serving L d' \<and>
      sqlite_view L d' = (sqlite_view L d)\<lparr>vault_pre_keys := (vault_pre_keys (sqlite_view L d))(i := None)\<rparr>"
    using wrote [OF assms run_remove_pre_key [OF assms] remove_pre_key_wf]
    by (simp add: sqlite_view_def view_parts row_map_delete)
qed

lemma save_signed_view:
  assumes "serving L d" and "storable_in_sqlite L (SaveSignedPreKey i r)"
  shows "\<exists>d'. sqlite_save_signed_pre_key L i r d = (Ok (), d') \<and> serving L d' \<and>
    sqlite_view L d' = (sqlite_view L d)\<lparr>vault_signed_pre_keys := (vault_signed_pre_keys (sqlite_view L d))(i \<mapsto> r)\<rparr>"
proof -
  note L = servingD(5) [OF assms(1)]
  from assms(2) obtain b t g where b: "signed_pre_key_record_serialize L r = Inr b"
    "signed_pre_key_record_timestamp L r = Inr t" "signed_pre_key_record_signature L r = Inr g"
    by (auto simp: signed_pre_key_storable_def)
  then have "signed_pre_key_record_deserialize L b = Inr r" using L by (auto simp: libsignal_ok_def)
  then show ?thesis
    using wrote [OF assms(1) run_signed_pre_key_ops(6) [OF assms(1) b] save_signed_pre_key_wf [OF L]]
    by (simp add: sqlite_view_def view_parts) (simp add: put_signed_pre_key_row_def row_map_upsert)
qed

lemma save_kyber_view:
  assumes "serving L d" and "storable_in_sqlite L (SaveKyberPreKey i r)"
  shows "\<exists>d'. sqlite_save_kyber_pre_key L i r d = (Ok (), d') \<and> serving L d' \<and>
    sqlite_view L d' = (sqlite_view L d)\<lparr>vault_kyber_pre_keys := (vault_kyber_pre_keys (sqlite_view L d))(i \<mapsto> r)\<rparr>"
proof -
  note L = servingD(5) [OF assms(1)]
  from assms(2) obtain b t g where b: "kyber_pre_key_record_serialize L r = Inr b"
    "kyber_pre_key_record_timestamp L r = Inr t" "kyber_pre_key_record_signature L r = Inr g"
    by (auto simp: kyber_pre_key_storable_def)
  then have "kyber_pre_key_record_deserialize L b = Inr r" using L by (auto simp: libsignal_ok_def)
  then show ?thesis
    using wrote [OF assms(1) run_kyber_pre_key_ops(6) [OF assms(1) b] save_kyber_pre_key_wf [OF L]]
    by (simp add: sqlite_view_def view_parts) (simp add: put_kyber_pre_key_row_def row_map_upsert)
qed

lemma sqlite_peers:
  assumes "serving L d"
  shows "sqlite_load_session L a d = (Ok (vault_sessions (sqlite_view L d) a), d)"
    "sqlite_get_identity L a d = (Ok (vault_identities (sqlite_view L d) a), d)"
    "sqlite_is_trusted_identity L a k dir d =
      (Ok (case vault_identities (sqlite_view L d) a of None \<Rightarrow> True | Some k' \<Rightarrow> k' = k), d)"
  by (simp_all add: run_load_session [OF assms] run_get_identity [OF assms] run_is_trusted [OF assms] sqlite_view_def)

interpretation sqlite_lib: library_stores "sqlite_stores L" "sqlite_view L" "serving L" "storable_in_sqlite L" for L
  by unfold_locales
    (simp_all only: sqlite_stores_sel session_store_ops.simps sqlite_peers sqlite_answers store_session_view save_identity_view
      pre_key_views save_signed_view save_kyber_view run_mark_kyber_pre_key_used, blast+)

section \<open>Library calls on the two storages\<close>

text \<open>A run on the SQLite storage and one on the in-memory storage that hold the same at the same moment.\<close>

definition alike :: "'x libsignal_scheme \<Rightarrow> sqlite_storage sys \<Rightarrow> memory_storage sys \<Rightarrow> bool" where
  "alike L w v \<longleftrightarrow> sqlite_ready L (store w) \<and> memory_wf (store v) \<and>
     sqlite_view L (connection (store w)) = memory_view L (store v) \<and>
     clock w = clock v \<and> ticks w = ticks v \<and> entropy w = entropy v \<and> draws w = draws v"

text \<open>Two computations that give the same outcome on such runs, not a panic, and leave them alike.\<close>

definition same_result ::
    "'x libsignal_scheme \<Rightarrow> ('e, 'a) outcome \<times> sqlite_storage sys \<Rightarrow> ('e, 'a) outcome \<times> memory_storage sys \<Rightarrow> bool" where
  "same_result L r r' \<longleftrightarrow> fst r = fst r' \<and> (\<forall>p. fst r' \<noteq> Panic p) \<and> alike L (snd r) (snd r')"

definition agree ::
    "'x libsignal_scheme \<Rightarrow> (sqlite_storage sys, 'e, 'a) M \<Rightarrow> (memory_storage sys, 'e, 'a) M \<Rightarrow> bool" where
  "agree L m n \<longleftrightarrow> (\<forall>w v. alike L w v \<longrightarrow> same_result L (m w) (n v))"

lemma agreeI: "(\<And>w v. alike L w v \<Longrightarrow> same_result L (m w) (n v)) \<Longrightarrow> agree L m n"
  by (simp add: agree_def)

lemma agreeE:
  assumes "agree L m n" and "alike L w v"
  obtains (Ok) x w' v' where "m w = (Ok x, w')" "n v = (Ok x, v')" "alike L w' v'"
    | (Err) e w' v' where "m w = (Err e, w')" "n v = (Err e, v')" "alike L w' v'"
  using assms that unfolding agree_def same_result_def
  by (cases "m w"; cases "n v"; cases "fst (n v)") fastforce+

lemma agree_bindM:
  assumes "agree L m n" and "\<And>x. agree L (f x) (g x)"
  shows "agree L (bindM m f) (bindM n g)"
proof (rule agreeI)
  fix w v assume "alike L w v"
  with assms(1) show "same_result L (bindM m f w) (bindM n g v)"
  proof (cases rule: agreeE)
    case (Ok x w' v')
    with assms(2) [of x] show ?thesis by (simp add: bindM_at agree_def)
  qed (simp add: bindM_at same_result_def)
qed

lemma agree_mapErr:
  assumes "agree L m n"
  shows "agree L (mapErr h m) (mapErr h n)"
proof (rule agreeI)
  fix w v assume "alike L w v"
  with assms show "same_result L (mapErr h m w) (mapErr h n v)"
    by (cases rule: agreeE) (simp_all add: mapErr_at same_result_def)
qed

lemma agree_env: "agree L draw draw" "agree L system_time_now system_time_now"
  by (simp_all add: agree_def same_result_def alike_def draw_def system_time_now_def)

lemma agree_handles: "agree L (bindM (expect_store session_handle) f) n \<longleftrightarrow> agree L (f ()) n"
    "agree L (bindM (expect_store identity_handle) f) n \<longleftrightarrow> agree L (f ()) n"
    "agree L (bindM (expect_store pre_key_handle) f) n \<longleftrightarrow> agree L (f ()) n"
    "agree L (bindM (expect_store signed_pre_key_handle) f) n \<longleftrightarrow> agree L (f ()) n"
    "agree L (bindM (expect_store kyber_pre_key_handle) f) n \<longleftrightarrow> agree L (f ()) n"
  by (auto simp: agree_def alike_def sqlite_ready_def expect_store_def expect_handle_def bindM_at in_store_at)

lemma follows_alike:
  assumes "alike L w v" and "follows (sqlite_view L) (serving L) m (connection (store w)) p"
    and "follows (memory_view L) memory_wf n (store v) p"
  shows "same_result L (in_store (on_conn m) w) (in_store n v)"
  using assms
  by (auto simp: same_result_def follows_def alike_def in_store_at on_conn_def zoom_def sqlite_ready_def outcome_of_def
      split: sum.splits)

definition storable_in_both :: "'x libsignal_scheme \<Rightarrow> store_request \<Rightarrow> bool" where
  "storable_in_both L q \<longleftrightarrow> storable_in_sqlite L q \<and> storable_in_memory L q"

lemma agree_run_peer:
  assumes "peer_requests (\<lambda>q. storable_in_both L (PeerRequest q)) p"
  shows "agree L (in_store (on_conn (run_peer (sqlite_stores L) p))) (in_store (run_peer (memory_container L) p))"
proof (rule agreeI)
  fix w v assume alike: "alike L w v"
  have "peer_requests (\<lambda>q. storable_in_sqlite L (PeerRequest q)) p" "peer_requests (\<lambda>q. storable_in_memory L (PeerRequest q)) p"
    using assms by (auto elim!: peer_requests_mono simp: storable_in_both_def)
  then show "same_result L (in_store (on_conn (run_peer (sqlite_stores L) p)) w) (in_store (run_peer (memory_container L) p) v)"
    using alike sqlite_lib.run_peer_follows [of L "connection (store w)" p] memory_lib.run_peer_follows [of "store v" L p]
    by (intro follows_alike [OF alike]) (simp_all add: alike_def sqlite_ready_def)
qed

lemma agree_run_store:
  assumes "store_requests (storable_in_both L) p"
  shows "agree L (in_store (on_conn (run_store (sqlite_stores L) p))) (in_store (run_store (memory_container L) p))"
proof (rule agreeI)
  fix w v assume alike: "alike L w v"
  have "store_requests (storable_in_sqlite L) p" "store_requests (storable_in_memory L) p"
    using assms by (auto elim!: store_requests_mono simp: storable_in_both_def)
  then show "same_result L (in_store (on_conn (run_store (sqlite_stores L) p)) w) (in_store (run_store (memory_container L) p) v)"
    using alike sqlite_lib.run_store_follows [of L "connection (store w)" p] memory_lib.run_store_follows [of "store v" L p]
    by (intro follows_alike [OF alike]) (simp_all add: alike_def sqlite_ready_def)
qed

text \<open>
  C13. The two storages are interchangeable for libsignal: on runs that hold the same sessions,
  identities and keys, at the same moment and with the same entropy, establishing a session,
  encrypting and decrypting give the same result through the SQLite storage as through the
  in-memory storage, whatever requests the library makes, as long as it stores only records that
  serialize (pre-keys under the number they were built for); neither panics, and both storages
  again hold the same.
\<close>

theorem storages_agree:
  assumes "alike L w v" and "\<And>t n. peer_requests (\<lambda>q. storable_in_both L (PeerRequest q)) (process_prekey_bundle L a pkb t n)"
    and "\<And>t n. peer_requests (\<lambda>q. storable_in_both L (PeerRequest q)) (message_encrypt L p a t n)"
    and "\<And>n. store_requests (storable_in_both L) (message_decrypt L c a n)"
  shows "same_result L (sqlite_establish_session_from_bundle L a pkb w) (memory_establish_session_from_bundle L a pkb v) \<and>
    same_result L (sqlite_encrypt_message L a p w) (memory_encrypt_message L a p v) \<and>
    same_result L (sqlite_decrypt_message L a c w) (memory_decrypt_message L a c v)"
proof -
  have "agree L (sqlite_establish_session_from_bundle L a pkb) (memory_establish_session_from_bundle L a pkb)"
    unfolding sqlite_establish_session_from_bundle_def memory_establish_session_from_bundle_def
    by (intro agree_bindM agree_env agree_mapErr agree_run_peer agree_handles [THEN iffD2] assms(2))
  moreover have "agree L (sqlite_encrypt_message L a p) (memory_encrypt_message L a p)"
    unfolding sqlite_encrypt_message_def memory_encrypt_message_def
    by (intro agree_bindM agree_env agree_run_peer agree_handles [THEN iffD2] assms(3))
  moreover have "agree L (sqlite_decrypt_message L a c) (memory_decrypt_message L a c)"
    unfolding sqlite_decrypt_message_def memory_decrypt_message_def
    by (intro agree_bindM agree_env agree_run_store agree_handles [THEN iffD2] assms(4))
  ultimately show ?thesis using assms(1) by (simp add: agree_def)
qed

lemma sample_alike: "alike sample_libsignal (sample_sys sample_storage) (sample_sys (memory_storage_new (\<lambda>_. 0)))"
proof -
  have "sessions (connection sample_storage) = []" "identity_keys (connection sample_storage) = []"
    "local_identity (connection sample_storage) = None" "pre_keys (connection sample_storage) = []"
    "signed_pre_keys (connection sample_storage) = []" "kyber_pre_keys (connection sample_storage) = []" by code_simp+
  then have "sqlite_view sample_libsignal (connection sample_storage) = memory_view sample_libsignal (memory_storage_new (\<lambda>_. 0))"
    by (auto simp: sqlite_view_def memory_view_def memory_storage_new_def session_at_def identity_at_def identity_bytes_at_def
        row_map_def memory_pre_keys_def hash_get_def found_def fun_eq_iff)
  moreover have "memory_wf (memory_storage_new (\<lambda>_. 0))" by (simp add: memory_wf_def memory_storage_new_def)
  ultimately show ?thesis by (simp add: alike_def sample_storage_ready [OF sample_libsignal_ok]) (simp add: sample_sys_def)
qed

lemma sample_requests:
  "peer_requests (\<lambda>q. storable_in_both sample_libsignal (PeerRequest q)) (process_prekey_bundle sample_libsignal a pkb t n)"
  "peer_requests (\<lambda>q. storable_in_both sample_libsignal (PeerRequest q)) (message_encrypt sample_libsignal p a t n)"
  "store_requests (storable_in_both sample_libsignal) (message_decrypt sample_libsignal c a n)"
  by (auto simp: storable_in_both_def sample_libsignal_def sample_process_def sample_encrypt_def sample_decrypt_def
      split: pre_key_bundle.split peer_answer.split sum.split option.split ciphertext_message.split pre_key_signal_message.split
        signal_message.split)

theorem storages_agree_witness:
  "same_result sample_libsignal
     (sqlite_decrypt_message sample_libsignal (Address ''bob'' 1) (PreKeySignalMessage (PreKeySignalMessageV [9])) (sample_sys sample_storage))
     (memory_decrypt_message sample_libsignal (Address ''bob'' 1) (PreKeySignalMessage (PreKeySignalMessageV [9]))
       (sample_sys (memory_storage_new (\<lambda>_. 0))))"
  using storages_agree [OF sample_alike sample_requests] by blast

end
