(* ===== verification/Bridge_Types.thy ===== *)
theory Bridge_Types
  imports Bridge_Calm Library_Stores
begin

text \<open>
  Type safety of what is stored: rows are blobs and 64-bit integers, and the readers turn them into
  records, 32- and 64-bit numbers and enumerations. Whatever the exported calls wrote, and whichever
  statements failed meanwhile, every reader finds values of its type.
\<close>

text \<open>A message and the columns it is read from.\<close>

definition encodes_message :: "stored_message \<Rightarrow> message_row \<Rightarrow> bool" where
  "encodes_message m r \<longleftrightarrow> message_row_id r = stored_id m \<and> message_conversation_id r = stored_conversation_id m \<and>
     message_direction r = direction_as_i64 (stored_direction m) \<and> message_timestamp r = u64_as_i64 (stored_timestamp m) \<and>
     message_type r = kind_as_i64 (stored_kind m) \<and> message_delivery_status r = status_as_i64 (stored_delivery_status m) \<and>
     stored_content m = (case from_utf8 (message_content r) of None \<Rightarrow> [] | Some s \<Rightarrow> s) \<and>
     message_was_prekey r = stored_was_prekey_message m \<and>
     Database.message_session_established r = stored_session_established m"

lemma message_of_typed_row: "row_typed r \<Longrightarrow> encodes_message (message_of_row r) r"
  by (auto simp: row_typed_def encodes_message_def message_of_row_def i64_roundtrip direction_as_i64_def direction_from_i64_def
      kind_as_i64_def kind_from_i64_def status_as_i64_def status_from_i64_def)

lemma message_read:
  assumes "serving L d" and "history_wf d" and "r \<in> set (messages d)"
  shows "\<exists>m. get_message (message_row_id r) d = (Ok m, d) \<and> encodes_message m r"
proof -
  have "distinct (map message_row_id (messages d))"
    using assms(2) strict_sorted_iff [of "map message_row_id (messages d)"] by (simp add: history_wf_def)
  then have "filter (\<lambda>x. message_row_id x = message_row_id r) (messages d) = [r]"
    using filter_key_lookup [of message_row_id "messages d"] lookup_row_distinct [of message_row_id "messages d" r] assms(3)
    by simp
  then have "get_message (message_row_id r) d = (Ok (message_of_row r), d)"
    using servingD [OF assms(1)] by (simp add: get_message_def with_lock_def run_defs run_statements)
  then show ?thesis using message_of_typed_row assms(2,3) by (auto simp: history_wf_def)
qed

text \<open>A row of numbered keys is found under its number, as a record.\<close>

lemma numbered_read:
  assumes "numbered key rows" and "\<forall>r \<in> set rows. \<exists>x. dec r = Inr x" and "r \<in> set rows"
  shows "\<exists>i x. uint (i :: u32) = key r \<and> row_map key dec rows i = Some x \<and> dec r = Inr x"
proof -
  obtain i :: u32 where i: "uint i = key r"
    using uint_dom_row_map [OF assms(1,2)] assms(3) by (metis imageE imageI)
  then have "lookup_row key (uint i) rows = Some r"
    using assms(1,3) by (simp add: numbered_def lookup_row_distinct)
  moreover obtain x where "dec r = Inr x" using assms(2,3) by blast
  ultimately have "row_map key dec rows i = Some x \<and> dec r = Inr x" by (simp add: row_map_def)
  with i show ?thesis by blast
qed

lemma keys_read:
  assumes "serving L d"
  shows "r \<in> set (pre_keys d) \<Longrightarrow> \<exists>i x. uint i = pre_key_row_id r \<and> sqlite_get_pre_key L i d = (Ok x, d) \<and>
      pre_key_record_deserialize L (pre_key_data r) = Inr x"
    "s \<in> set (signed_pre_keys d) \<Longrightarrow> \<exists>i x. uint i = signed_row_id s \<and> sqlite_get_signed_pre_key L i d = (Ok x, d) \<and>
      signed_pre_key_record_deserialize L (signed_key_data s) = Inr x"
    "s \<in> set (kyber_pre_keys d) \<Longrightarrow> \<exists>i x. uint i = signed_row_id s \<and> sqlite_get_kyber_pre_key L i d = (Ok x, d) \<and>
      kyber_pre_key_record_deserialize L (signed_key_data s) = Inr x"
proof -
  note wf = servingD(4) [OF assms, unfolded db_wf_def]
  have decoded: "\<forall>r \<in> set (signed_pre_keys d). \<exists>x. signed_pre_key_record_deserialize L (signed_key_data r) = Inr x"
    "\<forall>r \<in> set (kyber_pre_keys d). \<exists>x. kyber_pre_key_record_deserialize L (signed_key_data r) = Inr x"
    using wf by (auto simp: signed_row_ok_def)
  note answers = sqlite_answers(3-5) [OF assms]
  show "\<exists>i x. uint i = pre_key_row_id r \<and> sqlite_get_pre_key L i d = (Ok x, d) \<and>
      pre_key_record_deserialize L (pre_key_data r) = Inr x" if "r \<in> set (pre_keys d)"
    using numbered_read [OF _ _ that, of pre_key_row_id "\<lambda>r. pre_key_record_deserialize L (pre_key_data r)"] wf
    by (auto simp: answers sqlite_view_def found_def)
  show "\<exists>i x. uint i = signed_row_id s \<and> sqlite_get_signed_pre_key L i d = (Ok x, d) \<and>
      signed_pre_key_record_deserialize L (signed_key_data s) = Inr x" if "s \<in> set (signed_pre_keys d)"
    using numbered_read [OF _ decoded(1) that, of signed_row_id] wf by (auto simp: answers sqlite_view_def found_def)
  show "\<exists>i x. uint i = signed_row_id s \<and> sqlite_get_kyber_pre_key L i d = (Ok x, d) \<and>
      kyber_pre_key_record_deserialize L (signed_key_data s) = Inr x" if "s \<in> set (kyber_pre_keys d)"
    using numbered_read [OF _ decoded(2) that, of signed_row_id] wf by (auto simp: answers sqlite_view_def found_def)
qed

lemma addressed_read:
  assumes "serving L d"
  shows "(address_columns a \<notin> session_key ` set (sessions d) \<longrightarrow> sqlite_load_session L a d = (Ok None, d)) \<and>
      (\<forall>r \<in> set (sessions d). session_key r = address_columns a \<longrightarrow>
        (\<exists>x. sqlite_load_session L a d = (Ok (Some x), d) \<and> session_record_deserialize L (session_data r) = Inr x))"
    "(address_columns a \<notin> identity_row_key ` set (identity_keys d) \<longrightarrow> sqlite_get_identity L a d = (Ok None, d)) \<and>
      (\<forall>r \<in> set (identity_keys d). identity_row_key r = address_columns a \<longrightarrow>
        (\<exists>k. sqlite_get_identity L a d = (Ok (Some k), d) \<and> identity_public_key r = identity_key_serialize L k))"
proof -
  note wf = servingD(4) [OF assms, unfolded db_wf_def]
  have "\<exists>x. session_at L d a = Some x \<and> session_record_deserialize L (session_data r) = Inr x"
    if "r \<in> set (sessions d)" "session_key r = address_columns a" for r
  proof -
    obtain x where "session_record_deserialize L (session_data r) = Inr x" using wf \<open>r \<in> set (sessions d)\<close> by blast
    moreover have "lookup_row session_key (address_columns a) (sessions d) = Some r"
      using wf that lookup_row_distinct [of session_key "sessions d" r] by simp
    ultimately show ?thesis by (simp add: session_at_def)
  qed
  moreover have "session_at L d a = None" if "address_columns a \<notin> session_key ` set (sessions d)"
    using that by (simp add: session_at_def lookup_row_None_iff [symmetric])
  ultimately
  show "(address_columns a \<notin> session_key ` set (sessions d) \<longrightarrow> sqlite_load_session L a d = (Ok None, d)) \<and>
      (\<forall>r \<in> set (sessions d). session_key r = address_columns a \<longrightarrow>
        (\<exists>x. sqlite_load_session L a d = (Ok (Some x), d) \<and> session_record_deserialize L (session_data r) = Inr x))"
    by (simp add: run_load_session [OF assms])
  have "identity_bytes_at a d = [identity_public_key r]"
    if "r \<in> set (identity_keys d)" "identity_row_key r = address_columns a" for r
    using wf that filter_key_lookup [of identity_row_key "identity_keys d"] lookup_row_distinct [of identity_row_key "identity_keys d" r]
    by (simp add: identity_bytes_at_def)
  then have "\<exists>k. identity_public_key r = identity_key_serialize L k \<and> identity_at L d a = Some k"
    if "r \<in> set (identity_keys d)" "identity_row_key r = address_columns a" for r
    using that identity_bytes_wf [OF assms] by metis
  moreover have "identity_bytes_at a d = []" if "address_columns a \<notin> identity_row_key ` set (identity_keys d)"
    using that by (auto simp: identity_bytes_at_def filter_empty_conv image_iff)
  ultimately show "(address_columns a \<notin> identity_row_key ` set (identity_keys d) \<longrightarrow> sqlite_get_identity L a d = (Ok None, d)) \<and>
      (\<forall>r \<in> set (identity_keys d). identity_row_key r = address_columns a \<longrightarrow>
        (\<exists>k. sqlite_get_identity L a d = (Ok (Some k), d) \<and> identity_public_key r = identity_key_serialize L k))"
    by (auto simp: run_get_identity [OF assms]) (simp add: identity_at_def)
qed

lemma registration_read:
  assumes "serving L d" and "local_identity d = Some r"
  shows "\<exists>i. sqlite_get_local_registration_id d = (Ok i, d) \<and> uint i = registration_id r"
  using servingD(4) [OF assms(1)] assms(2)
  by (auto simp: sqlite_answers(2) [OF assms(1)] sqlite_view_def found_def db_wf_def unsigned_of_int
      intro!: take_bit_int_eq_self)

text \<open>
  C15. What the exported calls store is read back at its type. In every state they can reach, with any
  statements having failed on the way, once the connection works: for an address with a session row
  the session is found and is the record that the row's blob decodes to, and for an address without
  one none is found; for an address with an identity row the key is found whose serialization is the
  row's blob, and none without; every pre-key row of the three kinds has a 32-bit number under which
  the record is found that its blob decodes to; the registration number is the stored one and fits
  32 bits; and every message is found under its number with a direction, kind, status and 64-bit time
  whose encodings are exactly the stored columns, and with the text of its body, or no text when the
  body is not UTF-8.
\<close>

theorem stored_values_typed:
  fixes C :: "'x crates_scheme"
  assumes "libsignal_ok C" and "tables_wf C d0" and "api_reachable C d0 w" and "d = connection (store w)"
    and "mutex d = Unlocked" and "faults d = []" and "set all_tables \<subseteq> set (created d)"
  shows "(\<forall>a. (address_columns a \<notin> session_key ` set (sessions d) \<longrightarrow> sqlite_load_session C a d = (Ok None, d)) \<and>
      (\<forall>r \<in> set (sessions d). session_key r = address_columns a \<longrightarrow>
        (\<exists>x. sqlite_load_session C a d = (Ok (Some x), d) \<and> session_record_deserialize C (session_data r) = Inr x))) \<and>
    (\<forall>a. (address_columns a \<notin> identity_row_key ` set (identity_keys d) \<longrightarrow> sqlite_get_identity C a d = (Ok None, d)) \<and>
      (\<forall>r \<in> set (identity_keys d). identity_row_key r = address_columns a \<longrightarrow>
        (\<exists>k. sqlite_get_identity C a d = (Ok (Some k), d) \<and> identity_public_key r = identity_key_serialize C k))) \<and>
    (\<forall>r \<in> set (pre_keys d). \<exists>i x. uint i = pre_key_row_id r \<and> sqlite_get_pre_key C i d = (Ok x, d) \<and>
      pre_key_record_deserialize C (pre_key_data r) = Inr x) \<and>
    (\<forall>r \<in> set (signed_pre_keys d). \<exists>i x. uint i = signed_row_id r \<and> sqlite_get_signed_pre_key C i d = (Ok x, d) \<and>
      signed_pre_key_record_deserialize C (signed_key_data r) = Inr x) \<and>
    (\<forall>r \<in> set (kyber_pre_keys d). \<exists>i x. uint i = signed_row_id r \<and> sqlite_get_kyber_pre_key C i d = (Ok x, d) \<and>
      kyber_pre_key_record_deserialize C (signed_key_data r) = Inr x) \<and>
    (\<forall>r. local_identity d = Some r \<longrightarrow>
      (\<exists>i. sqlite_get_local_registration_id d = (Ok i, d) \<and> uint i = registration_id r)) \<and>
    (\<forall>r \<in> set (messages d). \<exists>m. get_message (message_row_id r) d = (Ok m, d) \<and> encodes_message m r)"
proof -
  have wf: "tables_wf C d" using reachable_wf [OF assms(1-3)] assms(4) by simp
  then have serve: "serving C d" and history: "history_wf d"
    using assms(1,5-7) by (simp_all add: serving_def tables_wf_def contacts_wf_def)
  note read = keys_read [OF serve] registration_read [OF serve] message_read [OF serve history]
  show ?thesis
    using addressed_read [OF serve] by (intro conjI) (blast, blast, (intro ballI allI impI read, assumption)+)
qed

theorem stored_values_typed_witness:
  "let d = connection (store (snd (api_run sample_crates (CallResetIdentity (Inr ())) (snd (start_bridge sample_crates sample_run)))))
   in (\<forall>a. \<forall>r \<in> set (identity_keys d). identity_row_key r = address_columns a \<longrightarrow>
       (\<exists>k. sqlite_get_identity sample_crates a d = (Ok (Some k), d) \<and> identity_public_key r = identity_key_serialize sample_crates k)) \<and>
     (\<forall>r \<in> set (signed_pre_keys d). \<exists>i x. uint i = signed_row_id r \<and> sqlite_get_signed_pre_key sample_crates i d = (Ok x, d)) \<and>
     (\<forall>r \<in> set (messages d). \<exists>m. get_message (message_row_id r) d = (Ok m, d) \<and> encodes_message m r)"
proof -
  let ?s = "snd (start_bridge sample_crates sample_run)"
  let ?w = "snd (api_run sample_crates (CallResetIdentity (Inr ())) ?s)"
  note ok = crates_okD(1) [OF sample_crates_ok]
  have "in_order sample_crates ?s"
    using start_in_order [OF openable_empty [OF ok] empty_contacts_wf sample_run_sel] by simp
  then have "in_order sample_crates ?w"
    by (intro served_in_order [OF served.call [OF served.start] sample_crates_ok sample_tags_ok]) simp_all
  then have serve: "serving sample_crates (connection (store ?w))" by (simp add: in_order_def sqlite_ready_def)
  have reach: "api_reachable sample_crates (empty_db True) ?w"
    by (rule api_reachable.step [OF api_reachable.start api_step.call]) (rule sample_run_sel)
  have wf: "tables_wf sample_crates (empty_db True)"
    by (simp add: tables_wf_def db_wf_def empty_contacts_wf) (simp add: empty_db_def)
  obtain d where d: "d = connection (store ?w)" by simp
  have "mutex d = Unlocked" "faults d = []" "set all_tables \<subseteq> set (created d)"
    using serve by (simp_all add: d serving_def)
  then show ?thesis
    unfolding Let_def d [symmetric] using stored_values_typed [OF ok wf reach d] by blast
qed

end
