(* ===== verification/Mailbox.thy ===== *)
theory Mailbox
  imports History_Correct
begin

text \<open>
  The message history as an abstract mailbox: for every contact with an open conversation the
  messages in the order they were stored and an unread counter, and the number of the last message.
  The operations of \<open>message_history.rs\<close> implement it, call by call and for every sequence of calls;
  conversation numbers and times of last messages are internal.
\<close>

section \<open>The mailbox\<close>

record letter =
  letter_number :: int
  letter_direction :: message_direction
  letter_time :: u64
  letter_kind :: message_kind
  letter_body :: bytes
  letter_status :: delivery_status
  letter_prekey :: bool
  letter_established :: bool

record mailbox =
  members :: "string list"
  threads :: "string \<Rightarrow> (letter list \<times> int) option"
  last_number :: int

datatype mail_op =
    StoreIncoming string u64 bytes bool bool
  | StoreOutgoing string u64 bytes
  | SetStatus int delivery_status
  | ReadPage string u32 u32
  | CountUnread string
  | MarkRead string
  | MarkReadUpTo string u64
  | DeleteMessage int
  | DeleteConversation string

datatype mail_answer = StoredAs int | Finished | Page "stored_message list" | Unread u32 | Refused | Crashed

text \<open>A message as it is read, but for the number of its conversation.\<close>

definition message_of_letter :: "letter \<Rightarrow> stored_message" where
  "message_of_letter n = \<lparr>stored_id = letter_number n, stored_conversation_id = 0, stored_direction = letter_direction n,
     stored_timestamp = letter_time n, stored_kind = letter_kind n,
     stored_content = (case from_utf8 (letter_body n) of None \<Rightarrow> [] | Some s \<Rightarrow> s),
     stored_delivery_status = letter_status n, stored_was_prekey_message = letter_prekey n,
     stored_session_established = letter_established n\<rparr>"

definition letters_of :: "string \<Rightarrow> mailbox \<Rightarrow> letter list" where
  "letters_of rdx m = (case threads m rdx of None \<Rightarrow> [] | Some (ns, u) \<Rightarrow> ns)"

definition unread_in :: "string \<Rightarrow> mailbox \<Rightarrow> int" where
  "unread_in rdx m = (case threads m rdx of None \<Rightarrow> 0 | Some (ns, u) \<Rightarrow> u)"

definition deliver :: "string \<Rightarrow> (int \<Rightarrow> letter) \<Rightarrow> int \<Rightarrow> mailbox \<Rightarrow> mail_answer \<times> mailbox" where
  "deliver rdx n u m = (if rdx \<in> set (members m)
     then (StoredAs (last_number m + 1),
       m\<lparr>threads := (threads m)(rdx \<mapsto> (letters_of rdx m @ [n (last_number m + 1)], unread_in rdx m + u)),
         last_number := last_number m + 1\<rparr>)
     else (Refused, m))"

definition on_letters :: "(letter list \<Rightarrow> letter list) \<Rightarrow> mailbox \<Rightarrow> mailbox" where
  "on_letters f m = m\<lparr>threads := (\<lambda>rdx. map_option (apfst f) (threads m rdx))\<rparr>"

definition set_unread :: "string \<Rightarrow> int \<Rightarrow> mailbox \<Rightarrow> mailbox" where
  "set_unread rdx u m = m\<lparr>threads := (threads m)(rdx := map_option (\<lambda>(ns, _). (ns, u)) (threads m rdx))\<rparr>"

fun mailbox_do :: "'x crates_scheme \<Rightarrow> mail_op \<Rightarrow> mailbox \<Rightarrow> mail_answer \<times> mailbox" where
  "mailbox_do C (StoreIncoming rdx t p b e) m = deliver rdx (\<lambda>i. \<lparr>letter_number = i, letter_direction = Incoming, letter_time = t,
     letter_kind = TextMessage, letter_body = p, letter_status = Pending, letter_prekey = b, letter_established = e\<rparr>) 1 m"
| "mailbox_do C (StoreOutgoing rdx t p) m = deliver rdx (\<lambda>i. \<lparr>letter_number = i, letter_direction = Outgoing, letter_time = t,
     letter_kind = TextMessage, letter_body = p, letter_status = Pending, letter_prekey = False, letter_established = False\<rparr>) 0 m"
| "mailbox_do C (SetStatus i s) m =
     (Finished, on_letters (map (\<lambda>n. if letter_number n = i then n\<lparr>letter_status := s\<rparr> else n)) m)"
| "mailbox_do C (ReadPage rdx l k) m = (Page (map message_of_letter (take (unat l) (drop (unat k)
     (sort_key (\<lambda>n. - u64_as_i64 (letter_time n)) (paged C l k (map letter_number (letters_of rdx m)) (letters_of rdx m)))))), m)"
| "mailbox_do C (CountUnread rdx) m = (Unread (word_of_int (unread_in rdx m)), m)"
| "mailbox_do C (MarkRead rdx) m = (Finished, set_unread rdx 0 m)"
| "mailbox_do C (MarkReadUpTo rdx t) m = (if threads m rdx = None then (Refused, m)
     else (Finished, set_unread rdx (int (length (filter (\<lambda>n. letter_direction n = Incoming \<and>
       u64_as_i64 t < u64_as_i64 (letter_time n)) (letters_of rdx m)))) m))"
| "mailbox_do C (DeleteMessage i) m = (Finished, on_letters (filter (\<lambda>n. letter_number n \<noteq> i)) m)"
| "mailbox_do C (DeleteConversation rdx) m = (Finished, m\<lparr>threads := (threads m)(rdx := None)\<rparr>)"

fun mailbox_run :: "'x crates_scheme \<Rightarrow> mail_op list \<Rightarrow> mailbox \<Rightarrow> mail_answer list \<times> mailbox" where
  "mailbox_run C [] m = ([], m)"
| "mailbox_run C (c # cs) m = (let (x, m1) = mailbox_do C c m; (xs, m2) = mailbox_run C cs m1 in (x # xs, m2))"

section \<open>The history as a mailbox\<close>

definition reply :: "('a \<Rightarrow> mail_answer) \<Rightarrow> ('e, 'a) outcome \<times> db \<Rightarrow> mail_answer \<times> db" where
  "reply f p = ((case fst p of Ok x \<Rightarrow> f x | Err _ \<Rightarrow> Refused | Panic _ \<Rightarrow> Crashed), snd p)"

lemma reply_simps [simp]:
  "reply f (Ok x, d) = (f x, d)" "reply f (Err e, d) = (Refused, d)" "reply f (Panic q, d) = (Crashed, d)"
  by (simp_all add: reply_def)

fun history_do :: "'x crates_scheme \<Rightarrow> mail_op \<Rightarrow> db \<Rightarrow> mail_answer \<times> db" where
  "history_do C (StoreIncoming rdx t p b e) d = reply StoredAs (store_incoming_message rdx t p b e d)"
| "history_do C (StoreOutgoing rdx t p) d = reply StoredAs (store_outgoing_message rdx t p d)"
| "history_do C (SetStatus i s) d = reply (\<lambda>_. Finished) (update_delivery_status i s d)"
| "history_do C (ReadPage rdx l k) d =
     reply (\<lambda>ms. Page (map (\<lambda>m. m\<lparr>stored_conversation_id := 0\<rparr>) ms)) (get_conversation_messages C rdx l k d)"
| "history_do C (CountUnread rdx) d = reply Unread (get_unread_count rdx d)"
| "history_do C (MarkRead rdx) d = reply (\<lambda>_. Finished) (mark_conversation_read rdx d)"
| "history_do C (MarkReadUpTo rdx t) d = reply (\<lambda>_. Finished) (mark_conversation_read_up_to rdx t d)"
| "history_do C (DeleteMessage i) d = reply (\<lambda>_. Finished) (delete_message i d)"
| "history_do C (DeleteConversation rdx) d = reply (\<lambda>_. Finished) (delete_conversation rdx d)"

fun history_run :: "'x crates_scheme \<Rightarrow> mail_op list \<Rightarrow> db \<Rightarrow> mail_answer list \<times> db" where
  "history_run C [] d = ([], d)"
| "history_run C (c # cs) d = (let (x, d1) = history_do C c d; (xs, d2) = history_run C cs d1 in (x # xs, d2))"

definition letter_of_row :: "message_row \<Rightarrow> letter" where
  "letter_of_row r = \<lparr>letter_number = message_row_id r, letter_direction = direction_from_i64 (message_direction r),
     letter_time = i64_as_u64 (message_timestamp r), letter_kind = kind_from_i64 (message_type r), letter_body = message_content r,
     letter_status = status_from_i64 (message_delivery_status r), letter_prekey = message_was_prekey r,
     letter_established = Database.message_session_established r\<rparr>"

definition mailbox_of :: "db \<Rightarrow> mailbox" where
  "mailbox_of d = \<lparr>members = map rdx_fingerprint (contacts d),
     threads = (\<lambda>rdx. map_option (\<lambda>c. (map letter_of_row (thread_of rdx d), unread_count c)) (conversation_at rdx d)),
     last_number = message_sequence d\<rparr>"

lemma mailbox_views:
  "letters_of rdx (mailbox_of d) = map letter_of_row (thread_of rdx d)" "unread_in rdx (mailbox_of d) = unread_of rdx d"
  by (simp_all add: letters_of_def unread_in_def mailbox_of_def unread_of_def thread_of_def split: option.split)

lemma mailbox_threads:
  "threads (mailbox_of d) rdx = (if conversation_at rdx d = None then None
     else Some (map letter_of_row (thread_of rdx d), unread_of rdx d))"
  by (auto simp: mailbox_of_def unread_of_def)

lemma mailbox_fields [simp]:
  "members (mailbox_of d) = map rdx_fingerprint (contacts d)" "last_number (mailbox_of d) = message_sequence d"
  by (simp_all add: mailbox_of_def)

lemma mailbox_eqI:
  assumes "map rdx_fingerprint (contacts d) = members m" and "message_sequence d = last_number m"
    and "\<And>rdx. threads (mailbox_of d) rdx = threads m rdx"
  shows "mailbox_of d = m"
  using assms by (intro mailbox.equality) (simp_all add: fun_eq_iff)

lemma thread_typed:
  "history_serving d \<Longrightarrow> r \<in> set (thread_of rdx d) \<Longrightarrow> row_typed r"
  using history_servingD(4) [of d] by (auto simp: history_wf_def thread_of_def split: option.splits)

section \<open>One call\<close>

text \<open>What each call does to the mailbox that a database stands for.\<close>

definition implements :: "'x crates_scheme \<Rightarrow> mail_op \<Rightarrow> db \<Rightarrow> bool" where
  "implements C c d \<longleftrightarrow> (\<exists>d'. history_do C c d = (fst (mailbox_do C c (mailbox_of d)), d') \<and> history_serving d' \<and>
     mailbox_of d' = snd (mailbox_do C c (mailbox_of d)) \<and>
     conversation_sequence d' \<le> conversation_sequence d + 1 \<and> message_sequence d' \<le> message_sequence d + 1)"

lemma implementsI:
  assumes "history_do C c d = (fst (mailbox_do C c (mailbox_of d)), d')" and "history_serving d'"
    and "mailbox_of d' = snd (mailbox_do C c (mailbox_of d))"
    and "conversation_sequence d' \<le> conversation_sequence d + 1" "message_sequence d' \<le> message_sequence d + 1"
  shows "implements C c d"
  using assms unfolding implements_def by blast

lemma serving_after:
  assumes "history_serving d" and "m d = (Ok x, d')" and "preserves history_wf m"
    and "mutex d' = mutex d" and "faults d' = faults d" and "foreign_keys d' = foreign_keys d" and "created d' = created d"
  shows "history_serving d'"
  using assms preservesD [OF assms(3) history_servingD(4) [OF assms(1)] assms(2)] by (simp add: history_serving_def)

subsection \<open>Reading\<close>

lemma message_of_row_letter: "(message_of_row r)\<lparr>stored_conversation_id := 0\<rparr> = message_of_letter (letter_of_row r)"
  by (simp add: message_of_row_def message_of_letter_def letter_of_row_def)

lemma letter_time: "row_typed r \<Longrightarrow> u64_as_i64 (letter_time (letter_of_row r)) = message_timestamp r"
  by (simp add: letter_of_row_def row_typed_def i64_roundtrip)

lemma letter_incoming: "row_typed r \<Longrightarrow> letter_direction (letter_of_row r) = Incoming \<longleftrightarrow> message_direction r = 0"
  by (auto simp: letter_of_row_def row_typed_def direction_from_i64_def)

lemma sorted_letters:
  assumes "history_serving d" and "crates_ok C"
  shows "sort_key (\<lambda>n. - u64_as_i64 (letter_time n)) (paged C l k (map letter_number (map letter_of_row (thread_of rdx d)))
      (map letter_of_row (thread_of rdx d))) = map letter_of_row (newest_first C l k (thread_of rdx d))"
proof -
  let ?rows = "paged C l k (map message_row_id (thread_of rdx d)) (thread_of rdx d)"
  have "set ?rows = set (thread_of rdx d)" by (intro mset_eq_setD mset_paged [OF assms(2)]) simp
  then have "sort_key (\<lambda>r. - u64_as_i64 (letter_time (letter_of_row r))) ?rows = newest_first C l k (thread_of rdx d)"
    unfolding newest_first_def by (intro sort_key_agree) (simp add: letter_time thread_typed [OF assms(1)])
  moreover have "map letter_number (map letter_of_row (thread_of rdx d)) = map message_row_id (thread_of rdx d)"
    by (simp add: letter_of_row_def)
  ultimately show ?thesis by (simp only: paged_map [OF assms(2) length_map] sort_map_key)
qed

lemma reading_implements:
  assumes "history_serving d" and "crates_ok C"
  shows "implements C (ReadPage rdx l k) d" "implements C (CountUnread rdx) d"
  using assms
  by (auto intro!: implementsI simp: run_get_conversation_messages run_get_unread_count sorted_letters mailbox_views
      take_map drop_map message_of_row_letter simp del: map_map) (simp add: message_of_row_letter)

subsection \<open>Storing\<close>

lemma append_opens:
  "conversation_at r (append_message rdx t inc row d) = None \<longleftrightarrow> r \<noteq> rdx \<and> conversation_at r d = None"
proof -
  have "conversation_at r (append_message rdx t inc row d) =
      map_option (\<lambda>r. if conversation_row_id r = thread_id rdx d then touch t inc r else r) (conversation_at r (open_thread rdx d))"
    unfolding append_message_def by (subst conversation_at_update) (simp_all add: conversation_at_def)
  then show ?thesis by (auto simp: open_thread_at)
qed

lemma append_sequence [simp]: "message_sequence (append_message rdx t inc row d) = message_sequence d + 1"
  by (simp add: append_message_def update_conversations_def)

lemma append_conversations [simp]: "conversation_sequence (append_message rdx t inc row d) \<le> conversation_sequence d + 1"
  by (simp add: append_message_def update_conversations_def open_thread_def split: option.split)

lemma mailbox_of_append:
  assumes "history_serving d" and "can_store rdx d" and "message_conversation_id row = thread_id rdx d"
    and u: "u = (if inc then 1 else 0)" and n: "letter_of_row row = n (message_sequence d + 1)"
  shows "(StoredAs (message_sequence d + 1), mailbox_of (append_message rdx t inc row d)) = deliver rdx n u (mailbox_of d)"
proof -
  have "rdx \<in> set (members (mailbox_of d))" using assms(2) by (simp add: can_store_def)
  moreover have "mailbox_of (append_message rdx t inc row d) = (mailbox_of d)\<lparr>threads := (threads (mailbox_of d))
      (rdx \<mapsto> (letters_of rdx (mailbox_of d) @ [n (message_sequence d + 1)], unread_in rdx (mailbox_of d) + u)),
      last_number := message_sequence d + 1\<rparr>"
    using append_message_views [OF assms(1-3)] u n
    by (intro mailbox_eqI) (auto simp: mailbox_threads append_opens mailbox_views)
  ultimately show ?thesis by (simp add: deliver_def)
qed

text \<open>Nothing is stored for a fingerprint that is not a contact's.\<close>

lemma stranger_refused:
  assumes "history_serving d" and "rdx \<notin> set (map rdx_fingerprint (contacts d))"
  shows "\<exists>e. get_or_create_conversation rdx d = (Err e, d)"
proof -
  note serve = history_servingD [OF assms(1)]
  have "conversation_at rdx d = None"
    using serve(3,4) assms(2) conversation_atD [of rdx d] by (cases "conversation_at rdx d") (auto simp: history_wf_def)
  moreover have "filter (\<lambda>r. rdx_fingerprint r = rdx) (contacts d) = []"
    using assms(2) by (auto simp: filter_empty_conv)
  ultimately show ?thesis
    using serve assms(2)
    by (simp add: get_or_create_conversation_def with_lock_def run_defs run_statements insert_conversation_def
        conversation_ids_of_at [OF serve(4)] Let_def)
qed

text \<open>How many more calls the row numbers last for.\<close>

definition room :: "nat \<Rightarrow> db \<Rightarrow> bool" where
  "room k d \<longleftrightarrow> conversation_sequence d + int k \<le> max_rowid \<and> message_sequence d + int k \<le> max_rowid"

lemma stored_implements:
  assumes "history_serving d" and "can_store rdx d"
    and run: "history_do C c d = (StoredAs (message_sequence d + 1), append_message rdx t inc row d)"
    and serve: "history_serving (append_message rdx t inc row d)"
    and row: "message_conversation_id row = thread_id rdx d" "letter_of_row row = n (message_sequence d + 1)"
    and spec: "mailbox_do C c (mailbox_of d) = deliver rdx n (if inc then 1 else 0) (mailbox_of d)"
  shows "implements C c d"
  using mailbox_of_append [OF assms(1,2) row(1) refl, of n t, symmetric] row(2) spec
  by (intro implementsI [OF _ serve]) (simp_all add: run)

lemma storing_implements:
  assumes "history_serving d" and "room (Suc k) d"
  shows "implements C (StoreIncoming rdx t p b e) d" "implements C (StoreOutgoing rdx t p) d"
proof -
  have "implements C (StoreIncoming rdx t p b e) d \<and> implements C (StoreOutgoing rdx t p) d"
  proof (cases "rdx \<in> set (map rdx_fingerprint (contacts d))")
    case True
    then have "can_store rdx d" using assms(2) by (simp add: can_store_def room_def)
    note ready = assms(1) this
    note incoming = run_store_incoming [OF ready, of t p b e] and outgoing = run_store_outgoing [OF ready, of t p]
    have "implements C (StoreIncoming rdx t p b e) d"
      using incoming
      by (intro stored_implements [OF ready _ append_serving [OF assms(1) incoming store_incoming_wf]])
        (simp_all add: letter_of_row_def incoming_row_def direction_from_i64_def kind_from_i64_def status_from_i64_def)
    moreover have "implements C (StoreOutgoing rdx t p) d"
      using outgoing
      by (intro stored_implements [OF ready _ append_serving [OF assms(1) outgoing store_outgoing_wf]])
        (simp_all add: letter_of_row_def outgoing_row_def direction_from_i64_def kind_from_i64_def status_from_i64_def)
    ultimately show ?thesis ..
  next
    case False
    then show ?thesis
      using stranger_refused [OF assms(1) False] assms(1)
      by (auto intro!: implementsI simp: deliver_def store_incoming_message_def store_outgoing_message_def bindM_at)
  qed
  then show "implements C (StoreIncoming rdx t p b e) d" "implements C (StoreOutgoing rdx t p) d" by simp_all
qed

subsection \<open>Changing stored messages\<close>

lemma conversation_at_messages [simp]: "conversation_at rdx (d\<lparr>messages := ms\<rparr>) = conversation_at rdx d"
  by (simp add: conversation_at_def)

lemma mailbox_of_messages:
  assumes "\<And>i. map letter_of_row (filter (\<lambda>m. message_conversation_id m = i) ms) =
      f (map letter_of_row (filter (\<lambda>m. message_conversation_id m = i) (messages d)))"
  shows "mailbox_of (d\<lparr>messages := ms\<rparr>) = on_letters f (mailbox_of d)"
  using assms by (intro mailbox_eqI) (auto simp: on_letters_def mailbox_threads thread_of_def unread_of_def split: option.split)

lemma status_from_as [simp]: "status_from_i64 (status_as_i64 s) = s"
  by (simp add: status_from_i64_def status_as_i64_def split: delivery_status.split)

lemma letters_with_status:
  "map letter_of_row (filter (\<lambda>m. message_conversation_id m = j)
      (map (\<lambda>r. if message_row_id r = i then r\<lparr>message_delivery_status := status_as_i64 s\<rparr> else r) ms)) =
    map (\<lambda>n. if letter_number n = i then n\<lparr>letter_status := s\<rparr> else n)
      (map letter_of_row (filter (\<lambda>m. message_conversation_id m = j) ms))"
  by (induction ms) (simp_all add: letter_of_row_def)

lemma letters_without:
  "map letter_of_row (filter (\<lambda>m. message_conversation_id m = j) (delete_key message_row_id i ms)) =
    filter (\<lambda>n. letter_number n \<noteq> i) (map letter_of_row (filter (\<lambda>m. message_conversation_id m = j) ms))"
  by (induction ms) (simp_all add: letter_of_row_def delete_key_def)

lemma mailbox_of_status:
  "mailbox_of (d\<lparr>messages := map (\<lambda>r. if message_row_id r = i then r\<lparr>message_delivery_status := status_as_i64 s\<rparr> else r)
      (messages d)\<rparr>) =
    on_letters (map (\<lambda>n. if letter_number n = i then n\<lparr>letter_status := s\<rparr> else n)) (mailbox_of d)"
  by (rule mailbox_of_messages) (rule letters_with_status)

lemma mailbox_of_deletion:
  "mailbox_of (d\<lparr>messages := delete_key message_row_id i (messages d)\<rparr>) =
    on_letters (filter (\<lambda>n. letter_number n \<noteq> i)) (mailbox_of d)"
  by (rule mailbox_of_messages) (rule letters_without)

lemma run_message_changes:
  assumes "history_serving d"
  shows "update_delivery_status i s d = (Ok (), d\<lparr>messages := map (\<lambda>r.
      if message_row_id r = i then r\<lparr>message_delivery_status := status_as_i64 s\<rparr> else r) (messages d)\<rparr>)"
    "delete_message i d = (Ok (), d\<lparr>messages := delete_key message_row_id i (messages d)\<rparr>)"
  using history_servingD [OF assms]
  by (simp_all add: update_delivery_status_def delete_message_def with_lock_def run_defs run_statements)

lemma changing_implements:
  assumes "history_serving d"
  shows "implements C (SetStatus i s) d" "implements C (DeleteMessage i) d"
proof -
  note run = run_message_changes [OF assms]
  show "implements C (SetStatus i s) d"
    using serving_after [OF assms run(1) update_status_wf]
    by (intro implementsI [OF _ _ mailbox_of_status [where i = i and s = s and d = d, THEN trans]]) (simp_all add: run)
  show "implements C (DeleteMessage i) d"
    using serving_after [OF assms run(2) delete_message_wf]
    by (intro implementsI [OF _ _ mailbox_of_deletion [where i = i and d = d, THEN trans]]) (simp_all add: run)
qed

subsection \<open>Changing conversations\<close>

lemma mailbox_of_unread:
  assumes "history_serving d" and "\<And>r. r \<in> set (conversations d) \<Longrightarrow> sel r \<longleftrightarrow> conversation_rdx r = rdx"
  shows "mailbox_of (update_conversations sel (\<lambda>r. r\<lparr>unread_count := u\<rparr>) d) = set_unread rdx u (mailbox_of d)"
  using conversation_at_update [of "\<lambda>r. r\<lparr>unread_count := u\<rparr>" _ sel d] thread_of_update [of "\<lambda>r. r\<lparr>unread_count := u\<rparr>" _ sel d]
    assms(2) conversation_atD
  by (intro mailbox_eqI)
    (auto simp: set_unread_def mailbox_threads unread_of_def update_conversations_def split: option.split)

lemma conversation_selected:
  assumes "history_serving d" and "conversation_at rdx d = Some c" and "r \<in> set (conversations d)"
  shows "conversation_row_id r = conversation_row_id c \<longleftrightarrow> conversation_rdx r = rdx"
proof -
  have "conversation_at (conversation_rdx r) d = Some r"
    using history_servingD(4) [OF assms(1)] assms(3) by (simp add: conversation_at_def history_wf_def lookup_row_distinct)
  from conversation_id_inj [OF history_servingD(4) [OF assms(1)] this assms(2)] show ?thesis .
qed

lemma marking_implements:
  assumes "history_serving d"
  shows "implements C (MarkRead rdx) d" "implements C (MarkReadUpTo rdx t) d"
proof -
  have sel: "conversation_sequence (update_conversations s f d) = conversation_sequence d"
    "message_sequence (update_conversations s f d) = message_sequence d" for s f
    by (simp_all add: update_conversations_def)
  show "implements C (MarkRead rdx) d"
    by (rule implementsI [OF _ update_conversations_serving [OF assms] mailbox_of_unread [OF assms, THEN trans]])
      (simp_all add: run_mark_read [OF assms] sel)
  show "implements C (MarkReadUpTo rdx t) d"
  proof (cases "conversation_at rdx d")
    case None
    then show ?thesis
      using assms by (intro implementsI [where d' = d]) (simp_all add: run_mark_read_up_to [OF assms] mailbox_threads)
  next
    case (Some c)
    have "incoming_after t (thread_of rdx d) = int (length (filter (\<lambda>n. letter_direction n = Incoming \<and>
        u64_as_i64 t < u64_as_i64 (letter_time n)) (letters_of rdx (mailbox_of d))))"
      using thread_typed [OF assms, of _ rdx] by (auto simp: incoming_after_def mailbox_views filter_map comp_def letter_time letter_incoming
          intro!: arg_cong [where f = length] filter_cong)
    then show ?thesis
      using conversation_selected [OF assms Some] Some
      by (intro implementsI [OF _ update_conversations_serving [OF assms] mailbox_of_unread [OF assms, THEN trans],
            where sel2 = "\<lambda>r. conversation_row_id r = conversation_row_id c"])
        (simp_all add: run_mark_read_up_to [OF assms] sel mailbox_threads)
  qed
qed

lemma mailbox_of_without:
  assumes "history_serving d" and "conversation_at rdx d = Some c"
  shows "mailbox_of (without_conversation (conversation_row_id c) d) =
    (mailbox_of d)\<lparr>threads := (threads (mailbox_of d))(rdx := None)\<rparr>"
  using without_conversation_views [OF assms]
  by (intro mailbox_eqI) (auto simp: mailbox_threads unread_of_def, auto simp: without_conversation_def)

lemma deleting_implements:
  assumes "history_serving d"
  shows "implements C (DeleteConversation rdx) d"
proof (cases "conversation_at rdx d")
  case None
  then have "(mailbox_of d)\<lparr>threads := (threads (mailbox_of d))(rdx := None)\<rparr> = mailbox_of d"
    by (intro mailbox_eqI [symmetric]) (simp_all add: mailbox_threads)
  then show ?thesis
    using assms None by (intro implementsI [where d' = d]) (simp_all add: run_delete_conversation [OF assms])
next
  case (Some c)
  note run = run_delete_conversation(2) [OF assms Some]
  show ?thesis
    using serving_after [OF assms run delete_conversation_wf]
    by (intro implementsI [OF _ _ mailbox_of_without [OF assms Some, THEN trans]])
      (simp_all add: run, simp_all add: without_conversation_def)
qed

section \<open>Every sequence of calls\<close>

lemma implements_call:
  assumes "history_serving d" and "room (Suc k) d" and "crates_ok C"
  shows "implements C c d"
  using assms
  by (cases c) (simp_all add: reading_implements storing_implements changing_implements marking_implements deleting_implements)

text \<open>
  C12. The message history implements a mailbox: whatever the calls are and in whatever order they
  come, as long as the row numbers last, the answers are those of the mailbox that the database
  stands for and it stands for the mailbox afterwards. Message numbers count up and are never used again,
  a message of a stranger is refused, a thread keeps the order of storing, pages are newest first with equal times in the order the database
  engine gives them.
\<close>

theorem history_refines_mailbox:
  assumes "history_serving d" and "room (length cs) d" and "crates_ok C"
  shows "\<exists>d'. history_run C cs d = (fst (mailbox_run C cs (mailbox_of d)), d') \<and>
    mailbox_of d' = snd (mailbox_run C cs (mailbox_of d)) \<and> history_serving d'"
  using assms
proof (induction cs arbitrary: d)
  case (Cons c cs)
  have "implements C c d" using Cons.prems by (intro implements_call) simp_all
  then obtain d1 where step: "history_do C c d = (fst (mailbox_do C c (mailbox_of d)), d1)" "history_serving d1"
      "mailbox_of d1 = snd (mailbox_do C c (mailbox_of d))" and "conversation_sequence d1 \<le> conversation_sequence d + 1"
      "message_sequence d1 \<le> message_sequence d + 1"
    unfolding implements_def by blast
  then have "room (length cs) d1" using Cons.prems(2) by (simp add: room_def)
  from Cons.IH [OF step(2) this Cons.prems(3)] step(1,3) show ?case
    by (auto simp: Let_def split: prod.splits)
qed simp

theorem history_refines_mailbox_witness:
  "fst (history_run sample_crates [StoreIncoming ''RDX:aa'' 9 [104, 105] True False, StoreOutgoing ''RDX:aa'' 7 [], StoreOutgoing ''RDX:bb'' 8 [],
      MarkReadUpTo ''RDX:aa'' 8, CountUnread ''RDX:aa'', DeleteMessage 1, SetStatus 2 Sent, ReadPage ''RDX:aa'' 10 0,
      DeleteConversation ''RDX:aa'', CountUnread ''RDX:aa'', StoreOutgoing ''RDX:aa'' 3 []] sample_history) =
    [StoredAs 1, StoredAs 2, Refused, Finished, Unread 1, Finished, Finished,
      Page [\<lparr>stored_id = 2, stored_conversation_id = 0, stored_direction = Outgoing, stored_timestamp = 7,
        stored_kind = TextMessage, stored_content = [], stored_delivery_status = Sent, stored_was_prekey_message = False,
        stored_session_established = False\<rparr>], Finished, Unread 0, StoredAs 3]"
  (is "fst (history_run _ ?cs _) = ?answers")
proof -
  have single: "paged sample_crates l k [i] [n] = [n]" for l k i and n :: letter
    using mset_paged [OF sample_crates_ok, of "[i]" "[n]" l k] by (simp add: mset_single_iff)
  have empty: "mailbox_of sample_history = \<lparr>members = [''RDX:aa''], threads = Map.empty, last_number = 0\<rparr>"
    by (simp add: mailbox_of_def sample_history_def empty_db_def conversation_at_def fun_eq_iff)
  have "from_utf8 [] = Some []" by code_simp
  then have "fst (mailbox_run sample_crates ?cs (mailbox_of sample_history)) = ?answers"
    unfolding empty by (simp add: deliver_def letters_of_def unread_in_def on_letters_def set_unread_def message_of_letter_def
        u64_as_i64_def single fun_upd_def)
  moreover have "room (length ?cs) sample_history"
    by (simp add: room_def sample_history_def empty_db_def max_rowid_def)
  ultimately show ?thesis
    using history_refines_mailbox [of sample_history ?cs, OF _ _ sample_crates_ok] by auto
qed

end
