(* ===== verification/Spec2Isabelle.thy ===== *)
theory Spec2Isabelle
  imports Bridge_Sessions Bridge_Types Backend_Equivalence Library_Stores Mailbox Db_Encryption
begin

text \<open>
  A verification development of the Signal bridge of radix-relay (src/rust/signal_bridge/src).

  \<^bold>\<open>The program.\<close> The bridge is the Rust library that the C++ application of radix-relay calls for
  everything cryptographic. \<open>lib.rs\<close> holds \<open>SignalBridge\<close> and the functions exported through cxx.
  A bridge owns one encrypted SQLite database: \<open>db_encryption.rs\<close> keeps its key in a file beside it,
  \<open>sqlite_storage.rs\<close> creates and migrates the tables and implements the five stores libsignal works
  on (sessions, identities, one-time, signed and Kyber pre-keys) behind the traits of
  \<open>storage_trait.rs\<close>; \<open>memory_storage.rs\<close> implements the same traits in memory. \<open>keys.rs\<close> generates
  keys, \<open>key_rotation.rs\<close> rotates, expires and replenishes them, \<open>contact_manager.rs\<close> and
  \<open>message_history.rs\<close> keep contacts and conversations in the same database, and
  \<open>nostr_identity.rs\<close> derives the Nostr keys that events are signed with.

  \<^bold>\<open>Effects.\<close> A fallible call is a function from the state to an outcome (\<open>Ok\<close>, \<open>Err\<close> or \<open>Panic\<close>) and
  the new state (theory \<open>Prelude\<close>: the type \<open>M\<close> with \<open>bindM\<close> for \<open>?\<close>, \<open>attempt\<close> for a \<open>match\<close> on a
  \<open>Result\<close>, \<open>mapErr\<close>, \<open>whenM\<close>, loops \<open>forM\<close> and \<open>mapM\<close>). A panic is an outcome, so that every
  \<open>unwrap\<close> and overflow of the source is a branch. A run (\<open>sys\<close>, theory \<open>Storage_Traits\<close>) adds the
  clock, the entropy, whether overflow checks are on, and the storage. \<open>preserves I m\<close> says that
  \<open>m\<close> keeps \<open>I\<close> whatever its outcome; the collections \<open>run_simps\<close> and \<open>preserves_intro\<close> carry the
  component proofs.

  \<^bold>\<open>The database.\<close> Theory \<open>Database\<close>: the tables as lists of row records, SQL statements as functions
  with their constraint checks, a schedule \<open>faults\<close> of statements that fail, and the mutex around the
  connection with its poisoning. Integers have their width: \<open>u8\<close>, \<open>u32\<close> and \<open>u64\<close> are words, SQL
  integers are \<open>int\<close> with the conversions rusqlite makes.

  \<^bold>\<open>Code outside the repository.\<close> libsignal (\<open>Libsignal\<close>) and the crates sha2, hkdf, nostr, bincode,
  base64, hex and serde_json (\<open>Crates\<close>) are records of functions that every definition takes as
  its first argument. What libsignal does with the stores is a tree of requests (\<open>peer_prog\<close>,
  \<open>store_prog\<close>) that the model runs against the stores, so statements about library calls hold for
  every such behaviour. The hypotheses are \<open>libsignal_ok\<close> (serialization round trips, device 1
  exists), \<open>libsignal_records_ok\<close> (fresh records serialize and give their fields back),
  \<open>crates_ok\<close> (digests have 32 bytes, a query returns every row once), \<open>codecs_ok\<close> (bincode, base64
  and key encodings round trip, and so does JSON without floating-point numbers, \<open>json_exact\<close>),
  \<open>bundles_ok\<close> and \<open>tags_ok\<close> (the tag \<open>unknown\<close> parses); \<open>Sample_Libsignal\<close> and \<open>Sample_Crates\<close> are instances
  that satisfy all of them, used by the witnesses. How the database file is opened is the
  argument \<open>open_db\<close>. The order in which SQLite returns rows of an unordered query is the field
  \<open>scan_order\<close>; the order in which a page of a conversation has messages with equal timestamps, which
  the query leaves open, is the field \<open>page_order\<close>, and it may depend on limit and offset.

  \<^bold>\<open>Theories and what they model.\<close>
  \<^item> \<open>Prelude\<close>, \<open>Rust_Std\<close>, \<open>Bridge_Errors\<close>: outcomes, words, text and UTF-8; \<open>SignalBridgeError\<close> and the
    conversions \<open>?\<close> applies (\<open>format!\<close> texts are lists of pieces).
  \<^item> \<open>Storage_Traits\<close>: the traits of \<open>storage_trait.rs\<close> as records of methods; the locales
    \<open>numbered_key_store\<close> and \<open>aged_key_store\<close>, the contract of a key store.
  \<^item> \<open>Sqlite_Stores\<close>, \<open>Sqlite_Storage\<close>: \<open>sqlite_storage.rs\<close>; \<open>Sqlite_Correct\<close> and \<open>Sqlite_Properties\<close>:
    well-formed tables, the contract of the three key stores (interpretations \<open>sqlite_pk\<close>,
    \<open>sqlite_spk\<close>, \<open>sqlite_kpk\<close>), start-up, round trips, trust on first use, poisoning, closing.
  \<^item> \<open>Memory_Storage\<close>: \<open>memory_storage.rs\<close>, hash maps with an arbitrary order of iteration
    (interpretations \<open>memory_pk\<close>, \<open>memory_spk\<close>, \<open>memory_kpk\<close>).
  \<^item> \<open>Keys\<close>, \<open>Key_Rotation\<close>: \<open>keys.rs\<close> and \<open>key_rotation.rs\<close>, generic over the container; the locale
    \<open>key_storage\<close> proves rotation, expiry and replenishment once, \<open>Rotation_Instances\<close> interprets it
    for both storages.
  \<^item> \<open>Backend_Equivalence\<close>: the abstract key store, that both storages refine it, and that they
    answer every sequence of operations alike.
  \<^item> \<open>Library_Stores\<close>: the five stores as libsignal sees them (\<open>vault\<close>), the locale \<open>library_stores\<close> with what
    each method the library calls promises, its interpretations \<open>memory_lib\<close> and \<open>sqlite_lib\<close>, and that
    session set-up, encryption and decryption are the same through both storages.
  \<^item> \<open>Message_History\<close>, \<open>History_Correct\<close>: \<open>message_history.rs\<close> and the view of it as one thread of
    messages and one unread counter per contact, with the columns of a message in the range of their types.
  \<^item> \<open>Mailbox\<close>: an abstract mailbox (per contact the letters in order and an unread counter, and the last number
    given out), its operations, and that \<open>message_history.rs\<close> refines it for every sequence of calls.
  \<^item> \<open>Nostr_Identity\<close>, \<open>Contact_Manager\<close>, \<open>Contact_Correct\<close>: derivation of Nostr keys, contacts with
    their uniqueness constraints and the cascade of a replaced row.
  \<^item> \<open>Db_Encryption\<close>: \<open>db_encryption.rs\<close> over a small file system in which every operation may fail.
  \<^item> \<open>Signal_Bridge\<close>: every method of \<open>SignalBridge\<close>; \<open>Ffi\<close>: the types and functions exported to C++.
  \<^item> \<open>Bridge_Correct\<close> (start-up), \<open>Bridge_Bundle\<close> (pre-key bundles), \<open>Bridge_Keys\<close> (resetting the
    identity, key maintenance), \<open>Ffi_Correct\<close> (signing events): what the bridge's methods do.
  \<^item> \<open>Bridge_System\<close>: the exported functions as steps of a transition system with an environment that
    sets clock, entropy and failing statements; the invariant of all reachable states.
  \<^item> \<open>Bridge_Calm\<close>: computations that cannot panic while the database works (\<open>calm\<close>, with its collection
    \<open>calm_intro\<close>): every statement, store method, library call, bridge method and exported call in
    turn; from this, that a started bridge stays in working order (\<open>in_order\<close>) and every call returns.
  \<^item> \<open>Bridge_Types\<close>: what is stored in a reachable state reads back at its type: records, key numbers,
    the registration number, the enumerations and times of messages.
  \<^item> \<open>Bridge_Messages\<close>: sending and receiving. Calls of libsignal on a serving storage do not panic and
    do not touch contacts or threads (\<open>library_ready\<close>), whatever requests the library makes;
    from this, what \<open>encrypt_message\<close> and \<open>decrypt_message\<close> return and file, also for a stranger.
  \<^item> \<open>Bridge_Sessions\<close>: several calls together. A bundle announced by one node and taken in by another,
    a received message as the exported calls show it, the subscription after a restart.

  \<^bold>\<open>What the theorems show.\<close> Safety whatever fails: no exported call, no library behaviour and no
  failing statement leaves ill-formed tables, and a database key is never written into a file that others can read.
  Progress while the database works: from start-up on, in every state the exported calls lead to, the
  next call returns with a value or an error, given that bundles carry the one-time pre-key they name.
  Functional behaviour on a serving storage (\<open>sqlite_ready\<close>: open, mutex free, no scheduled fault):
  sending and receiving, start-up, maintenance, reset, rotation, expiry, replenishment, trust on first use, contacts,
  conversations and paging, bundles and events, each with the state it leaves alone. Refinement: the key stores
  implement a finite map, the stores libsignal uses a vault, the history a mailbox. Errors: the
  poisoned mutex, the closed storage, missing fields, malformed bundles, failing key files.

  \<^bold>\<open>Bounds.\<close> All loops of the code run over lists and are structural recursions; no fuel is used.
  Key numbers are \<open>u32\<close>: theorems that add keys assume that 1 or 100 numbers are left
  (\<open>numbers_left\<close>). Row numbers of conversations and messages are 64-bit and never reused: the refinement of the
  mailbox assumes that they last for the calls made (\<open>room\<close>). Clock readings are integers in milliseconds and may be before the epoch; theorems
  say which range they need, and key maintenance assumes that the clock moves by at most seven days during
  the round. Progress is stated for builds without overflow checks, where arithmetic
  wraps; with them a clock before a key's time panics.

  \<^bold>\<open>Not modelled.\<close> The text \<open>println!\<close> writes; tokio (calls are run to completion, as
  \<open>block_on\<close> does; the failure to create a runtime is an argument of each call); the internals of SQLite, SQLCipher and
  libsignal; the Windows branch of \<open>db_encryption.rs\<close>; the C++ core, transports and user interfaces, which
  are not Rust; the test modules.
\<close>

end
